(* ===== verification/Go_Prelude.thy ===== *)
theory Go_Prelude
  imports Main "HOL-Library.Word" "HOL-Library.Char_ord" "HOL-Library.List_Lexorder"
begin

text \<open>
  The vocabulary of Go that the components share. A Go string or byte slice is a list of
  8-bit characters, which is what \<open>string\<close> is in HOL; a slice whose nil-ness the
  code tests is an option. A Go map is a partial function; where the code ranges over a map, the
  (unspecified) iteration order is an explicit list argument. An error value is the chain of
  sentinel errors that \<open>errors.Is\<close> can find in it, with its message. Case mapping and
  white space are those of ASCII, which is what HTTP header names, schema names and decimal
  numbers consist of.
\<close>

named_theorems go_simps \<open>defining equations of the Go library functions\<close>
named_theorems go_map_simps \<open>reading and writing maps with zero values\<close>

section \<open>Types\<close>

type_synonym bytes = "char list"
type_synonym slice = "bytes option"
type_synonym headers = "string \<Rightarrow> string option"
type_synonym header = "string \<times> string"
type_synonym u32 = "32 word"
type_synonym u64 = "64 word"

datatype sentinel =
    ErrMalformedRequest | ErrInvalidRequestBody
  | ErrCredentialMissing | ErrIncompleteAWSCredential
  | ErrNoProcessor | StreamOverloadedError | ErrUnexpectedEOF
  | IoEOF | ContextCanceled
  | ErrSessionSubjectMismatch | ErrSessionRouteMismatch | ErrNoMatchingBackendSelector
  | ErrBackendNotFound | ErrSessionNotFound | ErrInvalidToolName | ErrInvalidPromptName
  | MaxBytesError | GoPanic

datatype go_error = GoError (err_chain: "sentinel list") (err_msg: string)

definition errorf :: "string \<Rightarrow> go_error" where
  "errorf msg = GoError [] msg"

definition wrapf :: "string \<Rightarrow> go_error \<Rightarrow> go_error" where
  "wrapf pre e = GoError (err_chain e) (pre @ err_msg e)"

definition errors_is :: "go_error \<Rightarrow> sentinel \<Rightarrow> bool" where
  "errors_is e s = (s \<in> set (err_chain e))"

lemma errors_is_wrapf [simp]: "errors_is (wrapf pre e) s = errors_is e s"
  by (simp add: errors_is_def wrapf_def)

lemma errors_is_errorf [simp]: "\<not> errors_is (errorf msg) s"
  by (simp add: errors_is_def errorf_def)

section \<open>Slices\<close>

fun slice_bytes :: "slice \<Rightarrow> bytes" where
  "slice_bytes None = []"
| "slice_bytes (Some b) = b"

section \<open>Strings\<close>

definition HasPrefix :: "string \<Rightarrow> string \<Rightarrow> bool" where
  "HasPrefix s p = (take (length p) s = p)"

definition HasSuffix :: "string \<Rightarrow> string \<Rightarrow> bool" where
  "HasSuffix s p = (length p \<le> length s \<and> drop (length s - length p) s = p)"

definition TrimPrefix :: "string \<Rightarrow> string \<Rightarrow> string" where
  "TrimPrefix s p = (if HasPrefix s p then drop (length p) s else s)"

definition TrimSuffix :: "string \<Rightarrow> string \<Rightarrow> string" where
  "TrimSuffix s p = (if HasSuffix s p then take (length s - length p) s else s)"

definition lower_char :: "char \<Rightarrow> char" where
  "lower_char c = (if CHR ''A'' \<le> c \<and> c \<le> CHR ''Z'' then char_of (of_char c + 32 :: nat) else c)"

definition ToLower :: "string \<Rightarrow> string" where
  "ToLower = map lower_char"

definition EqualFold :: "string \<Rightarrow> string \<Rightarrow> bool" where
  "EqualFold s t = (ToLower s = ToLower t)"

definition is_space :: "char \<Rightarrow> bool" where
  "is_space c = (c \<in> {CHR 0x09, CHR 0x0A, CHR 0x0B, CHR 0x0C, CHR 0x0D, CHR '' ''})"

definition TrimSpace :: "string \<Rightarrow> string" where
  "TrimSpace s = rev (dropWhile is_space (rev (dropWhile is_space s)))"

text \<open>\<open>strings.Split(s, c)\<close> and \<open>strings.SplitN(s, c, n)\<close> for a one-byte separator.\<close>

fun Split :: "string \<Rightarrow> char \<Rightarrow> string list" where
  "Split [] c = [[]]"
| "Split (x # xs) c =
     (if x = c then [] # Split xs c
      else (case Split xs c of [] \<Rightarrow> [[x]] | p # ps \<Rightarrow> (x # p) # ps))"

fun SplitN :: "string \<Rightarrow> char \<Rightarrow> nat \<Rightarrow> string list" where
  "SplitN s c 0 = []"
| "SplitN s c (Suc 0) = [s]"
| "SplitN s c (Suc (Suc n)) =
     (if c \<in> set s
      then takeWhile (\<lambda>x. x \<noteq> c) s # SplitN (tl (dropWhile (\<lambda>x. x \<noteq> c) s)) c (Suc n)
      else [s])"

text \<open>The text before the first separator, as \<open>s[:strings.Index(s, c)]\<close> when it occurs.\<close>

definition before_char :: "char \<Rightarrow> string \<Rightarrow> string" where
  "before_char c s = takeWhile (\<lambda>x. x \<noteq> c) s"

section \<open>Decimal numbers\<close>

definition digit_char :: "nat \<Rightarrow> char" where
  "digit_char d = char_of (48 + d)"

fun Itoa :: "nat \<Rightarrow> string" where
  "Itoa n = (if n < 10 then [digit_char n] else Itoa (n div 10) @ [digit_char (n mod 10)])"

declare Itoa.simps [simp del]

definition is_digit :: "char \<Rightarrow> bool" where
  "is_digit c = (CHR ''0'' \<le> c \<and> c \<le> CHR ''9'')"

definition digits_val :: "string \<Rightarrow> nat" where
  "digits_val s = foldl (\<lambda>a c. 10 * a + (of_char c - 48)) 0 s"

text \<open>
  \<open>strconv.Atoi\<close> on a 64-bit platform: the value and whether the error is nil. A syntax
  error gives 0; a value out of range gives the nearest bound with an error.
\<close>

definition Atoi :: "string \<Rightarrow> int \<times> bool" where
  "Atoi s =
     (let neg = HasPrefix s ''-'';
          ds = (if neg \<or> HasPrefix s ''+'' then tl s else s)
      in if ds = [] \<or> \<not> list_all is_digit ds then (0, False)
         else let v = (if neg then - int (digits_val ds) else int (digits_val ds))
              in if v < - (2 ^ 63) then (- (2 ^ 63), False)
                 else if v \<ge> 2 ^ 63 then (2 ^ 63 - 1, False)
                 else (v, True))"

section \<open>Maps with zero values and their iteration order\<close>

definition mget :: "headers \<Rightarrow> string \<Rightarrow> string" where
  "mget m k = (case m k of None \<Rightarrow> [] | Some v \<Rightarrow> v)"

definition mdel :: "('k \<Rightarrow> 'v option) \<Rightarrow> 'k \<Rightarrow> 'k \<Rightarrow> 'v option" where
  "mdel m k = m(k := None)"

text \<open>
  \<open>range_keys ord m\<close> are the keys a \<open>for k := range m\<close> visits when the
  runtime picks the order \<open>ord\<close>; \<open>enumerates ord m\<close> says that \<open>ord\<close>
  misses no key.
\<close>

definition range_keys :: "'k list \<Rightarrow> ('k \<Rightarrow> 'v option) \<Rightarrow> 'k list" where
  "range_keys ord m = filter (\<lambda>k. m k \<noteq> None) (remdups ord)"

definition enumerates :: "'k list \<Rightarrow> ('k \<Rightarrow> 'v option) \<Rightarrow> bool" where
  "enumerates ord m = (dom m \<subseteq> set ord)"

lemma mget_simps [simp]:
  "mget (m(k \<mapsto> v)) k = v"
  "k \<noteq> k' \<Longrightarrow> mget (m(k' \<mapsto> v)) k = mget m k"
  "k \<noteq> k' \<Longrightarrow> mget (mdel m k') k = mget m k"
  "mget (mdel m k) k = []"
  "mget Map.empty k = []"
  by (simp_all add: mget_def mdel_def)

lemma mdel_apply [simp]:
  "mdel m k k' = (if k' = k then None else m k')"
  by (simp add: mdel_def)

lemma set_range_keys: "enumerates ord m \<Longrightarrow> set (range_keys ord m) = dom m"
  by (auto simp: range_keys_def enumerates_def dom_def)

lemma distinct_range_keys [simp]: "distinct (range_keys ord m)"
  by (simp add: range_keys_def)

section \<open>Lemmas on the string functions\<close>

lemma HasPrefix_append [simp]: "HasPrefix (p @ s) p"
  by (simp add: HasPrefix_def)

lemma HasPrefix_iff: "HasPrefix s p \<longleftrightarrow> (\<exists>t. s = p @ t)"
  unfolding HasPrefix_def by (metis append_eq_conv_conj append_take_drop_id)

lemma HasPrefix_single: "HasPrefix s [c] \<longleftrightarrow> (\<exists>t. s = c # t)"
  by (simp add: HasPrefix_iff)

lemma HasSuffix_append [simp]: "HasSuffix (s @ p) p"
  by (simp add: HasSuffix_def)

lemma HasSuffix_iff: "HasSuffix s p \<longleftrightarrow> (\<exists>t. s = t @ p)"
proof
  assume "HasSuffix s p"
  then have "s = take (length s - length p) s @ p"
    unfolding HasSuffix_def by (metis append_take_drop_id)
  then show "\<exists>t. s = t @ p" by blast
qed auto

lemma TrimSuffix_append [simp]: "TrimSuffix (s @ p) p = s"
  by (simp add: TrimSuffix_def)

lemma TrimPrefix_append [simp]: "TrimPrefix (p @ s) p = s"
  by (simp add: TrimPrefix_def)

lemma Split_not_Nil [simp]: "Split s c \<noteq> []"
  by (cases s) (auto split: list.splits)

lemma takeWhile_neq_append:
  "c \<notin> set p \<Longrightarrow> takeWhile (\<lambda>x. x \<noteq> c) (p @ c # s) = p"
  by (induction p) auto

lemma dropWhile_neq_append:
  "c \<notin> set p \<Longrightarrow> dropWhile (\<lambda>x. x \<noteq> c) (p @ c # s) = c # s"
  by (induction p) auto

lemma SplitN_append:
  "c \<notin> set p \<Longrightarrow> SplitN (p @ c # s) c (Suc (Suc n)) = p # SplitN s c (Suc n)"
  by (simp add: takeWhile_neq_append dropWhile_neq_append)

lemma Split_no_sep: "c \<notin> set s \<Longrightarrow> Split s c = [s]"
  by (induction s) auto

lemma Split_append:
  "c \<notin> set p \<Longrightarrow> Split (p @ c # s) c = p # Split s c"
  by (induction p) auto

lemma dropWhile_rev_no_space:
  "s \<noteq> [] \<Longrightarrow> \<not> P (hd s) \<Longrightarrow> dropWhile P s = s"
  by (cases s) auto

lemma TrimSpace_id:
  "s = [] \<or> (\<not> is_space (hd s) \<and> \<not> is_space (last s)) \<Longrightarrow> TrimSpace s = s"
  by (cases "s = []") (auto simp: TrimSpace_def dropWhile_rev_no_space hd_rev)

lemma TrimSpace_Nil [simp]: "TrimSpace [] = []"
  by (simp add: TrimSpace_def)

section \<open>Lemmas on decimal numbers\<close>

lemma of_char_digit_char: "d < 10 \<Longrightarrow> of_char (digit_char d) = (48 + d :: nat)"
  by (simp add: digit_char_def)

lemma digits_val_snoc [simp]:
  "digits_val (s @ [c]) = 10 * digits_val s + (of_char c - 48)"
  by (simp add: digits_val_def)

lemma digits_val_Itoa [simp]: "digits_val (Itoa n) = n"
proof (induction n rule: Itoa.induct)
  case (1 n)
  show ?case
  proof (cases "n < 10")
    case True
    then show ?thesis
      by (simp add: Itoa.simps [of n] digits_val_def of_char_digit_char)
  next
    case False
    with 1 show ?thesis
      by (simp add: Itoa.simps [of n] of_char_digit_char)
  qed
qed

lemma Itoa_inj [simp]: "Itoa m = Itoa n \<longleftrightarrow> m = n"
  by (metis digits_val_Itoa)

lemma Itoa_not_Nil [simp]: "Itoa n \<noteq> []"
  by (subst Itoa.simps) simp

lemma is_digit_digit_char: "d < 10 \<Longrightarrow> is_digit (digit_char d)"
  by (auto simp: is_digit_def less_eq_char_def of_char_digit_char)

lemma list_all_is_digit_Itoa [simp]: "list_all is_digit (Itoa n)"
proof (induction n rule: Itoa.induct)
  case (1 n)
  then show ?case
    by (cases "n < 10") (simp_all add: Itoa.simps [of n] is_digit_digit_char)
qed

lemma digit_set_Itoa: "c \<in> set (Itoa n) \<Longrightarrow> is_digit c"
  using list_all_is_digit_Itoa [of n] by (auto simp: list_all_iff)

lemma Atoi_Itoa: "n < 2 ^ 63 \<Longrightarrow> Atoi (Itoa n) = (int n, True)"
proof -
  assume n: "n < 2 ^ 63"
  have hd_digit: "is_digit (hd (Itoa n))"
    using digit_set_Itoa hd_in_set Itoa_not_Nil by blast
  have "\<not> HasPrefix (Itoa n) ''-''" "\<not> HasPrefix (Itoa n) ''+''"
    using hd_digit by (auto simp: HasPrefix_iff is_digit_def less_eq_char_def)
  moreover have "int n < 2 ^ 63" using n by (metis of_nat_less_iff of_nat_numeral of_nat_power)
  ultimately show ?thesis by (simp add: Atoi_def)
qed

section \<open>Words\<close>

lemma uint_eq_sint_iff: "uint w = sint w \<longleftrightarrow> 0 \<le> sint w" for w :: u64
proof
  assume "0 \<le> sint w"
  moreover have "sint w < 2 ^ 64" using sint_lt [of w] by simp
  ultimately show "uint w = sint w"
    by (subst uint_sint) (simp add: take_bit_int_eq_self)
next
  assume "uint w = sint w"
  then show "0 \<le> sint w" by (metis uint_nonnegative)
qed

end
