(* ===== verification/Internal_API.thy ===== *)
theory Internal_API
  imports Go_Prelude
begin

text \<open>
  \<^verbatim>\<open>internal/internalapi\<close>: the header names, backend names and textual
  configuration formats on which the controller, the extension server and the external processor
  agree. The lemmas show that the backend name built for a route rule determines its parts, that
  parsing inverts formatting of a header-to-attribute mapping, and which hosts yield a signing
  region.
\<close>

section \<open>Header names\<close>

definition EnvoyAIGatewayHeaderPrefix :: string where
  "EnvoyAIGatewayHeaderPrefix = ''x-ai-eg-''"

definition EnvoyOriginalPathHeader :: string where
  "EnvoyOriginalPathHeader = ''x-envoy-original-path''"

definition OriginalPathHeader :: string where
  "OriginalPathHeader = EnvoyAIGatewayHeaderPrefix @ ''original-path''"

definition UpstreamHostHeader :: string where
  "UpstreamHostHeader = EnvoyAIGatewayHeaderPrefix @ ''upstream-host''"

definition ModelNameHeaderKeyDefault :: string where
  "ModelNameHeaderKeyDefault = ''x-ai-eg-model''"

definition EndpointPickerHeaderKey :: string where
  "EndpointPickerHeaderKey = ''x-gateway-destination-endpoint''"

definition AIGatewayFilterMetadataNamespace :: string where
  "AIGatewayFilterMetadataNamespace = ''io.envoy.ai_gateway''"

datatype xds_path =
    XDSClusterMetadataBackendNamePath
  | XDSUpstreamHostMetadataBackendNamePath
  | XDSUpstreamHostMetadataUpstreamHostPath
  | XDSRouteMetadataRouteNamePath

lemmas header_name_defs =
  EnvoyAIGatewayHeaderPrefix_def EnvoyOriginalPathHeader_def OriginalPathHeader_def
  UpstreamHostHeader_def ModelNameHeaderKeyDefault_def EndpointPickerHeaderKey_def
  AIGatewayFilterMetadataNamespace_def

definition AWSCredentialOverrideHeaderNames :: "string \<Rightarrow> string \<times> string \<times> string" where
  "AWSCredentialOverrideHeaderNames prefix =
     (prefix @ ''access-key-id'', prefix @ ''secret-access-key'', prefix @ ''session-token'')"

definition ValidateLogFormat :: "string \<Rightarrow> go_error option" where
  "ValidateLogFormat format =
     (if format \<noteq> ''text'' \<and> format \<noteq> ''json'' then Some (errorf ''invalid log format'')
      else None)"

section \<open>User-facing errors\<close>

definition GetUserFacingError :: "go_error \<Rightarrow> go_error option" where
  "GetUserFacingError err =
     (if errors_is err ErrMalformedRequest then Some err
      else if errors_is err ErrInvalidRequestBody then Some err
      else None)"

lemma GetUserFacingError_SomeD: "GetUserFacingError err = Some e \<Longrightarrow> e = err"
  by (auto simp: GetUserFacingError_def split: if_splits)

section \<open>Backend names\<close>

definition PerRouteRuleRefBackendName :: "string \<Rightarrow> string \<Rightarrow> string \<Rightarrow> nat \<Rightarrow> nat \<Rightarrow> string" where
  "PerRouteRuleRefBackendName namespace name routeName routeRuleIndex refIndex =
     namespace @ ''/'' @ name @ ''/route/'' @ routeName @ ''/rule/'' @ Itoa routeRuleIndex @
     ''/ref/'' @ Itoa refIndex"

definition AIServiceBackendName :: "string \<Rightarrow> string" where
  "AIServiceBackendName perRouteRuleRefBackendName =
     (case SplitN perRouteRuleRefBackendName (CHR ''/'') 3 of
        p0 # p1 # _ \<Rightarrow> p0 @ ''/'' @ p1
      | _ \<Rightarrow> perRouteRuleRefBackendName)"

definition NamespaceAndNameFromBackendName :: "string \<Rightarrow> (string \<times> string) option" where
  "NamespaceAndNameFromBackendName backendName =
     (case SplitN backendName (CHR ''/'') 3 of
        p0 # p1 # _ \<Rightarrow> if p0 = [] \<or> p1 = [] then None else Some (p0, p1)
      | _ \<Rightarrow> None)"

section \<open>The region encoded in a Bedrock host\<close>

text \<open>
  The regular expression \<^verbatim>\<open>(?:^|\.)bedrock-runtime(?:-fips)?\.([a-z0-9-]+)\.(?:vpce\.amazonaws\.com|amazonaws\.com|api\.aws)$\<close>:
  a match starts at the beginning of the host or just after a dot, leftmost first; the region
  consists of characters other than a dot, so it ends at the next dot.
\<close>

definition region_char :: "char \<Rightarrow> bool" where
  "region_char c = ((CHR ''a'' \<le> c \<and> c \<le> CHR ''z'') \<or> (CHR ''0'' \<le> c \<and> c \<le> CHR ''9'') \<or> c = CHR ''-'')"

definition awsBedrockHostRE_at :: "string \<Rightarrow> string option" where
  "awsBedrockHostRE_at s =
     (if HasPrefix s ''bedrock-runtime''
      then let s1 = TrimPrefix (TrimPrefix s ''bedrock-runtime'') ''-fips''
           in if HasPrefix s1 ''.''
              then let region = takeWhile region_char (tl s1); rest = dropWhile region_char (tl s1)
                   in if region \<noteq> [] \<and>
                         (rest = ''.vpce.amazonaws.com'' \<or> rest = ''.amazonaws.com'' \<or> rest = ''.api.aws'')
                      then Some region else None
              else None
      else None)"

fun after_dots :: "string \<Rightarrow> string list" where
  "after_dots [] = []"
| "after_dots (c # cs) = (if c = CHR ''.'' then cs # after_dots cs else after_dots cs)"

fun first_match :: "string list \<Rightarrow> string option" where
  "first_match [] = None"
| "first_match (s # ss) = (case awsBedrockHostRE_at s of Some r \<Rightarrow> Some r | None \<Rightarrow> first_match ss)"

definition AWSBedrockRegionFromHost :: "string \<Rightarrow> string" where
  "AWSBedrockRegionFromHost host =
     (case first_match (host # after_dots host) of Some r \<Rightarrow> r | None \<Rightarrow> [])"

section \<open>Header-to-attribute mappings\<close>

datatype pair_error =
    EmptyPair nat
  | InvalidPair nat string
  | EmptyHeaderOrAttribute nat string
  | UnknownKey string nat

fun parse_attr_pairs :: "nat \<Rightarrow> string list \<Rightarrow> headers \<Rightarrow> pair_error + headers" where
  "parse_attr_pairs i [] result = Inr result"
| "parse_attr_pairs i (p # pairs) result =
     (let pair = TrimSpace p in
      if pair = [] then Inl (EmptyPair (i + 1))
      else (case SplitN pair (CHR '':'') 2 of
              [h, a] \<Rightarrow>
                (let header = TrimSpace h; attribute = TrimSpace a in
                 if header = [] \<or> attribute = [] then Inl (EmptyHeaderOrAttribute (i + 1) pair)
                 else parse_attr_pairs (i + 1) pairs (result(header \<mapsto> attribute)))
            | _ \<Rightarrow> Inl (InvalidPair (i + 1) pair)))"

definition ParseRequestHeaderAttributeMapping :: "string \<Rightarrow> pair_error + headers option" where
  "ParseRequestHeaderAttributeMapping s =
     (if s = [] then Inr None
      else case parse_attr_pairs 0 (Split s (CHR '','')) Map.empty of
             Inl e \<Rightarrow> Inl e
           | Inr m \<Rightarrow> Inr (Some m))"

definition MergeRequestHeaderAttributeMappings ::
  "string list \<Rightarrow> headers \<Rightarrow> headers \<Rightarrow> headers option" where
  "MergeRequestHeaderAttributeMappings ord base override =
     (if range_keys ord base = [] \<and> range_keys ord override = [] then None
      else Some (base ++ override))"

fun join_attr_pairs :: "headers \<Rightarrow> string list \<Rightarrow> string" where
  "join_attr_pairs m [] = []"
| "join_attr_pairs m [k] = k @ '':'' @ mget m k"
| "join_attr_pairs m (k # ks) = k @ '':'' @ mget m k @ '','' @ join_attr_pairs m ks"

definition FormatRequestHeaderAttributeMapping :: "string list \<Rightarrow> headers \<Rightarrow> string" where
  "FormatRequestHeaderAttributeMapping ord m = join_attr_pairs m (sort (range_keys ord m))"

section \<open>Endpoint prefixes\<close>

record EndpointPrefixes =
  ep_OpenAI :: string
  ep_Cohere :: string
  ep_Anthropic :: string
  ep_TypeSafe :: string

definition default_prefixes :: EndpointPrefixes where
  "default_prefixes = \<lparr>ep_OpenAI = ''/'', ep_Cohere = ''/cohere'', ep_Anthropic = ''/anthropic'',
     ep_TypeSafe = ''/typesafe''\<rparr>"

definition set_prefix :: "string \<Rightarrow> string \<Rightarrow> EndpointPrefixes \<Rightarrow> EndpointPrefixes option" where
  "set_prefix key val out =
     (if key = ''openai'' then Some (out\<lparr>ep_OpenAI := val\<rparr>)
      else if key = ''cohere'' then Some (out\<lparr>ep_Cohere := val\<rparr>)
      else if key = ''anthropic'' then Some (out\<lparr>ep_Anthropic := val\<rparr>)
      else if key = ''typesafe'' then Some (out\<lparr>ep_TypeSafe := val\<rparr>)
      else None)"

fun parse_prefix_pairs :: "nat \<Rightarrow> string list \<Rightarrow> EndpointPrefixes \<Rightarrow> pair_error + EndpointPrefixes" where
  "parse_prefix_pairs i [] out = Inr out"
| "parse_prefix_pairs i (p # pairs) out =
     (let pair = TrimSpace p in
      if pair = [] then Inl (EmptyPair (i + 1))
      else (case SplitN pair (CHR '':'') 2 of
              [k, v] \<Rightarrow>
                (case set_prefix (TrimSpace k) (TrimSpace v) out of
                   Some out' \<Rightarrow> parse_prefix_pairs (i + 1) pairs out'
                 | None \<Rightarrow> Inl (UnknownKey (TrimSpace k) (i + 1)))
            | _ \<Rightarrow> Inl (InvalidPair (i + 1) pair)))"

definition ParseEndpointPrefixes :: "string \<Rightarrow> pair_error + EndpointPrefixes" where
  "ParseEndpointPrefixes s =
     (if s = [] then Inr default_prefixes
      else parse_prefix_pairs 0 (Split s (CHR '','')) default_prefixes)"

section \<open>Properties of backend names\<close>

definition label :: "string \<Rightarrow> bool" where
  "label s = (s \<noteq> [] \<and> CHR ''/'' \<notin> set s)"

lemma SplitN_backend_name:
  "CHR ''/'' \<notin> set ns \<Longrightarrow> CHR ''/'' \<notin> set n \<Longrightarrow>
   SplitN (ns @ CHR ''/'' # n @ CHR ''/'' # rest) (CHR ''/'') 3 = [ns, n, rest]"
  by (simp add: eval_nat_numeral SplitN_append del: SplitN.simps(3))

lemma append_sep_inject:
  "c \<notin> set p \<Longrightarrow> c \<notin> set q \<Longrightarrow> (p @ c # s = q @ c # t) = (p = q \<and> s = t)"
  by (metis takeWhile_neq_append dropWhile_neq_append list.inject)

text \<open>
  The backend name built for a reference of a route rule is a key: the namespace, backend,
  route, rule index and reference index are determined by it (namespace, name and route name being
  Kubernetes names, which hold no slash), so two different references never share an entry of the
  backend table.
\<close>

theorem PerRouteRuleRefBackendName_inject:
  assumes "label ns" "label n" "label r" "label ns'" "label n'" "label r'"
  shows "PerRouteRuleRefBackendName ns n r i j = PerRouteRuleRefBackendName ns' n' r' i' j' \<longleftrightarrow>
    ns = ns' \<and> n = n' \<and> r = r' \<and> i = i' \<and> j = j'"
proof
  assume eq: "PerRouteRuleRefBackendName ns n r i j = PerRouteRuleRefBackendName ns' n' r' i' j'"
  have nosep: "CHR ''/'' \<notin> set (Itoa k)" for k
    using digit_set_Itoa by (fastforce simp: is_digit_def less_eq_char_def)
  from eq assms nosep show "ns = ns' \<and> n = n' \<and> r = r' \<and> i = i' \<and> j = j'"
    by (simp add: PerRouteRuleRefBackendName_def label_def append_sep_inject)
qed auto

theorem PerRouteRuleRefBackendName_inject_witness:
  "PerRouteRuleRefBackendName ''ns'' ''b'' ''r'' 0 1 \<noteq> PerRouteRuleRefBackendName ''ns'' ''b'' ''r'' 1 0"
  using PerRouteRuleRefBackendName_inject [of "''ns''" "''b''" "''r''" "''ns''" "''b''" "''r''" 0 1 1 0]
  by (simp add: label_def)

text \<open>
  The AIServiceBackend is recovered from the backend name of any reference to it: both the
  short \<open>namespace/name\<close> form and the pair of namespace and name.
\<close>

theorem backend_name_roundtrip:
  assumes "label ns" and "label n"
  shows "AIServiceBackendName (PerRouteRuleRefBackendName ns n r i j) = ns @ ''/'' @ n \<and>
    NamespaceAndNameFromBackendName (PerRouteRuleRefBackendName ns n r i j) = Some (ns, n)"
proof -
  let ?rest = "''route/'' @ r @ ''/rule/'' @ Itoa i @ ''/ref/'' @ Itoa j"
  have "PerRouteRuleRefBackendName ns n r i j = ns @ CHR ''/'' # n @ CHR ''/'' # ?rest"
    by (simp add: PerRouteRuleRefBackendName_def)
  then have "SplitN (PerRouteRuleRefBackendName ns n r i j) (CHR ''/'') 3 = [ns, n, ?rest]"
    using assms SplitN_backend_name [of ns n ?rest] unfolding label_def by simp
  with assms show ?thesis
    by (simp add: AIServiceBackendName_def NamespaceAndNameFromBackendName_def label_def)
qed

theorem backend_name_roundtrip_witness:
  "AIServiceBackendName (PerRouteRuleRefBackendName ''ns'' ''b'' ''r'' 2 0) = ''ns/b'' \<and>
   NamespaceAndNameFromBackendName (PerRouteRuleRefBackendName ''ns'' ''b'' ''r'' 2 0) = Some (''ns'', ''b'')"
  using backend_name_roundtrip [of "''ns''" "''b''" "''r''" 2 0] by (simp add: label_def)

section \<open>Properties of the signing region\<close>

definition aws_host_suffix :: "string \<Rightarrow> bool" where
  "aws_host_suffix s = (s = ''.vpce.amazonaws.com'' \<or> s = ''.amazonaws.com'' \<or> s = ''.api.aws'')"

lemma awsBedrockHostRE_atD:
  assumes "awsBedrockHostRE_at s = Some r"
  shows "r \<noteq> [] \<and> list_all region_char r \<and>
    (\<exists>p sfx. (p = ''bedrock-runtime.'' \<or> p = ''bedrock-runtime-fips.'') \<and>
       aws_host_suffix sfx \<and> s = p @ r @ sfx)"
proof -
  from assms obtain t where s: "s = ''bedrock-runtime'' @ t"
    by (auto simp: awsBedrockHostRE_at_def HasPrefix_iff Let_def split: if_splits)
  define s1 where "s1 = TrimPrefix t ''-fips''"
  have t: "t = s1 \<or> t = ''-fips'' @ s1"
    by (auto simp: s1_def TrimPrefix_def HasPrefix_iff)
  from assms s obtain u where u: "s1 = CHR ''.'' # u"
    and r: "r = takeWhile region_char u" "r \<noteq> []"
    and sfx: "aws_host_suffix (dropWhile region_char u)"
    by (auto simp: awsBedrockHostRE_at_def s1_def [symmetric] HasPrefix_single Let_def aws_host_suffix_def
        simp del: append_Cons split: if_splits)
  have "u = r @ dropWhile region_char u" using r by simp
  moreover have "list_all region_char r" using r(1) by (auto simp: list_all_iff dest: set_takeWhileD)
  ultimately show ?thesis using r sfx s t u by fastforce
qed

lemma after_dots_suffix: "t \<in> set (after_dots s) \<Longrightarrow> \<exists>p. s = p @ CHR ''.'' # t"
proof (induction s)
  case Nil
  then show ?case by simp
next
  case (Cons c s)
  then show ?case
    by (cases "c = CHR ''.'' \<and> t = s") (force, fastforce simp: Cons_eq_append_conv split: if_splits)
qed

lemma first_match_Some: "first_match ss = Some r \<Longrightarrow> \<exists>s \<in> set ss. awsBedrockHostRE_at s = Some r"
  by (induction ss) (auto split: option.splits)

text \<open>
  A host that yields a signing region really is a Bedrock runtime host: the region is a
  non-empty sequence of lower-case letters, digits and hyphens, it is preceded by the
  \<open>bedrock-runtime\<close> label at a label boundary, and the host ends in one of the AWS
  domains, so a spoofed host such as \<open>bedrock-runtime.us-east-1.amazonaws.com.evil.com\<close>
  yields nothing.
\<close>

theorem AWSBedrockRegionFromHost_sound:
  assumes "AWSBedrockRegionFromHost host = r" and "r \<noteq> []"
  shows "list_all region_char r \<and>
    (\<exists>pre p sfx. (pre = [] \<or> last pre = CHR ''.'') \<and>
       (p = ''bedrock-runtime.'' \<or> p = ''bedrock-runtime-fips.'') \<and>
       aws_host_suffix sfx \<and> host = pre @ p @ r @ sfx)"
proof -
  from assms have "first_match (host # after_dots host) = Some r"
    by (auto simp: AWSBedrockRegionFromHost_def split: option.splits)
  then obtain s where s: "s \<in> set (host # after_dots host)" and m: "awsBedrockHostRE_at s = Some r"
    using first_match_Some by blast
  from s have "\<exists>pre. (pre = [] \<or> last pre = CHR ''.'') \<and> host = pre @ s"
    using after_dots_suffix [of s host] by auto
  with awsBedrockHostRE_atD [OF m] show ?thesis by auto
qed

theorem AWSBedrockRegionFromHost_sound_witness:
  "AWSBedrockRegionFromHost ''vpce-1.bedrock-runtime.us-east-1.vpce.amazonaws.com'' = ''us-east-1'' \<and>
   list_all region_char ''us-east-1'' \<and>
   AWSBedrockRegionFromHost ''bedrock-runtime.us-east-1.amazonaws.com.evil.com'' = []"
proof -
  have ev: "AWSBedrockRegionFromHost ''vpce-1.bedrock-runtime.us-east-1.vpce.amazonaws.com'' = ''us-east-1''"
    by code_simp
  have "AWSBedrockRegionFromHost ''bedrock-runtime.us-east-1.amazonaws.com.evil.com'' = []"
    by code_simp
  then show ?thesis using ev AWSBedrockRegionFromHost_sound [OF ev] by simp
qed

section \<open>Properties of header-to-attribute mappings\<close>

definition trimmed :: "string \<Rightarrow> bool" where
  "trimmed s = (s \<noteq> [] \<and> \<not> is_space (hd s) \<and> \<not> is_space (last s))"

definition attr_mapping :: "headers \<Rightarrow> bool" where
  "attr_mapping m = (\<forall>k v. m k = Some v \<longrightarrow>
     trimmed k \<and> trimmed v \<and> CHR '':'' \<notin> set k \<and> CHR '','' \<notin> set k \<and> CHR '','' \<notin> set v)"

abbreviation attr_pair :: "headers \<Rightarrow> string \<Rightarrow> string" where
  "attr_pair m k \<equiv> k @ '':'' @ mget m k"

lemma attr_mapping_pair:
  assumes "attr_mapping m" and "k \<in> dom m"
  shows "trimmed k" "trimmed (mget m k)" "CHR '':'' \<notin> set k" "CHR '','' \<notin> set (attr_pair m k)"
  using assms by (auto simp: attr_mapping_def mget_def)

lemma trimmed_TrimSpace: "trimmed s \<Longrightarrow> TrimSpace s = s"
  by (simp add: trimmed_def TrimSpace_id)

lemma trimmed_attr_pair: "trimmed k \<Longrightarrow> trimmed v \<Longrightarrow> trimmed (k @ CHR '':'' # v)"
  by (cases v) (auto simp: trimmed_def)

lemma Split_join_attr_pairs:
  "attr_mapping m \<Longrightarrow> ks \<noteq> [] \<Longrightarrow> set ks \<subseteq> dom m \<Longrightarrow>
   Split (join_attr_pairs m ks) (CHR '','') = map (attr_pair m) ks"
proof (induction m ks rule: join_attr_pairs.induct)
  case (1 m)
  then show ?case by simp
next
  case (2 m k)
  then show ?case using attr_mapping_pair(4) [of m k] by (simp add: Split_no_sep)
next
  case (3 m k k' ks)
  have "CHR '','' \<notin> set (attr_pair m k)" using 3 attr_mapping_pair(4) [of m k] by simp
  then have "Split (attr_pair m k @ CHR '','' # join_attr_pairs m (k' # ks)) (CHR '','') =
      attr_pair m k # Split (join_attr_pairs m (k' # ks)) (CHR '','')"
    by (rule Split_append)
  with 3 show ?case by simp
qed

lemma parse_attr_pairs_step:
  assumes "trimmed k" "trimmed v" "CHR '':'' \<notin> set k"
  shows "parse_attr_pairs i ((k @ '':'' @ v) # ps) acc = parse_attr_pairs (i + 1) ps (acc(k \<mapsto> v))"
  using assms SplitN_append [of "CHR '':''" k v 0] trimmed_attr_pair [of k v]
  by (auto simp: trimmed_TrimSpace numeral_2_eq_2 Let_def simp del: SplitN.simps(3))
    (auto simp: trimmed_def)

lemma parse_attr_pairs_map:
  "attr_mapping m \<Longrightarrow> set ks \<subseteq> dom m \<Longrightarrow>
   parse_attr_pairs i (map (attr_pair m) ks) acc = Inr (fold (\<lambda>k a. a(k \<mapsto> mget m k)) ks acc)"
proof (induction ks arbitrary: i acc)
  case Nil
  then show ?case by simp
next
  case (Cons k ks)
  then have k: "k \<in> dom m" by simp
  have "parse_attr_pairs i (map (attr_pair m) (k # ks)) acc =
      parse_attr_pairs (i + 1) (map (attr_pair m) ks) (acc(k \<mapsto> mget m k))"
    unfolding list.map
    by (rule parse_attr_pairs_step) (use attr_mapping_pair [OF Cons.prems(1) k] in simp_all)
  also have "\<dots> = Inr (fold (\<lambda>k a. a(k \<mapsto> mget m k)) ks (acc(k \<mapsto> mget m k)))"
    using Cons by (intro Cons.IH) simp_all
  finally show ?case by (simp only: fold_Cons o_apply)
qed

lemma fold_update_apply:
  "fold (\<lambda>k a. a(k \<mapsto> f k)) ks acc x = (if x \<in> set ks then Some (f x) else acc x)"
  by (induction ks arbitrary: acc) auto

text \<open>
  Parsing inverts formatting: the comma-separated text of a non-empty mapping whose names and
  attributes are trimmed and free of separators parses back to the same mapping, whatever order the
  map was ranged over.
\<close>

theorem Parse_Format_mapping:
  assumes "attr_mapping m" and "enumerates ord m" and "m \<noteq> Map.empty"
  shows "ParseRequestHeaderAttributeMapping (FormatRequestHeaderAttributeMapping ord m) = Inr (Some m)"
proof -
  let ?ks = "sort (range_keys ord m)"
  have dom: "set ?ks = dom m" using assms(2) by (simp add: set_range_keys)
  with assms(3) have ne: "?ks \<noteq> []" by (metis dom_eq_empty_conv set_empty)
  have split: "Split (join_attr_pairs m ?ks) (CHR '','') = map (attr_pair m) ?ks"
    using Split_join_attr_pairs [OF assms(1) ne] dom by simp
  have "join_attr_pairs m ?ks \<noteq> []"
    using ne by (cases "(m, ?ks)" rule: join_attr_pairs.cases) auto
  moreover have "fold (\<lambda>k a. a(k \<mapsto> mget m k)) ?ks Map.empty = m"
    using dom by (intro ext) (auto simp: fold_update_apply mget_def split: option.splits)
  ultimately show ?thesis
    using split parse_attr_pairs_map [OF assms(1), of ?ks 0 Map.empty] dom
    by (simp add: ParseRequestHeaderAttributeMapping_def FormatRequestHeaderAttributeMapping_def)
qed

theorem Parse_Format_mapping_witness:
  "ParseRequestHeaderAttributeMapping
     (FormatRequestHeaderAttributeMapping [''x-b'', ''x-a''] [''x-a'' \<mapsto> ''a.id'', ''x-b'' \<mapsto> ''b:id'']) =
   Inr (Some [''x-a'' \<mapsto> ''a.id'', ''x-b'' \<mapsto> ''b:id''])"
  by (rule Parse_Format_mapping)
    (auto simp: attr_mapping_def trimmed_def is_space_def enumerates_def fun_eq_iff split: if_splits)

section \<open>Properties of endpoint prefixes\<close>

definition prefix_pair_ok :: "string \<Rightarrow> bool" where
  "prefix_pair_ok p =
     (case SplitN (TrimSpace p) (CHR '':'') 2 of
        [k, v] \<Rightarrow> TrimSpace k \<in> {''openai'', ''cohere'', ''anthropic'', ''typesafe''}
      | _ \<Rightarrow> False)"

lemma set_prefix_known:
  "(set_prefix k v out = None) = (k \<notin> {''openai'', ''cohere'', ''anthropic'', ''typesafe''})"
  by (simp add: set_prefix_def)

lemma prefix_pair_ok_not_Nil: "prefix_pair_ok p \<Longrightarrow> TrimSpace p \<noteq> []"
  by (auto simp: prefix_pair_ok_def numeral_2_eq_2)

lemma parse_prefix_pairs_ok:
  "(\<exists>out'. parse_prefix_pairs i ps out = Inr out') \<longleftrightarrow> list_all prefix_pair_ok ps"
proof (induction i ps out rule: parse_prefix_pairs.induct)
  case (1 i out)
  then show ?case by simp
next
  case (2 i p pairs out)
  show ?case
  proof (cases "prefix_pair_ok p")
    case False
    then show ?thesis
      by (auto simp: prefix_pair_ok_def Let_def set_prefix_def split: list.splits option.splits if_splits)
  next
    case True
    then obtain k v where kv: "SplitN (TrimSpace p) (CHR '':'') 2 = [k, v]"
      and known: "set_prefix (TrimSpace k) (TrimSpace v) out \<noteq> None"
      by (auto simp: prefix_pair_ok_def set_prefix_known split: list.splits)
    then obtain out1 where "set_prefix (TrimSpace k) (TrimSpace v) out = Some out1" by auto
    with kv True prefix_pair_ok_not_Nil [OF True] 2 show ?thesis by (simp add: Let_def)
  qed
qed

text \<open>
  An endpoint-prefix setting is accepted exactly when it is empty or each of its
  comma-separated pairs has a colon and one of the four known keys before it; nothing is asked of
  the value.
\<close>

theorem ParseEndpointPrefixes_accepts:
  "(\<exists>out. ParseEndpointPrefixes s = Inr out) \<longleftrightarrow> s = [] \<or> list_all prefix_pair_ok (Split s (CHR '',''))"
  by (auto simp: ParseEndpointPrefixes_def parse_prefix_pairs_ok)

text \<open>
  An empty prefix value is accepted and replaces the default, whichever trimmed value it is:
  \<open>openai:\<close> sets the OpenAI prefix to the empty string.
\<close>

theorem ParseEndpointPrefixes_openai_value:
  assumes "v = [] \<or> trimmed v" and "CHR '','' \<notin> set v"
  shows "ParseEndpointPrefixes (''openai:'' @ v) = Inr (default_prefixes\<lparr>ep_OpenAI := v\<rparr>)"
proof -
  have tr: "trimmed (''openai:'' @ v)"
    using assms(1) by (cases "v = []") (auto simp: trimmed_def is_space_def)
  have v: "TrimSpace v = v" using assms(1) by (auto simp: trimmed_TrimSpace)
  have sp: "Split (''openai:'' @ v) (CHR '','') = [''openai:'' @ v]"
    using assms(2) by (intro Split_no_sep) simp
  have k: "TrimSpace ''openai'' = ''openai''" by (intro TrimSpace_id) (simp add: is_space_def)
  have two: "SplitN (''openai:'' @ v) (CHR '':'') 2 = [''openai'', v]"
    by (simp add: numeral_2_eq_2)
  have "parse_prefix_pairs 0 [''openai:'' @ v] default_prefixes = Inr (default_prefixes\<lparr>ep_OpenAI := v\<rparr>)"
    using two k v trimmed_TrimSpace [OF tr] by (simp add: set_prefix_def Let_def)
  then show ?thesis unfolding ParseEndpointPrefixes_def sp by simp
qed

theorem ParseEndpointPrefixes_openai_value_witness:
  "ParseEndpointPrefixes ''openai:'' = Inr (default_prefixes\<lparr>ep_OpenAI := []\<rparr>)"
  using ParseEndpointPrefixes_openai_value [of "[]"] by simp

end
