(* ===== verification/Token_Usage.thy ===== *)
theory Token_Usage
  imports Go_Prelude
begin

text \<open>
  \<^verbatim>\<open>internal/metrics/metrics.go\<close>: the token usage reported by a provider. Each
  count is a 32-bit word with a flag that says whether it was reported. The abstract view of a usage
  is the partial map from the kind of count to its value; overriding a usage with a later report is
  map update under that view, whence the usage accumulated over a stream is, for each kind, the last
  value reported.
\<close>

section \<open>The record and its operations\<close>

record TokenUsage =
  inputTokens :: u32
  outputTokens :: u32
  totalTokens :: u32
  cachedInputTokens :: u32
  cacheCreationInputTokens :: u32
  reasoningTokens :: u32
  inputTokenSet :: bool
  outputTokenSet :: bool
  totalTokenSet :: bool
  cachedInputTokenSet :: bool
  cacheCreationInputTokenSet :: bool
  reasoningTokenSet :: bool

definition no_usage :: TokenUsage where
  "no_usage = \<lparr>inputTokens = 0, outputTokens = 0, totalTokens = 0, cachedInputTokens = 0,
     cacheCreationInputTokens = 0, reasoningTokens = 0, inputTokenSet = False, outputTokenSet = False,
     totalTokenSet = False, cachedInputTokenSet = False, cacheCreationInputTokenSet = False,
     reasoningTokenSet = False\<rparr>"

definition InputTokens :: "TokenUsage \<Rightarrow> u32 \<times> bool" where
  "InputTokens u = (inputTokens u, inputTokenSet u)"

definition OutputTokens :: "TokenUsage \<Rightarrow> u32 \<times> bool" where
  "OutputTokens u = (outputTokens u, outputTokenSet u)"

definition TotalTokens :: "TokenUsage \<Rightarrow> u32 \<times> bool" where
  "TotalTokens u = (totalTokens u, totalTokenSet u)"

definition CachedInputTokens :: "TokenUsage \<Rightarrow> u32 \<times> bool" where
  "CachedInputTokens u = (cachedInputTokens u, cachedInputTokenSet u)"

definition CacheCreationInputTokens :: "TokenUsage \<Rightarrow> u32 \<times> bool" where
  "CacheCreationInputTokens u = (cacheCreationInputTokens u, cacheCreationInputTokenSet u)"

definition SetInputTokens :: "u32 \<Rightarrow> TokenUsage \<Rightarrow> TokenUsage" where
  "SetInputTokens tokens u = u\<lparr>inputTokens := tokens, inputTokenSet := True\<rparr>"

definition SetOutputTokens :: "u32 \<Rightarrow> TokenUsage \<Rightarrow> TokenUsage" where
  "SetOutputTokens tokens u = u\<lparr>outputTokens := tokens, outputTokenSet := True\<rparr>"

definition SetTotalTokens :: "u32 \<Rightarrow> TokenUsage \<Rightarrow> TokenUsage" where
  "SetTotalTokens tokens u = u\<lparr>totalTokens := tokens, totalTokenSet := True\<rparr>"

definition SetCachedInputTokens :: "u32 \<Rightarrow> TokenUsage \<Rightarrow> TokenUsage" where
  "SetCachedInputTokens tokens u = u\<lparr>cachedInputTokens := tokens, cachedInputTokenSet := True\<rparr>"

definition SetCacheCreationInputTokens :: "u32 \<Rightarrow> TokenUsage \<Rightarrow> TokenUsage" where
  "SetCacheCreationInputTokens tokens u =
     u\<lparr>cacheCreationInputTokens := tokens, cacheCreationInputTokenSet := True\<rparr>"

definition ReasoningTokens :: "TokenUsage \<Rightarrow> u32 \<times> bool" where
  "ReasoningTokens u = (reasoningTokens u, reasoningTokenSet u)"

definition SetReasoningTokens :: "u32 \<Rightarrow> TokenUsage \<Rightarrow> TokenUsage" where
  "SetReasoningTokens tokens u = u\<lparr>reasoningTokens := tokens, reasoningTokenSet := True\<rparr>"

definition AddInputTokens :: "u32 \<Rightarrow> TokenUsage \<Rightarrow> TokenUsage" where
  "AddInputTokens tokens u = u\<lparr>inputTokenSet := True, inputTokens := inputTokens u + tokens\<rparr>"

definition AddOutputTokens :: "u32 \<Rightarrow> TokenUsage \<Rightarrow> TokenUsage" where
  "AddOutputTokens tokens u = u\<lparr>outputTokenSet := True, outputTokens := outputTokens u + tokens\<rparr>"

definition AddCachedInputTokens :: "u32 \<Rightarrow> TokenUsage \<Rightarrow> TokenUsage" where
  "AddCachedInputTokens tokens u =
     u\<lparr>cachedInputTokenSet := True, cachedInputTokens := cachedInputTokens u + tokens\<rparr>"

definition AddCacheCreationInputTokens :: "u32 \<Rightarrow> TokenUsage \<Rightarrow> TokenUsage" where
  "AddCacheCreationInputTokens tokens u =
     u\<lparr>cacheCreationInputTokenSet := True,
       cacheCreationInputTokens := cacheCreationInputTokens u + tokens\<rparr>"

definition AddReasoningTokens :: "u32 \<Rightarrow> TokenUsage \<Rightarrow> TokenUsage" where
  "AddReasoningTokens tokens u =
     u\<lparr>reasoningTokenSet := True, reasoningTokens := reasoningTokens u + tokens\<rparr>"

definition IsZero :: "TokenUsage \<Rightarrow> bool" where
  "IsZero u = (\<not> inputTokenSet u \<and> \<not> outputTokenSet u \<and> \<not> totalTokenSet u \<and>
     \<not> cachedInputTokenSet u \<and> \<not> cacheCreationInputTokenSet u \<and> \<not> reasoningTokenSet u)"

definition Override :: "TokenUsage \<Rightarrow> TokenUsage \<Rightarrow> TokenUsage" where
  "Override u oth =
     (let u1 = (if inputTokenSet oth then u\<lparr>inputTokens := inputTokens oth, inputTokenSet := True\<rparr> else u);
          u2 = (if outputTokenSet oth then u1\<lparr>outputTokens := outputTokens oth, outputTokenSet := True\<rparr> else u1);
          u3 = (if totalTokenSet oth then u2\<lparr>totalTokens := totalTokens oth, totalTokenSet := True\<rparr> else u2);
          u4 = (if cachedInputTokenSet oth
                then u3\<lparr>cachedInputTokens := cachedInputTokens oth, cachedInputTokenSet := True\<rparr> else u3);
          u5 = (if cacheCreationInputTokenSet oth
                then u4\<lparr>cacheCreationInputTokens := cacheCreationInputTokens oth,
                        cacheCreationInputTokenSet := True\<rparr> else u4)
      in if reasoningTokenSet oth
         then u5\<lparr>reasoningTokens := reasoningTokens oth, reasoningTokenSet := True\<rparr> else u5)"

text \<open>
  Anthropic and Bedrock report the uncached input apart from the cache reads and writes; the gateway
  reports their sum as the input. The counts are 64-bit integers and are truncated to 32 bits.
\<close>

definition ExtractTokenUsageFromExplicitCaching ::
  "64 word \<Rightarrow> 64 word \<Rightarrow> 64 word option \<Rightarrow> 64 word option \<Rightarrow> TokenUsage" where
  "ExtractTokenUsageFromExplicitCaching inTokens outTokens cacheReadTokens cacheCreationTokens =
     (let (u1, totalInputTokens1) =
            (case cacheCreationTokens of
               Some c \<Rightarrow> (SetCacheCreationInputTokens (ucast c) no_usage, inTokens + c)
             | None \<Rightarrow> (no_usage, inTokens));
          (u2, totalInputTokens2) =
            (case cacheReadTokens of
               Some c \<Rightarrow> (SetCachedInputTokens (ucast c) u1, totalInputTokens1 + c)
             | None \<Rightarrow> (u1, totalInputTokens1));
          u3 = SetInputTokens (ucast totalInputTokens2) u2;
          u4 = SetOutputTokens (ucast outTokens) u3
      in SetTotalTokens (ucast (totalInputTokens2 + outTokens)) u4)"

section \<open>The abstract view\<close>

datatype token_kind = Input | Output | Total | CachedInput | CacheCreationInput | Reasoning

fun usage_view :: "TokenUsage \<Rightarrow> token_kind \<Rightarrow> u32 option" where
  "usage_view u Input = (if inputTokenSet u then Some (inputTokens u) else None)"
| "usage_view u Output = (if outputTokenSet u then Some (outputTokens u) else None)"
| "usage_view u Total = (if totalTokenSet u then Some (totalTokens u) else None)"
| "usage_view u CachedInput = (if cachedInputTokenSet u then Some (cachedInputTokens u) else None)"
| "usage_view u CacheCreationInput =
     (if cacheCreationInputTokenSet u then Some (cacheCreationInputTokens u) else None)"
| "usage_view u Reasoning = (if reasoningTokenSet u then Some (reasoningTokens u) else None)"

lemmas usage_setters =
  SetInputTokens_def SetOutputTokens_def SetTotalTokens_def SetCachedInputTokens_def
  SetCacheCreationInputTokens_def SetReasoningTokens_def

section \<open>Accumulating reports\<close>

text \<open>
  What a consumer of usage reports relies on: a later report overrides, kind by kind, what it
  reports and nothing else.
\<close>

locale usage_accumulator =
  fixes override :: "'u \<Rightarrow> 'u \<Rightarrow> 'u"
    and view :: "'u \<Rightarrow> 'k \<Rightarrow> 'v option"
  assumes view_override: "view (override u v) = view u ++ view v"
begin

lemma view_fold: "view (foldl override u rs) = foldl (++) (view u) (map view rs)"
  by (induction rs arbitrary: u) (simp_all add: view_override)

lemma view_fold_last:
  assumes "rs = pre @ r # post" and "view r k = Some v" and "\<forall>r' \<in> set post. view r' k = None"
  shows "view (foldl override u rs) k = Some v"
proof -
  have post: "view (foldl override w post) k = view w k" for w
    using assms(3) by (induction post arbitrary: w) (simp_all add: view_override map_add_def)
  show ?thesis using assms(2) by (simp add: assms(1) post view_override map_add_def)
qed

lemma view_fold_none:
  assumes "\<forall>r \<in> set rs. view r k = None"
  shows "view (foldl override u rs) k = view u k"
  using assms by (induction rs arbitrary: u) (simp_all add: view_override map_add_def)

end

lemma usage_view_Override: "usage_view (Override u oth) k = (usage_view u ++ usage_view oth) k"
  by (cases k) (simp_all add: Override_def Let_def map_add_def)

interpretation token_acc: usage_accumulator Override usage_view
  by unfold_locales (rule ext, rule usage_view_Override)

text \<open>
  C33. Overriding a usage with a report is, kind by kind, the map update of the abstract view: a
  reported count replaces the old one and an unreported one keeps it.
\<close>

theorem Override_refines_map_update:
  "usage_view (Override u oth) = usage_view u ++ usage_view oth \<and>
   (IsZero (Override u oth) \<longleftrightarrow> IsZero u \<and> IsZero oth)"
  using token_acc.view_override by (auto simp: IsZero_def Override_def Let_def)

text \<open>
  After any sequence of cumulative reports, the accumulated count of a kind is the value of the
  last report that carried it, whatever came before.
\<close>

theorem Override_last_report_wins:
  assumes "reports = pre @ r # post" and "usage_view r k = Some v"
    and "\<forall>r' \<in> set post. usage_view r' k = None"
  shows "usage_view (foldl Override no_usage reports) k = Some v"
  using assms by (rule token_acc.view_fold_last)

theorem Override_last_report_wins_witness:
  "usage_view (foldl Override no_usage
     [SetInputTokens 3 no_usage, SetOutputTokens 1 no_usage, SetOutputTokens 9 no_usage,
      SetInputTokens 4 no_usage]) Output = Some 9"
  by (rule Override_last_report_wins
        [where pre = "[SetInputTokens 3 no_usage, SetOutputTokens 1 no_usage]"
           and r = "SetOutputTokens 9 no_usage" and post = "[SetInputTokens 4 no_usage]"])
    (simp_all add: usage_setters no_usage_def)

section \<open>Explicit caching\<close>

abbreviation cached_count :: "64 word option \<Rightarrow> 64 word" where
  "cached_count c \<equiv> (case c of None \<Rightarrow> 0 | Some x \<Rightarrow> x)"

lemma unat_ucast_32: "unat (ucast (w :: 64 word) :: u32) = unat w mod 2 ^ 32"
  by (simp add: unsigned_ucast_eq take_bit_eq_mod)

lemma ExtractTokenUsage_view:
  "usage_view (ExtractTokenUsageFromExplicitCaching i out r c) =
     [Input \<mapsto> ucast (i + cached_count c + cached_count r), Output \<mapsto> ucast out,
      Total \<mapsto> ucast (i + cached_count c + cached_count r + out)] ++
     (\<lambda>k. if k = CachedInput then map_option ucast r
          else if k = CacheCreationInput then map_option ucast c else None)"
proof (rule ext)
  fix k
  show "usage_view (ExtractTokenUsageFromExplicitCaching i out r c) k =
     ([Input \<mapsto> ucast (i + cached_count c + cached_count r), Output \<mapsto> ucast out,
      Total \<mapsto> ucast (i + cached_count c + cached_count r + out)] ++
     (\<lambda>k. if k = CachedInput then map_option ucast r
          else if k = CacheCreationInput then map_option ucast c else None)) k"
    by (cases k; cases r; cases c)
      (simp_all add: ExtractTokenUsageFromExplicitCaching_def usage_setters no_usage_def map_add_def)
qed

text \<open>
  C37. For explicit caching the reported input is the uncached input plus the cache writes and reads,
  and the total is that plus the output, as long as the total fits 32 bits; beyond that both wrap
  around modulo \<open>2 ^ 32\<close>.
\<close>

theorem ExtractTokenUsage_counts:
  assumes "unat i + unat (cached_count c) + unat (cached_count r) + unat out < 2 ^ 32"
  shows "map_option unat (usage_view (ExtractTokenUsageFromExplicitCaching i out r c) Input) =
      Some (unat i + unat (cached_count c) + unat (cached_count r)) \<and>
    map_option unat (usage_view (ExtractTokenUsageFromExplicitCaching i out r c) Total) =
      Some (unat i + unat (cached_count c) + unat (cached_count r) + unat out)"
proof -
  have 1: "unat (i + cached_count c) = unat i + unat (cached_count c)"
    using assms by (subst unat_plus_if') simp
  then have 2: "unat (i + cached_count c + cached_count r) =
      unat i + unat (cached_count c) + unat (cached_count r)"
    using assms by (subst unat_plus_if') simp
  then have "unat (i + cached_count c + cached_count r + out) =
      unat i + unat (cached_count c) + unat (cached_count r) + unat out"
    using assms by (subst unat_plus_if') simp
  with 2 assms show ?thesis
    by (simp add: ExtractTokenUsage_view map_add_def unat_ucast_32)
qed

theorem ExtractTokenUsage_counts_witness:
  "map_option unat (usage_view (ExtractTokenUsageFromExplicitCaching 10 5 (Some 3) (Some 2)) Input) = Some 15 \<and>
   map_option unat (usage_view (ExtractTokenUsageFromExplicitCaching 10 5 (Some 3) (Some 2)) Total) = Some 20"
  using ExtractTokenUsage_counts [of 10 "Some 2" "Some 3" 5] by simp

end
