(* ===== verification/Filter_Config.thy ===== *)
theory Filter_Config
  imports Internal_API Token_Usage
begin

text \<open>
  \<^verbatim>\<open>internal/filterapi\<close> and \<^verbatim>\<open>internal/llmcostcel\<close>: the
  configuration that the controller writes and the external processor loads, and its runtime form
  with authentication handlers and compiled cost programs. The handlers, the CEL implementation and
  the file-id codec are arguments: \<open>'h\<close>, \<open>'p\<close> and \<open>'c\<close> are the types of
  handlers, compiled programs and codecs.
\<close>

section \<open>Configuration data\<close>

datatype LLMRequestCostType =
    CostOutputToken | CostInputToken | CostCachedInputToken | CostCacheCreationInputToken
  | CostTotalToken | CostReasoningToken | CostCEL | CostUnknown string

datatype APISchemaName =
    APISchemaOpenAI | APISchemaCohere | APISchemaAWSBedrock | APISchemaAzureOpenAI
  | APISchemaGCPVertexAI | APISchemaGCPAnthropic | APISchemaAnthropic | APISchemaAWSAnthropic
  | APISchemaAWSOpenAI | APISchemaTypeSafe | APISchemaOther string

fun schema_text :: "APISchemaName \<Rightarrow> string" where
  "schema_text APISchemaOpenAI = ''OpenAI''"
| "schema_text APISchemaCohere = ''Cohere''"
| "schema_text APISchemaAWSBedrock = ''AWSBedrock''"
| "schema_text APISchemaAzureOpenAI = ''AzureOpenAI''"
| "schema_text APISchemaGCPVertexAI = ''GCPVertexAI''"
| "schema_text APISchemaGCPAnthropic = ''GCPAnthropic''"
| "schema_text APISchemaAnthropic = ''Anthropic''"
| "schema_text APISchemaAWSAnthropic = ''AWSAnthropic''"
| "schema_text APISchemaAWSOpenAI = ''AWSOpenAI''"
| "schema_text APISchemaTypeSafe = ''TypeSafe''"
| "schema_text (APISchemaOther s) = s"

record VersionedAPISchema =
  schema_Name :: APISchemaName
  schema_Version :: string
  schema_Prefix :: string

definition OpenAIPrefix :: "VersionedAPISchema \<Rightarrow> string" where
  "OpenAIPrefix v = (if schema_Name v = APISchemaAWSOpenAI \<and> schema_Prefix v = [] then ''openai/v1''
     else schema_Prefix v)"

definition AnthropicPrefix :: "VersionedAPISchema \<Rightarrow> string" where
  "AnthropicPrefix v = (if schema_Prefix v = [] then ''v1'' else schema_Prefix v)"

record GlobalLLMRequestCost =
  gc_MetadataKey :: string
  gc_Type :: LLMRequestCostType
  gc_CEL :: string

record LLMRequestCost =
  rc_MetadataKey :: string
  rc_RouteName :: string
  rc_Type :: LLMRequestCostType
  rc_CEL :: string
  rc_Backend :: string
  rc_Model :: string

record Model =
  model_Name :: string
  model_OwnedBy :: string
  model_CreatedAt :: int

record HTTPHeaderMutation =
  hm_Set :: "header list"
  hm_Remove :: "string list"

record HTTPBodyMutation =
  bm_Set :: "(string \<times> string) list"
  bm_Remove :: "string list"

record HTTPHeaderValueFilter =
  hvf_Name :: string
  hvf_Mode :: string
  hvf_Values :: "string list"

record CredentialOverride =
  co_HeaderName :: string
  co_DynamicMetadataNamespace :: string
  co_DynamicMetadataKey :: string
  co_FallbackToConfigured :: bool
  co_InputHeadersToRemove :: "string list"

record AWSAuth =
  aws_CredentialFileLiteral :: string
  aws_Region :: string

record OpenAIAuth =
  oai_AccessToken :: string
  oai_Organization :: string
  oai_Project :: string

record GCPAuth =
  gcp_AccessToken :: string
  gcp_Region :: string
  gcp_ProjectName :: string

record BackendAuth =
  auth_APIKey :: "string option"
  auth_AWSAuth :: "AWSAuth option"
  auth_AzureAPIKey :: "string option"
  auth_AnthropicAPIKey :: "string option"
  auth_AzureAuth :: "string option"
  auth_GCPAuth :: "GCPAuth option"
  auth_OpenAIAuth :: "OpenAIAuth option"
  auth_CredentialOverride :: "CredentialOverride option"

record Backend =
  be_Name :: string
  be_AIServiceBackendName :: string
  be_ModelNameOverride :: string
  be_Schema :: VersionedAPISchema
  be_Auth :: "BackendAuth option"
  be_HeaderMutation :: "HTTPHeaderMutation option"
  be_BodyMutation :: "HTTPBodyMutation option"
  be_HeaderValueFilters :: "HTTPHeaderValueFilter list"

record FileIDEncryption =
  fe_Seed :: string
  fe_Iterations :: int
  fe_FallbackSeed :: string
  fe_FallbackIterations :: int

text \<open>The MCP part of the configuration is not read by the processors modelled here.\<close>

record Config =
  cfg_Version :: string
  cfg_UUID :: string
  cfg_GlobalLLMRequestCosts :: "GlobalLLMRequestCost list"
  cfg_LLMRequestCosts :: "LLMRequestCost list"
  cfg_Backends :: "Backend list"
  cfg_Models :: "Model list"
  cfg_ModelsByHost :: "string \<Rightarrow> Model list option option"
  cfg_UnscopedModels :: "Model list"
  cfg_FileIDEncryption :: "FileIDEncryption option"

section \<open>What is logged of a credential\<close>

text \<open>A log value is the list of the attributes of its group.\<close>

datatype log_value = LogString string | LogInt int | LogBool bool

type_synonym log_group = "(string \<times> log_value) list"

definition redacted :: log_value where
  "redacted = LogString ''[REDACTED]''"

definition FileIDEncryption_LogValue :: "FileIDEncryption \<Rightarrow> log_group" where
  "FileIDEncryption_LogValue e =
     [(''seed'', redacted), (''iterations'', LogInt (fe_Iterations e)),
      (''fallbackSeedSet'', LogBool (fe_FallbackSeed e \<noteq> [])),
      (''fallbackIterations'', LogInt (fe_FallbackIterations e))]"

definition AWSAuth_LogValue :: "AWSAuth \<Rightarrow> log_group" where
  "AWSAuth_LogValue a = [(''credentialFileLiteral'', redacted), (''region'', LogString (aws_Region a))]"

definition APIKeyAuth_LogValue :: "string \<Rightarrow> log_group" where
  "APIKeyAuth_LogValue key = [(''key'', redacted)]"

definition AzureAPIKeyAuth_LogValue :: "string \<Rightarrow> log_group" where
  "AzureAPIKeyAuth_LogValue key = [(''key'', redacted)]"

definition AnthropicAPIKeyAuth_LogValue :: "string \<Rightarrow> log_group" where
  "AnthropicAPIKeyAuth_LogValue key = [(''key'', redacted)]"

definition AzureAuth_LogValue :: "string \<Rightarrow> log_group" where
  "AzureAuth_LogValue accessToken = [(''accessToken'', redacted)]"

definition OpenAIAuth_LogValue :: "OpenAIAuth \<Rightarrow> log_group" where
  "OpenAIAuth_LogValue a =
     [(''accessToken'', redacted), (''organization'', LogString (oai_Organization a)),
      (''project'', LogString (oai_Project a))]"

definition GCPAuth_LogValue :: "GCPAuth \<Rightarrow> log_group" where
  "GCPAuth_LogValue g =
     [(''accessToken'', redacted), (''region'', LogString (gcp_Region g)),
      (''projectName'', LogString (gcp_ProjectName g))]"

definition HTTPHeader_LogValue :: "header \<Rightarrow> log_group" where
  "HTTPHeader_LogValue h = [(''name'', LogString (fst h)), (''value'', redacted)]"

lemmas log_value_defs =
  FileIDEncryption_LogValue_def AWSAuth_LogValue_def APIKeyAuth_LogValue_def
  AzureAPIKeyAuth_LogValue_def AnthropicAPIKeyAuth_LogValue_def AzureAuth_LogValue_def
  OpenAIAuth_LogValue_def GCPAuth_LogValue_def HTTPHeader_LogValue_def

section \<open>Cost programs\<close>

text \<open>
  The CEL implementation is a pair of arguments: compiling an expression, and evaluating a program
  on the variables that the cost environment declares. A result is a 64-bit integer, a 64-bit
  unsigned integer or a value of another type.
\<close>

record cel_input =
  cel_model :: string
  cel_backend :: string
  cel_route_name :: string
  cel_input_tokens :: u32
  cel_cached_input_tokens :: u32
  cel_cache_creation_input_tokens :: u32
  cel_output_tokens :: u32
  cel_total_tokens :: u32
  cel_reasoning_tokens :: u32

datatype cel_value = CelInt u64 | CelUint u64 | CelOther string

type_synonym 'p cel_eval = "'p \<Rightarrow> cel_input \<Rightarrow> go_error + cel_value"
type_synonym 'p cel_compile = "string \<Rightarrow> go_error + 'p"

definition EvaluateProgram :: "'p cel_eval \<Rightarrow> 'p \<Rightarrow> cel_input \<Rightarrow> go_error + u64" where
  "EvaluateProgram ev prog inp =
     (case ev prog inp of
        Inl e \<Rightarrow> Inl (wrapf ''failed to evaluate CEL expression: '' e)
      | Inr (CelInt result) \<Rightarrow>
          if sint result < 0 then Inl (errorf ''CEL expression result is negative'') else Inr result
      | Inr (CelUint result) \<Rightarrow> Inr result
      | Inr (CelOther t) \<Rightarrow> Inl (errorf (''CEL expression result is not an integer, got '' @ t)))"

definition dummy_input :: cel_input where
  "dummy_input = \<lparr>cel_model = ''dummy'', cel_backend = ''dummy'', cel_route_name = ''dummy'',
     cel_input_tokens = 0, cel_cached_input_tokens = 0, cel_cache_creation_input_tokens = 0,
     cel_output_tokens = 0, cel_total_tokens = 0, cel_reasoning_tokens = 0\<rparr>"

definition NewProgram :: "'p cel_compile \<Rightarrow> 'p cel_eval \<Rightarrow> string \<Rightarrow> go_error + 'p" where
  "NewProgram compile ev expr =
     (case compile expr of
        Inl e \<Rightarrow> Inl (wrapf ''cannot compile CEL expression: '' e)
      | Inr prog \<Rightarrow>
          (case EvaluateProgram ev prog dummy_input of
             Inl e \<Rightarrow> Inl (wrapf ''failed to evaluate CEL expression: '' e)
           | Inr _ \<Rightarrow> Inr prog))"

section \<open>The runtime configuration\<close>

record 'h RuntimeBackend =
  rb_Backend :: Backend
  rb_Handler :: "'h option"

record 'p RuntimeGlobalRequestCost =
  rgc_Cost :: GlobalLLMRequestCost
  rgc_CELProg :: "'p option"

record 'p RuntimeRequestCost =
  rrc_Cost :: LLMRequestCost
  rrc_CELProg :: "'p option"

record ('h, 'p, 'c) RuntimeConfig =
  rt_UUID :: string
  rt_GlobalRequestCosts :: "'p RuntimeGlobalRequestCost list"
  rt_RequestCosts :: "'p RuntimeRequestCost list"
  rt_DeclaredModels :: "Model list"
  rt_ModelsByHost :: "string \<Rightarrow> Model list option option"
  rt_UnscopedModels :: "Model list"
  rt_Backends :: "string \<Rightarrow> 'h RuntimeBackend option"
  rt_FileIDCodec :: "'c option"

fun runtime_backends ::
  "(BackendAuth \<Rightarrow> go_error + 'h) \<Rightarrow> Backend list \<Rightarrow> (string \<Rightarrow> 'h RuntimeBackend option) \<Rightarrow>
   go_error + (string \<Rightarrow> 'h RuntimeBackend option)" where
  "runtime_backends fn [] backends = Inr backends"
| "runtime_backends fn (b # bs) backends =
     (case be_Auth b of
        None \<Rightarrow> runtime_backends fn bs (backends(be_Name b \<mapsto> \<lparr>rb_Backend = b, rb_Handler = None\<rparr>))
      | Some auth \<Rightarrow>
          (case fn auth of
             Inl e \<Rightarrow> Inl (wrapf ''cannot create backend auth handler: '' e)
           | Inr h \<Rightarrow> runtime_backends fn bs (backends(be_Name b \<mapsto> \<lparr>rb_Backend = b, rb_Handler = Some h\<rparr>))))"

definition optional_program :: "(string \<Rightarrow> go_error + 'p) \<Rightarrow> string \<Rightarrow> go_error + 'p option" where
  "optional_program newProgram cel =
     (if cel = [] then Inr None else case newProgram cel of Inl e \<Rightarrow> Inl e | Inr p \<Rightarrow> Inr (Some p))"

fun global_costs ::
  "(string \<Rightarrow> go_error + 'p) \<Rightarrow> GlobalLLMRequestCost list \<Rightarrow> go_error + 'p RuntimeGlobalRequestCost list" where
  "global_costs np [] = Inr []"
| "global_costs np (c # cs) =
     (case optional_program np (gc_CEL c) of
        Inl e \<Rightarrow> Inl (wrapf ''cannot create CEL program for global cost: '' e)
      | Inr prog \<Rightarrow>
          (case global_costs np cs of
             Inl e \<Rightarrow> Inl e
           | Inr rs \<Rightarrow> Inr (\<lparr>rgc_Cost = c, rgc_CELProg = prog\<rparr> # rs)))"

fun route_costs ::
  "(string \<Rightarrow> go_error + 'p) \<Rightarrow> LLMRequestCost list \<Rightarrow> go_error + 'p RuntimeRequestCost list" where
  "route_costs np [] = Inr []"
| "route_costs np (c # cs) =
     (if rc_RouteName c = []
      then Inl (errorf (''route-scoped LLMRequestCost with metadataKey='' @ rc_MetadataKey c @
             '' must have non-empty RouteName''))
      else (case optional_program np (rc_CEL c) of
              Inl e \<Rightarrow> Inl (wrapf ''cannot create CEL program for cost: '' e)
            | Inr prog \<Rightarrow>
                (case route_costs np cs of
                   Inl e \<Rightarrow> Inl e
                 | Inr rs \<Rightarrow> Inr (\<lparr>rrc_Cost = c, rrc_CELProg = prog\<rparr> # rs))))"

definition NewRuntimeConfig ::
  "(string \<Rightarrow> go_error + 'p) \<Rightarrow> (FileIDEncryption \<Rightarrow> go_error + 'c) \<Rightarrow> Config \<Rightarrow>
   (BackendAuth \<Rightarrow> go_error + 'h) \<Rightarrow> go_error + ('h, 'p, 'c) RuntimeConfig" where
  "NewRuntimeConfig newProgram newCodec config fn =
     (case runtime_backends fn (cfg_Backends config) Map.empty of
        Inl e \<Rightarrow> Inl e
      | Inr backends \<Rightarrow>
     (case global_costs newProgram (cfg_GlobalLLMRequestCosts config) of
        Inl e \<Rightarrow> Inl e
      | Inr globalCosts \<Rightarrow>
     (case route_costs newProgram (cfg_LLMRequestCosts config) of
        Inl e \<Rightarrow> Inl e
      | Inr costs \<Rightarrow>
     (case (case cfg_FileIDEncryption config of
              None \<Rightarrow> Inr None
            | Some e \<Rightarrow> (case newCodec e of Inl er \<Rightarrow> Inl (wrapf ''cannot create file id codec: '' er)
                                      | Inr c \<Rightarrow> Inr (Some c))) of
        Inl e \<Rightarrow> Inl e
      | Inr codec \<Rightarrow>
          Inr \<lparr>rt_UUID = cfg_UUID config, rt_GlobalRequestCosts = globalCosts, rt_RequestCosts = costs,
               rt_DeclaredModels = cfg_Models config, rt_ModelsByHost = cfg_ModelsByHost config,
               rt_UnscopedModels = cfg_UnscopedModels config, rt_Backends = backends,
               rt_FileIDCodec = codec\<rparr>))))"

section \<open>Properties of cost programs\<close>

text \<open>
  The cost that a program evaluates to is the mathematical value of its result: a negative
  integer, a value of another type and an evaluation error are errors, and conversion of a
  non-negative 64-bit integer to unsigned loses nothing.
\<close>

theorem EvaluateProgram_value:
  "EvaluateProgram ev prog inp = Inr c \<longleftrightarrow>
     (\<exists>r. ev prog inp = Inr (CelInt r) \<and> 0 \<le> sint r \<and> uint c = sint r) \<or>
     ev prog inp = Inr (CelUint c)"
proof -
  have "uint c = sint r \<Longrightarrow> 0 \<le> sint r \<Longrightarrow> c = r" for r :: u64
    by (metis uint_eq_sint_iff word_uint_eq_iff)
  moreover have "\<not> sint r < 0 \<Longrightarrow> uint r = sint r" for r :: u64
    by (simp add: uint_eq_sint_iff)
  ultimately show ?thesis
    by (fastforce simp: EvaluateProgram_def split: sum.splits cel_value.splits if_splits)
qed

section \<open>Properties of the runtime configuration\<close>

lemma global_costs_sound:
  "global_costs np cs = Inr rs \<Longrightarrow> map rgc_Cost rs = cs \<and>
     (\<forall>r \<in> set rs. optional_program np (gc_CEL (rgc_Cost r)) = Inr (rgc_CELProg r))"
  by (induction cs arbitrary: rs) (auto split: sum.splits)

lemma route_costs_sound:
  "route_costs np cs = Inr rs \<Longrightarrow> map rrc_Cost rs = cs \<and>
     (\<forall>r \<in> set rs. rc_RouteName (rrc_Cost r) \<noteq> [] \<and>
        optional_program np (rc_CEL (rrc_Cost r)) = Inr (rrc_CELProg r))"
  by (induction cs arbitrary: rs) (auto split: sum.splits if_splits)

lemma runtime_backends_dom:
  "runtime_backends fn bs m = Inr m' \<Longrightarrow> dom m' = dom m \<union> be_Name ` set bs"
  by (induction bs arbitrary: m) (auto split: option.splits sum.splits)

lemma runtime_backends_entry:
  "runtime_backends fn bs m = Inr m' \<Longrightarrow> m' k = Some rb \<Longrightarrow>
     m k = Some rb \<or> (rb_Backend rb \<in> set bs \<and> be_Name (rb_Backend rb) = k \<and>
       (rb_Handler rb = None \<longleftrightarrow> be_Auth (rb_Backend rb) = None) \<and>
       (\<forall>auth. be_Auth (rb_Backend rb) = Some auth \<longrightarrow> (\<exists>h. fn auth = Inr h \<and> rb_Handler rb = Some h)))"
proof (induction bs arbitrary: m)
  case Nil
  then show ?case by simp
next
  case (Cons b bs)
  then show ?case
    by (auto split: option.splits sum.splits if_splits) (fastforce split: if_splits)+
qed

text \<open>
  C38. A configuration that loads is faithful: every cost rule of the configuration is present, in
  order, with the program compiled from its own expression; every route-scoped rule names its route;
  the backend table has exactly the configured names, each entry is a configured backend under its
  own name, and it has an authentication handler exactly when authentication is configured.
\<close>

theorem NewRuntimeConfig_faithful:
  assumes "NewRuntimeConfig newProgram newCodec config fn = Inr rt"
  shows "map rrc_Cost (rt_RequestCosts rt) = cfg_LLMRequestCosts config \<and>
    map rgc_Cost (rt_GlobalRequestCosts rt) = cfg_GlobalLLMRequestCosts config \<and>
    (\<forall>r \<in> set (rt_RequestCosts rt). rc_RouteName (rrc_Cost r) \<noteq> [] \<and>
       optional_program newProgram (rc_CEL (rrc_Cost r)) = Inr (rrc_CELProg r)) \<and>
    (\<forall>r \<in> set (rt_GlobalRequestCosts rt).
       optional_program newProgram (gc_CEL (rgc_Cost r)) = Inr (rgc_CELProg r)) \<and>
    dom (rt_Backends rt) = be_Name ` set (cfg_Backends config) \<and>
    (\<forall>k rb. rt_Backends rt k = Some rb \<longrightarrow> rb_Backend rb \<in> set (cfg_Backends config) \<and>
       be_Name (rb_Backend rb) = k \<and> (rb_Handler rb = None \<longleftrightarrow> be_Auth (rb_Backend rb) = None))"
proof -
  from assms obtain backends gs rs where
    b: "runtime_backends fn (cfg_Backends config) Map.empty = Inr backends" and
    g: "global_costs newProgram (cfg_GlobalLLMRequestCosts config) = Inr gs" and
    r: "route_costs newProgram (cfg_LLMRequestCosts config) = Inr rs" and
    rt: "rt_Backends rt = backends" "rt_GlobalRequestCosts rt = gs" "rt_RequestCosts rt = rs"
    by (auto simp: NewRuntimeConfig_def split: sum.splits)
  show ?thesis
    using global_costs_sound [OF g] route_costs_sound [OF r] runtime_backends_dom [OF b]
      runtime_backends_entry [OF b] by (simp add: rt)
qed

definition sample_backend :: Backend where
  "sample_backend = \<lparr>be_Name = ''b'', be_AIServiceBackendName = [], be_ModelNameOverride = [],
     be_Schema = \<lparr>schema_Name = APISchemaOpenAI, schema_Version = [], schema_Prefix = ''v1''\<rparr>,
     be_Auth = None, be_HeaderMutation = None, be_BodyMutation = None, be_HeaderValueFilters = []\<rparr>"

definition sample_config :: Config where
  "sample_config = \<lparr>cfg_Version = ''dev'', cfg_UUID = ''u'', cfg_GlobalLLMRequestCosts = [\<lparr>gc_MetadataKey = ''k'', gc_Type = CostCEL, gc_CEL = ''1''\<rparr>],
     cfg_LLMRequestCosts = [\<lparr>rc_MetadataKey = ''k'', rc_RouteName = ''r'', rc_Type = CostInputToken, rc_CEL = [],
       rc_Backend = [], rc_Model = []\<rparr>],
     cfg_Backends = [sample_backend], cfg_Models = [], cfg_ModelsByHost = Map.empty, cfg_UnscopedModels = [],
     cfg_FileIDEncryption = None\<rparr>"

theorem NewRuntimeConfig_faithful_witness:
  "\<exists>rt :: (unit, string, unit) RuntimeConfig.
     NewRuntimeConfig (\<lambda>e. Inr e) (\<lambda>_. Inr ()) sample_config (\<lambda>_. Inr ()) = Inr rt \<and>
     dom (rt_Backends rt) = {''b''}"
proof -
  obtain rt :: "(unit, string, unit) RuntimeConfig" where
    rt: "NewRuntimeConfig (\<lambda>e. Inr e) (\<lambda>_. Inr ()) sample_config (\<lambda>_. Inr ()) = Inr rt"
    by (simp add: NewRuntimeConfig_def sample_config_def sample_backend_def optional_program_def)
  then show ?thesis
    using NewRuntimeConfig_faithful [OF rt] by (auto simp: sample_config_def sample_backend_def)
qed

text \<open>
  A route-scoped cost rule without a route name makes the whole configuration fail to load,
  unless an earlier part of it fails first; no runtime configuration ever holds one.
\<close>

theorem NewRuntimeConfig_rejects_unnamed_route:
  assumes "c \<in> set (cfg_LLMRequestCosts config)" and "rc_RouteName c = []"
  shows "\<exists>e. NewRuntimeConfig newProgram newCodec config fn = Inl e"
proof (cases "NewRuntimeConfig newProgram newCodec config fn")
  case (Inr rt)
  then obtain rs where "route_costs newProgram (cfg_LLMRequestCosts config) = Inr rs"
    by (auto simp: NewRuntimeConfig_def split: sum.splits)
  from route_costs_sound [OF this] assms show ?thesis by (metis image_iff list.set_map)
qed simp

theorem NewRuntimeConfig_rejects_unnamed_route_witness:
  "\<exists>e. NewRuntimeConfig (\<lambda>e. Inr e) (\<lambda>_. Inr ())
     (sample_config\<lparr>cfg_LLMRequestCosts := [\<lparr>rc_MetadataKey = ''k'', rc_RouteName = [], rc_Type = CostInputToken,
        rc_CEL = [], rc_Backend = [], rc_Model = []\<rparr>]\<rparr>) (\<lambda>_. Inr ()) = Inl e"
  by (rule NewRuntimeConfig_rejects_unnamed_route
        [where c = "\<lparr>rc_MetadataKey = ''k'', rc_RouteName = [], rc_Type = CostInputToken,
        rc_CEL = [], rc_Backend = [], rc_Model = []\<rparr>"]) simp_all

text \<open>
  What is logged of a credential does not depend on its secret: two configurations that differ
  only in the key, token, credential file or seed have the same log value.
\<close>

theorem log_values_hide_secrets:
  "AWSAuth_LogValue a = AWSAuth_LogValue (a\<lparr>aws_CredentialFileLiteral := s\<rparr>) \<and>
   APIKeyAuth_LogValue k = APIKeyAuth_LogValue s \<and>
   AzureAPIKeyAuth_LogValue k = AzureAPIKeyAuth_LogValue s \<and>
   AnthropicAPIKeyAuth_LogValue k = AnthropicAPIKeyAuth_LogValue s \<and>
   AzureAuth_LogValue k = AzureAuth_LogValue s \<and>
   OpenAIAuth_LogValue oa = OpenAIAuth_LogValue (oa\<lparr>oai_AccessToken := s\<rparr>) \<and>
   GCPAuth_LogValue g = GCPAuth_LogValue (g\<lparr>gcp_AccessToken := s\<rparr>) \<and>
   HTTPHeader_LogValue (n, k) = HTTPHeader_LogValue (n, s) \<and>
   FileIDEncryption_LogValue e = FileIDEncryption_LogValue (e\<lparr>fe_Seed := s\<rparr>)"
  by (simp add: log_value_defs)

end
