(* ===== verification/Header_Mutator.thy ===== *)
theory Header_Mutator
  imports Filter_Config
begin

text \<open>
  \<^verbatim>\<open>internal/headermutator\<close>: the header mutation of a backend. On a retry the
  headers that an earlier attempt added or changed are still on the request, so the mutator also
  restores the original ones. The two iterations over Go maps take their order as arguments
  \<open>ord1\<close> and \<open>ord2\<close>. The main result is that the headers sent upstream on a
  retry depend on the original request and the configuration only.
\<close>

section \<open>The mutator\<close>

record HeaderMutator =
  mut_originalHeaders :: headers
  mut_headerMutations :: "HTTPHeaderMutation option"

definition NewHeaderMutator :: "HTTPHeaderMutation option \<Rightarrow> headers \<Rightarrow> HeaderMutator" where
  "NewHeaderMutator headerMutations originalHeaders =
     \<lparr>mut_originalHeaders = originalHeaders, mut_headerMutations = headerMutations\<rparr>"

definition shouldIgnoreHeader :: "string \<Rightarrow> bool" where
  "shouldIgnoreHeader key =
     (HasPrefix key '':'' \<or> HasPrefix key EnvoyAIGatewayHeaderPrefix \<or>
      EqualFold key EnvoyOriginalPathHeader)"

text \<open>The local variables of \<open>Mutate\<close>: the headers map and the named results, with the two sets.\<close>

record mut_state =
  ms_headers :: headers
  ms_removedHeadersSet :: "string list"
  ms_setHeadersSet :: "string list"
  ms_sets :: "header list"
  ms_removes :: "string list"

definition remove_body :: "string \<Rightarrow> mut_state \<Rightarrow> mut_state" where
  "remove_body key s =
     (if shouldIgnoreHeader key then s
      else let s1 = s\<lparr>ms_removedHeadersSet := key # ms_removedHeadersSet s\<rparr>
           in if ms_headers s key \<noteq> None then s1\<lparr>ms_removes := ms_removes s @ [key]\<rparr> else s1)"

definition set_body :: "header \<Rightarrow> mut_state \<Rightarrow> mut_state" where
  "set_body h s =
     (let key = fst h in
      if shouldIgnoreHeader key then s
      else s\<lparr>ms_setHeadersSet := key # ms_setHeadersSet s, ms_headers := (ms_headers s)(key \<mapsto> snd h),
             ms_sets := ms_sets s @ [(key, snd h)]\<rparr>)"

definition restore_body :: "headers \<Rightarrow> string \<Rightarrow> mut_state \<Rightarrow> mut_state" where
  "restore_body orig key s =
     (if shouldIgnoreHeader key then s
      else let v = mget orig key;
               isRemoved = key \<in> set (ms_removedHeadersSet s);
               isSet = key \<in> set (ms_setHeadersSet s);
               exists = ms_headers s key \<noteq> None
           in if \<not> exists \<and> \<not> isSet
              then let s1 = s\<lparr>ms_headers := (ms_headers s)(key \<mapsto> v)\<rparr>
                   in if \<not> isRemoved
                      then s1\<lparr>ms_setHeadersSet := key # ms_setHeadersSet s, ms_sets := ms_sets s @ [(key, v)]\<rparr>
                      else s1
              else s)"

definition cleanup_body :: "headers \<Rightarrow> string \<Rightarrow> mut_state \<Rightarrow> mut_state" where
  "cleanup_body orig key s =
     (if shouldIgnoreHeader key then s
      else if key \<in> set (ms_removedHeadersSet s) \<or> key \<in> set (ms_setHeadersSet s) then s
      else (case orig key of
              None \<Rightarrow> s\<lparr>ms_headers := mdel (ms_headers s) key, ms_removes := ms_removes s @ [key]\<rparr>
            | Some originalValue \<Rightarrow>
                s\<lparr>ms_headers := (ms_headers s)(key \<mapsto> originalValue),
                  ms_sets := ms_sets s @ [(key, originalValue)]\<rparr>))"

definition Mutate ::
  "HeaderMutator \<Rightarrow> string list \<Rightarrow> string list \<Rightarrow> headers \<Rightarrow> bool \<Rightarrow> headers \<times> header list \<times> string list" where
  "Mutate h ord1 ord2 hdrs onRetry =
     (let (sets, removes) = (case mut_headerMutations h of None \<Rightarrow> ([], []) | Some m \<Rightarrow> (hm_Set m, hm_Remove m));
          s0 = \<lparr>ms_headers = hdrs, ms_removedHeadersSet = [], ms_setHeadersSet = [], ms_sets = [], ms_removes = []\<rparr>;
          s1 = fold remove_body removes s0;
          s2 = fold set_body sets s1;
          s4 = (if onRetry
                then let orig = mut_originalHeaders h;
                         s3 = fold (restore_body orig) (range_keys ord1 orig) s2
                     in fold (cleanup_body orig) (range_keys ord2 (ms_headers s3)) s3
                else s2)
      in (ms_headers s4, ms_sets s4, ms_removes s4))"

section \<open>Specification\<close>

text \<open>
  The header mutation as Envoy applies it to the request: removals first, then the sets in order,
  each overwriting. \<open>mutated_spec\<close> says what one header should be afterwards, given the
  headers \<open>base\<close> that count as unmodified: those on the wire at a first attempt, the original
  ones on a retry.
\<close>

definition apply_mutation :: "header list \<Rightarrow> string list \<Rightarrow> headers \<Rightarrow> headers" where
  "apply_mutation sets removes wire =
     foldl (\<lambda>m (k, v). m(k \<mapsto> v)) (\<lambda>k. if k \<in> set removes then None else wire k) sets"

definition configured_set :: "HeaderMutator \<Rightarrow> string \<Rightarrow> string option" where
  "configured_set h k =
     (case mut_headerMutations h of None \<Rightarrow> None | Some m \<Rightarrow> map_of (rev (hm_Set m)) k)"

definition configured_remove :: "HeaderMutator \<Rightarrow> string \<Rightarrow> bool" where
  "configured_remove h k =
     (case mut_headerMutations h of None \<Rightarrow> False | Some m \<Rightarrow> k \<in> set (hm_Remove m))"

definition mutated_spec :: "HeaderMutator \<Rightarrow> headers \<Rightarrow> headers \<Rightarrow> headers" where
  "mutated_spec h wire base k =
     (if shouldIgnoreHeader k then wire k
      else case configured_set h k of
             Some v \<Rightarrow> Some v
           | None \<Rightarrow> if configured_remove h k then None else base k)"

section \<open>The loops\<close>

lemma foldl_sets_apply:
  "foldl (\<lambda>m (k, v). m(k \<mapsto> v)) m0 sets k = (case map_of (rev sets) k of None \<Rightarrow> m0 k | Some v \<Rightarrow> Some v)"
proof (induction sets rule: rev_induct)
  case Nil
  then show ?case by simp
next
  case (snoc x xs)
  then show ?case by (cases x) auto
qed

lemma apply_mutation_apply:
  "apply_mutation sets removes wire k =
     (case map_of (rev sets) k of Some v \<Rightarrow> Some v | None \<Rightarrow> if k \<in> set removes then None else wire k)"
  by (simp add: apply_mutation_def foldl_sets_apply option.case_eq_if)

text \<open>
  Each loop touches a header at its own key only. We follow one key \<open>k\<close> through the loops
  by its part of the state: its value in the map, whether it is in the two sets, the value that the
  sets give it, and whether it is in the removals.
\<close>

definition key_view :: "string \<Rightarrow> mut_state \<Rightarrow> string option \<times> bool \<times> bool \<times> string option \<times> bool" where
  "key_view k s = (ms_headers s k, k \<in> set (ms_removedHeadersSet s), k \<in> set (ms_setHeadersSet s),
     map_of (rev (ms_sets s)) k, k \<in> set (ms_removes s))"

lemma body_frame:
  "k \<noteq> key \<Longrightarrow> key_view k (remove_body key s) = key_view k s"
  "k \<noteq> fst h \<Longrightarrow> key_view k (set_body h s) = key_view k s"
  "k \<noteq> key \<Longrightarrow> key_view k (restore_body orig key s) = key_view k s"
  "k \<noteq> key \<Longrightarrow> key_view k (cleanup_body orig key s) = key_view k s"
  by (auto simp: key_view_def remove_body_def set_body_def restore_body_def cleanup_body_def Let_def
      split: option.splits)

lemma body_ignored:
  "shouldIgnoreHeader key \<Longrightarrow> remove_body key s = s"
  "shouldIgnoreHeader (fst h) \<Longrightarrow> set_body h s = s"
  "shouldIgnoreHeader key \<Longrightarrow> restore_body orig key s = s"
  "shouldIgnoreHeader key \<Longrightarrow> cleanup_body orig key s = s"
  by (simp_all add: remove_body_def set_body_def restore_body_def cleanup_body_def Let_def)

lemma fold_frame:
  assumes "\<And>x s. x \<in> set xs \<Longrightarrow> key_view k (f x s) = key_view k s"
  shows "key_view k (fold f xs s) = key_view k s"
  using assms by (induction xs arbitrary: s) simp_all

lemma ignored_frame:
  assumes "shouldIgnoreHeader k"
  shows "key_view k (remove_body x s) = key_view k s"
    and "key_view k (set_body h s) = key_view k s"
    and "key_view k (restore_body orig x s) = key_view k s"
    and "key_view k (cleanup_body orig x s) = key_view k s"
  using assms body_frame body_ignored by metis+

lemma fold_distinct_at:
  assumes "distinct xs" and "k \<in> set xs"
    and "\<And>x s. x \<noteq> k \<Longrightarrow> key_view k (f x s) = key_view k s"
    and "\<And>s t. key_view k s = key_view k t \<Longrightarrow> key_view k (f k s) = key_view k (f k t)"
  shows "key_view k (fold f xs s) = key_view k (f k s)"
  using assms(1,2)
proof (induction xs arbitrary: s)
  case Nil
  then show ?case by simp
next
  case (Cons x xs)
  show ?case
  proof (cases "x = k")
    case True
    with Cons have "k \<notin> set xs" by simp
    then have "key_view k (fold f xs (f k s)) = key_view k (f k s)"
      by (intro fold_frame) (metis assms(3))
    with True show ?thesis by simp
  next
    case False
    with Cons have "key_view k (fold f xs (f x s)) = key_view k (f k (f x s))" by simp
    also have "\<dots> = key_view k (f k s)" using assms(3) [OF False] assms(4) by blast
    finally show ?thesis by simp
  qed
qed

lemma restore_cong: "key_view k s = key_view k t \<Longrightarrow> key_view k (restore_body orig k s) = key_view k (restore_body orig k t)"
  by (auto simp: key_view_def restore_body_def Let_def)

lemma cleanup_cong: "key_view k s = key_view k t \<Longrightarrow> key_view k (cleanup_body orig k s) = key_view k (cleanup_body orig k t)"
  by (auto simp: key_view_def cleanup_body_def Let_def split: option.splits)

lemma remove_loop_view:
  assumes "\<not> shouldIgnoreHeader k"
  shows "key_view k (fold remove_body ks s) =
    (ms_headers s k, k \<in> set (ms_removedHeadersSet s) \<or> k \<in> set ks, k \<in> set (ms_setHeadersSet s),
     map_of (rev (ms_sets s)) k, k \<in> set (ms_removes s) \<or> (k \<in> set ks \<and> ms_headers s k \<noteq> None))"
proof (induction ks arbitrary: s rule: rev_induct)
  case Nil
  then show ?case by (simp add: key_view_def)
next
  case (snoc key ks)
  define t where "t = fold remove_body ks s"
  have step: "key_view k (remove_body key t) = (if k = key
     then (ms_headers t k, True, k \<in> set (ms_setHeadersSet t), map_of (rev (ms_sets t)) k,
           k \<in> set (ms_removes t) \<or> ms_headers t k \<noteq> None)
     else key_view k t)"
    using assms body_frame(1) [of k key t] by (auto simp: key_view_def remove_body_def Let_def)
  have t: "ms_headers t k = ms_headers s k"
    "k \<in> set (ms_removedHeadersSet t) \<longleftrightarrow> k \<in> set (ms_removedHeadersSet s) \<or> k \<in> set ks"
    "k \<in> set (ms_setHeadersSet t) \<longleftrightarrow> k \<in> set (ms_setHeadersSet s)"
    "map_of (rev (ms_sets t)) k = map_of (rev (ms_sets s)) k"
    "k \<in> set (ms_removes t) \<longleftrightarrow> k \<in> set (ms_removes s) \<or> k \<in> set ks \<and> ms_headers s k \<noteq> None"
    using snoc [of s] by (simp_all add: t_def [symmetric] key_view_def)
  have "key_view k (remove_body key t) =
    (ms_headers s k, k \<in> set (ms_removedHeadersSet s) \<or> k \<in> set ks \<or> k = key,
     k \<in> set (ms_setHeadersSet s), map_of (rev (ms_sets s)) k,
     k \<in> set (ms_removes s) \<or> (k \<in> set ks \<or> k = key) \<and> ms_headers s k \<noteq> None)"
  proof (cases "k = key")
    case True
    then show ?thesis using step t by (simp add: key_view_def) blast
  next
    case False
    then show ?thesis using step t by (simp add: key_view_def)
  qed
  then show ?case by (simp add: t_def disj_commute)
qed

lemma set_loop_view:
  assumes "\<not> shouldIgnoreHeader k"
  shows "key_view k (fold set_body hs s) =
    ((case map_of (rev hs) k of Some v \<Rightarrow> Some v | None \<Rightarrow> ms_headers s k),
     k \<in> set (ms_removedHeadersSet s), k \<in> set (ms_setHeadersSet s) \<or> k \<in> fst ` set hs,
     (case map_of (rev hs) k of Some v \<Rightarrow> Some v | None \<Rightarrow> map_of (rev (ms_sets s)) k),
     k \<in> set (ms_removes s))"
proof (induction hs arbitrary: s rule: rev_induct)
  case Nil
  then show ?case by (simp add: key_view_def)
next
  case (snoc h hs)
  define t where "t = fold set_body hs s"
  have "key_view k (set_body h t) = (if k = fst h
     then (Some (snd h), k \<in> set (ms_removedHeadersSet t), True, Some (snd h), k \<in> set (ms_removes t))
     else key_view k t)"
    using assms body_frame(2) [of k h t] by (auto simp: key_view_def set_body_def Let_def)
  with snoc [of s] show ?case
    by (cases h) (auto simp: t_def [symmetric] key_view_def split: option.splits)
qed

lemma map_of_rev_None_iff: "map_of (rev hs) k = None \<longleftrightarrow> k \<notin> fst ` set hs"
  by (simp add: map_of_eq_None_iff)

section \<open>What Mutate does to one header\<close>

definition init_state :: "headers \<Rightarrow> mut_state" where
  "init_state hdrs =
     \<lparr>ms_headers = hdrs, ms_removedHeadersSet = [], ms_setHeadersSet = [], ms_sets = [], ms_removes = []\<rparr>"

definition after_sets :: "HeaderMutator \<Rightarrow> headers \<Rightarrow> mut_state" where
  "after_sets h hdrs =
     (case mut_headerMutations h of None \<Rightarrow> init_state hdrs
      | Some m \<Rightarrow> fold set_body (hm_Set m) (fold remove_body (hm_Remove m) (init_state hdrs)))"

definition after_restore :: "HeaderMutator \<Rightarrow> string list \<Rightarrow> headers \<Rightarrow> mut_state" where
  "after_restore h ord1 hdrs =
     fold (restore_body (mut_originalHeaders h)) (range_keys ord1 (mut_originalHeaders h)) (after_sets h hdrs)"

definition after_cleanup :: "HeaderMutator \<Rightarrow> string list \<Rightarrow> string list \<Rightarrow> headers \<Rightarrow> mut_state" where
  "after_cleanup h ord1 ord2 hdrs =
     fold (cleanup_body (mut_originalHeaders h)) (range_keys ord2 (ms_headers (after_restore h ord1 hdrs)))
       (after_restore h ord1 hdrs)"

lemma Mutate_eq:
  "Mutate h ord1 ord2 hdrs onRetry =
     (let s = (if onRetry then after_cleanup h ord1 ord2 hdrs else after_sets h hdrs)
      in (ms_headers s, ms_sets s, ms_removes s))"
  by (simp add: Mutate_def after_cleanup_def after_restore_def after_sets_def init_state_def Let_def
      split: option.splits)

lemma after_sets_view:
  "key_view k (after_sets h hdrs) =
     (if shouldIgnoreHeader k then (hdrs k, False, False, None, False)
      else ((case configured_set h k of Some v \<Rightarrow> Some v | None \<Rightarrow> hdrs k), configured_remove h k,
            configured_set h k \<noteq> None, configured_set h k, configured_remove h k \<and> hdrs k \<noteq> None))"
proof (cases "shouldIgnoreHeader k")
  case True
  have "key_view k (after_sets h hdrs) = key_view k (init_state hdrs)"
    by (simp add: after_sets_def fold_frame ignored_frame [OF True] split: option.splits)
  with True show ?thesis by (simp add: key_view_def init_state_def)
next
  case False
  show ?thesis
  proof (cases "mut_headerMutations h")
    case None
    with False show ?thesis
      by (simp add: after_sets_def init_state_def key_view_def configured_set_def configured_remove_def)
  next
    case (Some m)
    define t where "t = fold remove_body (hm_Remove m) (init_state hdrs)"
    have "key_view k t = (hdrs k, k \<in> set (hm_Remove m), False, None, k \<in> set (hm_Remove m) \<and> hdrs k \<noteq> None)"
      using remove_loop_view [OF False, of "hm_Remove m" "init_state hdrs"] by (simp add: t_def init_state_def)
    then have t: "ms_headers t k = hdrs k" "(k \<in> set (ms_removedHeadersSet t)) = (k \<in> set (hm_Remove m))"
      "k \<notin> set (ms_setHeadersSet t)" "map_of (rev (ms_sets t)) k = None"
      "(k \<in> set (ms_removes t)) = (k \<in> set (hm_Remove m) \<and> hdrs k \<noteq> None)"
      by (simp_all add: key_view_def)
    have "k \<in> fst ` set (hm_Set m) \<longleftrightarrow> map_of (rev (hm_Set m)) k \<noteq> None"
      by (simp add: map_of_rev_None_iff)
    with False Some set_loop_view [OF False, of "hm_Set m" t] show ?thesis
      by (simp add: after_sets_def t_def [symmetric] t configured_set_def configured_remove_def
          split: option.splits)
  qed
qed

lemma after_restore_view:
  assumes "enumerates ord1 (mut_originalHeaders h)"
  shows "key_view k (after_restore h ord1 hdrs) =
    (if mut_originalHeaders h k = None then key_view k (after_sets h hdrs)
     else key_view k (restore_body (mut_originalHeaders h) k (after_sets h hdrs)))"
proof (cases "mut_originalHeaders h k")
  case None
  then have "k \<notin> set (range_keys ord1 (mut_originalHeaders h))"
    using set_range_keys [OF assms] by (simp add: domIff)
  then have "key_view k (after_restore h ord1 hdrs) = key_view k (after_sets h hdrs)"
    unfolding after_restore_def by (intro fold_frame) (metis body_frame(3))
  with None show ?thesis by simp
next
  case (Some v)
  then have "k \<in> set (range_keys ord1 (mut_originalHeaders h))"
    using set_range_keys [OF assms] by (simp add: domIff)
  then have "key_view k (after_restore h ord1 hdrs) =
      key_view k (restore_body (mut_originalHeaders h) k (after_sets h hdrs))"
    unfolding after_restore_def
    by (rule fold_distinct_at [OF distinct_range_keys]) (metis body_frame(3), erule restore_cong)
  with Some show ?thesis by simp
qed

lemma after_cleanup_view:
  assumes "ms_headers (after_restore h ord1 hdrs) k \<noteq> None \<Longrightarrow> k \<in> set ord2"
  shows "key_view k (after_cleanup h ord1 ord2 hdrs) =
    (if ms_headers (after_restore h ord1 hdrs) k = None then key_view k (after_restore h ord1 hdrs)
     else key_view k (cleanup_body (mut_originalHeaders h) k (after_restore h ord1 hdrs)))"
proof (cases "ms_headers (after_restore h ord1 hdrs) k = None")
  case True
  then have "key_view k (after_cleanup h ord1 ord2 hdrs) = key_view k (after_restore h ord1 hdrs)"
    unfolding after_cleanup_def by (intro fold_frame) (auto simp: range_keys_def intro: body_frame(4))
  with True show ?thesis by simp
next
  case False
  with assms have "k \<in> set (range_keys ord2 (ms_headers (after_restore h ord1 hdrs)))"
    by (simp add: range_keys_def)
  then have "key_view k (after_cleanup h ord1 ord2 hdrs) =
      key_view k (cleanup_body (mut_originalHeaders h) k (after_restore h ord1 hdrs))"
    unfolding after_cleanup_def
    by (rule fold_distinct_at [OF distinct_range_keys]) (metis body_frame(4), erule cleanup_cong)
  with False show ?thesis by auto
qed

text \<open>The two retry loops at one key, as functions of its part of the state.\<close>

type_synonym key_state = "string option \<times> bool \<times> bool \<times> string option \<times> bool"

fun restore_step :: "string \<Rightarrow> key_state \<Rightarrow> key_state" where
  "restore_step ov (x, r, st, v, rm) =
     (if x = None \<and> \<not> st then (Some ov, r, \<not> r, if r then v else Some ov, rm) else (x, r, st, v, rm))"

fun cleanup_step :: "string option \<Rightarrow> key_state \<Rightarrow> key_state" where
  "cleanup_step ov (x, r, st, v, rm) =
     (if r \<or> st then (x, r, st, v, rm)
      else case ov of None \<Rightarrow> (None, r, st, v, True) | Some y \<Rightarrow> (Some y, r, st, Some y, rm))"

lemma restore_body_view:
  "\<not> shouldIgnoreHeader k \<Longrightarrow> key_view k (restore_body orig k s) = restore_step (mget orig k) (key_view k s)"
  by (auto simp: key_view_def restore_body_def Let_def)

lemma cleanup_body_view:
  "\<not> shouldIgnoreHeader k \<Longrightarrow> key_view k (cleanup_body orig k s) = cleanup_step (orig k) (key_view k s)"
  by (auto simp: key_view_def cleanup_body_def Let_def split: option.splits)

lemma ms_headers_view: "ms_headers s k = fst (key_view k s)"
  by (simp add: key_view_def)

lemma after_restore_plain:
  assumes "enumerates ord1 (mut_originalHeaders h)" and "\<not> shouldIgnoreHeader k"
  shows "key_view k (after_restore h ord1 hdrs) =
    (case mut_originalHeaders h k of None \<Rightarrow> key_view k (after_sets h hdrs)
     | Some ov \<Rightarrow> restore_step ov (key_view k (after_sets h hdrs)))"
  using assms by (auto simp: after_restore_view restore_body_view mget_def split: option.splits)

lemma after_restore_headers:
  assumes "enumerates ord1 (mut_originalHeaders h)" and "\<not> shouldIgnoreHeader k" and "configured_set h k = None"
  shows "ms_headers (after_restore h ord1 hdrs) k = (mut_originalHeaders h ++ hdrs) k"
  using assms by (cases "hdrs k")
    (auto simp: ms_headers_view after_restore_plain after_sets_view map_add_def split: option.splits)

lemma after_cleanup_plain:
  assumes "enumerates ord1 (mut_originalHeaders h)" and "enumerates ord2 (hdrs ++ mut_originalHeaders h)"
    and "\<not> shouldIgnoreHeader k"
  shows "key_view k (after_cleanup h ord1 ord2 hdrs) =
    (let v = key_view k (after_restore h ord1 hdrs)
     in if fst v = None then v else cleanup_step (mut_originalHeaders h k) v)"
proof (cases "configured_set h k")
  case None
  have "ms_headers (after_restore h ord1 hdrs) k \<noteq> None \<Longrightarrow> k \<in> set ord2"
    using assms(2) by (auto simp: after_restore_headers [OF assms(1,3) None] enumerates_def dom_def map_add_def
        split: option.splits)
  from after_cleanup_view [OF this] show ?thesis
    by (simp add: cleanup_body_view [OF assms(3)] ms_headers_view Let_def)
next
  case (Some v)
  have st: "key_view k (after_restore h ord1 hdrs) = (Some v, configured_remove h k, True, Some v,
      configured_remove h k \<and> hdrs k \<noteq> None)"
    using Some assms(3) by (simp add: after_restore_plain [OF assms(1,3)] after_sets_view split: option.splits)
  have "key_view k (after_cleanup h ord1 ord2 hdrs) = key_view k (after_restore h ord1 hdrs)"
    unfolding after_cleanup_def
  proof (rule fold_invariant [where P = "\<lambda>t. key_view k t = key_view k (after_restore h ord1 hdrs)" and Q = "\<lambda>_. True"])
    fix x t
    assume "key_view k t = key_view k (after_restore h ord1 hdrs)"
    then show "key_view k (cleanup_body (mut_originalHeaders h) x t) = key_view k (after_restore h ord1 hdrs)"
      using st cleanup_body_view [OF assms(3), of "mut_originalHeaders h" t] body_frame(4) [of k x]
      by (cases "x = k") auto
  qed simp_all
  with st show ?thesis by simp
qed

section \<open>Correctness\<close>

text \<open>
  C15. Whatever an earlier attempt did to the headers, what Envoy sends upstream after applying the
  mutation of a retry is determined, for every header that the gateway does not manage itself, by
  the original request and the configuration of the backend that is tried now: a configured value
  if there is one, nothing if the header is to be removed, else the original value. At a first
  attempt the same holds of the headers as they arrive. Headers that the gateway manages are left
  alone.
\<close>

theorem Mutate_wire:
  assumes "Mutate h ord1 ord2 wire onRetry = (hdrs', sets, removes)"
    and "enumerates ord1 (mut_originalHeaders h)" and "enumerates ord2 (wire ++ mut_originalHeaders h)"
  shows "apply_mutation sets removes wire =
    mutated_spec h wire (if onRetry then mut_originalHeaders h else wire)"
proof
  fix k
  let ?s = "if onRetry then after_cleanup h ord1 ord2 wire else after_sets h wire"
  have res: "sets = ms_sets ?s" "removes = ms_removes ?s"
    using assms(1) by (simp_all add: Mutate_eq Let_def)
  show "apply_mutation sets removes wire k = mutated_spec h wire (if onRetry then mut_originalHeaders h else wire) k"
  proof (cases "shouldIgnoreHeader k")
    case True
    have "key_view k ?s = key_view k (init_state wire)"
      by (simp add: after_cleanup_def after_restore_def after_sets_def fold_frame ignored_frame [OF True]
          split: option.splits)
    with True show ?thesis
      by (simp add: res apply_mutation_apply mutated_spec_def key_view_def init_state_def)
  next
    case False
    show ?thesis
      using False after_sets_view [of k h wire] after_cleanup_plain [OF assms(2,3) False]
        after_restore_plain [OF assms(2) False, of wire]
      by (cases "configured_set h k"; cases "wire k"; cases "mut_originalHeaders h k"; cases "configured_remove h k"; cases onRetry)
        (simp_all add: res apply_mutation_apply mutated_spec_def key_view_def Let_def)
  qed
qed

definition sample_mutator :: HeaderMutator where
  "sample_mutator = NewHeaderMutator
     (Some \<lparr>hm_Set = [(''x-team'', ''b'')], hm_Remove = [''cookie'']\<rparr>)
     [''cookie'' \<mapsto> ''c'', ''accept'' \<mapsto> ''json'']"

definition sample_wire :: headers where
  "sample_wire = [''accept'' \<mapsto> ''text'', ''x-old'' \<mapsto> ''1'', '':path'' \<mapsto> ''/v1'']"

definition sample_order :: "string list" where
  "sample_order = [''x-old'', ''accept'', '':path'', ''cookie'']"

lemmas sample_mutator_simps =
  sample_mutator_def NewHeaderMutator_def sample_wire_def sample_order_def

lemma sample_enumerates:
  "enumerates sample_order (mut_originalHeaders sample_mutator)"
  "enumerates sample_order (sample_wire ++ mut_originalHeaders sample_mutator)"
  by (auto simp: enumerates_def sample_mutator_simps map_add_def split: if_splits)

lemma sample_ignored:
  "shouldIgnoreHeader '':path''" "\<not> shouldIgnoreHeader ''accept''" "\<not> shouldIgnoreHeader ''x-old''"
  "\<not> shouldIgnoreHeader ''x-team''" "\<not> shouldIgnoreHeader ''cookie''"
  by code_simp+

theorem Mutate_wire_witness:
  "\<exists>hdrs' sets removes. Mutate sample_mutator sample_order sample_order sample_wire True = (hdrs', sets, removes) \<and>
     map (apply_mutation sets removes sample_wire) [''accept'', ''x-old'', ''x-team'', ''cookie'', '':path''] =
       [Some ''json'', None, Some ''b'', None, Some ''/v1'']"
proof -
  obtain hdrs' sets removes where
    m: "Mutate sample_mutator sample_order sample_order sample_wire True = (hdrs', sets, removes)"
    by (metis prod_cases3)
  then show ?thesis
    using Mutate_wire [OF m sample_enumerates] sample_ignored
    by (simp add: mutated_spec_def configured_set_def configured_remove_def sample_mutator_simps)
qed

text \<open>
  The copy of the headers that the gateway keeps for its metrics follows the configuration too,
  except that a header to be removed stays readable there: it keeps its value, or on a retry gets
  its original value back. Headers that the gateway manages keep their value and are named in
  neither the sets nor the removals.
\<close>

theorem Mutate_local:
  assumes "Mutate h ord1 ord2 wire onRetry = (hdrs', sets, removes)"
    and "enumerates ord1 (mut_originalHeaders h)" and "enumerates ord2 (wire ++ mut_originalHeaders h)"
  shows "hdrs' k =
    (if shouldIgnoreHeader k then wire k
     else case configured_set h k of
            Some v \<Rightarrow> Some v
          | None \<Rightarrow> if configured_remove h k
                    then (if onRetry then (mut_originalHeaders h ++ wire) k else wire k)
                    else (if onRetry then mut_originalHeaders h k else wire k)) \<and>
    (shouldIgnoreHeader k \<longrightarrow> k \<notin> fst ` set sets \<and> k \<notin> set removes)"
proof -
  let ?s = "if onRetry then after_cleanup h ord1 ord2 wire else after_sets h wire"
  have res: "hdrs' = ms_headers ?s" "sets = ms_sets ?s" "removes = ms_removes ?s"
    using assms(1) by (simp_all add: Mutate_eq Let_def)
  show ?thesis
  proof (cases "shouldIgnoreHeader k")
    case True
    have "key_view k ?s = key_view k (init_state wire)"
      by (simp add: after_cleanup_def after_restore_def after_sets_def fold_frame ignored_frame [OF True]
          split: option.splits)
    then have "ms_headers ?s k = wire k" "map_of (rev (ms_sets ?s)) k = None" "k \<notin> set (ms_removes ?s)"
      by (simp_all add: key_view_def init_state_def)
    with True show ?thesis unfolding res map_of_rev_None_iff by simp
  next
    case False
    show ?thesis
      using False after_sets_view [of k h wire] after_cleanup_plain [OF assms(2,3) False]
        after_restore_plain [OF assms(2) False, of wire]
      by (cases "configured_set h k"; cases "wire k"; cases "mut_originalHeaders h k"; cases "configured_remove h k"; cases onRetry)
        (simp_all add: res key_view_def Let_def map_add_def)
  qed
qed

theorem Mutate_local_witness:
  "\<exists>hdrs' sets removes. Mutate sample_mutator sample_order sample_order sample_wire True = (hdrs', sets, removes) \<and>
     hdrs' ''cookie'' = Some ''c'' \<and> '':path'' \<notin> fst ` set sets"
proof -
  obtain hdrs' sets removes where
    m: "Mutate sample_mutator sample_order sample_order sample_wire True = (hdrs', sets, removes)"
    by (metis prod_cases3)
  then show ?thesis
    using Mutate_local [OF m sample_enumerates, of "''cookie''"] Mutate_local [OF m sample_enumerates, of "'':path''"]
      sample_ignored
    by (simp add: configured_set_def configured_remove_def sample_mutator_simps map_add_def)
qed

end
