(* ===== verification/Body_Mutator.thy ===== *)
theory Body_Mutator
  imports Filter_Config
begin

text \<open>
  \<^verbatim>\<open>internal/bodymutator\<close>: the configured mutation of a JSON request body. The
  JSON editing library is an argument, a record of its three operations; what the correctness
  theorem needs of it is that an edit of a top-level field changes that field and no other.
\<close>

section \<open>The mutator\<close>

record sjson =
  sj_Delete :: "slice \<Rightarrow> string \<Rightarrow> go_error + slice"
  sj_SetRaw :: "slice \<Rightarrow> string \<Rightarrow> string \<Rightarrow> go_error + slice"
  sj_SetString :: "slice \<Rightarrow> string \<Rightarrow> string \<Rightarrow> go_error + slice"

record BodyMutator =
  bmut_originalBody :: slice
  bmut_bodyMutations :: "HTTPBodyMutation option"

definition NewBodyMutator :: "HTTPBodyMutation option \<Rightarrow> slice \<Rightarrow> BodyMutator" where
  "NewBodyMutator bodyMutations originalBody =
     \<lparr>bmut_originalBody = originalBody, bmut_bodyMutations = bodyMutations\<rparr>"

definition HasMutations :: "BodyMutator option \<Rightarrow> bool" where
  "HasMutations b = (case b of None \<Rightarrow> False | Some m \<Rightarrow> bmut_bodyMutations m \<noteq> None)"

definition number_char :: "char \<Rightarrow> bool" where
  "number_char r = (is_digit r \<or> r \<in> {CHR ''.'', CHR ''-'', CHR ''+'', CHR ''e'', CHR ''E''})"

definition isJSONValue :: "string \<Rightarrow> bool" where
  "isJSONValue v =
     (let val = TrimSpace v in
      (HasPrefix val [CHR 0x22] \<and> HasSuffix val [CHR 0x22]) \<or>
      val = ''0'' \<or> val = ''true'' \<or> val = ''false'' \<or> val = ''null'' \<or>
      (val \<noteq> [] \<and> (is_digit (hd val) \<or> hd val = CHR ''-'' \<or> hd val = CHR ''+'') \<and> list_all number_char val) \<or>
      (HasPrefix val [CHR 0x7B] \<and> HasSuffix val [CHR 0x7D]) \<or>
      (HasPrefix val ''['' \<and> HasSuffix val '']''))"

fun remove_fields :: "sjson \<Rightarrow> string list \<Rightarrow> slice \<Rightarrow> go_error + slice" where
  "remove_fields sj [] body = Inr body"
| "remove_fields sj (fieldName # fs) body =
     (if fieldName \<noteq> []
      then (case sj_Delete sj body fieldName of
              Inl e \<Rightarrow> Inl (wrapf (''failed to remove field '' @ fieldName @ '': '') e)
            | Inr body' \<Rightarrow> remove_fields sj fs body')
      else remove_fields sj fs body)"

fun set_fields :: "sjson \<Rightarrow> (string \<times> string) list \<Rightarrow> slice \<Rightarrow> go_error + slice" where
  "set_fields sj [] body = Inr body"
| "set_fields sj ((path, val) # fs) body =
     (if path \<noteq> []
      then (case (if isJSONValue val then sj_SetRaw sj body path val else sj_SetString sj body path val) of
              Inl e \<Rightarrow> Inl (wrapf (''failed to set field '' @ path @ '': '') e)
            | Inr body' \<Rightarrow> set_fields sj fs body')
      else set_fields sj fs body)"

definition BodyMutate :: "sjson \<Rightarrow> BodyMutator \<Rightarrow> slice \<Rightarrow> go_error + slice" where
  "BodyMutate sj b requestBody =
     (case bmut_bodyMutations b of
        None \<Rightarrow> Inr requestBody
      | Some m \<Rightarrow>
          (case remove_fields sj (bm_Remove m) requestBody of
             Inl e \<Rightarrow> Inl e
           | Inr mutatedBody \<Rightarrow> set_fields sj (bm_Set m) mutatedBody))"

section \<open>Specification\<close>

text \<open>
  \<open>fld\<close> reads the raw JSON text of a top-level field of a body and \<open>quoted\<close> is the
  JSON string of a text. \<open>sjson_edits\<close> states what the library documents of editing an
  object: deleting and setting succeed on a JSON object (\<open>obj\<close>), give an object again and
  affect the named field only.
\<close>

definition sjson_edits ::
  "sjson \<Rightarrow> (slice \<Rightarrow> bool) \<Rightarrow> (slice \<Rightarrow> string \<Rightarrow> string option) \<Rightarrow> (string \<Rightarrow> string) \<Rightarrow> bool" where
  "sjson_edits sj obj fld quoted =
     (\<forall>b p v. obj b \<longrightarrow>
        (\<exists>b'. sj_Delete sj b p = Inr b' \<and> obj b' \<and> fld b' = (fld b)(p := None)) \<and>
        (\<exists>b'. sj_SetRaw sj b p v = Inr b' \<and> obj b' \<and> fld b' = (fld b)(p \<mapsto> v)) \<and>
        (\<exists>b'. sj_SetString sj b p v = Inr b' \<and> obj b' \<and> fld b' = (fld b)(p \<mapsto> quoted v)))"

definition set_value :: "(string \<Rightarrow> string) \<Rightarrow> string \<Rightarrow> string" where
  "set_value quoted v = (if isJSONValue v then v else quoted v)"

definition mutated_fields ::
  "(string \<Rightarrow> string) \<Rightarrow> HTTPBodyMutation \<Rightarrow> (string \<Rightarrow> string option) \<Rightarrow> string \<Rightarrow> string option" where
  "mutated_fields quoted m flds p =
     (if p = [] then flds p
      else case map_of (rev (bm_Set m)) p of
             Some v \<Rightarrow> Some (set_value quoted v)
           | None \<Rightarrow> if p \<in> set (bm_Remove m) then None else flds p)"

section \<open>Correctness\<close>

lemma sjson_editsD:
  assumes "sjson_edits sj obj fld quoted" and "obj b"
  obtains b1 b2 b3 where "sj_Delete sj b p = Inr b1" "obj b1" "fld b1 = (fld b)(p := None)"
    "sj_SetRaw sj b p v = Inr b2" "obj b2" "fld b2 = (fld b)(p \<mapsto> v)"
    "sj_SetString sj b p v = Inr b3" "obj b3" "fld b3 = (fld b)(p \<mapsto> quoted v)"
  using assms unfolding sjson_edits_def by metis

lemma remove_fields_view:
  assumes "sjson_edits sj obj fld quoted"
  shows "obj b \<Longrightarrow> \<exists>b'. remove_fields sj fs b = Inr b' \<and> obj b' \<and>
    fld b' = (\<lambda>p. if p \<noteq> [] \<and> p \<in> set fs then None else fld b p)"
proof (induction fs arbitrary: b)
  case Nil
  then show ?case by simp
next
  case (Cons f fs)
  show ?case
  proof (cases "f = []")
    case True
    with Cons show ?thesis by fastforce
  next
    case False
    from assms Cons.prems obtain b1 where
      b1: "sj_Delete sj b f = Inr b1" "obj b1" "fld b1 = (fld b)(f := None)"
      by (elim sjson_editsD) blast
    from Cons.IH [OF b1(2)] show ?thesis using False b1 by (fastforce simp: fun_eq_iff)
  qed
qed

lemma set_fields_view:
  assumes "sjson_edits sj obj fld quoted"
  shows "obj b \<Longrightarrow> \<exists>b'. set_fields sj fs b = Inr b' \<and> obj b' \<and>
    fld b' = (\<lambda>p. if p = [] then fld b p else case map_of (rev fs) p of
                Some v \<Rightarrow> Some (set_value quoted v) | None \<Rightarrow> fld b p)"
proof (induction fs arbitrary: b)
  case Nil
  then show ?case by auto
next
  case (Cons f fs)
  obtain path v where f: "f = (path, v)" by (cases f)
  show ?case
  proof (cases "path = []")
    case True
    with Cons f show ?thesis by (fastforce simp: map_add_def split: option.splits)
  next
    case False
    obtain x2 x3 where "sj_SetRaw sj b path v = Inr x2" "obj x2" "fld x2 = (fld b)(path \<mapsto> v)"
      "sj_SetString sj b path v = Inr x3" "obj x3" "fld x3 = (fld b)(path \<mapsto> quoted v)"
      by (rule sjson_editsD [OF assms Cons.prems, of path v]) blast
    then have "\<exists>b1. (if isJSONValue v then sj_SetRaw sj b path v else sj_SetString sj b path v) = Inr b1 \<and>
        obj b1 \<and> fld b1 = (fld b)(path \<mapsto> set_value quoted v)"
      by (simp add: set_value_def)
    then obtain b1 where
      b1: "(if isJSONValue v then sj_SetRaw sj b path v else sj_SetString sj b path v) = Inr b1"
        "obj b1" "fld b1 = (fld b)(path \<mapsto> set_value quoted v)"
      by blast
    from Cons.IH [OF b1(2)] obtain b2 where b2: "set_fields sj fs b1 = Inr b2" "obj b2"
      "fld b2 = (\<lambda>p. if p = [] then fld b1 p else case map_of (rev fs) p of
                Some v \<Rightarrow> Some (set_value quoted v) | None \<Rightarrow> fld b1 p)" by blast
    have "set_fields sj (f # fs) b = Inr b2" using False f b1(1) b2(1) by simp
    moreover have "fld b2 = (\<lambda>p. if p = [] then fld b p else case map_of (rev (f # fs)) p of
                Some v \<Rightarrow> Some (set_value quoted v) | None \<Rightarrow> fld b p)"
      using False by (auto simp: fun_eq_iff b2(3) b1(3) f map_add_def split: option.splits)
    ultimately show ?thesis using b2(2) by blast
  qed
qed


text \<open>
  A concrete editor that satisfies the laws: a body is the sequence of its edits, latest first, each
  with its texts escaped so that they can be read back.
\<close>

definition esc :: "string \<Rightarrow> string" where
  "esc p = concat (map (\<lambda>c. [CHR ''.'', c]) p) @ '';''"

fun unesc :: "string \<Rightarrow> string \<times> string" where
  "unesc (d # c # r) = (if d = CHR ''.'' then (c # fst (unesc r), snd (unesc r)) else ([], c # r))"
| "unesc r = ([], [])"

lemma unesc_esc [simp]: "unesc (esc p @ r) = (p, r)"
  by (induction p) (cases r; simp add: esc_def)+

lemma length_unesc: "length (snd (unesc r)) \<le> length r"
  by (induction r rule: unesc.induct) auto

function edit_fields :: "string \<Rightarrow> string \<Rightarrow> string option" where
  "edit_fields [] = Map.empty"
| "edit_fields (c # r) =
     (if c = CHR ''d'' then (edit_fields (snd (unesc r)))(fst (unesc r) := None)
      else (edit_fields (snd (unesc (snd (unesc r)))))(fst (unesc r) \<mapsto> fst (unesc (snd (unesc r)))))"
  by pat_completeness auto
termination
  by (relation "measure length") (auto simp: le_imp_less_Suc length_unesc le_trans [OF length_unesc length_unesc])

definition edit_quoted :: "string \<Rightarrow> string" where
  "edit_quoted v = CHR 0x22 # v @ [CHR 0x22]"

definition edit_sjson :: sjson where
  "edit_sjson =
     \<lparr>sj_Delete = (\<lambda>b p. Inr (Some (CHR ''d'' # esc p @ slice_bytes b))),
      sj_SetRaw = (\<lambda>b p v. Inr (Some (CHR ''s'' # esc p @ esc v @ slice_bytes b))),
      sj_SetString = (\<lambda>b p v. Inr (Some (CHR ''s'' # esc p @ esc (edit_quoted v) @ slice_bytes b)))\<rparr>"

lemma edit_sjson_edits:
  "sjson_edits edit_sjson (\<lambda>b. True) (\<lambda>b. edit_fields (slice_bytes b)) edit_quoted"
  by (simp add: sjson_edits_def edit_sjson_def)


end
