(* ===== verification/Envoy_Messages.thy ===== *)
theory Envoy_Messages
  imports Complex_Main Go_Prelude
begin

text \<open>
  The messages of Envoy's external processing protocol and the protobuf values of dynamic metadata,
  as far as the gateway builds and reads them. A pointer to a message is an option, a one-of is a
  datatype whose first constructor is the unset case. Numbers of a metadata value are rationals:
  every finite double is one. \<open>float64_of_nat\<close> is the conversion of an unsigned integer to
  a double, which rounds to the nearest multiple of the unit in the last place and ties to even.
\<close>

section \<open>Conversion of integers to doubles\<close>

fun bit_len :: "nat \<Rightarrow> nat" where
  "bit_len n = (if n = 0 then 0 else Suc (bit_len (n div 2)))"

declare bit_len.simps [simp del]

definition round_even :: "nat \<Rightarrow> nat \<Rightarrow> nat" where
  "round_even n k =
     (let q = n div 2 ^ k; r = n mod 2 ^ k
      in if 2 ^ k < 2 * r \<or> 2 ^ k = 2 * r \<and> odd q then q + 1 else q)"

definition float64_of_nat :: "nat \<Rightarrow> nat" where
  "float64_of_nat n = (let k = bit_len n - 53 in round_even n k * 2 ^ k)"

lemma bit_len_bounds: "0 < n \<Longrightarrow> 2 ^ (bit_len n - 1) \<le> n \<and> n < 2 ^ bit_len n"
proof (induction n rule: bit_len.induct)
  case (1 n)
  show ?case
  proof (cases "n div 2 = 0")
    case True
    with 1 have "n = 1" by simp
    then show ?thesis by (simp add: bit_len.simps)
  next
    case False
    with 1 have ih: "2 ^ (bit_len (n div 2) - 1) \<le> n div 2 \<and> n div 2 < 2 ^ bit_len (n div 2)" by simp
    moreover from False have "bit_len (n div 2) = Suc (bit_len (n div 2) - 1)" by (simp add: bit_len.simps)
    moreover from 1 have "bit_len n = Suc (bit_len (n div 2))" by (simp add: bit_len.simps)
    ultimately obtain m where m: "bit_len n = Suc (Suc m)" "2 ^ m \<le> n div 2" "n div 2 < 2 * 2 ^ m"
      by (metis diff_Suc_1 power_Suc)
    moreover have "2 * (n div 2) \<le> n" "n \<le> 2 * (n div 2) + 1" by presburger+
    ultimately show ?thesis by simp
  qed
qed

lemma round_even_error: "2 * \<bar>int (round_even n k * 2 ^ k) - int n\<bar> \<le> 2 ^ k"
proof -
  define p q r where "p = (2 :: nat) ^ k" and "q = n div p" and "r = n mod p"
  have n: "n = q * p + r" unfolding q_def r_def by (rule div_mult_mod_eq [symmetric])
  have r: "r < p" by (simp add: p_def r_def)
  have c: "round_even n k = (if p < 2 * r \<or> p = 2 * r \<and> odd q then q + 1 else q)"
    by (simp add: round_even_def p_def q_def r_def Let_def)
  have "2 * \<bar>int (round_even n k * p) - int n\<bar> \<le> int p"
  proof (cases "p < 2 * r \<or> p = 2 * r \<and> odd q")
    case True
    then have "round_even n k * p = q * p + p" by (simp add: c)
    then have e: "int (round_even n k * p) - int n = int p - int r" using n by linarith
    from True have "p \<le> 2 * r" by auto
    with r show ?thesis unfolding e by arith
  next
    case False
    then have "round_even n k = q" by (simp only: c if_False)
    then have "round_even n k * p = q * p" by simp
    then have e: "int (round_even n k * p) - int n = - int r" using n by linarith
    from False have "2 * r \<le> p" by auto
    then show ?thesis unfolding e by arith
  qed
  then show ?thesis by (simp only: p_def of_nat_power of_nat_numeral)
qed

lemma float64_exact: "n < 2 ^ 53 \<Longrightarrow> float64_of_nat n = n"
proof -
  assume n: "n < 2 ^ 53"
  have "bit_len n \<le> 53"
  proof (rule ccontr)
    assume "\<not> bit_len n \<le> 53"
    then have "2 ^ 53 \<le> (2 :: nat) ^ (bit_len n - 1)" by (intro power_increasing) simp_all
    moreover from \<open>\<not> bit_len n \<le> 53\<close> have "0 < n" by (cases n) (simp_all add: bit_len.simps)
    ultimately show False using bit_len_bounds [of n] n by linarith
  qed
  then show ?thesis by (simp add: float64_of_nat_def round_even_def)
qed

lemma float64_relative_error: "2 ^ 53 * \<bar>int (float64_of_nat n) - int n\<bar> \<le> int n"
proof (cases "n < 2 ^ 53")
  case True
  then show ?thesis by (simp add: float64_exact)
next
  case False
  define k where "k = bit_len n - 53"
  from False have "0 < n" by (cases n) simp_all
  note b = bit_len_bounds [OF this]
  have "53 < bit_len n"
  proof (rule ccontr)
    assume "\<not> 53 < bit_len n"
    then have "(2 :: nat) ^ bit_len n \<le> 2 ^ 53" by (intro power_increasing) simp_all
    with b False show False by linarith
  qed
  then have "bit_len n - 1 = 52 + k" by (simp add: k_def)
  then have "(2 :: nat) ^ (bit_len n - 1) = 2 ^ 52 * 2 ^ k" by (simp only: power_add)
  with b have "(2 :: nat) ^ 52 * 2 ^ k \<le> n" by simp
  then have "int (2 ^ 52 * 2 ^ k) \<le> int n" by (simp only: of_nat_le_iff)
  moreover have "2 * \<bar>int (float64_of_nat n) - int n\<bar> \<le> 2 ^ k"
    using round_even_error [of n k] by (simp add: float64_of_nat_def k_def Let_def)
  ultimately show ?thesis by simp
qed

section \<open>Metadata values\<close>

datatype pvalue = NumberValue rat | StringValue string | StructValue "string \<Rightarrow> pvalue option"

type_synonym pstruct = "string \<Rightarrow> pvalue option"

definition float64 :: "nat \<Rightarrow> pvalue" where
  "float64 n = NumberValue (of_nat (float64_of_nat n))"

fun GetStringValue :: "pvalue \<Rightarrow> string" where
  "GetStringValue (StringValue s) = s"
| "GetStringValue _ = []"

fun GetStructValue :: "pvalue option \<Rightarrow> pstruct option" where
  "GetStructValue (Some (StructValue fs)) = Some fs"
| "GetStructValue _ = None"

section \<open>Headers\<close>

record HeaderValue =
  hv_Key :: string
  hv_Value :: string
  hv_RawValue :: bytes

type_synonym HeaderMap = "HeaderValue list"

datatype AppendAction = APPEND_IF_EXISTS_OR_ADD | OVERWRITE_IF_EXISTS_OR_ADD

record HeaderValueOption =
  ho_Header :: HeaderValue
  ho_AppendAction :: AppendAction

record HeaderMutation =
  SetHeaders :: "HeaderValueOption list"
  RemoveHeaders :: "string list"

definition empty_mutation :: HeaderMutation where
  "empty_mutation = \<lparr>SetHeaders = [], RemoveHeaders = []\<rparr>"

definition raw_header :: "AppendAction \<Rightarrow> string \<Rightarrow> bytes \<Rightarrow> HeaderValueOption" where
  "raw_header act k v = \<lparr>ho_Header = \<lparr>hv_Key = k, hv_Value = [], hv_RawValue = v\<rparr>, ho_AppendAction = act\<rparr>"

definition overwrite_header :: "header \<Rightarrow> HeaderValueOption" where
  "overwrite_header h = raw_header OVERWRITE_IF_EXISTS_OR_ADD (fst h) (snd h)"

section \<open>Bodies and responses\<close>

record HttpBody =
  hb_Body :: slice
  hb_EndOfStream :: bool

datatype BodyMutation = BodyMutation_Unset | BodyMutation_Body slice | BodyMutation_ClearBody bool

fun GetBody :: "BodyMutation option \<Rightarrow> slice" where
  "GetBody (Some (BodyMutation_Body b)) = b"
| "GetBody _ = None"

datatype ResponseStatus = CONTINUE | CONTINUE_AND_REPLACE

record CommonResponse =
  cr_Status :: ResponseStatus
  cr_HeaderMutation :: "HeaderMutation option"
  cr_BodyMutation :: "BodyMutation option"
  cr_ClearRouteCache :: bool

definition empty_common :: CommonResponse where
  "empty_common = \<lparr>cr_Status = CONTINUE, cr_HeaderMutation = None, cr_BodyMutation = None,
     cr_ClearRouteCache = False\<rparr>"

record ImmediateResponse =
  im_Status :: nat
  im_Headers :: "HeaderMutation option"
  im_Body :: bytes
  im_GrpcStatus :: nat
  im_Details :: string

datatype Response =
    Response_RequestHeaders "CommonResponse option"
  | Response_RequestBody "CommonResponse option"
  | Response_ResponseHeaders "CommonResponse option"
  | Response_ResponseBody "CommonResponse option"
  | Response_Immediate ImmediateResponse

datatype BodySendMode = STREAMED

record ProcessingResponse =
  pr_Response :: Response
  pr_DynamicMetadata :: "pstruct option"
  pr_ModeOverride :: "BodySendMode option"

definition plain_response :: "Response \<Rightarrow> ProcessingResponse" where
  "plain_response r = \<lparr>pr_Response = r, pr_DynamicMetadata = None, pr_ModeOverride = None\<rparr>"

datatype Request =
    Request_RequestHeaders "HeaderMap option"
  | Request_RequestBody HttpBody
  | Request_ResponseHeaders "HeaderMap option"
  | Request_ResponseBody HttpBody
  | Request_Other

record ProcessingRequest =
  pq_Request :: Request
  pq_Attributes :: "(string \<Rightarrow> pstruct option) option"
  pq_MetadataContext :: "(string \<Rightarrow> pstruct option) option"

end
