(* ===== verification/Metrics.thy ===== *)
theory Metrics
  imports Envoy_Messages Filter_Config
begin

text \<open>
  \<^verbatim>\<open>internal/metrics/metrics_impl.go\<close>: what is recorded for one attempt of a
  request. The instruments of the meter are a log of measurements, oldest first; the clock is the
  argument \<open>now\<close> in nanoseconds; an attribute set is a partial map, in which the last value
  of a key wins. A duration in seconds and a latency are the exact rationals that the code
  approximates by doubles; a token count is a 32-bit value, which a double represents exactly.
\<close>

section \<open>State\<close>

datatype instrument = TokenUsageCount | RequestLatency | FirstTokenLatency | OutputTokenLatency

record measurement =
  ms_instrument :: instrument
  ms_value :: rat
  ms_attrs :: headers

record metricsImplFactory =
  mf_requestHeaderAttributeMapping :: headers
  mf_operation :: string

record metricsImpl =
  mi_recorded :: "measurement list"
  mi_operation :: string
  mi_requestStart :: int
  mi_originalModel :: string
  mi_requestModel :: string
  mi_responseModel :: string
  mi_backend :: string
  mi_aiServiceBackend :: string
  mi_requestHeaderAttributeMapping :: headers
  mi_firstTokenSent :: bool
  mi_timeToFirstToken :: int
  mi_interTokenLatencySec :: rat
  mi_totalOutputTokens :: u32

definition NewMetrics :: "metricsImplFactory \<Rightarrow> metricsImpl" where
  "NewMetrics f = \<lparr>mi_recorded = [], mi_operation = mf_operation f, mi_requestStart = 0,
     mi_originalModel = ''unknown'', mi_requestModel = ''unknown'', mi_responseModel = ''unknown'',
     mi_backend = ''unknown'', mi_aiServiceBackend = ''unknown'',
     mi_requestHeaderAttributeMapping = mf_requestHeaderAttributeMapping f,
     mi_firstTokenSent = False, mi_timeToFirstToken = 0, mi_interTokenLatencySec = 0,
     mi_totalOutputTokens = 0\<rparr>"

section \<open>Operations\<close>

definition StartRequest :: "int \<Rightarrow> metricsImpl \<Rightarrow> metricsImpl" where
  "StartRequest now b = b\<lparr>mi_requestStart := now\<rparr>"

definition SetOriginalModel :: "string \<Rightarrow> metricsImpl \<Rightarrow> metricsImpl" where
  "SetOriginalModel m b = b\<lparr>mi_originalModel := m\<rparr>"

definition SetRequestModel :: "string \<Rightarrow> metricsImpl \<Rightarrow> metricsImpl" where
  "SetRequestModel m b = b\<lparr>mi_requestModel := m\<rparr>"

definition SetResponseModel :: "string \<Rightarrow> metricsImpl \<Rightarrow> metricsImpl" where
  "SetResponseModel m b = (if m \<noteq> mi_responseModel b then b\<lparr>mi_responseModel := m\<rparr> else b)"

fun provider_name :: "APISchemaName \<Rightarrow> string option" where
  "provider_name APISchemaOpenAI = Some ''openai''"
| "provider_name APISchemaAzureOpenAI = Some ''azure.openai''"
| "provider_name APISchemaAWSBedrock = Some ''aws.bedrock''"
| "provider_name APISchemaAWSAnthropic = Some ''aws.anthropic''"
| "provider_name APISchemaGCPVertexAI = Some ''gcp.vertex_ai''"
| "provider_name APISchemaGCPAnthropic = Some ''gcp.anthropic''"
| "provider_name APISchemaAnthropic = Some ''anthropic''"
| "provider_name APISchemaCohere = Some ''cohere''"
| "provider_name APISchemaTypeSafe = Some ''typesafe''"
| "provider_name _ = None"

definition metrics_SetBackend :: "Backend \<Rightarrow> metricsImpl \<Rightarrow> metricsImpl" where
  "metrics_SetBackend backend b =
     (let b1 = b\<lparr>mi_backend := (case provider_name (schema_Name (be_Schema backend)) of
                      Some p \<Rightarrow> p | None \<Rightarrow> be_Name backend)\<rparr>;
          b2 = b1\<lparr>mi_aiServiceBackend := be_AIServiceBackendName backend\<rparr>
      in if mi_aiServiceBackend b2 = [] then b2\<lparr>mi_aiServiceBackend := AIServiceBackendName (be_Name backend)\<rparr>
         else b2)"

fun header_attributes :: "headers \<Rightarrow> headers \<Rightarrow> string list \<Rightarrow> headers \<Rightarrow> headers" where
  "header_attributes mapping hdrs [] attrs = attrs"
| "header_attributes mapping hdrs (headerName # ks) attrs =
     header_attributes mapping hdrs ks
       (case hdrs headerName of
          None \<Rightarrow> attrs
        | Some headerValue \<Rightarrow> attrs(mget mapping headerName \<mapsto> headerValue))"

definition buildBaseAttributes :: "string list \<Rightarrow> metricsImpl \<Rightarrow> headers \<Rightarrow> headers" where
  "buildBaseAttributes ord b hdrs =
     header_attributes (mi_requestHeaderAttributeMapping b) hdrs
       (range_keys ord (mi_requestHeaderAttributeMapping b))
       [''gen_ai.operation.name'' \<mapsto> mi_operation b, ''gen_ai.provider.name'' \<mapsto> mi_backend b,
        ''gen_ai.original.model'' \<mapsto> mi_originalModel b, ''gen_ai.request.model'' \<mapsto> mi_requestModel b,
        ''gen_ai.response.model'' \<mapsto> mi_responseModel b, ''gen_ai.backend'' \<mapsto> mi_aiServiceBackend b]"

definition Record :: "instrument \<Rightarrow> rat \<Rightarrow> headers \<Rightarrow> metricsImpl \<Rightarrow> metricsImpl" where
  "Record i v attrs b =
     b\<lparr>mi_recorded := mi_recorded b @ [\<lparr>ms_instrument = i, ms_value = v, ms_attrs = attrs\<rparr>]\<rparr>"

definition Seconds :: "int \<Rightarrow> rat" where
  "Seconds ns = of_int ns / 1000000000"

definition RecordRequestCompletion ::
  "string list \<Rightarrow> int \<Rightarrow> bool \<Rightarrow> headers \<Rightarrow> metricsImpl \<Rightarrow> metricsImpl" where
  "RecordRequestCompletion ord now success hdrs b =
     (let attrs = buildBaseAttributes ord b hdrs; v = Seconds (now - mi_requestStart b)
      in if success then Record RequestLatency v attrs b
         else Record RequestLatency v (attrs(''error.type'' \<mapsto> ''_OTHER'')) b)"

definition record_tokens ::
  "headers \<Rightarrow> string \<Rightarrow> u32 \<times> bool \<Rightarrow> metricsImpl \<Rightarrow> metricsImpl" where
  "record_tokens attrs ty v b =
     (if snd v then Record TokenUsageCount (of_nat (unat (fst v))) (attrs(''gen_ai.token.type'' \<mapsto> ty)) b else b)"

definition RecordTokenUsage :: "string list \<Rightarrow> TokenUsage \<Rightarrow> headers \<Rightarrow> metricsImpl \<Rightarrow> metricsImpl" where
  "RecordTokenUsage ord usage hdrs b =
     (let attrs = buildBaseAttributes ord b hdrs;
          b1 = record_tokens attrs ''input'' (InputTokens usage) b;
          b2 = record_tokens attrs ''cached_input'' (CachedInputTokens usage) b1;
          b3 = record_tokens attrs ''cache_creation_input'' (CacheCreationInputTokens usage) b2;
          b4 = record_tokens attrs ''output'' (OutputTokens usage) b3
      in record_tokens attrs ''reasoning'' (ReasoningTokens usage) b4)"

definition GetTimeToFirstTokenMs :: "metricsImpl \<Rightarrow> rat" where
  "GetTimeToFirstTokenMs b =
     (let t = mi_timeToFirstToken b in of_int (if 0 \<le> t then t div 1000000 else - (- t div 1000000)))"

definition GetInterTokenLatencyMs :: "metricsImpl \<Rightarrow> rat" where
  "GetInterTokenLatencyMs b = mi_interTokenLatencySec b * 1000"

definition RecordTokenLatency ::
  "string list \<Rightarrow> int \<Rightarrow> u32 \<Rightarrow> bool \<Rightarrow> headers \<Rightarrow> metricsImpl \<Rightarrow> metricsImpl" where
  "RecordTokenLatency ord now tokens endOfStream hdrs b =
     (let attrs = buildBaseAttributes ord b hdrs in
      if \<not> mi_firstTokenSent b then
        Record FirstTokenLatency (Seconds (now - mi_requestStart b)) attrs
          (b\<lparr>mi_firstTokenSent := True, mi_timeToFirstToken := now - mi_requestStart b\<rparr>)
      else
        (let b1 = (if mi_totalOutputTokens b < tokens then b\<lparr>mi_totalOutputTokens := tokens\<rparr> else b) in
         if endOfStream \<and> 1 < mi_totalOutputTokens b1 then
           (let currentElapsed = now - mi_requestStart b1;
                timeSinceFirstToken = currentElapsed - mi_timeToFirstToken b1;
                v = Seconds timeSinceFirstToken / of_nat (unat (mi_totalOutputTokens b1 - 1))
            in Record OutputTokenLatency v attrs (b1\<lparr>mi_interTokenLatencySec := v\<rparr>))
         else b1))"

section \<open>Token latency of a stream\<close>

type_synonym latency_call = "int \<times> u32 \<times> bool"

abbreviation latency_step :: "string list \<Rightarrow> headers \<Rightarrow> latency_call \<Rightarrow> metricsImpl \<Rightarrow> metricsImpl" where
  "latency_step ord hdrs c \<equiv> RecordTokenLatency ord (fst c) (fst (snd c)) (snd (snd c)) hdrs"

definition max_tokens :: "latency_call list \<Rightarrow> u32 \<Rightarrow> u32" where
  "max_tokens cs n = fold (\<lambda>c. max (fst (snd c))) cs n"

definition readings :: "metricsImpl \<Rightarrow> (instrument \<times> rat) list" where
  "readings b = map (\<lambda>m. (ms_instrument m, ms_value m)) (mi_recorded b)"

lemma readings_Record [simp]: "readings (Record i v attrs b) = readings b @ [(i, v)]"
  by (simp add: readings_def Record_def)

lemma readings_update [simp]:
  "readings (b\<lparr>mi_firstTokenSent := x\<rparr>) = readings b"
  "readings (b\<lparr>mi_timeToFirstToken := t\<rparr>) = readings b"
  "readings (b\<lparr>mi_interTokenLatencySec := v\<rparr>) = readings b"
  "readings (b\<lparr>mi_totalOutputTokens := n\<rparr>) = readings b"
  by (simp_all add: readings_def)

lemma latency_middle:
  "mi_firstTokenSent b \<Longrightarrow> (\<forall>c \<in> set cs. \<not> snd (snd c)) \<Longrightarrow>
   fold (latency_step ord hdrs) cs b = b\<lparr>mi_totalOutputTokens := max_tokens cs (mi_totalOutputTokens b)\<rparr>"
proof (induction cs arbitrary: b)
  case (Cons c cs)
  have "latency_step ord hdrs c b = b\<lparr>mi_totalOutputTokens := max (fst (snd c)) (mi_totalOutputTokens b)\<rparr>"
    using Cons.prems by (simp add: RecordTokenLatency_def max_def Let_def not_less)
  then show ?case using Cons by (simp add: max_tokens_def)
qed (simp add: max_tokens_def)

lemma max_tokens_snoc: "max_tokens (cs @ [c]) n = max (fst (snd c)) (max_tokens cs n)"
  by (simp add: max_tokens_def)

lemma unat_pred: "1 < (n :: u32) \<Longrightarrow> unat (n - 1) = unat n - 1"
  by (metis One_nat_def unat_minus_one word_less_nat_alt not_one_less_zero unat_0 less_numeral_extra(3) unat_1)

text \<open>
  The token latencies of a streamed response: whatever the chunks report, the time to the first
  token is recorded exactly once, at the first chunk, and the time per output token at most once, at
  the end of the stream, exactly when more than one token was reported after the first chunk. Its
  value is the time since the first chunk divided by the number of tokens after the first, so the
  divisor is never zero.
\<close>

theorem token_latency_of_stream:
  assumes "\<not> mi_firstTokenSent b" and "mi_totalOutputTokens b = 0"
    and "\<forall>c \<in> set cs. \<not> snd (snd c)"
  shows "let total = max_tokens (cs @ [(t, n, True)]) 0;
             b' = fold (latency_step ord hdrs) ((t0, n0, e0) # cs @ [(t, n, True)]) b
         in readings b' = readings b @ [(FirstTokenLatency, Seconds (t0 - mi_requestStart b))] @
              (if 1 < total then [(OutputTokenLatency, Seconds (t - t0) / (of_nat (unat total) - 1))] else []) \<and>
            mi_interTokenLatencySec b' = (if 1 < total then Seconds (t - t0) / (of_nat (unat total) - 1)
                                          else mi_interTokenLatencySec b)"
proof -
  define b0 where "b0 = RecordTokenLatency ord t0 n0 e0 hdrs b"
  have b0: "mi_firstTokenSent b0" "mi_totalOutputTokens b0 = 0" "mi_requestStart b0 = mi_requestStart b"
    "mi_timeToFirstToken b0 = t0 - mi_requestStart b" "mi_interTokenLatencySec b0 = mi_interTokenLatencySec b"
    "readings b0 = readings b @ [(FirstTokenLatency, Seconds (t0 - mi_requestStart b))]"
    using assms(1,2) by (simp_all add: b0_def RecordTokenLatency_def Record_def readings_def)
  define b1 where "b1 = b0\<lparr>mi_totalOutputTokens := max_tokens cs 0\<rparr>"
  have b1: "fold (latency_step ord hdrs) cs b0 = b1"
    using latency_middle [OF b0(1) assms(3)] by (simp add: b1_def b0)
  define total where "total = max_tokens (cs @ [(t, n, True)]) 0"
  have total: "total = (if max_tokens cs 0 < n then n else max_tokens cs 0)"
    by (auto simp: total_def max_tokens_snoc max_def)
  have div: "1 < total \<Longrightarrow> of_nat (unat (total - 1)) = (of_nat (unat total) - 1 :: rat)"
    by (simp add: unat_pred of_nat_diff word_less_nat_alt)
  have "fold (latency_step ord hdrs) ((t0, n0, e0) # cs @ [(t, n, True)]) b = RecordTokenLatency ord t n True hdrs b1"
    by (simp add: b1 flip: b0_def)
  moreover have "readings (RecordTokenLatency ord t n True hdrs b1) = readings b0 @
      (if 1 < total then [(OutputTokenLatency, Seconds (t - t0) / (of_nat (unat total) - 1))] else [])"
    using div by (auto simp: RecordTokenLatency_def b1_def b0 total Let_def)
  moreover have "mi_interTokenLatencySec (RecordTokenLatency ord t n True hdrs b1) =
      (if 1 < total then Seconds (t - t0) / (of_nat (unat total) - 1) else mi_interTokenLatencySec b)"
    using div by (auto simp: RecordTokenLatency_def b1_def b0 total Record_def Let_def)
  ultimately show ?thesis by (simp add: b0 Let_def flip: total_def)
qed

definition sample_metrics :: metricsImpl where
  "sample_metrics = NewMetrics \<lparr>mf_requestHeaderAttributeMapping = Map.empty, mf_operation = ''chat''\<rparr>"

theorem token_latency_of_stream_witness:
  "readings (fold (latency_step [] Map.empty) [(1000000000, 0, False), (2000000000, 3, False), (5000000000, 5, True)]
     (StartRequest 0 sample_metrics)) = [(FirstTokenLatency, 1), (OutputTokenLatency, 1)]"
  using token_latency_of_stream [of "StartRequest 0 sample_metrics" "[(2000000000, 3, False)]" 5000000000 5 "[]" Map.empty 1000000000 0 False]
  by (simp add: sample_metrics_def StartRequest_def NewMetrics_def max_tokens_def readings_def Seconds_def Let_def)

section \<open>Token usage\<close>

fun token_type :: "token_kind \<Rightarrow> string" where
  "token_type Input = ''input''"
| "token_type CachedInput = ''cached_input''"
| "token_type CacheCreationInput = ''cache_creation_input''"
| "token_type Output = ''output''"
| "token_type Total = ''total''"
| "token_type Reasoning = ''reasoning''"

definition recorded_kinds :: "token_kind list" where
  "recorded_kinds = [Input, CachedInput, CacheCreationInput, Output, Reasoning]"

lemma record_tokens_recorded:
  "mi_recorded (record_tokens attrs ty v b) = mi_recorded b @
     (if snd v then [\<lparr>ms_instrument = TokenUsageCount, ms_value = of_nat (unat (fst v)),
        ms_attrs = attrs(''gen_ai.token.type'' \<mapsto> ty)\<rparr>] else [])"
  by (simp add: record_tokens_def Record_def)

text \<open>
  A usage is recorded as one measurement for every kind of token that it reports, the total
  excepted, with the exact count and the name of the kind; a kind that is not reported is not
  recorded, not even as zero.
\<close>

theorem RecordTokenUsage_reported_kinds:
  "mi_recorded (RecordTokenUsage ord usage hdrs b) = mi_recorded b @
     map (\<lambda>k. \<lparr>ms_instrument = TokenUsageCount, ms_value = of_nat (unat (the (usage_view usage k))),
                ms_attrs = (buildBaseAttributes ord b hdrs)(''gen_ai.token.type'' \<mapsto> token_type k)\<rparr>)
         (filter (\<lambda>k. usage_view usage k \<noteq> None) recorded_kinds)"
  by (simp add: RecordTokenUsage_def record_tokens_recorded recorded_kinds_def Let_def
      InputTokens_def OutputTokens_def CachedInputTokens_def CacheCreationInputTokens_def ReasoningTokens_def)

end
