(* ===== verification/Dynamic_Metadata.thy ===== *)
theory Dynamic_Metadata
  imports Metrics
begin

text \<open>
  The dynamic metadata that the external processor attaches to its responses
  (\<^verbatim>\<open>internal/extproc/processor_impl.go\<close>): content length, backend, logged request
  headers, token latencies, and the request costs that rate limiting reads. Evaluating a cost rule
  of the expression type without a compiled program dereferences a nil interface; it is an error
  whose chain has \<open>GoPanic\<close>.
\<close>

section \<open>Building metadata\<close>

definition namespaced :: "pstruct \<Rightarrow> pstruct" where
  "namespaced fs = [AIGatewayFilterMetadataNamespace \<mapsto> StructValue fs]"

definition mergeWithTokenLatencyMetadata :: "metricsImpl \<Rightarrow> pstruct \<Rightarrow> pstruct" where
  "mergeWithTokenLatencyMetadata m metadata =
     (let innerVal = (case GetStructValue (metadata AIGatewayFilterMetadataNamespace) of
                        None \<Rightarrow> Map.empty | Some fs \<Rightarrow> fs)
      in metadata(AIGatewayFilterMetadataNamespace \<mapsto> StructValue
           (innerVal(''token_latency_ttft'' \<mapsto> NumberValue (GetTimeToFirstTokenMs m),
                     ''token_latency_itl'' \<mapsto> NumberValue (GetInterTokenLatencyMs m)))))"

definition buildContentLengthDynamicMetadataOnRequest :: "nat \<Rightarrow> pstruct" where
  "buildContentLengthDynamicMetadataOnRequest contentLength = namespaced [''content_length'' \<mapsto> float64 contentLength]"

definition buildBackendDynamicMetadata :: "string \<Rightarrow> pstruct option" where
  "buildBackendDynamicMetadata backendName =
     (if backendName = [] then None else Some (namespaced [''backend_name'' \<mapsto> StringValue backendName]))"

fun header_fields :: "headers \<Rightarrow> headers \<Rightarrow> string list \<Rightarrow> pstruct \<Rightarrow> pstruct" where
  "header_fields attrs hdrs [] fs = fs"
| "header_fields attrs hdrs (h # ks) fs =
     (case hdrs h of
        None \<Rightarrow> header_fields attrs hdrs ks fs
      | Some v \<Rightarrow> if v = [] then header_fields attrs hdrs ks fs
                  else header_fields attrs hdrs ks (fs(mget attrs h \<mapsto> StringValue v)))"

text \<open>
  The package variable \<open>LogRequestHeaderAttributes\<close> is the argument \<open>attrs\<close>. The
  code returns nil when its map of fields stays empty, that is when no configured header has a
  value.
\<close>

definition buildRequestHeaderDynamicMetadata :: "headers \<Rightarrow> string list \<Rightarrow> headers \<Rightarrow> pstruct option" where
  "buildRequestHeaderDynamicMetadata attrs ord hdrs =
     (let present = filter (\<lambda>h. case hdrs h of None \<Rightarrow> False | Some v \<Rightarrow> v \<noteq> []) (range_keys ord attrs)
      in if present = [] then None
         else Some (namespaced (header_fields attrs hdrs (range_keys ord attrs) Map.empty)))"

definition mergeDynamicMetadata :: "pstruct option \<Rightarrow> pstruct option \<Rightarrow> pstruct option" where
  "mergeDynamicMetadata base extra =
     (case base of
        None \<Rightarrow> extra
      | Some b \<Rightarrow>
          (case extra of
             None \<Rightarrow> Some b
           | Some x \<Rightarrow>
               (let (b', baseFields) =
                  (case GetStructValue (b AIGatewayFilterMetadataNamespace) of
                     None \<Rightarrow> (b(AIGatewayFilterMetadataNamespace \<mapsto> StructValue Map.empty), Map.empty)
                   | Some fs \<Rightarrow> (b, fs))
                in case GetStructValue (x AIGatewayFilterMetadataNamespace) of
                     None \<Rightarrow> Some b'
                   | Some extraFields \<Rightarrow>
                       Some (b'(AIGatewayFilterMetadataNamespace \<mapsto> StructValue (baseFields ++ extraFields))))))"

section \<open>Request costs\<close>

definition evalCost ::
  "'p cel_eval \<Rightarrow> LLMRequestCostType \<Rightarrow> 'p option \<Rightarrow> TokenUsage \<Rightarrow> headers \<Rightarrow> string \<Rightarrow> string \<Rightarrow> go_error + u64" where
  "evalCost ev costType celProg costs requestHeaders backendName routeName =
     (case costType of
        CostInputToken \<Rightarrow> Inr (ucast (fst (InputTokens costs)))
      | CostCachedInputToken \<Rightarrow> Inr (ucast (fst (CachedInputTokens costs)))
      | CostCacheCreationInputToken \<Rightarrow> Inr (ucast (fst (CacheCreationInputTokens costs)))
      | CostOutputToken \<Rightarrow> Inr (ucast (fst (OutputTokens costs)))
      | CostTotalToken \<Rightarrow> Inr (ucast (fst (TotalTokens costs)))
      | CostReasoningToken \<Rightarrow> Inr (ucast (fst (ReasoningTokens costs)))
      | CostCEL \<Rightarrow>
          (case celProg of
             None \<Rightarrow> Inl (GoError [GoPanic] ''nil pointer dereference'')
           | Some prog \<Rightarrow>
               (case EvaluateProgram ev prog
                  \<lparr>cel_model = mget requestHeaders ModelNameHeaderKeyDefault, cel_backend = backendName,
                   cel_route_name = routeName, cel_input_tokens = fst (InputTokens costs),
                   cel_cached_input_tokens = fst (CachedInputTokens costs),
                   cel_cache_creation_input_tokens = fst (CacheCreationInputTokens costs),
                   cel_output_tokens = fst (OutputTokens costs), cel_total_tokens = fst (TotalTokens costs),
                   cel_reasoning_tokens = fst (ReasoningTokens costs)\<rparr> of
                  Inl e \<Rightarrow> Inl (wrapf ''failed to evaluate CEL expression: '' e)
                | Inr c \<Rightarrow> Inr c))
      | CostUnknown t \<Rightarrow> Inl (errorf (''unknown cost type: '' @ t)))"

definition evalRuntimeGlobalRequestCost ::
  "'p cel_eval \<Rightarrow> 'p RuntimeGlobalRequestCost \<Rightarrow> TokenUsage \<Rightarrow> headers \<Rightarrow> string \<Rightarrow> string \<Rightarrow> go_error + u64" where
  "evalRuntimeGlobalRequestCost ev rc costs requestHeaders backendName routeName =
     evalCost ev (gc_Type (rgc_Cost rc)) (rgc_CELProg rc) costs requestHeaders backendName routeName"

definition evalRuntimeRequestCost ::
  "'p cel_eval \<Rightarrow> 'p RuntimeRequestCost \<Rightarrow> TokenUsage \<Rightarrow> headers \<Rightarrow> string \<Rightarrow> string \<Rightarrow> go_error + u64" where
  "evalRuntimeRequestCost ev rc costs requestHeaders backendName routeName =
     evalCost ev (rc_Type (rrc_Cost rc)) (rrc_CELProg rc) costs requestHeaders backendName routeName"

definition resolveAIServiceBackendName :: "string \<Rightarrow> string \<Rightarrow> string" where
  "resolveAIServiceBackendName explicitName backendName =
     (if explicitName \<noteq> [] then explicitName
      else let derivedName = AIServiceBackendName backendName
           in if derivedName \<noteq> [] then derivedName else backendName)"

definition skips_rule :: "string \<Rightarrow> string \<Rightarrow> string \<Rightarrow> LLMRequestCost \<Rightarrow> bool" where
  "skips_rule shortBackend routeName actualModel rc =
     (rc_Backend rc \<noteq> [] \<and> rc_Backend rc \<noteq> shortBackend \<or>
      rc_RouteName rc \<noteq> routeName \<or>
      rc_Model rc \<noteq> [] \<and> rc_Model rc \<noteq> actualModel)"

fun route_cost_loop ::
  "('p RuntimeRequestCost \<Rightarrow> go_error + u64) \<Rightarrow> string \<Rightarrow> string \<Rightarrow> string \<Rightarrow>
   'p RuntimeRequestCost list \<Rightarrow> pstruct \<times> string set \<Rightarrow> go_error + (pstruct \<times> string set)" where
  "route_cost_loop ev shortBackend routeName actualModel [] st = Inr st"
| "route_cost_loop ev shortBackend routeName actualModel (rc # rcs) st =
     (if skips_rule shortBackend routeName actualModel (rrc_Cost rc)
      then route_cost_loop ev shortBackend routeName actualModel rcs st
      else case ev rc of
             Inl e \<Rightarrow> Inl e
           | Inr cost \<Rightarrow>
               route_cost_loop ev shortBackend routeName actualModel rcs
                 ((fst st)(rc_MetadataKey (rrc_Cost rc) \<mapsto> float64 (unat cost)),
                  insert (rc_MetadataKey (rrc_Cost rc)) (snd st)))"

fun global_cost_loop ::
  "('p RuntimeGlobalRequestCost \<Rightarrow> go_error + u64) \<Rightarrow> string set \<Rightarrow>
   'p RuntimeGlobalRequestCost list \<Rightarrow> pstruct \<Rightarrow> go_error + pstruct" where
  "global_cost_loop ev populatedKeys [] metadata = Inr metadata"
| "global_cost_loop ev populatedKeys (rc # rcs) metadata =
     (if gc_MetadataKey (rgc_Cost rc) \<in> populatedKeys then global_cost_loop ev populatedKeys rcs metadata
      else case ev rc of
             Inl e \<Rightarrow> Inl e
           | Inr cost \<Rightarrow>
               global_cost_loop ev populatedKeys rcs
                 (metadata(gc_MetadataKey (rgc_Cost rc) \<mapsto> float64 (unat cost))))"

definition identity_fields :: "string \<Rightarrow> string \<Rightarrow> string \<Rightarrow> string \<Rightarrow> string \<Rightarrow> pstruct \<Rightarrow> pstruct" where
  "identity_fields actualModel backendName shortBackend routeName responseModel metadata =
     (let m1 = metadata(''model_name_override'' \<mapsto> StringValue actualModel);
          m2 = (if backendName \<noteq> [] then m1(''ai_service_backend_name'' \<mapsto> StringValue shortBackend) else m1);
          m3 = (if routeName \<noteq> [] then m2(''route_name'' \<mapsto> StringValue routeName) else m2)
      in if responseModel \<noteq> [] then m3(''response_model'' \<mapsto> StringValue responseModel) else m3)"

text \<open>
  The final test for an empty map never succeeds, as \<open>model_name_override\<close> is always set, so
  the function returns a struct or an error.
\<close>

definition buildDynamicMetadataWithBackendIdentity ::
  "'p cel_eval \<Rightarrow> 'p RuntimeGlobalRequestCost list \<Rightarrow> 'p RuntimeRequestCost list \<Rightarrow> TokenUsage \<Rightarrow>
   headers \<Rightarrow> string \<Rightarrow> string \<Rightarrow> string \<Rightarrow> string \<Rightarrow> go_error + pstruct" where
  "buildDynamicMetadataWithBackendIdentity ev globalRequestCosts requestCosts costs requestHeaders
       backendName shortBackend routeName responseModel =
     (let actualModel = mget requestHeaders ModelNameHeaderKeyDefault in
      case route_cost_loop (\<lambda>rc. evalRuntimeRequestCost ev rc costs requestHeaders backendName routeName)
             shortBackend routeName actualModel requestCosts (Map.empty, {}) of
        Inl e \<Rightarrow> Inl e
      | Inr (metadata, populatedKeys) \<Rightarrow>
          (case global_cost_loop (\<lambda>rc. evalRuntimeGlobalRequestCost ev rc costs requestHeaders backendName routeName)
                  populatedKeys globalRequestCosts metadata of
             Inl e \<Rightarrow> Inl e
           | Inr metadata' \<Rightarrow>
               Inr (namespaced (identity_fields actualModel backendName shortBackend routeName responseModel metadata'))))"

definition buildDynamicMetadata ::
  "'p cel_eval \<Rightarrow> 'p RuntimeGlobalRequestCost list \<Rightarrow> 'p RuntimeRequestCost list \<Rightarrow> TokenUsage \<Rightarrow>
   headers \<Rightarrow> string \<Rightarrow> string \<Rightarrow> string \<Rightarrow> go_error + pstruct" where
  "buildDynamicMetadata ev globalRequestCosts requestCosts costs requestHeaders backendName routeName responseModel =
     buildDynamicMetadataWithBackendIdentity ev globalRequestCosts requestCosts costs requestHeaders backendName
       (resolveAIServiceBackendName [] backendName) routeName responseModel"

section \<open>Properties of request costs\<close>

fun put_costs :: "('r \<Rightarrow> string) \<Rightarrow> ('r \<Rightarrow> go_error + u64) \<Rightarrow> 'r list \<Rightarrow> pstruct \<Rightarrow> go_error + pstruct" where
  "put_costs key ev [] m = Inr m"
| "put_costs key ev (r # rs) m =
     (case ev r of Inl e \<Rightarrow> Inl e | Inr c \<Rightarrow> put_costs key ev rs (m(key r \<mapsto> float64 (unat c))))"

definition last_rule :: "('r \<Rightarrow> string) \<Rightarrow> string \<Rightarrow> 'r list \<Rightarrow> 'r option" where
  "last_rule key k rs = (case filter (\<lambda>r. key r = k) rs of [] \<Rightarrow> None | xs \<Rightarrow> Some (last xs))"

definition cost_value :: "('r \<Rightarrow> go_error + u64) \<Rightarrow> 'r \<Rightarrow> pvalue option" where
  "cost_value ev r = (case ev r of Inl _ \<Rightarrow> None | Inr c \<Rightarrow> Some (float64 (unat c)))"

lemma last_rule_Nil [simp]: "last_rule key k [] = None"
  by (simp add: last_rule_def)

lemma last_rule_Cons: "last_rule key k (r # rs) =
    (case last_rule key k rs of None \<Rightarrow> if key r = k then Some r else None | Some x \<Rightarrow> Some x)"
  by (auto simp: last_rule_def split: list.splits)

lemma last_rule_None: "last_rule key k rs = None \<longleftrightarrow> k \<notin> key ` set rs"
  by (induction rs) (auto simp: last_rule_Cons split: option.splits)

lemma put_costs_Inl: "put_costs key ev rs m = Inl e \<Longrightarrow> \<exists>r \<in> set rs. ev r = Inl e"
  by (induction rs arbitrary: m) (auto split: sum.splits)

lemma put_costs_Inr:
  "put_costs key ev rs m = Inr m' \<Longrightarrow> (\<forall>r \<in> set rs. \<exists>c. ev r = Inr c) \<and>
     m' k = (case last_rule key k rs of None \<Rightarrow> m k | Some r \<Rightarrow> cost_value ev r)"
proof (induction rs arbitrary: m)
  case (Cons r rs)
  from Cons.prems obtain c where c: "ev r = Inr c" and
    rest: "put_costs key ev rs (m(key r \<mapsto> float64 (unat c))) = Inr m'" by (auto split: sum.splits)
  from Cons.IH [OF rest] c show ?case
    by (simp add: last_rule_Cons cost_value_def split: option.split)
qed simp

abbreviation route_key :: "'p RuntimeRequestCost \<Rightarrow> string" where
  "route_key \<equiv> rc_MetadataKey \<circ> rrc_Cost"

abbreviation global_key :: "'p RuntimeGlobalRequestCost \<Rightarrow> string" where
  "global_key \<equiv> gc_MetadataKey \<circ> rgc_Cost"

abbreviation route_cost :: "'p cel_eval \<Rightarrow> TokenUsage \<Rightarrow> headers \<Rightarrow> string \<Rightarrow> string \<Rightarrow> 'p RuntimeRequestCost \<Rightarrow> go_error + u64" where
  "route_cost ev costs hdrs bn rn \<equiv> \<lambda>rc. evalRuntimeRequestCost ev rc costs hdrs bn rn"

abbreviation global_cost :: "'p cel_eval \<Rightarrow> TokenUsage \<Rightarrow> headers \<Rightarrow> string \<Rightarrow> string \<Rightarrow> 'p RuntimeGlobalRequestCost \<Rightarrow> go_error + u64" where
  "global_cost ev costs hdrs bn rn \<equiv> \<lambda>rc. evalRuntimeGlobalRequestCost ev rc costs hdrs bn rn"

lemma route_cost_loop_filter:
  "route_cost_loop ev sb rn am rcs (m, ks) =
     (let rs = filter (\<lambda>rc. \<not> skips_rule sb rn am (rrc_Cost rc)) rcs
      in case put_costs route_key ev rs m of
           Inl e \<Rightarrow> Inl e | Inr m' \<Rightarrow> Inr (m', ks \<union> route_key ` set rs))"
  by (induction rcs arbitrary: m ks) (auto simp: Let_def split: sum.splits)

lemma global_cost_loop_filter:
  "global_cost_loop ev ks rcs m =
     put_costs global_key ev (filter (\<lambda>rc. gc_MetadataKey (rgc_Cost rc) \<notin> ks) rcs) m"
  by (induction rcs arbitrary: m) (auto split: sum.splits)

lemma last_rule_filter: "last_rule key k (filter (\<lambda>r. key r \<notin> ks) rs) = (if k \<in> ks then None else last_rule key k rs)"
proof (cases "k \<in> ks")
  case True
  then show ?thesis by (auto simp: last_rule_None)
next
  case False
  then have "filter (\<lambda>r. key r = k) (filter (\<lambda>r. key r \<notin> ks) rs) = filter (\<lambda>r. key r = k) rs"
    by (auto intro: filter_cong)
  then show ?thesis using False by (simp add: last_rule_def)
qed

definition route_rules :: "string \<Rightarrow> string \<Rightarrow> string \<Rightarrow> 'p RuntimeRequestCost list \<Rightarrow> 'p RuntimeRequestCost list" where
  "route_rules shortBackend routeName actualModel rcs =
     filter (\<lambda>rc. \<not> skips_rule shortBackend routeName actualModel (rrc_Cost rc)) rcs"

definition fallback_rules :: "'p RuntimeRequestCost list \<Rightarrow> 'p RuntimeGlobalRequestCost list \<Rightarrow> 'p RuntimeGlobalRequestCost list" where
  "fallback_rules rs gs = filter (\<lambda>g. gc_MetadataKey (rgc_Cost g) \<notin> route_key ` set rs) gs"

definition identity_keys :: "string set" where
  "identity_keys = {''model_name_override'', ''ai_service_backend_name'', ''route_name'', ''response_model''}"

lemma identity_fields_other:
  "k \<notin> identity_keys \<Longrightarrow> identity_fields am bn sb rn rm m k = m k"
  by (simp add: identity_fields_def identity_keys_def Let_def)

lemma build_metadata_cases:
  "buildDynamicMetadataWithBackendIdentity ev gcs rcs costs hdrs bn sb rn rm =
    (case put_costs route_key (route_cost ev costs hdrs bn rn)
            (route_rules sb rn (mget hdrs ModelNameHeaderKeyDefault) rcs) Map.empty of
       Inl e \<Rightarrow> Inl e
     | Inr m \<Rightarrow> (case put_costs global_key (global_cost ev costs hdrs bn rn)
                     (fallback_rules (route_rules sb rn (mget hdrs ModelNameHeaderKeyDefault) rcs) gcs) m of
                   Inl e \<Rightarrow> Inl e
                 | Inr m' \<Rightarrow> Inr (namespaced (identity_fields (mget hdrs ModelNameHeaderKeyDefault) bn sb rn rm m'))))"
  by (simp add: buildDynamicMetadataWithBackendIdentity_def route_cost_loop_filter global_cost_loop_filter
      route_rules_def fallback_rules_def Let_def split: sum.splits)

text \<open>
  C21. The precedence of cost rules. When the metadata is built, its field for a key other than the
  four identity fields is the cost by the last route-scoped rule of the key that applies to the
  route, backend and model of the request; if there is none, the cost by the last gateway-wide rule
  of the key; if there is none either, the field is absent.
\<close>

theorem cost_rule_precedence:
  assumes "buildDynamicMetadataWithBackendIdentity ev gcs rcs costs hdrs bn sb rn rm = Inr md"
    and "k \<notin> identity_keys"
  shows "\<exists>fs. md = namespaced fs \<and>
    fs k = (case last_rule route_key k (route_rules sb rn (mget hdrs ModelNameHeaderKeyDefault) rcs) of
              Some rc \<Rightarrow> cost_value (route_cost ev costs hdrs bn rn) rc
            | None \<Rightarrow> (case last_rule global_key k gcs of
                         Some g \<Rightarrow> cost_value (global_cost ev costs hdrs bn rn) g
                       | None \<Rightarrow> None))"
proof -
  let ?rs = "route_rules sb rn (mget hdrs ModelNameHeaderKeyDefault) rcs"
  from assms(1) obtain m m' where
    m: "put_costs route_key (route_cost ev costs hdrs bn rn) ?rs Map.empty = Inr m" and
    m': "put_costs global_key (global_cost ev costs hdrs bn rn)
          (fallback_rules ?rs gcs) m = Inr m'" and
    md: "md = namespaced (identity_fields (mget hdrs ModelNameHeaderKeyDefault) bn sb rn rm m')"
    by (auto simp: build_metadata_cases split: sum.splits)
  have fb: "last_rule global_key k (fallback_rules ?rs gcs) =
    (if last_rule route_key k ?rs = None then last_rule global_key k gcs else None)"
    using last_rule_filter [of global_key k "route_key ` set ?rs" gcs] last_rule_None [of route_key k ?rs]
    by (simp add: fallback_rules_def)
  have mk: "m k = (case last_rule route_key k ?rs of None \<Rightarrow> None | Some r \<Rightarrow> cost_value (route_cost ev costs hdrs bn rn) r)"
    using put_costs_Inr [OF m, of k] by (simp cong: option.case_cong)
  have mk': "m' k = (case last_rule global_key k (fallback_rules ?rs gcs) of None \<Rightarrow> m k
      | Some g \<Rightarrow> cost_value (global_cost ev costs hdrs bn rn) g)"
    using put_costs_Inr [OF m', of k] by (rule conjunct2)
  show ?thesis
    unfolding md by (rule exI, rule conjI, rule refl)
      (unfold identity_fields_other [OF assms(2)] mk' fb mk, cases "last_rule route_key k ?rs", simp_all split: option.split)
qed

definition sample_usage :: TokenUsage where
  "sample_usage = SetInputTokens 7 (SetOutputTokens 5 no_usage)"

definition sample_route_cost :: "nat RuntimeRequestCost" where
  "sample_route_cost = \<lparr>rrc_Cost = \<lparr>rc_MetadataKey = ''k'', rc_RouteName = ''r'', rc_Type = CostInputToken,
     rc_CEL = [], rc_Backend = [], rc_Model = []\<rparr>, rrc_CELProg = None\<rparr>"

definition sample_global_cost :: "string \<Rightarrow> nat RuntimeGlobalRequestCost" where
  "sample_global_cost k = \<lparr>rgc_Cost = \<lparr>gc_MetadataKey = k, gc_Type = CostOutputToken, gc_CEL = []\<rparr>, rgc_CELProg = None\<rparr>"

theorem cost_rule_precedence_witness:
  "\<exists>fs. buildDynamicMetadataWithBackendIdentity (\<lambda>_ _. Inl (errorf ''no cel''))
      [sample_global_cost ''k'', sample_global_cost ''g''] [sample_route_cost] sample_usage Map.empty ''b'' ''b'' ''r'' [] =
      Inr (namespaced fs) \<and> fs ''k'' = Some (NumberValue 7)"
proof -
  let ?b = "buildDynamicMetadataWithBackendIdentity (\<lambda>_ _. Inl (errorf ''no cel''))
      [sample_global_cost ''k'', sample_global_cost ''g''] [sample_route_cost] sample_usage Map.empty ''b'' ''b'' ''r'' []"
  note defs = sample_global_cost_def sample_route_cost_def sample_usage_def no_usage_def
    evalRuntimeRequestCost_def evalRuntimeGlobalRequestCost_def evalCost_def skips_rule_def
    InputTokens_def OutputTokens_def usage_setters unsigned_ucast_eq take_bit_eq_mod
  obtain md where md: "?b = Inr md"
    by (simp add: buildDynamicMetadataWithBackendIdentity_def defs)
  have "''k'' \<notin> identity_keys" by (simp add: identity_keys_def)
  from cost_rule_precedence [OF md this] md show ?thesis
    by (auto simp: defs route_rules_def last_rule_def cost_value_def float64_def float64_exact)
qed

definition cel_no_panic :: "'p cel_eval \<Rightarrow> bool" where
  "cel_no_panic ev \<longleftrightarrow> (\<forall>p i e. ev p i = Inl e \<longrightarrow> \<not> errors_is e GoPanic)"

lemma evalCost_no_panic:
  assumes "cel_no_panic ev"
    and "ty = CostCEL \<longrightarrow> prog \<noteq> None"
    and "evalCost ev ty prog costs hdrs bn rn = Inl err"
  shows "\<not> errors_is err GoPanic"
proof (cases ty)
  case CostCEL
  with assms(2) obtain p where "prog = Some p" by auto
  with CostCEL assms(3) show ?thesis
    using assms(1) by (auto simp: cel_no_panic_def evalCost_def EvaluateProgram_def split: sum.splits cel_value.splits if_splits)
qed (use assms(3) in \<open>auto simp: evalCost_def\<close>)

lemma runtime_config_costs:
  assumes "NewRuntimeConfig newProgram newCodec config fn = Inr rt"
  shows "global_costs newProgram (cfg_GlobalLLMRequestCosts config) = Inr (rt_GlobalRequestCosts rt)"
    and "route_costs newProgram (cfg_LLMRequestCosts config) = Inr (rt_RequestCosts rt)"
  using assms by (auto simp: NewRuntimeConfig_def split: sum.splits)

lemma optional_program_Some: "optional_program np cel = Inr prog \<Longrightarrow> cel \<noteq> [] \<Longrightarrow> prog \<noteq> None"
  by (auto simp: optional_program_def split: sum.splits)

text \<open>
  C39. Cost evaluation never dereferences a missing program: for a loaded configuration whose rules of
  the expression type have an expression (which is what the configuration documents), an error of
  building the metadata is an error of the evaluator or of an unknown rule type, never a panic.
\<close>

theorem cost_evaluation_no_panic:
  assumes "NewRuntimeConfig newProgram newCodec config fn = Inr rt"
    and "\<forall>c \<in> set (cfg_LLMRequestCosts config). rc_Type c = CostCEL \<longrightarrow> rc_CEL c \<noteq> []"
    and "\<forall>c \<in> set (cfg_GlobalLLMRequestCosts config). gc_Type c = CostCEL \<longrightarrow> gc_CEL c \<noteq> []"
    and "cel_no_panic ev"
    and "buildDynamicMetadata ev (rt_GlobalRequestCosts rt) (rt_RequestCosts rt) costs hdrs bn rn rm = Inl err"
  shows "\<not> errors_is err GoPanic"
proof -
  note g = global_costs_sound [OF runtime_config_costs(1) [OF assms(1)]]
  note r = route_costs_sound [OF runtime_config_costs(2) [OF assms(1)]]
  have rprog: "rc_Type (rrc_Cost rc) = CostCEL \<longrightarrow> rrc_CELProg rc \<noteq> None" if "rc \<in> set (rt_RequestCosts rt)" for rc
    using r assms(2) that optional_program_Some by (metis image_eqI list.set_map)
  have gprog: "gc_Type (rgc_Cost rc) = CostCEL \<longrightarrow> rgc_CELProg rc \<noteq> None" if "rc \<in> set (rt_GlobalRequestCosts rt)" for rc
    using g assms(3) that optional_program_Some by (metis image_eqI list.set_map)
  from assms(5) have "(\<exists>rc \<in> set (rt_RequestCosts rt). route_cost ev costs hdrs bn rn rc = Inl err) \<or>
      (\<exists>rc \<in> set (rt_GlobalRequestCosts rt). global_cost ev costs hdrs bn rn rc = Inl err)"
    by (auto simp: buildDynamicMetadata_def build_metadata_cases route_rules_def fallback_rules_def
        dest!: put_costs_Inl split: sum.splits)
  then show ?thesis
    unfolding evalRuntimeRequestCost_def evalRuntimeGlobalRequestCost_def
    using evalCost_no_panic [OF assms(4)] rprog gprog by metis
qed

theorem cost_evaluation_no_panic_witness:
  "\<exists>rt :: (unit, string, unit) RuntimeConfig.
     NewRuntimeConfig (\<lambda>e. Inr e) (\<lambda>_. Inr ()) sample_config (\<lambda>_. Inr ()) = Inr rt \<and>
     (\<exists>err. buildDynamicMetadata (\<lambda>_ _. Inl (errorf ''overflow'')) (rt_GlobalRequestCosts rt) (rt_RequestCosts rt)
        sample_usage Map.empty ''b'' ''other'' [] = Inl err \<and> \<not> errors_is err GoPanic)"
proof -
  obtain rt :: "(unit, string, unit) RuntimeConfig" where
    rt: "NewRuntimeConfig (\<lambda>e. Inr e) (\<lambda>_. Inr ()) sample_config (\<lambda>_. Inr ()) = Inr rt"
    by (simp add: NewRuntimeConfig_def sample_config_def sample_backend_def optional_program_def)
  then obtain err where err: "buildDynamicMetadata (\<lambda>_ _. Inl (errorf ''overflow'')) (rt_GlobalRequestCosts rt)
      (rt_RequestCosts rt) sample_usage Map.empty ''b'' ''other'' [] = Inl err"
    by (auto simp: NewRuntimeConfig_def sample_config_def sample_backend_def optional_program_def
        buildDynamicMetadata_def buildDynamicMetadataWithBackendIdentity_def skips_rule_def
        evalRuntimeGlobalRequestCost_def evalCost_def EvaluateProgram_def)
  have "\<not> errors_is err GoPanic"
    by (rule cost_evaluation_no_panic [OF rt _ _ _ err]) (auto simp: sample_config_def cel_no_panic_def)
  with rt err show ?thesis by blast
qed



end
