(* ===== verification/Backend_Auth.thy ===== *)
theory Backend_Auth
  imports Envoy_Messages Filter_Config
begin

text \<open>
  \<^verbatim>\<open>internal/backendauth\<close>: the handlers that put the upstream credential on a
  request, statically or per request. A handler mutates the request headers and returns the headers
  to send, so \<open>Do\<close> returns both. The AWS and Google client libraries, the HTTP request
  constructor and the hash are the fields of \<open>auth_env\<close>; signing returns the headers of
  the signed request with their first values, in the order in which the code ranges over them. The metadata of the context is an
  argument, nil when Envoy sent none.
\<close>

section \<open>The client libraries\<close>

record aws_credentials =
  ac_AccessKeyID :: string
  ac_SecretAccessKey :: string
  ac_SessionToken :: string
  ac_Source :: string

record sign_request =
  sr_method :: string
  sr_url :: string
  sr_Host :: string
  sr_body :: bytes
  sr_ContentLength :: int

record ('prov, 'ts) auth_env =
  ae_LoadAWSConfig :: "string option \<Rightarrow> string \<Rightarrow> go_error + 'prov"
  ae_Retrieve :: "'prov \<Rightarrow> go_error + aws_credentials"
  ae_NewRequest :: "string \<Rightarrow> string \<Rightarrow> bytes \<Rightarrow> go_error option"
  ae_sha256_hex :: "bytes \<Rightarrow> string"
  ae_SignHTTP :: "aws_credentials \<Rightarrow> sign_request \<Rightarrow> string \<Rightarrow> string \<Rightarrow> string \<Rightarrow> int \<Rightarrow>
                  go_error + header list"
  ae_FindDefaultCredentials :: "go_error + 'ts"
  ae_Token :: "'ts \<Rightarrow> go_error + string"

type_synonym metadata_ctx = "(string \<Rightarrow> pstruct option) option"

type_synonym do_result = "headers \<times> (go_error + header list)"

section \<open>Static credentials\<close>

type_synonym applyCredentialFn = "headers \<Rightarrow> string \<Rightarrow> do_result"

definition applyBearerCredential :: applyCredentialFn where
  "applyBearerCredential hdrs credential =
     (let v = ''Bearer '' @ credential in (hdrs(''Authorization'' \<mapsto> v), Inr [(''Authorization'', v)]))"

definition applyAnthropicCredential :: applyCredentialFn where
  "applyAnthropicCredential hdrs credential =
     (hdrs(''x-api-key'' \<mapsto> credential), Inr [(''x-api-key'', credential)])"

definition applyAzureAPIKeyCredential :: applyCredentialFn where
  "applyAzureAPIKeyCredential hdrs credential =
     (hdrs(''api-key'' \<mapsto> credential), Inr [(''api-key'', credential)])"

definition makeGCPApplyFn :: "string \<Rightarrow> string \<Rightarrow> applyCredentialFn" where
  "makeGCPApplyFn region projectName hdrs credential =
     (let path = mget hdrs '':path'' in
      if path = [] then (hdrs, Inl (errorf ''missing ':path' header in the request''))
      else let prefixPath = ''/v1/projects/'' @ projectName @ ''/locations/'' @ region;
               newPath = prefixPath @ ''/'' @ path;
               v = ''Bearer '' @ credential
           in (hdrs('':path'' \<mapsto> newPath, ''Authorization'' \<mapsto> v), Inr [('':path'', newPath), (''Authorization'', v)]))"

definition makeOpenAIApplyFn :: "string \<Rightarrow> string \<Rightarrow> applyCredentialFn" where
  "makeOpenAIApplyFn organization project hdrs credential =
     (let v = ''Bearer '' @ credential;
          h1 = hdrs(''Authorization'' \<mapsto> v); out1 = [(''Authorization'', v)];
          h2 = (if organization \<noteq> [] then h1(''OpenAI-Organization'' \<mapsto> organization) else h1);
          out2 = (if organization \<noteq> [] then out1 @ [(''OpenAI-Organization'', organization)] else out1);
          h3 = (if project \<noteq> [] then h2(''OpenAI-Project'' \<mapsto> project) else h2);
          out3 = (if project \<noteq> [] then out2 @ [(''OpenAI-Project'', project)] else out2)
      in (h3, Inr out3))"

record 'ts gcpHandler =
  gh_gcpAccessToken :: string
  gh_tokenSource :: "'ts option"
  gh_region :: string
  gh_projectName :: string

definition newGCPHandler :: "('prov, 'ts) auth_env \<Rightarrow> GCPAuth \<Rightarrow> go_error + 'ts gcpHandler" where
  "newGCPHandler env auth =
     (if gcp_AccessToken auth \<noteq> []
      then Inr \<lparr>gh_gcpAccessToken = gcp_AccessToken auth, gh_tokenSource = None,
                gh_region = gcp_Region auth, gh_projectName = gcp_ProjectName auth\<rparr>
      else case ae_FindDefaultCredentials env of
             Inl e \<Rightarrow> Inl (wrapf ''failed to find GCP default credentials: '' e)
           | Inr ts \<Rightarrow> Inr \<lparr>gh_gcpAccessToken = [], gh_tokenSource = Some ts,
                gh_region = gcp_Region auth, gh_projectName = gcp_ProjectName auth\<rparr>)"

definition gcpHandler_Do :: "('prov, 'ts) auth_env \<Rightarrow> 'ts gcpHandler \<Rightarrow> headers \<Rightarrow> do_result" where
  "gcpHandler_Do env g hdrs =
     (let prefixPath = ''/v1/projects/'' @ gh_projectName g @ ''/locations/'' @ gh_region g;
          path = mget hdrs '':path'' in
      if path = [] then (hdrs, Inl (errorf ''missing ':path' header in the request''))
      else let newPath = prefixPath @ ''/'' @ path in
           case (case gh_tokenSource g of
                   None \<Rightarrow> Inr (gh_gcpAccessToken g)
                 | Some ts \<Rightarrow> (case ae_Token env ts of
                                 Inl e \<Rightarrow> Inl (wrapf ''failed to get GCP access token: '' e)
                               | Inr t \<Rightarrow> Inr t)) of
             Inl e \<Rightarrow> (hdrs, Inl e)
           | Inr accessToken \<Rightarrow>
               (hdrs('':path'' \<mapsto> newPath, ''Authorization'' \<mapsto> ''Bearer '' @ accessToken),
                Inr [('':path'', newPath), (''Authorization'', ''Bearer '' @ accessToken)]))"

section \<open>AWS signatures\<close>

record 'prov awsHandler =
  ah_credentialsProvider :: 'prov
  ah_region :: string

definition newAWSHandler :: "('prov, 'ts) auth_env \<Rightarrow> AWSAuth \<Rightarrow> go_error + 'prov awsHandler" where
  "newAWSHandler env auth =
     (let file = (if aws_CredentialFileLiteral auth \<noteq> [] then Some (aws_CredentialFileLiteral auth) else None) in
      case ae_LoadAWSConfig env file (aws_Region auth) of
        Inl e \<Rightarrow> Inl (wrapf (if file = None then ''cannot load AWS config: ''
                            else ''cannot load from credentials file: '') e)
      | Inr p \<Rightarrow> Inr \<lparr>ah_credentialsProvider = p, ah_region = aws_Region auth\<rparr>)"

definition signingHost :: "'prov awsHandler \<Rightarrow> headers \<Rightarrow> string" where
  "signingHost a hdrs =
     (let host = mget hdrs UpstreamHostHeader in
      if host \<noteq> [] then host else ''bedrock-runtime.'' @ ah_region a @ ''.amazonaws.com'')"

definition signingRegion :: "'prov awsHandler \<Rightarrow> string \<Rightarrow> string" where
  "signingRegion a host =
     (let r = AWSBedrockRegionFromHost host in if r \<noteq> [] then r else ah_region a)"

fun signed_headers :: "header list \<Rightarrow> headers \<Rightarrow> headers \<times> header list" where
  "signed_headers [] hdrs = (hdrs, [])"
| "signed_headers ((key, hdr) # rest) hdrs =
     (if key = ''Authorization'' \<or> HasPrefix key ''X-Amz-''
      then let (hdrs', out) = signed_headers rest (hdrs(key \<mapsto> hdr)) in (hdrs', (key, hdr) # out)
      else signed_headers rest hdrs)"

definition signWith ::
  "('prov, 'ts) auth_env \<Rightarrow> int \<Rightarrow> 'prov awsHandler \<Rightarrow> aws_credentials \<Rightarrow> headers \<Rightarrow> slice \<Rightarrow> do_result" where
  "signWith env now a credentials hdrs mutatedBody =
     (let method = mget hdrs '':method''; path = mget hdrs '':path''; host = signingHost a hdrs;
          region = signingRegion a host;
          body = slice_bytes mutatedBody;
          payloadHash = ae_sha256_hex env body;
          url = ''https://'' @ host @ path in
      case ae_NewRequest env method url body of
        Some e \<Rightarrow> (hdrs, Inl (wrapf ''cannot create request: '' e))
      | None \<Rightarrow>
          (case ae_SignHTTP env credentials
                  \<lparr>sr_method = method, sr_url = url, sr_Host = host, sr_body = body, sr_ContentLength = -1\<rparr>
                  payloadHash ''bedrock'' region now of
             Inl e \<Rightarrow> (hdrs, Inl (wrapf ''cannot sign request: '' e))
           | Inr req_Header \<Rightarrow> (let (hdrs', out) = signed_headers req_Header hdrs in (hdrs', Inr out))))"

definition awsHandler_Do ::
  "('prov, 'ts) auth_env \<Rightarrow> int \<Rightarrow> 'prov awsHandler \<Rightarrow> headers \<Rightarrow> slice \<Rightarrow> do_result" where
  "awsHandler_Do env now a hdrs mutatedBody =
     (case ae_Retrieve env (ah_credentialsProvider a) of
        Inl e \<Rightarrow> (hdrs, Inl (wrapf ''cannot retrieve AWS credentials: '' e))
      | Inr credentials \<Rightarrow> signWith env now a credentials hdrs mutatedBody)"

section \<open>Per-request credentials\<close>

definition lookupMetadataValue :: "metadata_ctx \<Rightarrow> CredentialOverride \<Rightarrow> pvalue option" where
  "lookupMetadataValue md ov =
     (case md of
        None \<Rightarrow> None
      | Some m \<Rightarrow> (case m (co_DynamicMetadataNamespace ov) of
                     None \<Rightarrow> None
                   | Some ns \<Rightarrow> ns (co_DynamicMetadataKey ov)))"

fun string_value :: "pvalue option \<Rightarrow> string" where
  "string_value None = []"
| "string_value (Some v) = GetStringValue v"

definition resolveCredential :: "CredentialOverride \<Rightarrow> metadata_ctx \<Rightarrow> headers \<Rightarrow> string" where
  "resolveCredential ov md hdrs =
     (if co_HeaderName ov \<noteq> [] then TrimSpace (mget hdrs (co_HeaderName ov))
      else if co_DynamicMetadataNamespace ov \<noteq> [] then TrimSpace (string_value (lookupMetadataValue md ov))
      else [])"

definition aws_parts :: "CredentialOverride \<Rightarrow> metadata_ctx \<Rightarrow> headers \<Rightarrow> (string \<times> string \<times> string) option" where
  "aws_parts ov md hdrs =
     (if co_HeaderName ov \<noteq> [] then
        (let (accessKeyIDHeader, secretAccessKeyHeader, sessionTokenHeader) =
               AWSCredentialOverrideHeaderNames (co_HeaderName ov)
         in Some (TrimSpace (mget hdrs accessKeyIDHeader), TrimSpace (mget hdrs secretAccessKeyHeader),
                  TrimSpace (mget hdrs sessionTokenHeader)))
      else if co_DynamicMetadataNamespace ov \<noteq> [] then
        (let fs = (case GetStructValue (lookupMetadataValue md ov) of None \<Rightarrow> Map.empty | Some fs \<Rightarrow> fs)
         in Some (TrimSpace (string_value (fs ''accessKeyId'')), TrimSpace (string_value (fs ''secretAccessKey'')),
                  TrimSpace (string_value (fs ''sessionToken''))))
      else None)"

definition resolveAWSCredentials ::
  "CredentialOverride \<Rightarrow> metadata_ctx \<Rightarrow> headers \<Rightarrow> go_error + aws_credentials option" where
  "resolveAWSCredentials ov md hdrs =
     (case aws_parts ov md hdrs of
        None \<Rightarrow> Inr None
      | Some (accessKeyID, secretAccessKey, sessionToken) \<Rightarrow>
          if accessKeyID = [] \<and> secretAccessKey = [] \<and> sessionToken = [] then Inr None
          else if accessKeyID = [] \<or> secretAccessKey = []
          then Inl (GoError [ErrIncompleteAWSCredential]
            ''incomplete per-request AWS credential: access key ID and secret access key must both be present'')
          else Inr (Some \<lparr>ac_AccessKeyID = accessKeyID, ac_SecretAccessKey = secretAccessKey,
                          ac_SessionToken = sessionToken, ac_Source = ''AIGatewayCredentialOverride''\<rparr>))"

definition credential_missing :: go_error where
  "credential_missing = GoError [ErrCredentialMissing] ''per-request credential missing''"

section \<open>Handlers\<close>

datatype ('prov, 'ts) handler =
    AWSHandler "'prov awsHandler"
  | APIKeyHandler string
  | AzureAPIKeyHandler string
  | AzureHandler string
  | GCPHandler "'ts gcpHandler"
  | OpenAIHandler string applyCredentialFn
  | AnthropicAPIKeyHandler string
  | CredentialOverrideHandler "('prov, 'ts) handler" CredentialOverride applyCredentialFn
  | AWSCredentialOverrideHandler "'prov awsHandler" CredentialOverride

definition newAPIKeyHandler :: "string \<Rightarrow> ('prov, 'ts) handler" where
  [simp]: "newAPIKeyHandler key = APIKeyHandler (TrimSpace key)"

definition apiKeyHandler_Do :: "string \<Rightarrow> headers \<Rightarrow> do_result" where
  [simp]: "apiKeyHandler_Do apiKey hdrs =
     (hdrs(''Authorization'' \<mapsto> ''Bearer '' @ apiKey), Inr [(''Authorization'', ''Bearer '' @ apiKey)])"

definition newAnthropicAPIKeyHandler :: "string \<Rightarrow> ('prov, 'ts) handler" where
  [simp]: "newAnthropicAPIKeyHandler key = AnthropicAPIKeyHandler (TrimSpace key)"

definition anthropicAPIKeyHandler_Do :: "string \<Rightarrow> headers \<Rightarrow> do_result" where
  [simp]: "anthropicAPIKeyHandler_Do apiKey hdrs = (hdrs(''x-api-key'' \<mapsto> apiKey), Inr [(''x-api-key'', apiKey)])"

definition newAzureHandler :: "string \<Rightarrow> ('prov, 'ts) handler" where
  [simp]: "newAzureHandler accessToken = AzureHandler (TrimSpace accessToken)"

definition azureHandler_Do :: "string \<Rightarrow> headers \<Rightarrow> do_result" where
  [simp]: "azureHandler_Do token hdrs =
     (hdrs(''Authorization'' \<mapsto> ''Bearer '' @ token), Inr [(''Authorization'', ''Bearer '' @ token)])"

definition newAzureAPIKeyHandler :: "string \<Rightarrow> go_error + ('prov, 'ts) handler" where
  [simp]: "newAzureAPIKeyHandler key =
     (if key = [] then Inl (errorf ''azure API key is required'') else Inr (AzureAPIKeyHandler (TrimSpace key)))"

definition azureAPIKeyHandler_Do :: "string \<Rightarrow> headers \<Rightarrow> do_result" where
  [simp]: "azureAPIKeyHandler_Do apiKey hdrs = (hdrs(''api-key'' \<mapsto> apiKey), Inr [(''api-key'', apiKey)])"

definition newOpenAIHandler :: "OpenAIAuth \<Rightarrow> ('prov, 'ts) handler" where
  [simp]: "newOpenAIHandler oa =
     OpenAIHandler (TrimSpace (oai_AccessToken oa)) (makeOpenAIApplyFn (oai_Organization oa) (oai_Project oa))"

definition awsCredentialOverrideHandler_Do ::
  "('prov, 'ts) auth_env \<Rightarrow> int \<Rightarrow> 'prov awsHandler \<Rightarrow> CredentialOverride \<Rightarrow> metadata_ctx \<Rightarrow> headers \<Rightarrow> slice \<Rightarrow> do_result" where
  [simp]: "awsCredentialOverrideHandler_Do env now inner ov md hdrs body =
     (case resolveAWSCredentials ov md hdrs of
        Inl e \<Rightarrow> (hdrs, Inl e)
      | Inr None \<Rightarrow> (if \<not> co_FallbackToConfigured ov then (hdrs, Inl credential_missing)
                     else awsHandler_Do env now inner hdrs body)
      | Inr (Some credentials) \<Rightarrow> signWith env now inner credentials hdrs body)"

text \<open>The dynamic dispatch of Do; the last but one equation is the method of credentialOverrideHandler.\<close>

fun Do ::
  "('prov, 'ts) auth_env \<Rightarrow> int \<Rightarrow> ('prov, 'ts) handler \<Rightarrow> metadata_ctx \<Rightarrow> headers \<Rightarrow> slice \<Rightarrow> do_result" where
  "Do env now (AWSHandler a) md hdrs body = awsHandler_Do env now a hdrs body"
| "Do env now (APIKeyHandler apiKey) md hdrs body = apiKeyHandler_Do apiKey hdrs"
| "Do env now (AzureAPIKeyHandler apiKey) md hdrs body = azureAPIKeyHandler_Do apiKey hdrs"
| "Do env now (AzureHandler token) md hdrs body = azureHandler_Do token hdrs"
| "Do env now (GCPHandler g) md hdrs body = gcpHandler_Do env g hdrs"
| "Do env now (OpenAIHandler accessToken applyFn) md hdrs body = applyFn hdrs accessToken"
| "Do env now (AnthropicAPIKeyHandler apiKey) md hdrs body = anthropicAPIKeyHandler_Do apiKey hdrs"
| "Do env now (CredentialOverrideHandler inner ov applyFn) md hdrs body =
     (let credential = resolveCredential ov md hdrs in
      if credential = [] then
        (if \<not> co_FallbackToConfigured ov then (hdrs, Inl credential_missing)
         else Do env now inner md hdrs body)
      else applyFn hdrs credential)"
| "Do env now (AWSCredentialOverrideHandler inner ov) md hdrs body =
     awsCredentialOverrideHandler_Do env now inner ov md hdrs body"

definition inner_handler ::
  "('prov, 'ts) auth_env \<Rightarrow> BackendAuth \<Rightarrow> go_error + (('prov, 'ts) handler \<times> applyCredentialFn)" where
  "inner_handler env config =
     (case auth_APIKey config of
        Some key \<Rightarrow> Inr (newAPIKeyHandler key, applyBearerCredential)
      | None \<Rightarrow>
     (case auth_AzureAPIKey config of
        Some key \<Rightarrow> (case newAzureAPIKeyHandler key of
                       Inl e \<Rightarrow> Inl e
                     | Inr h \<Rightarrow> Inr (h, applyAzureAPIKeyCredential))
      | None \<Rightarrow>
     (case auth_AzureAuth config of
        Some token \<Rightarrow> Inr (newAzureHandler token, applyBearerCredential)
      | None \<Rightarrow>
     (case auth_GCPAuth config of
        Some g \<Rightarrow> (case newGCPHandler env g of
                     Inl e \<Rightarrow> Inl e
                   | Inr h \<Rightarrow> Inr (GCPHandler h, makeGCPApplyFn (gcp_Region g) (gcp_ProjectName g)))
      | None \<Rightarrow>
     (case auth_OpenAIAuth config of
        Some oa \<Rightarrow> Inr (newOpenAIHandler oa, makeOpenAIApplyFn (oai_Organization oa) (oai_Project oa))
      | None \<Rightarrow>
     (case auth_AnthropicAPIKey config of
        Some key \<Rightarrow> Inr (newAnthropicAPIKeyHandler key, applyAnthropicCredential)
      | None \<Rightarrow> Inl (errorf ''no backend auth handler found'')))))))"

definition NewHandler :: "('prov, 'ts) auth_env \<Rightarrow> BackendAuth \<Rightarrow> go_error + ('prov, 'ts) handler" where
  "NewHandler env config =
     (case auth_AWSAuth config of
        Some a \<Rightarrow>
          (case newAWSHandler env a of
             Inl e \<Rightarrow> Inl e
           | Inr awsInner \<Rightarrow>
               (case auth_CredentialOverride config of
                  None \<Rightarrow> Inr (AWSHandler awsInner)
                | Some ov \<Rightarrow> Inr (AWSCredentialOverrideHandler awsInner ov)))
      | None \<Rightarrow>
          (case inner_handler env config of
             Inl e \<Rightarrow> Inl e
           | Inr (inner, applyFn) \<Rightarrow>
               (case auth_CredentialOverride config of
                  Some ov \<Rightarrow> Inr (CredentialOverrideHandler inner ov applyFn)
                | None \<Rightarrow> Inr inner)))"

section \<open>Configured credentials stay out of overridden requests\<close>

definition same_but_secrets :: "BackendAuth \<Rightarrow> BackendAuth \<Rightarrow> bool" where
  "same_but_secrets c c' \<longleftrightarrow>
     rel_option (\<lambda>_ _. True) (auth_APIKey c) (auth_APIKey c') \<and>
     rel_option (\<lambda>_ _. True) (auth_AzureAPIKey c) (auth_AzureAPIKey c') \<and>
     rel_option (\<lambda>_ _. True) (auth_AnthropicAPIKey c) (auth_AnthropicAPIKey c') \<and>
     rel_option (\<lambda>_ _. True) (auth_AzureAuth c) (auth_AzureAuth c') \<and>
     rel_option (\<lambda>a a'. aws_Region a = aws_Region a') (auth_AWSAuth c) (auth_AWSAuth c') \<and>
     rel_option (\<lambda>g g'. gcp_Region g = gcp_Region g' \<and> gcp_ProjectName g = gcp_ProjectName g')
       (auth_GCPAuth c) (auth_GCPAuth c') \<and>
     rel_option (\<lambda>x y. oai_Organization x = oai_Organization y \<and> oai_Project x = oai_Project y)
       (auth_OpenAIAuth c) (auth_OpenAIAuth c') \<and>
     auth_CredentialOverride c = auth_CredentialOverride c'"

lemma inner_handler_apply:
  assumes "same_but_secrets c c'" and "inner_handler env c = Inr (h, f)" and "inner_handler env c' = Inr (h', f')"
  shows "f = f'"
proof -
  note rel = assms(1) [unfolded same_but_secrets_def]
  note defs = inner_handler_def Let_def
  show ?thesis
  proof (cases "auth_APIKey c")
    case Some
    with rel assms(2,3) show ?thesis by (auto simp: defs rel_option_iff split: option.splits)
  next
    case None
    note api = this
    show ?thesis
    proof (cases "auth_AzureAPIKey c")
      case Some
      with api rel assms(2,3) show ?thesis by (auto simp: defs rel_option_iff split: option.splits if_splits)
    next
      case None
      note azk = this
      show ?thesis
      proof (cases "auth_AzureAuth c")
        case Some
        with api azk rel assms(2,3) show ?thesis by (auto simp: defs rel_option_iff split: option.splits)
      next
        case None
        with api azk rel assms(2,3) show ?thesis
          by (auto simp: defs rel_option_iff split: option.splits sum.splits)
      qed
    qed
  qed
qed

lemma newAWSHandler_region: "newAWSHandler env a = Inr h \<Longrightarrow> ah_region h = aws_Region a"
  by (auto simp: newAWSHandler_def Let_def split: sum.splits)

lemma signWith_region: "ah_region a = ah_region a' \<Longrightarrow> signWith env now a c hdrs b = signWith env now a' c hdrs b"
proof -
  assume "ah_region a = ah_region a'"
  then have "signingHost a hdrs = signingHost a' hdrs" "signingRegion a = signingRegion a'"
    by (simp_all add: signingHost_def signingRegion_def fun_eq_iff Let_def)
  then show ?thesis unfolding signWith_def by (simp only:)
qed


definition sample_env :: "(string option, unit) auth_env" where
  "sample_env = \<lparr>ae_LoadAWSConfig = (\<lambda>f r. Inr f), ae_Retrieve = (\<lambda>_. Inl (errorf ''no provider'')),
     ae_NewRequest = (\<lambda>_ _ _. None), ae_sha256_hex = (\<lambda>_. ''00''),
     ae_SignHTTP = (\<lambda>c q h s r t. Inr [(''Authorization'', ac_AccessKeyID c @ r), (''X-Amz-Date'', ''d'')]),
     ae_FindDefaultCredentials = Inl (errorf ''none''), ae_Token = (\<lambda>_. Inl (errorf ''none''))\<rparr>"

definition no_auth :: BackendAuth where
  "no_auth = \<lparr>auth_APIKey = None, auth_AWSAuth = None, auth_AzureAPIKey = None, auth_AnthropicAPIKey = None,
     auth_AzureAuth = None, auth_GCPAuth = None, auth_OpenAIAuth = None, auth_CredentialOverride = None\<rparr>"

definition sample_override :: CredentialOverride where
  "sample_override = \<lparr>co_HeaderName = ''x-cred'', co_DynamicMetadataNamespace = [], co_DynamicMetadataKey = [],
     co_FallbackToConfigured = False, co_InputHeadersToRemove = []\<rparr>"

definition sample_key_auth :: "string \<Rightarrow> BackendAuth" where
  "sample_key_auth key = no_auth\<lparr>auth_APIKey := Some key, auth_CredentialOverride := Some sample_override\<rparr>"


section \<open>AWS credentials and signing scope\<close>

text \<open>
  A per-request AWS credential is all or nothing: when the source carries some of its parts but
  not both the access key and the secret, the request fails with the incomplete-credential error and
  untouched headers. It is neither signed with the configured identity, even if falling back is
  allowed, nor reported as a missing credential.
\<close>

theorem aws_partial_credential_rejected:
  assumes "NewHandler env c = Inr h" and "auth_AWSAuth c = Some a" and "auth_CredentialOverride c = Some ov"
    and "aws_parts ov md hdrs = Some (key, secret, token)"
    and "key \<noteq> [] \<or> secret \<noteq> [] \<or> token \<noteq> []" and "key = [] \<or> secret = []"
  shows "\<exists>e. Do env now h md hdrs body = (hdrs, Inl e) \<and>
    errors_is e ErrIncompleteAWSCredential \<and> \<not> errors_is e ErrCredentialMissing"
proof -
  from assms(1-3) obtain x where "h = AWSCredentialOverrideHandler x ov"
    by (auto simp: NewHandler_def split: sum.splits)
  then show ?thesis using assms(4-6) by (auto simp: resolveAWSCredentials_def errors_is_def)
qed

definition sample_aws_auth :: BackendAuth where
  "sample_aws_auth = no_auth\<lparr>auth_AWSAuth := Some \<lparr>aws_CredentialFileLiteral = [], aws_Region = ''us-east-1''\<rparr>,
     auth_CredentialOverride := Some (sample_override\<lparr>co_HeaderName := ''x-aws-'', co_FallbackToConfigured := True\<rparr>)\<rparr>"

theorem aws_partial_credential_rejected_witness:
  "\<exists>h e. NewHandler sample_env sample_aws_auth = Inr h \<and>
     Do sample_env 0 h None [''x-aws-access-key-id'' \<mapsto> ''AKIA''] None =
       ([''x-aws-access-key-id'' \<mapsto> ''AKIA''], Inl e) \<and> errors_is e ErrIncompleteAWSCredential"
proof -
  let ?ov = "sample_override\<lparr>co_HeaderName := ''x-aws-'', co_FallbackToConfigured := True\<rparr>"
  obtain h where h: "NewHandler sample_env sample_aws_auth = Inr h"
    by (simp add: NewHandler_def newAWSHandler_def sample_aws_auth_def sample_env_def Let_def)
  have trim: "TrimSpace ''AKIA'' = ''AKIA''" by code_simp
  have parts: "aws_parts ?ov None [''x-aws-access-key-id'' \<mapsto> ''AKIA''] = Some (''AKIA'', [], [])"
    by (simp add: aws_parts_def AWSCredentialOverrideHeaderNames_def mget_def trim)
  have "\<exists>e. Do sample_env 0 h None [''x-aws-access-key-id'' \<mapsto> ''AKIA''] None =
       ([''x-aws-access-key-id'' \<mapsto> ''AKIA''], Inl e) \<and> errors_is e ErrIncompleteAWSCredential \<and>
       \<not> errors_is e ErrCredentialMissing"
    by (rule aws_partial_credential_rejected [OF h _ _ parts]) (simp_all add: sample_aws_auth_def no_auth_def)
  with h show ?thesis by blast
qed

lemma awsBedrockHostRE_at_complete:
  assumes "list_all region_char r" and "r \<noteq> []" and "aws_host_suffix sfx"
  shows "awsBedrockHostRE_at (''bedrock-runtime.'' @ r @ sfx) = Some r"
    and "awsBedrockHostRE_at (''bedrock-runtime-fips.'' @ r @ sfx) = Some r"
proof -
  from assms(3) obtain t where sfx: "sfx = CHR ''.'' # t" by (auto simp: aws_host_suffix_def)
  have dot: "\<not> region_char (CHR ''.'')" by code_simp
  have tw: "takeWhile region_char (r @ sfx) = r" "dropWhile region_char (r @ sfx) = sfx"
    using assms(1) dot by (simp_all add: list_all_iff takeWhile_append2 dropWhile_append2 sfx)
  show "awsBedrockHostRE_at (''bedrock-runtime.'' @ r @ sfx) = Some r"
    using tw assms(2,3) by (simp add: awsBedrockHostRE_at_def HasPrefix_def TrimPrefix_def aws_host_suffix_def Let_def)
  show "awsBedrockHostRE_at (''bedrock-runtime-fips.'' @ r @ sfx) = Some r"
    using tw assms(2,3) by (simp add: awsBedrockHostRE_at_def HasPrefix_def TrimPrefix_def aws_host_suffix_def Let_def)
qed

lemma signed_headers_out: "snd (signed_headers sh hdrs) = snd (signed_headers sh hdrs')"
  by (induction sh arbitrary: hdrs hdrs') (auto simp: split_beta)

text \<open>
  The scope of an AWS signature. The signature depends on the request only through its method,
  path, body and the resolved upstream host, never on the authority of the client; the region is the
  one that a Bedrock host names, and without a resolved host it is the configured one, with the host
  of that region.
\<close>

theorem aws_signature_scope:
  assumes "mget hdrs '':method'' = mget hdrs' '':method''" and "mget hdrs '':path'' = mget hdrs' '':path''"
    and "mget hdrs UpstreamHostHeader = mget hdrs' UpstreamHostHeader"
    and "list_all region_char r" and "r \<noteq> []" and "aws_host_suffix sfx"
    and "p = ''bedrock-runtime.'' \<or> p = ''bedrock-runtime-fips.''"
  shows "snd (signWith env now a cred hdrs body) = snd (signWith env now a cred hdrs' body) \<and>
    (mget hdrs UpstreamHostHeader = p @ r @ sfx \<longrightarrow> signingRegion a (signingHost a hdrs) = r) \<and>
    (mget hdrs UpstreamHostHeader = [] \<longrightarrow> ah_region a = r \<longrightarrow>
       signingHost a hdrs = ''bedrock-runtime.'' @ r @ ''.amazonaws.com'' \<and>
       signingRegion a (signingHost a hdrs) = r)"
proof (intro conjI impI)
  have host: "signingHost a hdrs = signingHost a hdrs'" using assms(3) by (simp add: signingHost_def)
  show "snd (signWith env now a cred hdrs body) = snd (signWith env now a cred hdrs' body)"
    unfolding signWith_def assms(1,2) host Let_def
    using signed_headers_out [of _ hdrs hdrs'] by (simp add: split_beta split: option.split sum.split)
  have region: "AWSBedrockRegionFromHost (q @ r @ s) = r"
    if "aws_host_suffix s" "q = ''bedrock-runtime.'' \<or> q = ''bedrock-runtime-fips.''" for q s
    using awsBedrockHostRE_at_complete [OF assms(4,5) that(1)] that(2)
    by (auto simp: AWSBedrockRegionFromHost_def simp del: append_Cons)
  show "signingRegion a (signingHost a hdrs) = r" if "mget hdrs UpstreamHostHeader = p @ r @ sfx"
    using that assms(5,7) region [OF assms(6,7)] by (auto simp: signingHost_def signingRegion_def Let_def simp del: append_Cons)
  assume none: "mget hdrs UpstreamHostHeader = []" and ar: "ah_region a = r"
  show h: "signingHost a hdrs = ''bedrock-runtime.'' @ r @ ''.amazonaws.com''" using none ar by (simp add: signingHost_def)
  show "signingRegion a (signingHost a hdrs) = r"
    unfolding h signingRegion_def Let_def ar
    using region [of "''.amazonaws.com''" "''bedrock-runtime.''"] by (simp add: aws_host_suffix_def)
qed

theorem aws_signature_scope_witness:
  "signingRegion \<lparr>ah_credentialsProvider = None :: string option, ah_region = ''us-west-2''\<rparr>
     (signingHost \<lparr>ah_credentialsProvider = None :: string option, ah_region = ''us-west-2''\<rparr>
        [UpstreamHostHeader \<mapsto> ''bedrock-runtime.us-east-1.vpce.amazonaws.com'']) = ''us-east-1''"
proof -
  have "list_all region_char ''us-east-1''" by code_simp
  then show ?thesis
    using aws_signature_scope [of "[UpstreamHostHeader \<mapsto> ''bedrock-runtime.us-east-1.vpce.amazonaws.com'']"
        "[UpstreamHostHeader \<mapsto> ''bedrock-runtime.us-east-1.vpce.amazonaws.com'']" "''us-east-1''"
        "''.vpce.amazonaws.com''" "''bedrock-runtime.''" sample_env 0
        "\<lparr>ah_credentialsProvider = None :: string option, ah_region = ''us-west-2''\<rparr>"]
    by (simp add: aws_host_suffix_def mget_def signingHost_def signingRegion_def)
qed

end
