(* ===== verification/Models_Processor.thy ===== *)
theory Models_Processor
  imports Envoy_Messages Filter_Config
begin

text \<open>
  \<^verbatim>\<open>internal/extproc/models_processor.go\<close>: the model lists of the OpenAI and
  Anthropic \<open>/v1/models\<close> endpoints. Marshalling a list to JSON and formatting a time are
  arguments. \<open>SplitHostPort\<close> is the function of the Go network library.
\<close>

section \<open>Choosing the models of a host\<close>

definition last_index :: "char \<Rightarrow> string \<Rightarrow> nat option" where
  "last_index c s = (if c \<in> set s then Some (length s - 1 - length (takeWhile (\<lambda>x. x \<noteq> c) (rev s))) else None)"

definition SplitHostPort :: "string \<Rightarrow> (string \<times> string) option" where
  "SplitHostPort hostport =
     (case last_index (CHR '':'') hostport of
        None \<Rightarrow> None
      | Some i \<Rightarrow>
          if hd hostport = CHR ''['' then
            (let e = length (takeWhile (\<lambda>x. x \<noteq> CHR '']'') hostport) in
             if e = length hostport \<or> e + 1 \<noteq> i then None
             else if CHR ''['' \<in> set (drop 1 hostport) \<or> CHR '']'' \<in> set (drop (e + 1) hostport) then None
             else Some (drop 1 (take e hostport), drop (i + 1) hostport))
          else
            (let host = take i hostport in
             if CHR '':'' \<in> set host \<or> CHR ''['' \<in> set hostport \<or> CHR '']'' \<in> set hostport then None
             else Some (host, drop (i + 1) hostport)))"

definition requestHost :: "headers \<Rightarrow> string" where
  "requestHost hdrs =
     (let host = mget hdrs '':authority'';
          host1 = (if host = [] then mget hdrs ''host'' else host) in
      if host1 = [] then []
      else ToLower (case SplitHostPort host1 of Some (h, _) \<Rightarrow> h | None \<Rightarrow> host1))"

fun best_wildcard ::
  "string \<Rightarrow> (string \<Rightarrow> Model list option option) \<Rightarrow> string list \<Rightarrow> int \<times> Model list option \<Rightarrow> int \<times> Model list option" where
  "best_wildcard host m [] best = best"
| "best_wildcard host m (pattern # ps) best =
     (if \<not> HasPrefix pattern ''*.'' then best_wildcard host m ps best
      else let suffix = TrimPrefix pattern ''*.'' in
        if \<not> HasSuffix host (CHR ''.'' # suffix) then best_wildcard host m ps best
        else if CHR ''.'' \<in> set (TrimSuffix host (CHR ''.'' # suffix)) then best_wildcard host m ps best
        else if fst best < int (length suffix)
        then best_wildcard host m ps (int (length suffix), case m pattern of None \<Rightarrow> None | Some ms \<Rightarrow> ms)
        else best_wildcard host m ps best)"

definition selectModelsForHost :: "string list \<Rightarrow> string \<Rightarrow> ('h, 'p, 'c) RuntimeConfig \<Rightarrow> Model list" where
  "selectModelsForHost ord host cfg =
     (if host = [] \<or> range_keys ord (rt_ModelsByHost cfg) = [] then rt_DeclaredModels cfg
      else case rt_ModelsByHost cfg host of
             Some exact \<Rightarrow> (case exact of None \<Rightarrow> [] | Some ms \<Rightarrow> ms)
           | None \<Rightarrow>
               (case snd (best_wildcard host (rt_ModelsByHost cfg) (range_keys ord (rt_ModelsByHost cfg)) (-1, None)) of
                  Some bestMatchModels \<Rightarrow> bestMatchModels
                | None \<Rightarrow> rt_UnscopedModels cfg))"

section \<open>The processors\<close>

record openai_Model =
  om_ID :: string
  om_Object :: string
  om_OwnedBy :: string
  om_Created :: int

record openai_ModelList =
  ol_Object :: string
  ol_Data :: "openai_Model list"

record anthropic_Model =
  am_ID :: string
  am_Type :: string
  am_DisplayName :: string
  am_CreatedAt :: string

record anthropic_ModelList =
  al_Data :: "anthropic_Model list"
  al_FirstID :: string
  al_HasMore :: bool
  al_LastID :: string

text \<open>A processor of the upstream filter passes everything through; it is \<open>None\<close>.\<close>

definition NewModelsProcessor ::
  "string list \<Rightarrow> ('h, 'p, 'c) RuntimeConfig \<Rightarrow> headers \<Rightarrow> bool \<Rightarrow> openai_ModelList option" where
  "NewModelsProcessor ord config hdrs isUpstreamFilter =
     (if isUpstreamFilter then None
      else Some \<lparr>ol_Object = ''list'',
             ol_Data = map (\<lambda>m. \<lparr>om_ID = model_Name m, om_Object = ''model'', om_OwnedBy = model_OwnedBy m,
                                 om_Created = model_CreatedAt m\<rparr>)
                         (selectModelsForHost ord (requestHost hdrs) config)\<rparr>)"

definition NewAnthropicModelsProcessor ::
  "(int \<Rightarrow> string) \<Rightarrow> string list \<Rightarrow> ('h, 'p, 'c) RuntimeConfig \<Rightarrow> headers \<Rightarrow> bool \<Rightarrow> anthropic_ModelList option" where
  "NewAnthropicModelsProcessor formatRFC3339 ord config hdrs isUpstreamFilter =
     (if isUpstreamFilter then None
      else let data = map (\<lambda>m. \<lparr>am_ID = model_Name m, am_Type = ''model'', am_DisplayName = model_Name m,
                                am_CreatedAt = formatRFC3339 (model_CreatedAt m)\<rparr>)
                          (selectModelsForHost ord (requestHost hdrs) config)
           in Some \<lparr>al_Data = data,
                    al_FirstID = (if data \<noteq> [] then am_ID (hd data) else []), al_HasMore = False,
                    al_LastID = (if data \<noteq> [] then am_ID (last data) else [])\<rparr>)"

definition setHeader :: "string \<Rightarrow> string \<Rightarrow> HeaderMutation \<Rightarrow> HeaderMutation" where
  "setHeader key v m = m\<lparr>SetHeaders := SetHeaders m @ [raw_header APPEND_IF_EXISTS_OR_ADD key v]\<rparr>"

definition models_ProcessRequestHeaders :: "('l \<Rightarrow> go_error + bytes) \<Rightarrow> 'l \<Rightarrow> go_error + ProcessingResponse" where
  "models_ProcessRequestHeaders marshal models =
     (case marshal models of
        Inl e \<Rightarrow> Inl (wrapf ''failed to marshal body: '' e)
      | Inr body \<Rightarrow>
          Inr (plain_response (Response_Immediate
            \<lparr>im_Status = 200,
             im_Headers = Some (setHeader ''content-type'' ''application/json''
               (setHeader ''content-length'' (Itoa (length body)) empty_mutation)),
             im_Body = body, im_GrpcStatus = 0, im_Details = []\<rparr>)))"

section \<open>Host scoping\<close>

text \<open>The host without its first label, when it has a dot.\<close>

definition parent_domain :: "string \<Rightarrow> string option" where
  "parent_domain host =
     (case dropWhile (\<lambda>c. c \<noteq> CHR ''.'') host of [] \<Rightarrow> None | _ # rest \<Rightarrow> Some rest)"

definition models_spec :: "string \<Rightarrow> ('h, 'p, 'c) RuntimeConfig \<Rightarrow> Model list" where
  "models_spec host cfg =
     (case rt_ModelsByHost cfg host of
        Some ms \<Rightarrow> (case ms of None \<Rightarrow> [] | Some l \<Rightarrow> l)
      | None \<Rightarrow>
          (case parent_domain host of
             None \<Rightarrow> rt_UnscopedModels cfg
           | Some d \<Rightarrow>
               (case rt_ModelsByHost cfg (''*.'' @ d) of
                  Some (Some l) \<Rightarrow> l
                | _ \<Rightarrow> rt_UnscopedModels cfg)))"

definition wildcard_for :: "string \<Rightarrow> string \<Rightarrow> bool" where
  "wildcard_for host pattern \<longleftrightarrow>
     HasPrefix pattern ''*.'' \<and> HasSuffix host (CHR ''.'' # TrimPrefix pattern ''*.'') \<and>
     CHR ''.'' \<notin> set (TrimSuffix host (CHR ''.'' # TrimPrefix pattern ''*.''))"

lemma wildcard_for_iff: "wildcard_for host pattern \<longleftrightarrow> (\<exists>d. parent_domain host = Some d \<and> pattern = ''*.'' @ d)"
proof
  assume w: "wildcard_for host pattern"
  then obtain d where d: "pattern = ''*.'' @ d" by (auto simp: wildcard_for_def HasPrefix_iff)
  then have td: "TrimPrefix pattern ''*.'' = d" by (simp add: TrimPrefix_def HasPrefix_def)
  from w obtain l where l: "host = l @ CHR ''.'' # d" by (auto simp: wildcard_for_def td HasSuffix_iff)
  have "TrimSuffix host (CHR ''.'' # d) = l" by (simp add: TrimSuffix_def HasSuffix_iff l)
  with w have "CHR ''.'' \<notin> set l" by (simp add: wildcard_for_def td)
  then have "parent_domain host = Some d" by (simp add: parent_domain_def l dropWhile_neq_append)
  with d show "\<exists>d. parent_domain host = Some d \<and> pattern = ''*.'' @ d" by blast
next
  assume "\<exists>d. parent_domain host = Some d \<and> pattern = ''*.'' @ d"
  then obtain d where p: "parent_domain host = Some d" and d: "pattern = ''*.'' @ d" by blast
  define l where "l = takeWhile (\<lambda>c. c \<noteq> CHR ''.'') host"
  from p obtain x where x: "dropWhile (\<lambda>c. c \<noteq> CHR ''.'') host = x # d"
    by (auto simp: parent_domain_def split: list.splits)
  note x' = dropWhile_eq_Cons_conv [THEN iffD1, OF x]
  from x' have "x = CHR ''.''" by blast
  with x' have h: "host = l @ CHR ''.'' # d" unfolding l_def by blast
  have "CHR ''.'' \<notin> set l" by (auto simp: l_def dest: set_takeWhileD)
  then show "wildcard_for host pattern"
    by (auto simp: wildcard_for_def d h TrimPrefix_def TrimSuffix_def HasPrefix_def HasSuffix_iff)
qed

lemma best_wildcard_Cons:
  "best_wildcard host m (pattern # ps) best =
     best_wildcard host m ps
       (if wildcard_for host pattern \<and> fst best < int (length (TrimPrefix pattern ''*.''))
        then (int (length (TrimPrefix pattern ''*.'')), case m pattern of None \<Rightarrow> None | Some ms \<Rightarrow> ms) else best)"
  by (auto simp: wildcard_for_def Let_def)

lemma best_wildcard_result:
  assumes "distinct ps" and "\<forall>p \<in> set ps. m p \<noteq> None" and "fst best < 0 \<or> (\<forall>p \<in> set ps. \<not> wildcard_for host p)"
  shows "snd (best_wildcard host m ps best) =
    (case filter (wildcard_for host) ps of [] \<Rightarrow> snd best | p # _ \<Rightarrow> the (m p))"
  using assms
proof (induction ps arbitrary: best)
  case (Cons p ps)
  show ?case
  proof (cases "wildcard_for host p")
    case True
    define b where "b = (int (length (TrimPrefix p ''*.'')), the (m p))"
    have none: "\<forall>q \<in> set ps. \<not> wildcard_for host q"
      using True Cons.prems(1) by (auto simp: wildcard_for_iff)
    from Cons.prems(2) obtain ms where ms: "m p = Some ms" by auto
    from True Cons.prems(3) have "fst best < 0" by simp
    then have "fst best < int (length (TrimPrefix p ''*.''))" by linarith
    then have "best_wildcard host m (p # ps) best = best_wildcard host m ps b"
      by (simp only: best_wildcard_Cons True simp_thms if_True b_def ms option.case option.sel)
    moreover have "snd (best_wildcard host m ps b) = snd b"
      using Cons.IH [of b] Cons.prems none by (simp add: filter_empty_conv)
    ultimately show ?thesis using True by (simp add: b_def)
  next
    case False
    then have "best_wildcard host m (p # ps) best = best_wildcard host m ps best"
      by (simp only: best_wildcard_Cons simp_thms if_False)
    moreover have "snd (best_wildcard host m ps best) =
        (case filter (wildcard_for host) ps of [] \<Rightarrow> snd best | p # _ \<Rightarrow> the (m p))"
      by (rule Cons.IH) (use Cons.prems in auto)
    ultimately show ?thesis using False by simp
  qed
qed simp

lemma filter_eq_single: "distinct xs \<Longrightarrow> filter (\<lambda>p. p = x) xs = (if x \<in> set xs then [x] else [])"
  by (induction xs) (auto simp: filter_empty_conv)

text \<open>
  C31. Host scoping of model lists. With host-scoped models configured, a host sees the list of its
  own entry, or else that of the one wildcard entry for its parent domain (a wildcard stands for
  exactly one label), or else the unscoped models; it never sees the models scoped to another host.
  The iteration order of the map does not matter.
\<close>

theorem selectModelsForHost_scoped:
  assumes "enumerates ord (rt_ModelsByHost cfg)" and "host \<noteq> []" and "rt_ModelsByHost cfg \<noteq> Map.empty"
  shows "selectModelsForHost ord host cfg = models_spec host cfg"
proof -
  let ?m = "rt_ModelsByHost cfg" and ?ks = "range_keys ord (rt_ModelsByHost cfg)"
  have ks: "set ?ks = dom ?m" "distinct ?ks"
    using assms(1) by (simp_all add: set_range_keys distinct_range_keys)
  then have ne: "?ks \<noteq> []" using assms(3) by (metis dom_eq_empty_conv list.set(1))
  have best: "snd (best_wildcard host ?m ?ks (-1, None)) =
      (case filter (wildcard_for host) ?ks of [] \<Rightarrow> None | p # _ \<Rightarrow> the (?m p))"
  proof -
    have "\<forall>p \<in> set ?ks. ?m p \<noteq> None" using ks(1) by auto
    from best_wildcard_result [OF ks(2) this, of "(-1, None)" host] show ?thesis by (simp cong: list.case_cong)
  qed
  have one: "filter (wildcard_for host) ?ks =
      (case parent_domain host of None \<Rightarrow> [] | Some d \<Rightarrow> if ?m (''*.'' @ d) = None then [] else [''*.'' @ d])"
  proof (cases "parent_domain host")
    case None
    then show ?thesis by (simp add: wildcard_for_iff)
  next
    case (Some d)
    then have "wildcard_for host = (\<lambda>p. p = ''*.'' @ d)" by (auto simp: wildcard_for_iff fun_eq_iff)
    then show ?thesis using Some filter_eq_single [OF ks(2)] ks(1) by (simp add: domIff)
  qed
  show ?thesis
    unfolding selectModelsForHost_def models_spec_def best one
    using assms(2) ne by (simp split: option.split)
qed

definition sample_models :: "(unit, unit, unit) RuntimeConfig" where
  "sample_models = \<lparr>rt_UUID = [], rt_GlobalRequestCosts = [], rt_RequestCosts = [], rt_DeclaredModels = [],
     rt_ModelsByHost = [''*.a.com'' \<mapsto> Some [\<lparr>model_Name = ''m'', model_OwnedBy = [], model_CreatedAt = 0\<rparr>]],
     rt_UnscopedModels = [], rt_Backends = Map.empty, rt_FileIDCodec = None\<rparr>"

theorem selectModelsForHost_scoped_witness:
  "map model_Name (selectModelsForHost [''*.a.com''] ''x.a.com'' sample_models) = [''m''] \<and>
   selectModelsForHost [''*.a.com''] ''y.x.a.com'' sample_models = []"
proof -
  have e: "enumerates [''*.a.com''] (rt_ModelsByHost sample_models)" "rt_ModelsByHost sample_models \<noteq> Map.empty"
    by (simp_all add: enumerates_def sample_models_def)
  have "models_spec ''x.a.com'' sample_models = [\<lparr>model_Name = ''m'', model_OwnedBy = [], model_CreatedAt = 0\<rparr>]"
    "models_spec ''y.x.a.com'' sample_models = []"
    by (simp_all add: models_spec_def parent_domain_def sample_models_def)
  then show ?thesis
    using selectModelsForHost_scoped [OF e(1) _ e(2), of "''x.a.com''"]
      selectModelsForHost_scoped [OF e(1) _ e(2), of "''y.x.a.com''"] by simp
qed

end
