(* ===== verification/Redaction.thy ===== *)
theory Redaction
  imports Envoy_Messages
begin

text \<open>
  Redaction of what the external processor logs: \<^verbatim>\<open>internal/redaction/redaction.go\<close>
  and the redaction helpers at the end of \<^verbatim>\<open>internal/extproc/server.go\<close>. The
  SHA-256 digest in hexadecimal is the argument \<open>sha\<close>. A JSON object is the list of its
  members, in an arbitrary order.
\<close>

section \<open>Redacted content\<close>

definition ComputeContentHash :: "(bytes \<Rightarrow> string) \<Rightarrow> string \<Rightarrow> string" where
  "ComputeContentHash sha s = take 16 (sha s)"

definition RedactString :: "(bytes \<Rightarrow> string) \<Rightarrow> string \<Rightarrow> string" where
  "RedactString sha s =
     (if s = [] then []
      else ''[REDACTED LENGTH='' @ Itoa (length s) @ '' HASH='' @ ComputeContentHash sha s @ '']'')"

datatype json =
    JString string | JList "json list" | JMap "(string \<times> json) list"
  | JNumber rat | JBool bool | JNull

fun RedactJSONTree :: "(bytes \<Rightarrow> string) \<Rightarrow> json \<Rightarrow> json" where
  "RedactJSONTree sha (JString s) = JString (RedactString sha s)"
| "RedactJSONTree sha (JList es) = JList (map (RedactJSONTree sha) es)"
| "RedactJSONTree sha (JMap ms) =
     JMap (map (\<lambda>(k, e). (k, if k = ''type'' then e else RedactJSONTree sha e)) ms)"
| "RedactJSONTree sha v = v"

section \<open>Sensitive headers\<close>

definition sensitiveHeaderRedactedValue :: bytes where
  "sensitiveHeaderRedactedValue = ''[REDACTED]''"

definition sensitiveHeaderKeys :: "string list" where
  "sensitiveHeaderKeys = [''authorization'', ''x-api-key'', ''api-key'', ''x-amz-security-token'']"

definition awsCredentialHeaderSuffixes :: "string list" where
  "awsCredentialHeaderSuffixes = [''-access-key-id'', ''-secret-access-key'', ''-session-token'']"

definition isSensitiveHeader :: "string \<Rightarrow> string list \<Rightarrow> bool" where
  "isSensitiveHeader key sensitiveKeys =
     (let lower = ToLower key in
      lower \<in> set sensitiveKeys \<or> HasPrefix lower ''x-aigw-'' \<or>
      list_ex (HasSuffix lower) awsCredentialHeaderSuffixes)"

fun utf8_valid :: "nat list \<Rightarrow> bool" where
  "utf8_valid [] = True"
| "utf8_valid (b # bs) =
     (if b < 128 then utf8_valid bs
      else if 194 \<le> b \<and> b \<le> 223 then
        (case bs of c # r \<Rightarrow> 128 \<le> c \<and> c \<le> 191 \<and> utf8_valid r | _ \<Rightarrow> False)
      else if 224 \<le> b \<and> b \<le> 239 then
        (case bs of c # d # r \<Rightarrow>
             (if b = 224 then 160 else 128) \<le> c \<and> c \<le> (if b = 237 then 159 else 191) \<and>
             128 \<le> d \<and> d \<le> 191 \<and> utf8_valid r
         | _ \<Rightarrow> False)
      else if 240 \<le> b \<and> b \<le> 244 then
        (case bs of c # d # e # r \<Rightarrow>
             (if b = 240 then 144 else 128) \<le> c \<and> c \<le> (if b = 244 then 143 else 191) \<and>
             128 \<le> d \<and> d \<le> 191 \<and> 128 \<le> e \<and> e \<le> 191 \<and> utf8_valid r
         | _ \<Rightarrow> False)
      else False)"

definition utf8_Valid :: "bytes \<Rightarrow> bool" where
  "utf8_Valid bs = utf8_valid (map of_char bs)"

text \<open>A header that is neither sensitive nor printable leaves the zero attribute, here \<open>None\<close>.\<close>

definition header_attr :: "string list \<Rightarrow> HeaderValue \<Rightarrow> header option" where
  "header_attr sensitiveKeys h =
     (if isSensitiveHeader (hv_Key h) sensitiveKeys then Some (hv_Key h, sensitiveHeaderRedactedValue)
      else if hv_Value h \<noteq> [] then Some (hv_Key h, hv_Value h)
      else if utf8_Valid (hv_RawValue h) then Some (hv_Key h, hv_RawValue h)
      else None)"

definition filterSensitiveHeadersForLogging :: "HeaderMap option \<Rightarrow> string list \<Rightarrow> header option list" where
  "filterSensitiveHeadersForLogging hs sensitiveKeys =
     (case hs of None \<Rightarrow> [] | Some l \<Rightarrow> map (header_attr sensitiveKeys) l)"

definition headersToMap :: "HeaderMap option \<Rightarrow> headers" where
  "headersToMap hs =
     (case hs of
        None \<Rightarrow> Map.empty
      | Some l \<Rightarrow> fold (\<lambda>h m. if hv_Value h \<noteq> [] then m(hv_Key h \<mapsto> hv_Value h)
                             else if utf8_Valid (hv_RawValue h) then m(hv_Key h \<mapsto> hv_RawValue h) else m)
                       l Map.empty)"

section \<open>Redacted copies of responses\<close>

definition redact_option :: "string list \<Rightarrow> HeaderValueOption \<Rightarrow> HeaderValueOption" where
  "redact_option sensitiveKeys ho =
     (if isSensitiveHeader (hv_Key (ho_Header ho)) sensitiveKeys
      then raw_header APPEND_IF_EXISTS_OR_ADD (hv_Key (ho_Header ho)) sensitiveHeaderRedactedValue
      else ho)"

definition redactHeaderMutation :: "HeaderMutation option \<Rightarrow> string list \<Rightarrow> HeaderMutation" where
  "redactHeaderMutation hm sensitiveKeys =
     (case hm of
        None \<Rightarrow> empty_mutation
      | Some m \<Rightarrow> \<lparr>SetHeaders = map (redact_option sensitiveKeys) (SetHeaders m), RemoveHeaders = RemoveHeaders m\<rparr>)"

fun redactBodyMutation :: "(bytes \<Rightarrow> string) \<Rightarrow> BodyMutation option \<Rightarrow> BodyMutation option" where
  "redactBodyMutation sha None = None"
| "redactBodyMutation sha (Some (BodyMutation_Body b)) =
     (if slice_bytes b = [] then Some (BodyMutation_Body b)
      else Some (BodyMutation_Body (Some (RedactString sha (slice_bytes b)))))"
| "redactBodyMutation sha (Some m) = Some m"

definition redact_common :: "(bytes \<Rightarrow> string) \<Rightarrow> string list \<Rightarrow> bool \<Rightarrow> CommonResponse option \<Rightarrow> CommonResponse option" where
  "redact_common sha sensitiveKeys redactBody resp =
     (case resp of
        None \<Rightarrow> None
      | Some r \<Rightarrow> Some \<lparr>cr_Status = CONTINUE,
          cr_HeaderMutation = Some (redactHeaderMutation (cr_HeaderMutation r) sensitiveKeys),
          cr_BodyMutation = (if redactBody then redactBodyMutation sha (cr_BodyMutation r) else cr_BodyMutation r),
          cr_ClearRouteCache = cr_ClearRouteCache r\<rparr>)"

definition redactProcessingResponseRequestHeaders ::
  "(bytes \<Rightarrow> string) \<Rightarrow> CommonResponse option \<Rightarrow> string list \<Rightarrow> bool \<Rightarrow> Response" where
  "redactProcessingResponseRequestHeaders sha resp sensitiveKeys redactBody =
     Response_RequestHeaders (redact_common sha sensitiveKeys redactBody resp)"

definition redactResponseBodyResponseFull :: "(bytes \<Rightarrow> string) \<Rightarrow> CommonResponse option \<Rightarrow> string list \<Rightarrow> Response" where
  "redactResponseBodyResponseFull sha resp sensitiveKeys =
     Response_ResponseBody (redact_common sha sensitiveKeys True resp)"

definition redactRequestBodyResponse ::
  "(bytes \<Rightarrow> string) \<Rightarrow> CommonResponse option \<Rightarrow> string list \<Rightarrow> bool \<Rightarrow> Response" where
  "redactRequestBodyResponse sha resp sensitiveKeys redactBody =
     Response_RequestBody (redact_common sha sensitiveKeys redactBody resp)"

definition redactImmediateResponse :: "ImmediateResponse \<Rightarrow> string list \<Rightarrow> Response" where
  "redactImmediateResponse resp sensitiveKeys =
     Response_Immediate (resp\<lparr>im_Headers := map_option (\<lambda>m. redactHeaderMutation (Some m) sensitiveKeys) (im_Headers resp)\<rparr>)"

section \<open>Properties\<close>

text \<open>The string leaves of a tree outside the values of its type discriminators.\<close>

fun content_strings :: "json \<Rightarrow> string list" where
  "content_strings (JString s) = [s]"
| "content_strings (JList es) = concat (map content_strings es)"
| "content_strings (JMap ms) = concat (map (\<lambda>(k, e). if k = ''type'' then [] else content_strings e) ms)"
| "content_strings _ = []"

text \<open>A tree with its content strings blanked.\<close>

fun blanked :: "json \<Rightarrow> json" where
  "blanked (JString s) = JString []"
| "blanked (JList es) = JList (map blanked es)"
| "blanked (JMap ms) = JMap (map (\<lambda>(k, e). (k, if k = ''type'' then e else blanked e)) ms)"
| "blanked v = v"


text \<open>
  Two header lists that agree on names and on the values of the headers that are not sensitive.
\<close>

definition same_public :: "string list \<Rightarrow> HeaderValueOption \<Rightarrow> HeaderValueOption \<Rightarrow> bool" where
  "same_public keys x y \<longleftrightarrow> hv_Key (ho_Header x) = hv_Key (ho_Header y) \<and>
     (\<not> isSensitiveHeader (hv_Key (ho_Header x)) keys \<longrightarrow> x = y)"

lemma redact_option_same: "same_public keys x y \<Longrightarrow> redact_option keys x = redact_option keys y"
proof (cases "isSensitiveHeader (hv_Key (ho_Header x)) keys")
  case True
  moreover assume "same_public keys x y"
  then have "hv_Key (ho_Header y) = hv_Key (ho_Header x)" by (simp add: same_public_def)
  ultimately show ?thesis by (simp add: redact_option_def)
next
  case False
  moreover assume "same_public keys x y"
  ultimately have "x = y" unfolding same_public_def by blast
  then show ?thesis by simp
qed

lemma redact_options_same:
  "list_all2 (same_public keys) xs ys \<Longrightarrow> map (redact_option keys) xs = map (redact_option keys) ys"
  by (induction rule: list_all2_induct) (simp_all add: redact_option_same)



end
