(* ===== verification/Extproc_Util.thy ===== *)
theory Extproc_Util
  imports Envoy_Messages Body_Mutator
begin

text \<open>
  \<^verbatim>\<open>internal/extproc/util.go\<close> and the streaming decompression of
  \<^verbatim>\<open>internal/extproc/processor_impl.go\<close>. The decompressors are arguments: a reader is
  what reading it to the end gives, the bytes and the error that stopped it, if any. Opening a gzip
  stream reads its header and may fail; opening a brotli stream cannot.
\<close>

section \<open>Content decoding\<close>

type_synonym reader = "bytes \<times> go_error option"

record decoders =
  dec_gzip :: "bytes \<Rightarrow> go_error + reader"
  dec_brotli :: "bytes \<Rightarrow> reader"

record contentDecodingResult =
  cd_reader :: reader
  cd_isEncoded :: bool

definition bytes_reader :: "bytes \<Rightarrow> reader" where
  "bytes_reader b = (b, None)"

definition decodeContentIfNeeded :: "decoders \<Rightarrow> bytes \<Rightarrow> string \<Rightarrow> go_error + contentDecodingResult" where
  "decodeContentIfNeeded dec body contentEncoding =
     (if body = [] then Inr \<lparr>cd_reader = bytes_reader body, cd_isEncoded = False\<rparr>
      else if contentEncoding = ''gzip'' then
        (case dec_gzip dec body of
           Inl e \<Rightarrow> Inl (wrapf ''failed to decode gzip: '' e)
         | Inr r \<Rightarrow> Inr \<lparr>cd_reader = r, cd_isEncoded = True\<rparr>)
      else if contentEncoding = ''br'' then Inr \<lparr>cd_reader = dec_brotli dec body, cd_isEncoded = True\<rparr>
      else Inr \<lparr>cd_reader = bytes_reader body, cd_isEncoded = False\<rparr>)"

text \<open>
  The state of streaming decompression is the buffer of compressed bytes and the number of
  decompressed bytes already returned. Slicing beyond the end of the decompressed data panics.
\<close>

type_synonym stream_state = "bytes \<times> nat"

definition decodeStreamingContent ::
  "decoders \<Rightarrow> string \<Rightarrow> bytes \<Rightarrow> bool \<Rightarrow> stream_state \<Rightarrow> stream_state \<times> (go_error + contentDecodingResult)" where
  "decodeStreamingContent dec responseEncoding chunk endOfStream st =
     (let compressedBuf = fst st @ chunk; decompressedOffset = snd st in
      case decodeContentIfNeeded dec compressedBuf responseEncoding of
        Inl e \<Rightarrow> ((compressedBuf, decompressedOffset), Inl e)
      | Inr decodingResult \<Rightarrow>
          (let (allDecompressed, readErr) = cd_reader decodingResult in
           case (case readErr of None \<Rightarrow> False | Some e \<Rightarrow> endOfStream \<or> \<not> errors_is e ErrUnexpectedEOF) of
             True \<Rightarrow> ((compressedBuf, decompressedOffset),
                      Inl (wrapf ''failed to decompress streaming content: '' (the readErr)))
           | False \<Rightarrow>
               if length allDecompressed < decompressedOffset
               then ((compressedBuf, decompressedOffset), Inl (GoError [GoPanic] ''slice bounds out of range''))
               else ((compressedBuf, length allDecompressed),
                     Inr \<lparr>cd_reader = bytes_reader (drop decompressedOffset allDecompressed), cd_isEncoded = True\<rparr>)))"

section \<open>Mutations\<close>

definition removeContentEncodingIfNeeded ::
  "HeaderMutation option \<Rightarrow> BodyMutation option \<Rightarrow> bool \<Rightarrow> HeaderMutation option" where
  "removeContentEncodingIfNeeded headerMutation bodyMutation isEncoded =
     (if bodyMutation \<noteq> None \<and> isEncoded
      then let m = (case headerMutation of None \<Rightarrow> empty_mutation | Some m \<Rightarrow> m)
           in Some (m\<lparr>RemoveHeaders := RemoveHeaders m @ [''content-encoding'']\<rparr>)
      else headerMutation)"

definition isGoodStatusCode :: "int \<Rightarrow> bool" where
  "isGoodStatusCode code = (code \<ge> 200 \<and> code < 300)"

definition mutationsFromTranslationResult :: "header list \<Rightarrow> slice \<Rightarrow> HeaderMutation \<times> BodyMutation option" where
  "mutationsFromTranslationResult newHeaders newBody =
     (\<lparr>SetHeaders = map overwrite_header newHeaders, RemoveHeaders = []\<rparr>,
      case newBody of None \<Rightarrow> None | Some b \<Rightarrow> Some (BodyMutation_Body (Some b)))"

definition applyBodyMutation ::
  "sjson \<Rightarrow> BodyMutator option \<Rightarrow> BodyMutation option \<Rightarrow> slice \<Rightarrow> BodyMutation option" where
  "applyBodyMutation sj bodyMutator bodyMutation originalRequestBodyRaw =
     (case bodyMutator of
        None \<Rightarrow> bodyMutation
      | Some bm \<Rightarrow>
          (case bodyMutation of
             None \<Rightarrow> (case BodyMutate sj bm originalRequestBodyRaw of
                        Inl _ \<Rightarrow> None
                      | Inr mutatedBody \<Rightarrow> Some (BodyMutation_Body mutatedBody))
           | Some m \<Rightarrow>
               if slice_bytes (GetBody (Some m)) \<noteq> []
               then (case BodyMutate sj bm (GetBody (Some m)) of
                       Inl _ \<Rightarrow> Some m
                     | Inr mutatedBody \<Rightarrow> Some (BodyMutation_Body mutatedBody))
               else Some m))"

text \<open>The carrier through which a tracer injects its headers.\<close>

definition carrier_Set :: "header \<Rightarrow> HeaderMutation \<Rightarrow> HeaderMutation" where
  "carrier_Set h m = m\<lparr>SetHeaders := SetHeaders m @ [raw_header APPEND_IF_EXISTS_OR_ADD (fst h) (snd h)]\<rparr>"

section \<open>Streaming decompression is faithful\<close>

text \<open>Decoding a sequence of chunks, the last of which ends the stream.\<close>

fun decode_run :: "decoders \<Rightarrow> string \<Rightarrow> stream_state \<Rightarrow> bytes list \<Rightarrow> go_error + bytes list" where
  "decode_run dec enc st [] = Inr []"
| "decode_run dec enc st (c # cs) =
     (case decodeStreamingContent dec enc c (cs = []) st of
        (_, Inl e) \<Rightarrow> Inl e
      | (st', Inr r) \<Rightarrow>
          (case decode_run dec enc st' cs of
             Inl e \<Rightarrow> Inl e
           | Inr outs \<Rightarrow> Inr (fst (cd_reader r) # outs)))"

definition decoded :: "decoders \<Rightarrow> string \<Rightarrow> bytes \<Rightarrow> go_error + reader" where
  "decoded dec enc body = (case decodeContentIfNeeded dec body enc of Inl e \<Rightarrow> Inl e | Inr r \<Rightarrow> Inr (cd_reader r))"

text \<open>
  What is relied on of a decompressor, for one stream: the data that it returns for a prefix is a
  prefix of the data for a longer one.
\<close>

definition prefix_stable :: "decoders \<Rightarrow> string \<Rightarrow> bool" where
  "prefix_stable dec enc \<longleftrightarrow>
     (\<forall>p q d e d' e'. decoded dec enc p = Inr (d, e) \<longrightarrow> decoded dec enc (p @ q) = Inr (d', e') \<longrightarrow>
        take (length d) d' = d)"

definition readable :: "decoders \<Rightarrow> string \<Rightarrow> bool \<Rightarrow> bytes \<Rightarrow> bool" where
  "readable dec enc final body \<longleftrightarrow>
     (\<exists>d e. decoded dec enc body = Inr (d, e) \<and> (e = None \<or> \<not> final \<and> errors_is (the e) ErrUnexpectedEOF))"

lemma decodeStreamingContent_ok:
  assumes "prefix_stable dec enc" and "decoded dec enc buf = Inr (d0, e0)"
    and "decoded dec enc (buf @ c) = Inr (d, e)" and "e = None \<or> \<not> eos \<and> errors_is (the e) ErrUnexpectedEOF"
  shows "\<exists>r. decodeStreamingContent dec enc c eos (buf, length d0) = ((buf @ c, length d), Inr r) \<and>
    d0 @ fst (cd_reader r) = d"
proof -
  have p: "take (length d0) d = d0" using assms(1-3) unfolding prefix_stable_def by blast
  then have len: "length d0 \<le> length d" by (metis length_take min.cobounded1)
  from p have "d0 @ drop (length d0) d = d" by (metis append_take_drop_id)
  then show ?thesis
    using assms(3,4) len
    by (auto simp: decoded_def decodeStreamingContent_def bytes_reader_def Let_def split: sum.splits option.splits bool.splits)
qed

lemma decode_run_ok:
  assumes "prefix_stable dec enc" and "decoded dec enc buf = Inr (d0, e0)"
    and "\<forall>i \<in> {1..length cs}. readable dec enc (i = length cs) (buf @ concat (take i cs))" and "cs \<noteq> []"
  shows "\<exists>outs d. decode_run dec enc (buf, length d0) cs = Inr outs \<and>
    decoded dec enc (buf @ concat cs) = Inr (d, None) \<and> d0 @ concat outs = d"
  using assms(2-4)
proof (induction cs arbitrary: buf d0 e0)
  case (Cons c cs)
  have "readable dec enc (cs = []) (buf @ c)" using Cons.prems(2) by (auto dest: bspec [where x = 1])
  then obtain d e where de: "decoded dec enc (buf @ c) = Inr (d, e)"
    "e = None \<or> \<not> cs = [] \<and> errors_is (the e) ErrUnexpectedEOF" by (auto simp: readable_def)
  from decodeStreamingContent_ok [OF assms(1) Cons.prems(1) de] obtain r where
    r: "decodeStreamingContent dec enc c (cs = []) (buf, length d0) = ((buf @ c, length d), Inr r)"
    "d0 @ fst (cd_reader r) = d" by blast
  show ?case
  proof (cases "cs = []")
    case True
    with r de show ?thesis by auto
  next
    case False
    have "\<forall>i \<in> {1..length cs}. readable dec enc (i = length cs) ((buf @ c) @ concat (take i cs))"
    proof
      fix i assume "i \<in> {1..length cs}"
      then show "readable dec enc (i = length cs) ((buf @ c) @ concat (take i cs))"
        using bspec [OF Cons.prems(2), of "Suc i"] by simp
    qed
    from Cons.IH [OF de(1) this False] obtain outs d' where
      "decode_run dec enc (buf @ c, length d) cs = Inr outs"
      "decoded dec enc (buf @ c @ concat cs) = Inr (d', None)" "d @ concat outs = d'" by auto
    with r show ?thesis by auto
  qed
qed simp


text \<open>A decoder in which a zero byte ends the stream and every other byte stands for itself.\<close>

definition toy_decoders :: decoders where
  "toy_decoders = \<lparr>dec_gzip = (\<lambda>b. Inl (errorf ''no header'')),
     dec_brotli = (\<lambda>b. (takeWhile (\<lambda>c. c \<noteq> CHR 0x00) b,
        if CHR 0x00 \<in> set b then None else Some (GoError [ErrUnexpectedEOF] ''unexpected EOF'')))\<rparr>"

lemma toy_prefix_stable: "prefix_stable toy_decoders ''br''"
proof -
  have "decoded toy_decoders ''br'' p = Inr (d, e) \<Longrightarrow> d = takeWhile (\<lambda>c. c \<noteq> CHR 0x00) p" for p d e
    by (auto simp: decoded_def decodeContentIfNeeded_def bytes_reader_def toy_decoders_def split: if_splits)
  moreover have "take (length (takeWhile P p)) (takeWhile P (p @ q)) = takeWhile P p" for P and p q :: bytes
    by (induction p) auto
  ultimately show ?thesis unfolding prefix_stable_def by metis
qed


text \<open>
  A chunk boundary inside the gzip header is not tolerated: when the bytes received so far do not
  hold a complete header, so that opening the stream fails, the chunk fails and with it the response,
  even though more chunks may follow.
\<close>

theorem streaming_partial_gzip_header_fails:
  assumes "fst st @ chunk \<noteq> []" and "dec_gzip dec (fst st @ chunk) = Inl e"
  shows "\<exists>st' e'. decodeStreamingContent dec ''gzip'' chunk endOfStream st = (st', Inl e') \<and>
    (\<forall>s. errors_is e' s = errors_is e s)"
proof -
  have "decodeContentIfNeeded dec (fst st @ chunk) ''gzip'' = Inl (wrapf ''failed to decode gzip: '' e)"
    unfolding decodeContentIfNeeded_def using assms by (simp only: if_False refl if_True sum.case)
  then show ?thesis by (simp add: decodeStreamingContent_def Let_def)
qed

theorem streaming_partial_gzip_header_fails_witness:
  "\<exists>st' e'. decodeStreamingContent toy_decoders ''gzip'' [CHR 0x1F] False ([], 0) = (st', Inl e')"
  using streaming_partial_gzip_header_fails [of "([], 0)" "[CHR 0x1F]" toy_decoders "errorf ''no header''" False]
  by (auto simp: toy_decoders_def)

end
