(* ===== verification/Extproc_Processor.thy ===== *)
theory Extproc_Processor
  imports Dynamic_Metadata Header_Mutator Extproc_Util Models_Processor Redaction Backend_Auth
begin

text \<open>
  \<^verbatim>\<open>internal/extproc/processor_impl.go\<close>: the router processor, which parses the
  request and starts its span, and the upstream processor, which translates, authenticates and
  mutates the request for the chosen backend and handles the response. A method of the upstream
  processor also changes its parent, so it acts on the pair of both. External are the endpoint
  specification, the translator (with an abstract state), the tracer, the authentication handler,
  the decompressors, the JSON editor and the cost evaluator: the fields of \<open>proc_env\<close>. The
  span is the list of the calls made on it by the processor. Logging has no effect on the state and
  is left out here. Where the code ranges over a map, the order is \<open>pe_ord env\<close> of the number
  of the loop; \<open>now\<close> is the clock.
\<close>

section \<open>Interfaces\<close>

type_synonym 'req parsed = "string \<times> 'req \<times> bool \<times> slice"

record ('req, 'tr) endpoint =
  eh_ParseBody :: "slice \<Rightarrow> bool \<Rightarrow> go_error + 'req parsed"
  eh_ParseMultipartBody :: "slice \<Rightarrow> string \<Rightarrow> bool \<Rightarrow> go_error + 'req parsed"
  eh_GetTranslator :: "VersionedAPISchema \<Rightarrow> string \<Rightarrow> go_error + 'tr"

record translated =
  td_headers :: "header list"
  td_body :: slice
  td_usage :: TokenUsage
  td_model :: string
  td_err :: "go_error option"

text \<open>
  The optional interfaces of a translator are functions that are there or not; the redaction
  interfaces only concern logging.
\<close>

record ('req, 'tr) translator =
  tr_RequestBody :: "'tr \<Rightarrow> slice \<Rightarrow> 'req option \<Rightarrow> bool \<Rightarrow> 'tr \<times> (go_error + header list \<times> slice)"
  tr_ResponseHeaders :: "'tr \<Rightarrow> headers \<Rightarrow> 'tr \<times> (go_error + header list)"
  tr_ResponseError :: "'tr \<Rightarrow> headers \<Rightarrow> reader \<Rightarrow> 'tr \<times> (go_error + header list \<times> slice)"
  tr_ResponseBody :: "'tr \<Rightarrow> headers \<Rightarrow> reader \<Rightarrow> bool \<Rightarrow> bool \<Rightarrow> 'tr \<times> translated"
  tr_SetContentType :: "'tr \<Rightarrow> (string \<Rightarrow> 'tr) option"
  tr_SetRequestHeaders :: "'tr \<Rightarrow> (headers \<Rightarrow> 'tr) option"
  tr_SetHeaderValueFilter :: "'tr \<Rightarrow> (HTTPHeaderValueFilter \<Rightarrow> 'tr) option"

record ('req, 'tr, 'h, 'p) proc_env =
  pe_endpoint :: "nat \<Rightarrow> ('req, 'tr) endpoint"
  pe_translator :: "('req, 'tr) translator"
  pe_StartSpan :: "headers \<Rightarrow> 'req \<Rightarrow> slice \<Rightarrow> bool \<times> header list"
  pe_Do :: "int \<Rightarrow> 'h \<Rightarrow> metadata_ctx \<Rightarrow> headers \<Rightarrow> slice \<Rightarrow> do_result"
  pe_sjson :: sjson
  pe_cel :: "'p cel_eval"
  pe_decoders :: decoders
  pe_LogRequestHeaderAttributes :: headers
  pe_ord :: "nat \<Rightarrow> string list"

section \<open>State\<close>

datatype span_call = RecordBackend APISchemaName string | EndSpanOnError int slice | EndSpan

record ('req, 'h, 'p, 'c) routerProcessor =
  rp_eh :: nat
  rp_config :: "('h, 'p, 'c) RuntimeConfig"
  rp_requestHeaders :: headers
  rp_originalRequestBody :: "'req option"
  rp_originalRequestBodyRaw :: slice
  rp_originalModel :: string
  rp_forceBodyMutation :: bool
  rp_span :: "span_call list option"
  rp_upstreamFilterCount :: nat
  rp_localReplyEmitted :: bool
  rp_stream :: bool

record ('tr, 'h) upstreamProcessor =
  up_requestHeaders :: headers
  up_responseHeaders :: headers
  up_responseEncoding :: string
  up_compressedBuf :: bytes
  up_decompressedOffset :: nat
  up_responseStreamTerminated :: bool
  up_translator :: "'tr option"
  up_modelNameOverride :: string
  up_headerMutator :: "HeaderMutator option"
  up_bodyMutator :: "BodyMutator option"
  up_backendName :: string
  up_aiServiceBackendName :: string
  up_routeName :: string
  up_handler :: "'h option"
  up_unsupportedBackendErr :: "go_error option"
  up_costs :: TokenUsage
  up_metrics :: metricsImpl

definition newRouterProcessor ::
  "nat \<Rightarrow> ('h, 'p, 'c) RuntimeConfig \<Rightarrow> headers \<Rightarrow> ('req, 'h, 'p, 'c) routerProcessor" where
  "newRouterProcessor eh config requestHeaders =
     \<lparr>rp_eh = eh, rp_config = config, rp_requestHeaders = requestHeaders, rp_originalRequestBody = None,
      rp_originalRequestBodyRaw = None, rp_originalModel = [], rp_forceBodyMutation = False, rp_span = None,
      rp_upstreamFilterCount = 0, rp_localReplyEmitted = False, rp_stream = False\<rparr>"

definition newUpstreamProcessor :: "headers \<Rightarrow> metricsImpl \<Rightarrow> ('tr, 'h) upstreamProcessor" where
  "newUpstreamProcessor reqHeader m =
     \<lparr>up_requestHeaders = reqHeader, up_responseHeaders = Map.empty, up_responseEncoding = [],
      up_compressedBuf = [], up_decompressedOffset = 0, up_responseStreamTerminated = False,
      up_translator = None, up_modelNameOverride = [], up_headerMutator = None, up_bodyMutator = None,
      up_backendName = [], up_aiServiceBackendName = [], up_routeName = [], up_handler = None,
      up_unsupportedBackendErr = None, up_costs = no_usage, up_metrics = m\<rparr>"

section \<open>Local replies\<close>

definition quote :: char where
  "quote = CHR 0x22"

definition jstr :: "string \<Rightarrow> string" where
  "jstr s = quote # s @ [quote]"

definition formatUserFacingErrorJSON :: "string \<Rightarrow> nat \<Rightarrow> string \<Rightarrow> bytes" where
  "formatUserFacingErrorJSON errorType statusCode message =
     [CHR 0x7B] @ jstr ''type'' @ '':'' @ jstr ''error'' @ '','' @ jstr ''error'' @ '':'' @
     [CHR 0x7B] @ jstr ''type'' @ '':'' @ jstr errorType @ '','' @ jstr ''code'' @ '':'' @ jstr (Itoa statusCode) @
     '','' @ jstr ''message'' @ '':'' @ [quote] @ message @ [quote, CHR 0x7D, CHR 0x7D]"

definition createUserFacingErrorResponse :: "nat \<Rightarrow> string \<Rightarrow> string \<Rightarrow> ProcessingResponse" where
  "createUserFacingErrorResponse statusCode errorType message =
     (let body = formatUserFacingErrorJSON errorType statusCode message;
          headerMutation = setHeader ''content-length'' (Itoa (length body))
                             (setHeader ''content-type'' ''application/json'' empty_mutation)
      in plain_response (Response_Immediate
           \<lparr>im_Status = statusCode, im_Headers = Some headerMutation, im_Body = body, im_GrpcStatus = 3, im_Details = []\<rparr>))"

definition span_do :: "span_call \<Rightarrow> ('req, 'h, 'p, 'c) routerProcessor \<Rightarrow> ('req, 'h, 'p, 'c) routerProcessor" where
  "span_do c r = r\<lparr>rp_span := map_option (\<lambda>cs. cs @ [c]) (rp_span r)\<rparr>"

definition record_completion ::
  "('req, 'tr, 'h, 'p) proc_env \<Rightarrow> int \<Rightarrow> bool \<Rightarrow> ('tr, 'h) upstreamProcessor \<Rightarrow> ('tr, 'h) upstreamProcessor" where
  "record_completion env now success u =
     u\<lparr>up_metrics := RecordRequestCompletion (pe_ord env 3) now success (up_requestHeaders u) (up_metrics u)\<rparr>"

fun immediate_body :: "Response \<Rightarrow> bytes" where
  "immediate_body (Response_Immediate im) = im_Body im"
| "immediate_body _ = []"

definition respondLocally ::
  "('req, 'tr, 'h, 'p) proc_env \<Rightarrow> int \<Rightarrow> nat \<Rightarrow> string \<Rightarrow> string \<Rightarrow>
   ('req, 'h, 'p, 'c) routerProcessor \<times> ('tr, 'h) upstreamProcessor \<Rightarrow>
   (('req, 'h, 'p, 'c) routerProcessor \<times> ('tr, 'h) upstreamProcessor) \<times> ProcessingResponse" where
  "respondLocally env now statusCode errorType message ru =
     (let u1 = record_completion env now False (snd ru);
          resp = createUserFacingErrorResponse statusCode errorType message;
          r1 = (fst ru)\<lparr>rp_localReplyEmitted := True\<rparr>;
          r2 = span_do (EndSpanOnError (int statusCode) (Some (immediate_body (pr_Response resp)))) r1
      in ((r2, u1), resp))"

section \<open>The router processor\<close>

text \<open>The response to the parsed request body: the headers that the gateway owns, always overwritten.\<close>

definition owned_headers :: "string \<Rightarrow> string \<Rightarrow> HeaderValueOption list" where
  "owned_headers originalModel originalPath =
     [overwrite_header (ModelNameHeaderKeyDefault, originalModel),
      overwrite_header (OriginalPathHeader, originalPath),
      overwrite_header (EnvoyOriginalPathHeader, originalPath)]"

definition router_ProcessRequestBody ::
  "('req, 'tr, 'h, 'p) proc_env \<Rightarrow> HttpBody \<Rightarrow> ('req, 'h, 'p, 'c) routerProcessor \<Rightarrow>
   ('req, 'h, 'p, 'c) routerProcessor \<times> (go_error + ProcessingResponse)" where
  "router_ProcessRequestBody env rawBody r =
     (let costConfigured = (rt_RequestCosts (rp_config r) \<noteq> [] \<or> rt_GlobalRequestCosts (rp_config r) \<noteq> []);
          contentType = mget (rp_requestHeaders r) ''content-type'';
          eh = pe_endpoint env (rp_eh r) in
      case (if HasPrefix (ToLower contentType) ''multipart/form-data''
            then eh_ParseMultipartBody eh (hb_Body rawBody) contentType costConfigured
            else eh_ParseBody eh (hb_Body rawBody) costConfigured) of
        Inl err \<Rightarrow>
          (case GetUserFacingError err of
             Some userFacingErr \<Rightarrow> (r, Inr (createUserFacingErrorResponse 400 ''BadRequest'' (err_msg userFacingErr)))
           | None \<Rightarrow> (r, Inl (wrapf ''failed to parse request body: '' err)))
      | Inr (originalModel, body, stream, mutatedOriginalBody) \<Rightarrow>
          (let r1 = (case mutatedOriginalBody of
                       Some b \<Rightarrow> r\<lparr>rp_originalRequestBodyRaw := Some b, rp_forceBodyMutation := True\<rparr>
                     | None \<Rightarrow> r\<lparr>rp_originalRequestBodyRaw := hb_Body rawBody\<rparr>);
               hdrs1 = (rp_requestHeaders r1)(ModelNameHeaderKeyDefault \<mapsto> originalModel);
               originalPath = mget hdrs1 '':path'';
               hdrs2 = hdrs1(OriginalPathHeader \<mapsto> originalPath, EnvoyOriginalPathHeader \<mapsto> originalPath);
               r2 = r1\<lparr>rp_requestHeaders := hdrs2, rp_originalModel := originalModel,
                       rp_originalRequestBody := Some body, rp_stream := stream\<rparr>;
               (started, injected) = pe_StartSpan env hdrs2 body (hb_Body rawBody);
               headerMutation = fold carrier_Set injected
                 \<lparr>SetHeaders = owned_headers originalModel originalPath, RemoveHeaders = []\<rparr>
           in (r2\<lparr>rp_span := (if started then Some [] else None)\<rparr>,
               Inr (plain_response (Response_RequestBody
                 (Some (empty_common\<lparr>cr_HeaderMutation := Some headerMutation, cr_ClearRouteCache := True\<rparr>)))))))"

section \<open>The upstream processor: request\<close>

definition onRetry :: "('req, 'h, 'p, 'c) routerProcessor \<Rightarrow> bool" where
  "onRetry r = (1 < rp_upstreamFilterCount r)"

text \<open>The deferred function of the methods that can fail.\<close>

definition defer_completion ::
  "('req, 'tr, 'h, 'p) proc_env \<Rightarrow> int \<Rightarrow>
   (('req, 'h, 'p, 'c) routerProcessor \<times> ('tr, 'h) upstreamProcessor) \<times> (go_error + 'a) \<Rightarrow>
   (('req, 'h, 'p, 'c) routerProcessor \<times> ('tr, 'h) upstreamProcessor) \<times> (go_error + 'a)" where
  "defer_completion env now st =
     (case st of
        ((r, u), Inl e) \<Rightarrow> ((r, record_completion env now False u), Inl e)
      | ((r, u), Inr x) \<Rightarrow> ((r, u), Inr x))"

definition apply_header_mutator ::
  "('req, 'tr, 'h, 'p) proc_env \<Rightarrow> bool \<Rightarrow> HeaderMutation \<Rightarrow> ('tr, 'h) upstreamProcessor \<Rightarrow>
   ('tr, 'h) upstreamProcessor \<times> HeaderMutation" where
  "apply_header_mutator env retry headerMutation u =
     (case up_headerMutator u of
        None \<Rightarrow> (u, headerMutation)
      | Some h \<Rightarrow>
          (let (hdrs, sets, removes) = Mutate h (pe_ord env 0) (pe_ord env 1) (up_requestHeaders u) retry
           in (u\<lparr>up_requestHeaders := hdrs\<rparr>,
               headerMutation\<lparr>RemoveHeaders := RemoveHeaders headerMutation @ removes,
                              SetHeaders := SetHeaders headerMutation @ map overwrite_header sets\<rparr>)))"

definition copy_set_headers :: "HeaderMutation \<Rightarrow> headers \<Rightarrow> headers" where
  "copy_set_headers headerMutation hdrs =
     fold (\<lambda>ho m. m(hv_Key (ho_Header ho) \<mapsto> hv_RawValue (ho_Header ho))) (SetHeaders headerMutation) hdrs"

definition request_response ::
  "('req, 'tr, 'h, 'p) proc_env \<Rightarrow> bool \<Rightarrow> HeaderMutation \<Rightarrow> BodyMutation \<Rightarrow> ('tr, 'h) upstreamProcessor \<Rightarrow>
   ProcessingResponse" where
  "request_response env wantBodyReplace headerMutation bodyMutation u =
     (let hdrMeta = buildRequestHeaderDynamicMetadata (pe_LogRequestHeaderAttributes env) (pe_ord env 2) (up_requestHeaders u);
          backendMeta = buildBackendDynamicMetadata (up_backendName u) in
      if \<not> wantBodyReplace then
        \<lparr>pr_Response = Response_RequestHeaders (Some (empty_common\<lparr>cr_HeaderMutation := Some headerMutation\<rparr>)),
         pr_DynamicMetadata = mergeDynamicMetadata backendMeta hdrMeta, pr_ModeOverride = None\<rparr>
      else
        (let dm = (case GetBody (Some bodyMutation) of
                     None \<Rightarrow> None
                   | Some b \<Rightarrow> Some (buildContentLengthDynamicMetadataOnRequest (length b)))
         in \<lparr>pr_Response = Response_RequestHeaders (Some (empty_common\<lparr>cr_HeaderMutation := Some headerMutation,
               cr_BodyMutation := Some bodyMutation, cr_Status := CONTINUE_AND_REPLACE\<rparr>)),
             pr_DynamicMetadata = mergeDynamicMetadata (mergeDynamicMetadata dm backendMeta) hdrMeta,
             pr_ModeOverride = None\<rparr>))"

text \<open>
  What is sent before authentication: the updated processor, the header and body mutations and
  whether the body is replaced at all.
\<close>

definition upstream_prepare ::
  "('req, 'tr, 'h, 'p) proc_env \<Rightarrow> bool \<Rightarrow> header list \<Rightarrow> slice \<Rightarrow>
   ('req, 'h, 'p, 'c) routerProcessor \<Rightarrow> ('tr, 'h) upstreamProcessor \<Rightarrow>
   ('tr, 'h) upstreamProcessor \<times> HeaderMutation \<times> BodyMutation \<times> bool" where
  "upstream_prepare env forceBodyMutation newHeaders newBody r u =
     (let (headerMutation0, bodyMutation0) = mutationsFromTranslationResult newHeaders newBody;
          (u1, headerMutation1) = apply_header_mutator env (onRetry r) headerMutation0 u;
          wantBodyReplace = (bodyMutation0 \<noteq> None \<or> forceBodyMutation \<or> HasMutations (up_bodyMutator u1));
          bodyMutation1 = (if wantBodyReplace
            then applyBodyMutation (pe_sjson env) (up_bodyMutator u1) bodyMutation0 (rp_originalRequestBodyRaw r)
            else bodyMutation0);
          bodyMutation = (case bodyMutation1 of None \<Rightarrow> BodyMutation_Unset | Some b \<Rightarrow> b);
          u2 = u1\<lparr>up_requestHeaders := copy_set_headers headerMutation1 (up_requestHeaders u1)\<rparr>;
          headerMutation2 = headerMutation1\<lparr>RemoveHeaders := RemoveHeaders headerMutation1 @ [UpstreamHostHeader]\<rparr>
      in (u2, headerMutation2, bodyMutation, wantBodyReplace))"

definition upstream_send ::
  "('req, 'tr, 'h, 'p) proc_env \<Rightarrow> (nat \<Rightarrow> int) \<Rightarrow> metadata_ctx \<Rightarrow> bool \<Rightarrow> header list \<Rightarrow> slice \<Rightarrow>
   ('req, 'h, 'p, 'c) routerProcessor \<times> ('tr, 'h) upstreamProcessor \<Rightarrow>
   (('req, 'h, 'p, 'c) routerProcessor \<times> ('tr, 'h) upstreamProcessor) \<times> (go_error + ProcessingResponse)" where
  "upstream_send env clk md forceBodyMutation newHeaders newBody ru =
     (let (r, u) = ru;
          (u2, headerMutation2, bodyMutation, wantBodyReplace) =
            upstream_prepare env forceBodyMutation newHeaders newBody r u
      in case up_handler u2 of
           None \<Rightarrow> ((r, u2), Inr (request_response env wantBodyReplace headerMutation2 bodyMutation u2))
         | Some h \<Rightarrow>
             (let (hdrs', res) = pe_Do env (clk 1) h md (up_requestHeaders u2) (GetBody (Some bodyMutation));
                  u3 = u2\<lparr>up_requestHeaders := hdrs'\<rparr>
              in case res of
                   Inl err \<Rightarrow>
                     if errors_is err ErrCredentialMissing
                     then (let (ru', resp) = respondLocally env (clk 2) 401 ''Unauthorized'' ''missing upstream credential'' (r, u3)
                           in (ru', Inr resp))
                     else ((r, u3), Inl (wrapf ''failed to do auth request: '' err))
                 | Inr hdrs \<Rightarrow>
                     (let headerMutation3 = headerMutation2\<lparr>SetHeaders := SetHeaders headerMutation2 @ map overwrite_header hdrs\<rparr>
                      in ((r, u3), Inr (request_response env wantBodyReplace headerMutation3 bodyMutation u3)))))"

definition start_metrics ::
  "int \<Rightarrow> ('req, 'h, 'p, 'c) routerProcessor \<Rightarrow> ('tr, 'h) upstreamProcessor \<Rightarrow> ('tr, 'h) upstreamProcessor" where
  "start_metrics now r u =
     (let modelHeader = mget (up_requestHeaders u) ModelNameHeaderKeyDefault;
          reqModel = (if modelHeader \<noteq> [] then modelHeader else rp_originalModel r)
      in u\<lparr>up_metrics := SetRequestModel reqModel (SetOriginalModel (rp_originalModel r) (StartRequest now (up_metrics u)))\<rparr>)"

definition upstream_translate ::
  "('req, 'tr, 'h, 'p) proc_env \<Rightarrow> (nat \<Rightarrow> int) \<Rightarrow> metadata_ctx \<Rightarrow>
   ('req, 'h, 'p, 'c) routerProcessor \<times> ('tr, 'h) upstreamProcessor \<Rightarrow>
   (('req, 'h, 'p, 'c) routerProcessor \<times> ('tr, 'h) upstreamProcessor) \<times> (go_error + ProcessingResponse)" where
  "upstream_translate env clk md ru =
     (let (r, u) = ru; forceBodyMutation = (onRetry r \<or> rp_forceBodyMutation r) in
      case up_translator u of
        None \<Rightarrow> ((r, u), Inl (GoError [GoPanic] ''nil pointer dereference''))
      | Some t \<Rightarrow>
          (case tr_RequestBody (pe_translator env) t (rp_originalRequestBodyRaw r) (rp_originalRequestBody r) forceBodyMutation of
             (t', Inl err) \<Rightarrow>
               (case GetUserFacingError err of
                  Some userFacingErr \<Rightarrow>
                    (let (ru', resp) = respondLocally env (clk 2) 422 ''UnprocessableEntity'' (err_msg userFacingErr)
                                         (r, u\<lparr>up_translator := Some t'\<rparr>)
                     in (ru', Inr resp))
                | None \<Rightarrow> ((r, u\<lparr>up_translator := Some t'\<rparr>), Inl (wrapf ''failed to transform request: '' err)))
           | (t', Inr (newHeaders, newBody)) \<Rightarrow>
               upstream_send env clk md forceBodyMutation newHeaders newBody (r, u\<lparr>up_translator := Some t'\<rparr>)))"

definition upstream_ProcessRequestHeaders ::
  "('req, 'tr, 'h, 'p) proc_env \<Rightarrow> (nat \<Rightarrow> int) \<Rightarrow> metadata_ctx \<Rightarrow>
   ('req, 'h, 'p, 'c) routerProcessor \<times> ('tr, 'h) upstreamProcessor \<Rightarrow>
   (('req, 'h, 'p, 'c) routerProcessor \<times> ('tr, 'h) upstreamProcessor) \<times> (go_error + ProcessingResponse)" where
  "upstream_ProcessRequestHeaders env clk md ru =
     (let (r, u) = ru; u1 = start_metrics (clk 0) r u in
      defer_completion env (clk 2)
        (case up_unsupportedBackendErr u1 of
           Some e \<Rightarrow>
             (let (ru', resp) = respondLocally env (clk 2) 422 ''UnprocessableEntity'' (err_msg e) (r, u1) in (ru', Inr resp))
         | None \<Rightarrow> upstream_translate env clk md (r, u1)))"

section \<open>The upstream processor: response\<close>

definition upstream_ProcessResponseHeaders ::
  "('req, 'tr, 'h, 'p) proc_env \<Rightarrow> (nat \<Rightarrow> int) \<Rightarrow> HeaderMap option \<Rightarrow>
   ('req, 'h, 'p, 'c) routerProcessor \<times> ('tr, 'h) upstreamProcessor \<Rightarrow>
   (('req, 'h, 'p, 'c) routerProcessor \<times> ('tr, 'h) upstreamProcessor) \<times> (go_error + ProcessingResponse)" where
  "upstream_ProcessResponseHeaders env clk hs ru =
     (let (r, u) = ru in
      if rp_localReplyEmitted r then ((r, u), Inr (plain_response (Response_ResponseHeaders None)))
      else
        (let u1 = u\<lparr>up_responseHeaders := headersToMap hs\<rparr>;
             enc = mget (up_responseHeaders u1) ''content-encoding'';
             u2 = (if enc \<noteq> [] then u1\<lparr>up_responseEncoding := enc\<rparr> else u1);
             u3 = u2\<lparr>up_compressedBuf := [], up_decompressedOffset := 0, up_responseStreamTerminated := False\<rparr>
         in defer_completion env (clk 2)
           (case up_translator u3 of
              None \<Rightarrow> ((r, u3), Inl (GoError [GoPanic] ''nil pointer dereference''))
            | Some t \<Rightarrow>
                (let (t', res) = tr_ResponseHeaders (pe_translator env) t (up_responseHeaders u3);
                     u4 = u3\<lparr>up_translator := Some t'\<rparr>
                 in case res of
                      Inl err \<Rightarrow> ((r, u4), Inl (wrapf ''failed to transform response headers: '' err))
                    | Inr newHeaders \<Rightarrow>
                        (let mode = (if rp_stream r \<and> mget (up_responseHeaders u4) '':status'' = ''200''
                                     then Some STREAMED else None);
                             headerMutation0 = fst (mutationsFromTranslationResult newHeaders None);
                             headerMutation = (if mode \<noteq> None
                               then headerMutation0\<lparr>RemoveHeaders := RemoveHeaders headerMutation0 @ [''content-length'']\<rparr>
                               else headerMutation0)
                         in ((r, u4), Inr \<lparr>pr_Response = Response_ResponseHeaders
                                (Some (empty_common\<lparr>cr_HeaderMutation := Some headerMutation\<rparr>)),
                              pr_DynamicMetadata = None, pr_ModeOverride = mode\<rparr>))))))"

definition body_response :: "HeaderMutation option \<Rightarrow> BodyMutation option \<Rightarrow> ProcessingResponse" where
  "body_response headerMutation bodyMutation = plain_response (Response_ResponseBody
     (Some (empty_common\<lparr>cr_HeaderMutation := headerMutation, cr_BodyMutation := bodyMutation\<rparr>)))"

text \<open>
  The deferred function of \<open>ProcessResponseBody\<close>: a failed call and one that marked its
  failure record an unsuccessful completion, otherwise the end of the stream a successful one.
\<close>

definition defer_body_completion ::
  "('req, 'tr, 'h, 'p) proc_env \<Rightarrow> int \<Rightarrow> bool \<Rightarrow>
   bool \<times> (('req, 'h, 'p, 'c) routerProcessor \<times> ('tr, 'h) upstreamProcessor) \<times> (go_error + ProcessingResponse) \<Rightarrow>
   (('req, 'h, 'p, 'c) routerProcessor \<times> ('tr, 'h) upstreamProcessor) \<times> (go_error + ProcessingResponse)" where
  "defer_body_completion env now endOfStream st =
     (let (recordRequestCompletionErr, (r, u), res) = st in
      ((r, if isl res \<or> recordRequestCompletionErr then record_completion env now False u
           else if endOfStream then record_completion env now True u else u), res))"

definition decode_body ::
  "('req, 'tr, 'h, 'p) proc_env \<Rightarrow> bool \<Rightarrow> HttpBody \<Rightarrow> ('tr, 'h) upstreamProcessor \<Rightarrow>
   ('tr, 'h) upstreamProcessor \<times> (go_error + contentDecodingResult)" where
  "decode_body env stream body u =
     (if stream \<and> up_responseEncoding u \<noteq> []
      then (let (st, res) = decodeStreamingContent (pe_decoders env) (up_responseEncoding u) (slice_bytes (hb_Body body))
                              (hb_EndOfStream body) (up_compressedBuf u, up_decompressedOffset u)
            in (u\<lparr>up_compressedBuf := fst st, up_decompressedOffset := snd st\<rparr>, res))
      else (u, decodeContentIfNeeded (pe_decoders env) (slice_bytes (hb_Body body)) (up_responseEncoding u)))"

definition upstream_error_body ::
  "('req, 'tr, 'h, 'p) proc_env \<Rightarrow> int \<Rightarrow> HttpBody \<Rightarrow> contentDecodingResult \<Rightarrow> 'tr \<Rightarrow>
   ('req, 'h, 'p, 'c) routerProcessor \<times> ('tr, 'h) upstreamProcessor \<Rightarrow>
   bool \<times> (('req, 'h, 'p, 'c) routerProcessor \<times> ('tr, 'h) upstreamProcessor) \<times> (go_error + ProcessingResponse)" where
  "upstream_error_body env code body decodingResult t ru =
     (let (r, u) = ru;
          (t', res) = tr_ResponseError (pe_translator env) t (up_responseHeaders u) (cd_reader decodingResult);
          u1 = u\<lparr>up_translator := Some t'\<rparr>
      in case res of
           Inl err \<Rightarrow> (False, (r, u1), Inl (wrapf ''failed to transform response error: '' err))
         | Inr (newHeaders, newBody) \<Rightarrow>
             (let (headerMutation0, bodyMutation) = mutationsFromTranslationResult newHeaders newBody;
                  headerMutation = removeContentEncodingIfNeeded (Some headerMutation0) bodyMutation (cd_isEncoded decodingResult);
                  b = (case GetBody bodyMutation of None \<Rightarrow> hb_Body body | Some x \<Rightarrow> Some x);
                  r1 = span_do (EndSpanOnError code b) r
              in (True, (r1, u1), Inr (body_response headerMutation bodyMutation))))"

definition record_tokens_of_body ::
  "('req, 'tr, 'h, 'p) proc_env \<Rightarrow> int \<Rightarrow> bool \<Rightarrow> bool \<Rightarrow> ('tr, 'h) upstreamProcessor \<Rightarrow> ('tr, 'h) upstreamProcessor" where
  "record_tokens_of_body env now stream endOfStream u =
     (if stream then
        (let u1 = u\<lparr>up_metrics := RecordTokenLatency (pe_ord env 3) now (fst (OutputTokens (up_costs u))) endOfStream
                      (up_requestHeaders u) (up_metrics u)\<rparr>
         in if endOfStream
            then u1\<lparr>up_metrics := RecordTokenUsage (pe_ord env 3) (up_costs u1) (up_requestHeaders u1) (up_metrics u1)\<rparr>
            else u1)
      else u\<lparr>up_metrics := RecordTokenUsage (pe_ord env 3) (up_costs u) (up_requestHeaders u) (up_metrics u)\<rparr>)"

definition upstream_ok_body ::
  "('req, 'tr, 'h, 'p) proc_env \<Rightarrow> (nat \<Rightarrow> int) \<Rightarrow> int \<Rightarrow> HttpBody \<Rightarrow> contentDecodingResult \<Rightarrow> 'tr \<Rightarrow>
   ('req, 'h, 'p, 'c) routerProcessor \<times> ('tr, 'h) upstreamProcessor \<Rightarrow>
   bool \<times> (('req, 'h, 'p, 'c) routerProcessor \<times> ('tr, 'h) upstreamProcessor) \<times> (go_error + ProcessingResponse)" where
  "upstream_ok_body env clk code body decodingResult t ru =
     (let (r, u) = ru;
          (t', td) = tr_ResponseBody (pe_translator env) t (up_responseHeaders u) (cd_reader decodingResult)
                       (hb_EndOfStream body) (rp_span r \<noteq> None);
          u1 = u\<lparr>up_translator := Some t'\<rparr>;
          (headerMutation0, bodyMutation) = mutationsFromTranslationResult (td_headers td) (td_body td);
          headerMutation = removeContentEncodingIfNeeded (Some headerMutation0) bodyMutation (cd_isEncoded decodingResult)
      in case td_err td of
           Some err \<Rightarrow>
             if rp_stream r \<and> errors_is err StreamOverloadedError \<and> slice_bytes (td_body td) \<noteq> []
             then (True, (span_do (EndSpanOnError code (td_body td)) r, u1\<lparr>up_responseStreamTerminated := True\<rparr>),
                   Inr (body_response headerMutation bodyMutation))
             else (False, (r, u1), Inl (wrapf ''failed to transform response: '' err))
         | None \<Rightarrow>
             (let resp = body_response headerMutation bodyMutation;
                  u2 = u1\<lparr>up_costs := Override (up_costs u1) (td_usage td),
                          up_metrics := SetResponseModel (td_model td) (up_metrics u1)\<rparr>;
                  u3 = record_tokens_of_body env (clk 1) (rp_stream r) (hb_EndOfStream body) u2;
                  metadata = (if (hb_EndOfStream body \<or> \<not> IsZero (td_usage td)) \<and>
                                 (rt_GlobalRequestCosts (rp_config r) \<noteq> [] \<or> rt_RequestCosts (rp_config r) \<noteq> [])
                              then (case buildDynamicMetadataWithBackendIdentity (pe_cel env)
                                       (rt_GlobalRequestCosts (rp_config r)) (rt_RequestCosts (rp_config r)) (up_costs u3)
                                       (up_requestHeaders u3) (up_backendName u3)
                                       (resolveAIServiceBackendName (up_aiServiceBackendName u3) (up_backendName u3))
                                       (up_routeName u3) (td_model td) of
                                      Inl err \<Rightarrow> Inl (wrapf ''failed to build dynamic metadata: '' err)
                                    | Inr md \<Rightarrow> Inr (Some (if rp_stream r then mergeWithTokenLatencyMetadata (up_metrics u3) md else md)))
                              else Inr None)
              in case metadata of
                   Inl err \<Rightarrow> (False, (r, u3), Inl err)
                 | Inr dm \<Rightarrow>
                     (False, (if hb_EndOfStream body then span_do EndSpan r else r, u3),
                      Inr (resp\<lparr>pr_DynamicMetadata := dm\<rparr>))))"

definition upstream_ProcessResponseBody ::
  "('req, 'tr, 'h, 'p) proc_env \<Rightarrow> (nat \<Rightarrow> int) \<Rightarrow> HttpBody \<Rightarrow>
   ('req, 'h, 'p, 'c) routerProcessor \<times> ('tr, 'h) upstreamProcessor \<Rightarrow>
   (('req, 'h, 'p, 'c) routerProcessor \<times> ('tr, 'h) upstreamProcessor) \<times> (go_error + ProcessingResponse)" where
  "upstream_ProcessResponseBody env clk body ru =
     (let (r, u) = ru in
      if rp_localReplyEmitted r then ((r, u), Inr (plain_response (Response_ResponseBody None)))
      else if up_responseStreamTerminated u
      then ((r, u), Inr (body_response None (snd (mutationsFromTranslationResult [] (Some [])))))
      else defer_body_completion env (clk 2) (hb_EndOfStream body)
        (let (u1, decoded) = decode_body env (rp_stream r) body u in
         case decoded of
           Inl err \<Rightarrow> (False, (r, u1), Inl err)
         | Inr decodingResult \<Rightarrow>
             (let code = fst (Atoi (mget (up_responseHeaders u1) '':status'')) in
              case up_translator u1 of
                None \<Rightarrow> (False, (r, u1), Inl (GoError [GoPanic] ''nil pointer dereference''))
              | Some t \<Rightarrow>
                  if \<not> isGoodStatusCode code then upstream_error_body env code body decodingResult t (r, u1)
                  else upstream_ok_body env clk code body decodingResult t (r, u1))))"

text \<open>
  The router processor hands the response to the upstream processor of the last attempt, if one was
  set, and passes it through otherwise.
\<close>

definition router_ProcessResponseHeaders ::
  "('req, 'tr, 'h, 'p) proc_env \<Rightarrow> (nat \<Rightarrow> int) \<Rightarrow> HeaderMap option \<Rightarrow>
   ('req, 'h, 'p, 'c) routerProcessor \<times> ('tr, 'h) upstreamProcessor option \<Rightarrow>
   (('req, 'h, 'p, 'c) routerProcessor \<times> ('tr, 'h) upstreamProcessor option) \<times> (go_error + ProcessingResponse)" where
  "router_ProcessResponseHeaders env clk hs ru =
     (case snd ru of
        None \<Rightarrow> (ru, Inr (plain_response (Response_ResponseHeaders None)))
      | Some u \<Rightarrow> (let ((r', u'), res) = upstream_ProcessResponseHeaders env clk hs (fst ru, u) in ((r', Some u'), res)))"

definition router_ProcessResponseBody ::
  "('req, 'tr, 'h, 'p) proc_env \<Rightarrow> (nat \<Rightarrow> int) \<Rightarrow> HttpBody \<Rightarrow>
   ('req, 'h, 'p, 'c) routerProcessor \<times> ('tr, 'h) upstreamProcessor option \<Rightarrow>
   (('req, 'h, 'p, 'c) routerProcessor \<times> ('tr, 'h) upstreamProcessor option) \<times> (go_error + ProcessingResponse)" where
  "router_ProcessResponseBody env clk body ru =
     (case snd ru of
        None \<Rightarrow> (ru, Inr (plain_response (Response_ResponseBody None)))
      | Some u \<Rightarrow> (let ((r', u'), res) = upstream_ProcessResponseBody env clk body (fst ru, u) in ((r', Some u'), res)))"

section \<open>Choosing the backend\<close>

definition configure_translator ::
  "('req, 'tr) translator \<Rightarrow> string \<Rightarrow> headers \<Rightarrow> HTTPHeaderValueFilter list \<Rightarrow> 'tr \<Rightarrow> 'tr" where
  "configure_translator ops contentType hdrs filters t =
     (let t1 = (case tr_SetContentType ops t of None \<Rightarrow> t | Some setter \<Rightarrow> setter contentType);
          t2 = (case tr_SetRequestHeaders ops t1 of None \<Rightarrow> t1 | Some setter \<Rightarrow> setter hdrs)
      in fold (\<lambda>f t. case tr_SetHeaderValueFilter ops t of None \<Rightarrow> t | Some setter \<Rightarrow> setter f) filters t2)"

text \<open>The flag of the result says whether the parent's \<open>upstreamFilter\<close> was assigned.\<close>

definition upstream_SetBackend ::
  "('req, 'tr, 'h, 'p) proc_env \<Rightarrow> int \<Rightarrow> 'h RuntimeBackend \<Rightarrow> string \<Rightarrow>
   ('req, 'h, 'p, 'c) routerProcessor \<times> ('tr, 'h) upstreamProcessor \<Rightarrow>
   (('req, 'h, 'p, 'c) routerProcessor \<times> ('tr, 'h) upstreamProcessor) \<times> (go_error + bool)" where
  "upstream_SetBackend env now backend routeName ru =
     (let (rp, u) = ru;
          b = rb_Backend backend;
          rp1 = span_do (RecordBackend (schema_Name (be_Schema b)) (be_Name b))
                  (rp\<lparr>rp_upstreamFilterCount := rp_upstreamFilterCount rp + 1\<rparr>);
          override = be_ModelNameOverride b;
          hdrs = (if override \<noteq> [] then (up_requestHeaders u)(ModelNameHeaderKeyDefault \<mapsto> override)
                  else up_requestHeaders u);
          u1 = u\<lparr>up_metrics := metrics_SetBackend b (up_metrics u), up_modelNameOverride := override,
                 up_backendName := be_Name b,
                 up_aiServiceBackendName := resolveAIServiceBackendName (be_AIServiceBackendName b) (be_Name b),
                 up_routeName := routeName, up_handler := rb_Handler backend,
                 up_headerMutator := Some (NewHeaderMutator (be_HeaderMutation b) (rp_requestHeaders rp)),
                 up_bodyMutator := Some (NewBodyMutator (be_BodyMutation b) (rp_originalRequestBodyRaw rp)),
                 up_requestHeaders := hdrs\<rparr>
      in defer_completion env now
        (case eh_GetTranslator (pe_endpoint env (rp_eh rp)) (be_Schema b) override of
           Inl err \<Rightarrow>
             (case GetUserFacingError err of
                Some userFacingErr \<Rightarrow> ((rp1, u1\<lparr>up_translator := None, up_unsupportedBackendErr := Some userFacingErr\<rparr>), Inr False)
              | None \<Rightarrow> ((rp1, u1\<lparr>up_translator := None\<rparr>),
                  Inl (wrapf (''failed to create translator for backend '' @ be_Name b @ '': '') err)))
         | Inr t \<Rightarrow>
             ((rp1, u1\<lparr>up_translator := Some (configure_translator (pe_translator env)
                  (mget (rp_requestHeaders rp) ''content-type'') hdrs (be_HeaderValueFilters b) t)\<rparr>),
              Inr True)))"

end
