(* ===== verification/Processor_Correctness.thy ===== *)
theory Processor_Correctness
  imports Extproc_Processor
begin

text \<open>
  Correctness of the processors of \<^verbatim>\<open>internal/extproc/processor_impl.go\<close>: local replies,
  the completion record of a request, the body policy of retries, unsupported backends, and the
  trusted upstream host.
\<close>

section \<open>Local replies\<close>

fun is_immediate :: "Response \<Rightarrow> bool" where
  "is_immediate (Response_Immediate _) = True"
| "is_immediate _ = False"

lemma createUserFacingErrorResponse_immediate [simp]:
  "is_immediate (pr_Response (createUserFacingErrorResponse c t m))"
  by (simp add: createUserFacingErrorResponse_def plain_response_def Let_def)

lemma respondLocally_result:
  "respondLocally env now c t m (r, u) =
     ((span_do (EndSpanOnError (int c) (Some (formatUserFacingErrorJSON t c m))) (r\<lparr>rp_localReplyEmitted := True\<rparr>),
       record_completion env now False u), createUserFacingErrorResponse c t m)"
  by (simp add: respondLocally_def createUserFacingErrorResponse_def plain_response_def Let_def)

lemma span_do_simps [simp]:
  "rp_localReplyEmitted (span_do c r) = rp_localReplyEmitted r" "rp_stream (span_do c r) = rp_stream r"
  "rp_config (span_do c r) = rp_config r" "rp_requestHeaders (span_do c r) = rp_requestHeaders r"
  "rp_upstreamFilterCount (span_do c r) = rp_upstreamFilterCount r" "rp_eh (span_do c r) = rp_eh r"
  "rp_originalRequestBodyRaw (span_do c r) = rp_originalRequestBodyRaw r"
  "rp_originalRequestBody (span_do c r) = rp_originalRequestBody r"
  "rp_originalModel (span_do c r) = rp_originalModel r" "rp_forceBodyMutation (span_do c r) = rp_forceBodyMutation r"
  "rp_span (span_do c r) = map_option (\<lambda>cs. cs @ [c]) (rp_span r)"
  by (simp_all add: span_do_def)

lemma request_response_not_immediate [simp]: "\<not> is_immediate (pr_Response (request_response env w hm bm u))"
  by (simp add: request_response_def Let_def)

definition completed :: "metricsImpl \<Rightarrow> nat" where
  "completed m = length (filter (\<lambda>x. ms_instrument x = RequestLatency) (mi_recorded m))"

abbreviation completions :: "('tr, 'h) upstreamProcessor \<Rightarrow> nat" where
  "completions u \<equiv> completed (up_metrics u)"

lemma completed_simps [simp]:
  "completed (SetRequestModel s m) = completed m" "completed (SetOriginalModel s m) = completed m"
  "completed (StartRequest t m) = completed m" "completed (SetResponseModel s m) = completed m"
  "completed (RecordTokenLatency ord t n eos h m) = completed m"
  "completed (RecordTokenUsage ord us h m) = completed m"
  "completed (RecordRequestCompletion ord t x h m) = Suc (completed m)"
  by (simp_all add: completed_def SetRequestModel_def SetOriginalModel_def StartRequest_def SetResponseModel_def
      RecordTokenLatency_def RecordTokenUsage_def record_tokens_def RecordRequestCompletion_def Record_def Let_def)

lemma completions_record_completion [simp]: "completions (record_completion env now s u) = Suc (completions u)"
  by (simp add: record_completion_def)

lemma record_completion_simps [simp]:
  "up_requestHeaders (record_completion env now s u) = up_requestHeaders u"
  "up_responseHeaders (record_completion env now s u) = up_responseHeaders u"
  "up_responseStreamTerminated (record_completion env now s u) = up_responseStreamTerminated u"
  "up_translator (record_completion env now s u) = up_translator u"
  "up_costs (record_completion env now s u) = up_costs u"
  by (simp_all add: record_completion_def)

lemma apply_header_mutator_metrics [simp]:
  "up_metrics (fst (apply_header_mutator env b hm u)) = up_metrics u"
  "up_handler (fst (apply_header_mutator env b hm u)) = up_handler u"
  "up_bodyMutator (fst (apply_header_mutator env b hm u)) = up_bodyMutator u"
  "up_backendName (fst (apply_header_mutator env b hm u)) = up_backendName u"
  by (simp_all add: apply_header_mutator_def split: option.split prod.split)

lemma upstream_prepare_simps [simp]:
  "up_metrics (fst (upstream_prepare env f nh nb r u)) = up_metrics u"
  "up_handler (fst (upstream_prepare env f nh nb r u)) = up_handler u"
  "up_backendName (fst (upstream_prepare env f nh nb r u)) = up_backendName u"
  by (simp_all add: upstream_prepare_def mutationsFromTranslationResult_def Let_def split_beta)

lemma upstream_send_outcome:
  assumes "upstream_send env clk md f nh nb (r, u) = ((r', u'), res)"
  shows "(\<exists>resp. res = Inr resp \<and> \<not> is_immediate (pr_Response resp) \<and> r' = r \<and> completions u' = completions u) \<or>
    (\<exists>resp. res = Inr resp \<and> is_immediate (pr_Response resp) \<and> rp_localReplyEmitted r' \<and>
       rp_span r' = map_option (\<lambda>cs. cs @ [EndSpanOnError 401 (Some (formatUserFacingErrorJSON ''Unauthorized'' 401 ''missing upstream credential''))]) (rp_span r) \<and>
       completions u' = Suc (completions u)) \<or>
    (\<exists>e. res = Inl e \<and> r' = r \<and> completions u' = completions u)"
proof -
  obtain u2 hm bm w where prep: "upstream_prepare env f nh nb r u = (u2, hm, bm, w)" by (metis prod_cases4)
  then have m: "up_metrics u2 = up_metrics u" using upstream_prepare_simps(1) [of env f nh nb r u] by simp
  then have c: "completions u2 = completions u" by simp
  show ?thesis
  proof (cases "up_handler u2")
    case None
    with assms prep c show ?thesis by (auto simp: upstream_send_def)
  next
    case (Some h)
    obtain hdrs' x where d: "pe_Do env (clk 1) h md (up_requestHeaders u2) (GetBody (Some bm)) = (hdrs', x)" by force
    have c3: "completions (u2\<lparr>up_requestHeaders := hdrs'\<rparr>) = completions u" using c by simp
    show ?thesis
    proof (cases x)
      case (Inl err)
      show ?thesis
      proof (cases "errors_is err ErrCredentialMissing")
        case True
        with assms prep Some d Inl c3 show ?thesis by (auto simp: upstream_send_def respondLocally_result Let_def)
      next
        case False
        with assms prep Some d Inl c3 show ?thesis by (auto simp: upstream_send_def Let_def)
      qed
    next
      case (Inr hdrs)
      with assms prep Some d c3 show ?thesis by (auto simp: upstream_send_def Let_def)
    qed
  qed
qed

lemma upstream_translate_outcome:
  assumes "upstream_translate env clk md (r, u) = ((r', u'), res)" and "\<not> rp_localReplyEmitted r"
  shows "(rp_localReplyEmitted r' \<longleftrightarrow> (\<exists>resp. res = Inr resp \<and> is_immediate (pr_Response resp))) \<and>
    completions u' = completions u + (if rp_localReplyEmitted r' then 1 else 0)"
proof (cases "up_translator u")
  case None
  with assms show ?thesis by (auto simp: upstream_translate_def)
next
  case (Some t)
  obtain t' x where t: "tr_RequestBody (pe_translator env) t (rp_originalRequestBodyRaw r) (rp_originalRequestBody r)
      (onRetry r \<or> rp_forceBodyMutation r) = (t', x)" by force
  show ?thesis
  proof (cases x)
    case (Inl err)
    with assms Some t show ?thesis
      by (cases "GetUserFacingError err") (auto simp: upstream_translate_def respondLocally_result)
  next
    case (Inr y)
    obtain nh nb where y: "y = (nh, nb)" by force
    have "upstream_send env clk md (onRetry r \<or> rp_forceBodyMutation r) nh nb
        (r, u\<lparr>up_translator := Some t'\<rparr>) = ((r', u'), res)"
      using assms(1) Some t Inr y by (simp add: upstream_translate_def)
    from upstream_send_outcome [OF this] assms(2) show ?thesis by auto
  qed
qed


section \<open>A sample environment\<close>

definition sample_ops :: "(string, string) translator" where
  "sample_ops = \<lparr>tr_RequestBody = (\<lambda>t raw body f. (t, Inr ([('':path'', ''/p'')], None))),
     tr_ResponseHeaders = (\<lambda>t h. (t, Inr [])), tr_ResponseError = (\<lambda>t h rd. (t, Inr ([], None))),
     tr_ResponseBody = (\<lambda>t h rd eos sp. (t, \<lparr>td_headers = [], td_body = None,
        td_usage = SetOutputTokens 3 no_usage, td_model = ''m'', td_err = None\<rparr>)),
     tr_SetContentType = (\<lambda>_. None), tr_SetRequestHeaders = (\<lambda>_. None), tr_SetHeaderValueFilter = (\<lambda>_. None)\<rparr>"

definition sample_endpoint :: "(string, string) endpoint" where
  "sample_endpoint = \<lparr>eh_ParseBody = (\<lambda>b c. Inr (''m'', slice_bytes b, True, None)),
     eh_ParseMultipartBody = (\<lambda>b t c. Inl (errorf ''no multipart'')),
     eh_GetTranslator = (\<lambda>s m. if schema_Name s = APISchemaOpenAI then Inr ''t''
        else Inl (GoError [ErrInvalidRequestBody] ''unsupported''))\<rparr>"

definition sample_penv :: "(string, string, bool, unit) proc_env" where
  "sample_penv = \<lparr>pe_endpoint = (\<lambda>_. sample_endpoint), pe_translator = sample_ops, pe_StartSpan = (\<lambda>h q b. (True, [])),
     pe_Do = (\<lambda>now h md hdrs b. if h then (hdrs, Inr [(''Authorization'', ''k'')]) else (hdrs, Inl credential_missing)),
     pe_sjson = edit_sjson, pe_cel = (\<lambda>_ _. Inl (errorf ''no cel'')), pe_decoders = toy_decoders,
     pe_LogRequestHeaderAttributes = Map.empty, pe_ord = (\<lambda>_. [])\<rparr>"

definition sample_rt :: "(bool, unit, unit) RuntimeConfig" where
  "sample_rt = \<lparr>rt_UUID = [], rt_GlobalRequestCosts = [], rt_RequestCosts = [], rt_DeclaredModels = [],
     rt_ModelsByHost = Map.empty, rt_UnscopedModels = [], rt_Backends = Map.empty, rt_FileIDCodec = None\<rparr>"

definition sample_router :: "(string, bool, unit, unit) routerProcessor" where
  "sample_router = newRouterProcessor 0 sample_rt Map.empty"

definition sample_upstream :: "bool \<Rightarrow> (string, bool) upstreamProcessor" where
  "sample_upstream h = (newUpstreamProcessor Map.empty sample_metrics)\<lparr>up_translator := Some ''t'', up_handler := Some h\<rparr>"

lemmas sample_defs = sample_penv_def sample_ops_def sample_endpoint_def sample_rt_def sample_router_def sample_upstream_def
  newRouterProcessor_def newUpstreamProcessor_def sample_metrics_def NewMetrics_def

lemmas processor_defs = upstream_ProcessRequestHeaders_def start_metrics_def upstream_translate_def upstream_send_def upstream_prepare_def apply_header_mutator_def
  defer_completion_def mutationsFromTranslationResult_def onRetry_def copy_set_headers_def HasMutations_def


section \<open>The record of a response\<close>

lemma record_tokens_of_body_simps [simp]:
  "completions (record_tokens_of_body env now st eos u) = completions u"
  "up_responseHeaders (record_tokens_of_body env now st eos u) = up_responseHeaders u"
  "up_responseStreamTerminated (record_tokens_of_body env now st eos u) = up_responseStreamTerminated u"
  by (simp_all add: record_tokens_of_body_def Let_def)

lemma decode_body_simps:
  "decode_body env st b u = (u1, d) \<Longrightarrow> completions u1 = completions u \<and> up_responseHeaders u1 = up_responseHeaders u \<and>
     up_responseStreamTerminated u1 = up_responseStreamTerminated u \<and> up_translator u1 = up_translator u"
  by (auto simp: decode_body_def split: if_splits prod.splits)

lemma upstream_ok_body_outcome:
  assumes "upstream_ok_body env clk code b d t (r, u) = (flag, (r', u'), res)"
  shows "completions u' = completions u \<and> up_responseHeaders u' = up_responseHeaders u \<and>
    rp_localReplyEmitted r' = rp_localReplyEmitted r \<and>
    ((isl res \<and> \<not> flag) \<or>
     (\<not> isl res \<and> flag \<and> up_responseStreamTerminated u' \<and>
        (\<exists>x. rp_span r' = map_option (\<lambda>cs. cs @ [EndSpanOnError code x]) (rp_span r))) \<or>
     (\<not> isl res \<and> \<not> flag \<and> up_responseStreamTerminated u' = up_responseStreamTerminated u \<and>
        rp_span r' = (if hb_EndOfStream b then map_option (\<lambda>cs. cs @ [EndSpan]) (rp_span r) else rp_span r)))"
proof -
  obtain t' td where t: "tr_ResponseBody (pe_translator env) t (up_responseHeaders u) (cd_reader d)
      (hb_EndOfStream b) (rp_span r \<noteq> None) = (t', td)" by force
  obtain hm bm where hb: "mutationsFromTranslationResult (td_headers td) (td_body td) = (hm, bm)" by force
  show ?thesis
  proof (cases "td_err td")
    case (Some err)
    with assms t hb show ?thesis
      by (auto simp: upstream_ok_body_def Let_def split: if_splits)
  next
    case None
    with assms t hb show ?thesis
      by (auto simp: upstream_ok_body_def Let_def split: if_splits sum.splits)
  qed
qed

lemma upstream_error_body_outcome:
  assumes "upstream_error_body env code b d t (r, u) = (flag, (r', u'), res)"
  shows "completions u' = completions u \<and> rp_localReplyEmitted r' = rp_localReplyEmitted r \<and> flag = (\<not> isl res) \<and>
    up_responseStreamTerminated u' = up_responseStreamTerminated u \<and>
    (\<not> isl res \<longrightarrow> (\<exists>x. rp_span r' = map_option (\<lambda>cs. cs @ [EndSpanOnError code x]) (rp_span r)))"
proof -
  obtain t' x where t: "tr_ResponseError (pe_translator env) t (up_responseHeaders u) (cd_reader d) = (t', x)" by force
  show ?thesis
  proof (cases x)
    case (Inl err)
    with assms t show ?thesis by (auto simp: upstream_error_body_def)
  next
    case (Inr y)
    obtain nh nb where y: "y = (nh, nb)" by force
    obtain hm bm where hb: "mutationsFromTranslationResult nh nb = (hm, bm)" by force
    from assms t Inr y hb show ?thesis by (auto simp: upstream_error_body_def Let_def)
  qed
qed

definition status_code :: "('tr, 'h) upstreamProcessor \<Rightarrow> int" where
  "status_code u = fst (Atoi (mget (up_responseHeaders u) '':status''))"

definition ends_span :: "span_call list option \<Rightarrow> span_call list option \<Rightarrow> bool" where
  "ends_span before after \<longleftrightarrow> (\<exists>c. (c = EndSpan \<or> (\<exists>code x. c = EndSpanOnError code x)) \<and>
     after = map_option (\<lambda>cs. cs @ [c]) before)"

lemma response_body_step:
  assumes "upstream_ProcessResponseBody env clk b (r, u) = ((r', u'), res)"
    and "\<not> rp_localReplyEmitted r" and "\<not> up_responseStreamTerminated u"
    and "isGoodStatusCode (status_code u) \<or> hb_EndOfStream b"
  shows "\<not> rp_localReplyEmitted r' \<and>
    (if isl res then completions u' = Suc (completions u)
     else if up_responseStreamTerminated u' \<or> hb_EndOfStream b
     then completions u' = Suc (completions u) \<and> ends_span (rp_span r) (rp_span r')
     else completions u' = completions u \<and> rp_span r' = rp_span r \<and> status_code u' = status_code u)"
proof -
  obtain u1 d where d: "decode_body env (rp_stream r) b u = (u1, d)" by force
  note u1 = decode_body_simps [OF d]
  then have code: "status_code u1 = status_code u" by (simp add: status_code_def)
  have res: "((r', u'), res) = defer_body_completion env (clk 2) (hb_EndOfStream b)
      (case d of
         Inl err \<Rightarrow> (False, (r, u1), Inl err)
       | Inr dr \<Rightarrow>
           (case up_translator u1 of
              None \<Rightarrow> (False, (r, u1), Inl (GoError [GoPanic] ''nil pointer dereference''))
            | Some t \<Rightarrow>
                if \<not> isGoodStatusCode (status_code u1) then upstream_error_body env (status_code u1) b dr t (r, u1)
                else upstream_ok_body env clk (status_code u1) b dr t (r, u1)))"
    unfolding status_code_def using assms(1-3) d by (simp add: upstream_ProcessResponseBody_def Let_def)
  show ?thesis
  proof (cases "isl d \<or> up_translator u1 = None")
    case True
    with res assms(2) u1 show ?thesis
      by (auto simp: defer_body_completion_def split: sum.splits)
  next
    case False
    then obtain dr t where dt: "d = Inr dr" "up_translator u1 = Some t" by (cases d) auto
    obtain flag r2 u2 x where x: "(if \<not> isGoodStatusCode (status_code u1)
        then upstream_error_body env (status_code u1) b dr t (r, u1)
        else upstream_ok_body env clk (status_code u1) b dr t (r, u1)) = (flag, (r2, u2), x)" by (metis surj_pair)
    have fin: "r' = r2" "res = x" "u' = (if isl x \<or> flag then record_completion env (clk 2) False u2
         else if hb_EndOfStream b then record_completion env (clk 2) True u2 else u2)"
      using res dt x by (simp_all add: defer_body_completion_def)
    show ?thesis
    proof (cases "isGoodStatusCode (status_code u1)")
      case True
      with x have "upstream_ok_body env clk (status_code u1) b dr t (r, u1) = (flag, (r2, u2), x)" by simp
      from upstream_ok_body_outcome [OF this] u1 assms(2,3) code fin show ?thesis
        by (auto simp: ends_span_def status_code_def)
    next
      case False
      with x have "upstream_error_body env (status_code u1) b dr t (r, u1) = (flag, (r2, u2), x)" by simp
      from upstream_error_body_outcome [OF this] u1 assms(2,3,4) code False fin show ?thesis
        by (auto simp: ends_span_def)
    qed
  qed
qed

type_synonym timed_body = "(nat \<Rightarrow> int) \<times> HttpBody"

text \<open>The body messages of one response, until the first that fails.\<close>

fun response_run ::
  "('req, 'tr, 'h, 'p) proc_env \<Rightarrow> timed_body list \<Rightarrow>
   ('req, 'h, 'p, 'c) routerProcessor \<times> ('tr, 'h) upstreamProcessor \<Rightarrow>
   (('req, 'h, 'p, 'c) routerProcessor \<times> ('tr, 'h) upstreamProcessor) \<times> (go_error + ProcessingResponse list)" where
  "response_run env [] ru = (ru, Inr [])"
| "response_run env (b # bs) ru =
     (case upstream_ProcessResponseBody env (fst b) (snd b) ru of
        (ru', Inl e) \<Rightarrow> (ru', Inl e)
      | (ru', Inr resp) \<Rightarrow>
          (case response_run env bs ru' of
             (ru'', Inl e) \<Rightarrow> (ru'', Inl e)
           | (ru'', Inr resps) \<Rightarrow> (ru'', Inr (resp # resps))))"

definition discarded :: ProcessingResponse where
  "discarded = body_response None (Some (BodyMutation_Body (Some [])))"

lemma terminated_run:
  "\<not> rp_localReplyEmitted r \<Longrightarrow> up_responseStreamTerminated u \<Longrightarrow>
   response_run env bs (r, u) = ((r, u), Inr (replicate (length bs) discarded))"
  by (induction bs)
     (simp_all add: upstream_ProcessResponseBody_def mutationsFromTranslationResult_def discarded_def)

text \<open>
  C8. A response is recorded once. For the body messages of a response, of which the last and only
  the last ends the stream (and which is a single message if the upstream failed), exactly one
  completion is recorded, whether the response succeeds, a message cannot be handled, or the
  upstream reports an overload in the middle of the stream; and if no message fails, the span has
  been ended exactly once.
\<close>

theorem response_recorded_once:
  assumes "response_run env (bs @ [b]) (r, u) = ((r', u'), res)"
    and "\<forall>x \<in> set bs. \<not> hb_EndOfStream (snd x)" and "hb_EndOfStream (snd b)"
    and "\<not> rp_localReplyEmitted r" and "\<not> up_responseStreamTerminated u"
    and "isGoodStatusCode (status_code u) \<or> bs = []"
  shows "completions u' = Suc (completions u) \<and> (\<not> isl res \<longrightarrow> ends_span (rp_span r) (rp_span r'))"
  using assms(1,2,4-6)
proof (induction bs arbitrary: r u res)
  case Nil
  obtain r1 u1 x where x: "upstream_ProcessResponseBody env (fst b) (snd b) (r, u) = ((r1, u1), x)" by (metis surj_pair)
  from response_body_step [OF x] Nil.prems x assms(3) show ?case by (auto split: sum.splits)
next
  case (Cons c bs)
  obtain r1 u1 x where x: "upstream_ProcessResponseBody env (fst c) (snd c) (r, u) = ((r1, u1), x)" by (metis surj_pair)
  from Cons.prems have "isGoodStatusCode (status_code u)" "\<not> hb_EndOfStream (snd c)" by auto
  note step = response_body_step [OF x Cons.prems(3,4) disjI1 [OF this(1)]]
  show ?case
  proof (cases x)
    case (Inl e)
    with step Cons.prems(1) x show ?thesis by auto
  next
    case (Inr resp)
    obtain r2 u2 y where y: "response_run env (bs @ [b]) (r1, u1) = ((r2, u2), y)" by (metis surj_pair)
    from Cons.prems(1) x Inr y have fin: "r' = r2" "u' = u2" "isl res = isl y" by (auto split: sum.splits)
    show ?thesis
    proof (cases "up_responseStreamTerminated u1")
      case True
      with step Inr terminated_run [of r1 u1 env "bs @ [b]"] y fin show ?thesis by auto
    next
      case False
      with step Inr \<open>\<not> hb_EndOfStream (snd c)\<close> have s: "\<not> rp_localReplyEmitted r1" "completions u1 = completions u"
        "rp_span r1 = rp_span r" "status_code u1 = status_code u" by auto
      from Cons.IH [OF _ _ s(1) False, of y] y Cons.prems(2) s(4) \<open>isGoodStatusCode (status_code u)\<close> fin
      show ?thesis by (simp add: s(2,3))
    qed
  qed
qed

definition sample_response :: "(string, bool) upstreamProcessor" where
  "sample_response = (sample_upstream True)\<lparr>up_responseHeaders := ['':status'' \<mapsto> ''200'']\<rparr>"

lemma sample_response_good: "isGoodStatusCode (status_code sample_response)"
proof -
  have "fst (Atoi ''200'') = 200" by code_simp
  then show ?thesis by (simp add: sample_response_def status_code_def isGoodStatusCode_def mget_def)
qed

definition sample_chunk :: "bool \<Rightarrow> timed_body" where
  "sample_chunk eos = ((\<lambda>_. 0), \<lparr>hb_Body = Some ''x'', hb_EndOfStream = eos\<rparr>)"

theorem response_recorded_once_witness:
  "\<exists>r' u' res. response_run sample_penv [sample_chunk False, sample_chunk True]
     (sample_router\<lparr>rp_stream := True, rp_span := Some []\<rparr>, sample_response) = ((r', u'), res) \<and>
     completions u' = 1"
proof -
  let ?r = "sample_router\<lparr>rp_stream := True, rp_span := Some []\<rparr>"
  obtain r' u' res where run: "response_run sample_penv ([sample_chunk False] @ [sample_chunk True]) (?r, sample_response) = ((r', u'), res)"
    by (metis surj_pair)
  have pre: "\<forall>x \<in> set [sample_chunk False]. \<not> hb_EndOfStream (snd x)" "hb_EndOfStream (snd (sample_chunk True))"
    "\<not> rp_localReplyEmitted ?r" "\<not> up_responseStreamTerminated sample_response" "completions sample_response = 0"
    by (simp_all add: sample_chunk_def sample_defs sample_response_def completed_def)
  from response_recorded_once [OF run pre(1-4) disjI1 [OF sample_response_good]] pre(5) run show ?thesis by auto
qed

text \<open>
  Nothing follows a terminal error. Once an overload in the middle of a stream has been answered
  with an error event, every later body message of the upstream is replaced by an empty one, without
  consulting the translator and without any further record.
\<close>

theorem nothing_after_stream_error:
  assumes "upstream_ProcessResponseBody env clk b (r, u) = ((r', u'), Inr resp)"
    and "\<not> rp_localReplyEmitted r" and "\<not> up_responseStreamTerminated u" and "up_responseStreamTerminated u'"
  shows "response_run env bs (r', u') = ((r', u'), Inr (replicate (length bs) discarded))"
proof (rule terminated_run [OF _ assms(4)])
  have "isGoodStatusCode (status_code u) \<or> hb_EndOfStream b"
  proof (rule ccontr)
    assume bad: "\<not> (isGoodStatusCode (status_code u) \<or> hb_EndOfStream b)"
    obtain u1 d where d: "decode_body env (rp_stream r) b u = (u1, d)" by force
    note u1 = decode_body_simps [OF d]
    with bad have "\<not> isGoodStatusCode (fst (Atoi (mget (up_responseHeaders u1) '':status'')))"
      by (simp add: status_code_def)
    with assms(1-3) d u1 have "\<not> up_responseStreamTerminated u'"
      by (auto simp: upstream_ProcessResponseBody_def defer_body_completion_def Let_def
          dest: upstream_error_body_outcome split: sum.splits option.splits prod.splits if_splits)
    with assms(4) show False by simp
  qed
  from response_body_step [OF assms(1-3) this] show "\<not> rp_localReplyEmitted r'" by simp
qed

definition overload_penv :: "(string, string, bool, unit) proc_env" where
  "overload_penv = sample_penv\<lparr>pe_translator := sample_ops\<lparr>tr_ResponseBody := (\<lambda>t h rd eos sp. (t,
     \<lparr>td_headers = [], td_body = Some ''event: error'', td_usage = no_usage, td_model = [],
      td_err = Some (GoError [StreamOverloadedError] ''overloaded'')\<rparr>))\<rparr>\<rparr>"

theorem nothing_after_stream_error_witness:
  "\<exists>r' u' resp. upstream_ProcessResponseBody overload_penv (\<lambda>_. 0) (snd (sample_chunk False))
      (sample_router\<lparr>rp_stream := True\<rparr>, sample_response) = ((r', u'), Inr resp) \<and>
    response_run overload_penv [sample_chunk True] (r', u') = ((r', u'), Inr [discarded])"
proof -
  have code: "fst (Atoi ''200'') = 200" by code_simp
  obtain r' u' resp where step: "upstream_ProcessResponseBody overload_penv (\<lambda>_. 0) (snd (sample_chunk False))
      (sample_router\<lparr>rp_stream := True\<rparr>, sample_response) = ((r', u'), Inr resp)" and t: "up_responseStreamTerminated u'"
    by (auto simp: upstream_ProcessResponseBody_def defer_body_completion_def decode_body_def upstream_ok_body_def
        decodeContentIfNeeded_def mutationsFromTranslationResult_def errors_is_def isGoodStatusCode_def mget_def code
        overload_penv_def sample_defs sample_response_def sample_chunk_def Let_def)
  have "\<not> rp_localReplyEmitted (sample_router\<lparr>rp_stream := True\<rparr>)" "\<not> up_responseStreamTerminated sample_response"
    by (simp_all add: sample_defs sample_response_def)
  from nothing_after_stream_error [OF step this t, of "[sample_chunk True]"] step show ?thesis by auto
qed

end
