(* ===== verification/Go_Library.thy ===== *)
theory Go_Library
  imports Go_Prelude
begin

text \<open>
  More of the Go standard library, for the components that issue identifiers and rewrite paths:
  searching for a substring, \<^verbatim>\<open>encoding/base64\<close> in its raw URL variant and the query
  strings of \<^verbatim>\<open>net/url\<close>. The round trips of both encodings are proved here once.
\<close>

section \<open>Searching\<close>

text \<open>\<open>strings.Index\<close> and \<open>strings.LastIndex\<close>; \<open>None\<close> stands for -1.\<close>

fun Index :: "string \<Rightarrow> string \<Rightarrow> nat option" where
  "Index [] p = (if p = [] then Some 0 else None)"
| "Index (x # xs) p = (if HasPrefix (x # xs) p then Some 0 else map_option Suc (Index xs p))"

fun LastIndex :: "string \<Rightarrow> string \<Rightarrow> nat option" where
  "LastIndex [] p = (if p = [] then Some 0 else None)"
| "LastIndex (x # xs) p =
     (case LastIndex xs p of
        Some i \<Rightarrow> Some (Suc i)
      | None \<Rightarrow> if HasPrefix (x # xs) p then Some 0 else None)"

definition Contains :: "string \<Rightarrow> string \<Rightarrow> bool" where
  "Contains s p = (Index s p \<noteq> None)"

text \<open>\<open>strings.Cut\<close> with a one-byte separator: the parts before and after the first one.\<close>

definition Cut :: "string \<Rightarrow> char \<Rightarrow> string \<times> string" where
  "Cut s c = (takeWhile (\<lambda>x. x \<noteq> c) s, tl (dropWhile (\<lambda>x. x \<noteq> c) s))"

fun Join :: "string list \<Rightarrow> string \<Rightarrow> string" where
  "Join [] sep = []"
| "Join [s] sep = s"
| "Join (s # t # ss) sep = s @ sep @ Join (t # ss) sep"

text \<open>\<open>strconv.Quote\<close>, the verb \<open>%q\<close>, on ASCII text; bytes outside ASCII are kept.\<close>

definition quote_char :: "char \<Rightarrow> string" where
  "quote_char c =
     (let n = of_char c :: nat; bs = CHR 0x5C in
      if n = 34 \<or> n = 92 then [bs, c]
      else if n = 7 then [bs, CHR ''a''] else if n = 8 then [bs, CHR ''b''] else if n = 12 then [bs, CHR ''f'']
      else if n = 10 then [bs, CHR ''n''] else if n = 13 then [bs, CHR ''r''] else if n = 9 then [bs, CHR ''t'']
      else if n = 11 then [bs, CHR ''v'']
      else if n < 32 \<or> n = 127 then [bs, CHR ''x'', ''0123456789abcdef'' ! (n div 16), ''0123456789abcdef'' ! (n mod 16)]
      else [c])"

definition Quote :: "string \<Rightarrow> string" where
  "Quote s = CHR 0x22 # concat (map quote_char s) @ [CHR 0x22]"

lemma Index_SomeD: "Index s p = Some i \<Longrightarrow> i \<le> length s \<and> HasPrefix (drop i s) p"
  by (induction s arbitrary: i) (auto simp: HasPrefix_def split: if_splits)

lemma Index_split: "Index s p = Some i \<Longrightarrow> s = take i s @ p @ drop (i + length p) s"
  using Index_SomeD [of s p i] unfolding HasPrefix_def
  by (metis append.assoc append_take_drop_id take_add)

lemma Index_NoneD: "Index s p = None \<Longrightarrow> \<not> HasPrefix (drop i s) p"
proof (induction s arbitrary: i)
  case Nil
  then show ?case by (auto simp: HasPrefix_def split: if_splits)
next
  case (Cons x xs)
  then show ?case by (cases i) (auto split: if_splits)
qed

lemma Index_append:
  assumes "p \<noteq> []" and "hd p \<notin> set a"
  shows "Index (a @ p @ b) p = Some (length a)"
  using assms(2)
proof (induction a)
  case Nil
  then show ?case using assms(1) by (cases p) (simp_all add: HasPrefix_def)
next
  case (Cons x a)
  then have "\<not> HasPrefix (x # a @ p @ b) p" using assms(1) by (cases p) (auto simp: HasPrefix_def)
  with Cons show ?case by simp
qed

lemma Cut_append: "c \<notin> set a \<Longrightarrow> Cut (a @ c # b) c = (a, b)"
  by (simp add: Cut_def takeWhile_neq_append dropWhile_neq_append)

section \<open>Base64 without padding, URL alphabet\<close>

definition b64_alphabet :: string where
  "b64_alphabet = ''ABCDEFGHIJKLMNOPQRSTUVWXYZabcdefghijklmnopqrstuvwxyz0123456789-_''"

definition enc6 :: "nat \<Rightarrow> char" where
  "enc6 n = b64_alphabet ! n"

fun index_of :: "'a \<Rightarrow> 'a list \<Rightarrow> nat option" where
  "index_of x [] = None"
| "index_of x (y # ys) = (if x = y then Some 0 else map_option Suc (index_of x ys))"

definition dec6 :: "char \<Rightarrow> nat option" where
  "dec6 c = index_of c b64_alphabet"

fun encode_quanta :: "nat list \<Rightarrow> nat list" where
  "encode_quanta [] = []"
| "encode_quanta [a] = [a div 4, (a mod 4) * 16]"
| "encode_quanta [a, b] = [a div 4, (a mod 4) * 16 + b div 16, (b mod 16) * 4]"
| "encode_quanta (a # b # c # rest) =
     a div 4 # ((a mod 4) * 16 + b div 16) # ((b mod 16) * 4 + c div 64) # c mod 64 # encode_quanta rest"

text \<open>The last quantum may have two or three characters; unused bits are ignored, one character is an error.\<close>

fun decode_quanta :: "nat list \<Rightarrow> nat list option" where
  "decode_quanta [] = Some []"
| "decode_quanta [a] = None"
| "decode_quanta [a, b] = Some [a * 4 + b div 16]"
| "decode_quanta [a, b, c] = Some [a * 4 + b div 16, (b mod 16) * 16 + c div 4]"
| "decode_quanta (a # b # c # d # rest) =
     map_option (\<lambda>r. (a * 4 + b div 16) # ((b mod 16) * 16 + c div 4) # ((c mod 4) * 64 + d) # r) (decode_quanta rest)"

definition RawURLEncode :: "bytes \<Rightarrow> string" where
  "RawURLEncode b = map enc6 (encode_quanta (map of_char b))"

definition RawURLDecode :: "string \<Rightarrow> bytes option" where
  "RawURLDecode s =
     (case those (map dec6 (filter (\<lambda>c. c \<noteq> CHR 0x0A \<and> c \<noteq> CHR 0x0D) s)) of
        None \<Rightarrow> None
      | Some vs \<Rightarrow> map_option (map char_of) (decode_quanta vs))"

lemma dec6_enc6: "n < 64 \<Longrightarrow> dec6 (enc6 n) = Some n"
proof -
  have "list_all (\<lambda>n. dec6 (enc6 n) = Some n) [0..<64]" by code_simp
  then show "n < 64 \<Longrightarrow> dec6 (enc6 n) = Some n" by (simp add: list_all_iff)
qed

lemma enc6_printable: "n < 64 \<Longrightarrow> enc6 n \<in> set b64_alphabet"
proof -
  have "length b64_alphabet = 64" by code_simp
  then show "n < 64 \<Longrightarrow> enc6 n \<in> set b64_alphabet" by (simp add: enc6_def)
qed

lemma encode_quanta_bound: "\<forall>x \<in> set bs. x < 256 \<Longrightarrow> \<forall>v \<in> set (encode_quanta bs). v < 64"
  by (induction bs rule: encode_quanta.induct) auto

lemma decode_encode_quanta: "\<forall>x \<in> set bs. x < 256 \<Longrightarrow> decode_quanta (encode_quanta bs) = Some bs"
proof (induction bs rule: encode_quanta.induct)
  case (4 a b c rest)
  have 1: "(a div 4) * 4 + ((a mod 4) * 16 + b div 16) div 16 = a" using 4(2) by auto
  have 2: "(((a mod 4) * 16 + b div 16) mod 16) * 16 + ((b mod 16) * 4 + c div 64) div 4 = b" using 4(2) by auto
  have 3: "(((b mod 16) * 4 + c div 64) mod 4) * 64 + c mod 64 = c" using 4(2) by auto
  from 4 1 2 3 show ?case by simp
qed auto

lemma those_map_Some: "(\<And>x. x \<in> set xs \<Longrightarrow> f x = Some (g x)) \<Longrightarrow> those (map f xs) = Some (map g xs)"
  by (induction xs) auto

lemma RawURLEncode_chars: "set (RawURLEncode b) \<subseteq> set b64_alphabet"
proof -
  have "\<forall>v \<in> set (encode_quanta (map of_char b)). v < 64"
    by (rule encode_quanta_bound) auto
  then show ?thesis by (auto simp: RawURLEncode_def enc6_printable)
qed

lemma RawURL_roundtrip: "RawURLDecode (RawURLEncode b) = Some b"
proof -
  let ?vs = "encode_quanta (map of_char b)"
  have bytes: "\<forall>x \<in> set (map of_char b). x < (256 :: nat)" by auto
  have lim: "\<forall>v \<in> set ?vs. v < 64" by (rule encode_quanta_bound [OF bytes])
  have "CHR 0x0A \<notin> set b64_alphabet \<and> CHR 0x0D \<notin> set b64_alphabet" by code_simp
  then have "filter (\<lambda>c. c \<noteq> CHR 0x0A \<and> c \<noteq> CHR 0x0D) (map enc6 ?vs) = map enc6 ?vs"
    using RawURLEncode_chars [of b] unfolding RawURLEncode_def by (auto simp: filter_id_conv)
  moreover have "those (map dec6 (map enc6 ?vs)) = Some ?vs"
    using those_map_Some [of ?vs "\<lambda>v. dec6 (enc6 v)" "\<lambda>v. v"] lim dec6_enc6 by (simp add: comp_def)
  ultimately show ?thesis
    by (simp add: RawURLDecode_def RawURLEncode_def decode_encode_quanta [OF bytes] comp_def)
qed

section \<open>Query strings\<close>

text \<open>
  \<open>url.QueryEscape\<close> and \<open>url.QueryUnescape\<close>, \<open>url.ParseQuery\<close> and the
  methods of \<open>url.Values\<close>. Values are an association list with distinct keys; the code never
  observes their order, since \<open>Encode\<close> sorts by key. The limit of ten thousand parameters of
  recent toolchains is not modelled.
\<close>

definition hex_digits :: string where
  "hex_digits = ''0123456789ABCDEF''"

definition unhex :: "char \<Rightarrow> nat option" where
  "unhex c = index_of (if CHR ''a'' \<le> c \<and> c \<le> CHR ''f'' then char_of (of_char c - 32 :: nat) else c) hex_digits"

definition is_upper :: "char \<Rightarrow> bool" where
  "is_upper c = (CHR ''A'' \<le> c \<and> c \<le> CHR ''Z'')"

definition is_letter :: "char \<Rightarrow> bool" where
  "is_letter c = (is_upper c \<or> CHR ''a'' \<le> c \<and> c \<le> CHR ''z'')"

definition unreserved :: "char \<Rightarrow> bool" where
  "unreserved c = (is_digit c \<or> is_letter c \<or> c \<in> {CHR ''-'', CHR ''_'', CHR ''.'', CHR ''~''})"

definition escape_char :: "char \<Rightarrow> string" where
  "escape_char c =
     (if unreserved c then [c]
      else if c = CHR '' '' then ''+''
      else [CHR 0x25, hex_digits ! (of_char c div 16), hex_digits ! (of_char c mod 16)])"

definition QueryEscape :: "string \<Rightarrow> string" where
  "QueryEscape s = concat (map escape_char s)"

fun QueryUnescape :: "string \<Rightarrow> string option" where
  "QueryUnescape [] = Some []"
| "QueryUnescape (c # s) =
     (if c = CHR 0x25 then
        (case s of
           h # l # rest \<Rightarrow>
             (case (unhex h, unhex l) of
                (Some x, Some y) \<Rightarrow> map_option ((#) (char_of (16 * x + y))) (QueryUnescape rest)
              | _ \<Rightarrow> None)
         | _ \<Rightarrow> None)
      else map_option ((#) (if c = CHR ''+'' then CHR '' '' else c)) (QueryUnescape s))"

type_synonym Values = "(string \<times> string list) list"

fun values_add :: "string \<Rightarrow> string \<Rightarrow> Values \<Rightarrow> Values" where
  "values_add k v [] = [(k, [v])]"
| "values_add k v ((k', vs) # m) = (if k = k' then (k', vs @ [v]) # m else (k', vs) # values_add k v m)"

definition values_Get :: "Values \<Rightarrow> string \<Rightarrow> string" where
  "values_Get m k = (case map_of m k of Some (v # vs) \<Rightarrow> v | _ \<Rightarrow> [])"

definition values_Del :: "string \<Rightarrow> Values \<Rightarrow> Values" where
  "values_Del k m = filter (\<lambda>e. fst e \<noteq> k) m"

definition values_Set :: "string \<Rightarrow> string \<Rightarrow> Values \<Rightarrow> Values" where
  "values_Set k v m = values_Del k m @ [(k, [v])]"

definition pair_text :: "string \<times> string \<Rightarrow> string" where
  "pair_text kv = QueryEscape (fst kv) @ ''='' @ QueryEscape (snd kv)"

definition values_pairs :: "Values \<Rightarrow> (string \<times> string) list" where
  "values_pairs m = concat (map (\<lambda>(k, vs). map (Pair k) vs) m)"

definition values_Encode :: "Values \<Rightarrow> string" where
  "values_Encode m = Join (map pair_text (values_pairs (sort_key fst m))) ''&''"

text \<open>One key-value piece between ampersands: the parsed values and whether an error occurred.\<close>

definition parse_piece :: "string \<Rightarrow> Values \<times> bool \<Rightarrow> Values \<times> bool" where
  "parse_piece piece st =
     (if CHR 0x3B \<in> set piece then (fst st, True)
      else if piece = [] then st
      else (let (k, v) = Cut piece (CHR ''='') in
            case (QueryUnescape k, QueryUnescape v) of
              (Some k', Some v') \<Rightarrow> (values_add k' v' (fst st), snd st)
            | _ \<Rightarrow> (fst st, True)))"

definition ParseQuery :: "string \<Rightarrow> Values \<times> bool" where
  "ParseQuery query = fold parse_piece (Split query (CHR ''&'')) ([], False)"

lemma unhex_digit: "n < 16 \<Longrightarrow> unhex (hex_digits ! n) = Some n"
proof -
  have "list_all (\<lambda>n. unhex (hex_digits ! n) = Some n) [0..<16]" by code_simp
  then show "n < 16 \<Longrightarrow> unhex (hex_digits ! n) = Some n" by (simp add: list_all_iff)
qed

lemma hex_digit_unreserved: "n < 16 \<Longrightarrow> unreserved (hex_digits ! n)"
proof -
  have "list_all (\<lambda>n. unreserved (hex_digits ! n)) [0..<16]" by code_simp
  then show "n < 16 \<Longrightarrow> unreserved (hex_digits ! n)" by (simp add: list_all_iff)
qed

lemma unreserved_not: "unreserved c \<Longrightarrow> c \<noteq> CHR 0x25 \<and> c \<noteq> CHR ''+'' \<and> c \<noteq> CHR ''&'' \<and> c \<noteq> CHR ''='' \<and> c \<noteq> CHR 0x3B"
proof -
  have "\<not> unreserved (CHR 0x25) \<and> \<not> unreserved (CHR ''+'') \<and> \<not> unreserved (CHR ''&'') \<and> \<not> unreserved (CHR ''='') \<and>
    \<not> unreserved (CHR 0x3B)" by code_simp
  then show "unreserved c \<Longrightarrow> ?thesis" by metis
qed

lemma nibbles: "of_char c div 16 < (16 :: nat)" "of_char c mod 16 < (16 :: nat)"
  using nat_of_char_less_256 [of c] by (simp_all add: less_mult_imp_div_less)

lemma QueryUnescape_escape_char: "QueryUnescape (escape_char c @ s) = map_option ((#) c) (QueryUnescape s)"
proof (cases "unreserved c")
  case True
  with unreserved_not [OF True] show ?thesis by (simp add: escape_char_def)
next
  case False
  have "16 * (of_char c div 16) + of_char c mod 16 = (of_char c :: nat)" by simp
  with False show ?thesis by (simp add: escape_char_def unhex_digit nibbles)
qed

lemma QueryUnescape_QueryEscape [simp]: "QueryUnescape (QueryEscape s) = Some s"
  by (induction s) (simp_all add: QueryEscape_def QueryUnescape_escape_char)

lemma QueryEscape_chars: "CHR ''&'' \<notin> set (QueryEscape s) \<and> CHR ''='' \<notin> set (QueryEscape s) \<and> CHR 0x3B \<notin> set (QueryEscape s)"
proof (induction s)
  case (Cons c s)
  have "CHR ''&'' \<notin> set (escape_char c) \<and> CHR ''='' \<notin> set (escape_char c) \<and> CHR 0x3B \<notin> set (escape_char c)"
  proof (cases "unreserved c")
    case True
    with unreserved_not [OF True] show ?thesis by (auto simp: escape_char_def)
  next
    case False
    note h = hex_digit_unreserved [OF nibbles(1) [of c]] hex_digit_unreserved [OF nibbles(2) [of c]]
    from False unreserved_not [OF h(1)] unreserved_not [OF h(2)] show ?thesis by (auto simp: escape_char_def)
  qed
  with Cons show ?case by (simp add: QueryEscape_def)
qed (simp add: QueryEscape_def)

lemma Split_Join: "ps \<noteq> [] \<Longrightarrow> \<forall>p \<in> set ps. c \<notin> set p \<Longrightarrow> Split (Join ps [c]) c = ps"
  by (induction ps "[c]" rule: Join.induct) (simp_all add: Split_no_sep Split_append)

lemma parse_piece_pair: "parse_piece (pair_text (k, v)) st = (values_add k v (fst st), snd st)"
  using QueryEscape_chars [of k] QueryEscape_chars [of v]
  by (simp add: parse_piece_def pair_text_def Cut_append)

lemma parse_pieces: "fold parse_piece (map pair_text kvs) st = (fold (\<lambda>(k, v). values_add k v) kvs (fst st), snd st)"
  by (induction kvs arbitrary: st) (auto simp: parse_piece_pair)

lemma ParseQuery_Join: "ParseQuery (Join (map pair_text kvs) ''&'') = (fold (\<lambda>(k, v). values_add k v) kvs [], False)"
proof (cases "kvs = []")
  case True
  then show ?thesis by (simp add: ParseQuery_def parse_piece_def)
next
  case False
  have "\<forall>p \<in> set (map pair_text kvs). CHR ''&'' \<notin> set p" using QueryEscape_chars by (auto simp: pair_text_def)
  with False have "Split (Join (map pair_text kvs) ''&'') (CHR ''&'') = map pair_text kvs" by (intro Split_Join) auto
  then show ?thesis by (simp add: ParseQuery_def parse_pieces)
qed

lemma values_add_new: "k \<notin> fst ` set a \<Longrightarrow> values_add k v (a @ b) = a @ values_add k v b"
  by (induction a) auto

lemma values_add_all: "k \<notin> fst ` set a \<Longrightarrow> fold (\<lambda>(k, v). values_add k v) (map (Pair k) vs) (a @ [(k, us)]) = a @ [(k, us @ vs)]"
  by (induction vs arbitrary: us) (simp_all add: values_add_new)

lemma values_pairs_fold:
  "distinct (map fst (a @ m)) \<Longrightarrow> \<forall>e \<in> set m. snd e \<noteq> [] \<Longrightarrow>
   fold (\<lambda>(k, v). values_add k v) (values_pairs m) a = a @ m"
proof (induction m arbitrary: a)
  case Nil
  then show ?case by (simp add: values_pairs_def)
next
  case (Cons e m)
  obtain k v vs where e: "e = (k, v # vs)" using Cons.prems(2) by (cases e; cases "snd e") auto
  from Cons.prems have "k \<notin> fst ` set a" by (auto simp: e)
  then have "fold (\<lambda>(k, v). values_add k v) (map (Pair k) (v # vs)) a = a @ [e]"
    using values_add_all [of k a vs "[v]"] values_add_new [of k a v "[]"] by (simp add: e)
  with Cons show ?case by (simp add: e values_pairs_def)
qed

text \<open>Values with distinct keys and no empty lists, as parsing produces them.\<close>

definition values_ok :: "Values \<Rightarrow> bool" where
  "values_ok m = (distinct (map fst m) \<and> (\<forall>e \<in> set m. snd e \<noteq> []))"

lemma ParseQuery_Encode: "values_ok m \<Longrightarrow> ParseQuery (values_Encode m) = (sort_key fst m, False)"
  using values_pairs_fold [of "[]" "sort_key fst m"]
  by (simp add: values_ok_def values_Encode_def ParseQuery_Join distinct_map)

end
