(* ===== verification/Go_Encoding.thy ===== *)
theory Go_Encoding
  imports Go_Library Envoy_Messages
begin

text \<open>
  The encodings of the Go standard library that the MCP proxy packs identifiers with: standard
  base64 with padding, hexadecimal, decimal integers, the bit patterns of doubles, splitting at a
  longer separator, and the header maps of \<^verbatim>\<open>net/http\<close>. Each encoding comes with
  its round trip.
\<close>

section \<open>Standard base64\<close>

definition std_char :: "nat \<Rightarrow> char" where
  "std_char n = (if n = 62 then CHR ''+'' else if n = 63 then CHR ''/'' else enc6 n)"

definition std_value :: "char \<Rightarrow> nat option" where
  "std_value c = (if c = CHR ''+'' then Some 62 else if c = CHR ''/'' then Some 63
     else if c = CHR ''-'' \<or> c = CHR ''_'' then None else dec6 c)"

definition StdEncode :: "bytes \<Rightarrow> string" where
  "StdEncode b =
     (let t = map std_char (encode_quanta (map of_char b))
      in t @ replicate ((4 - length t mod 4) mod 4) (CHR ''=''))"

text \<open>Line breaks are ignored; one or two padding characters end the last quantum.\<close>

definition strip_padding :: "string \<Rightarrow> string" where
  "strip_padding t = (if HasSuffix t ''=='' then take (length t - 2) t
     else if HasSuffix t ''='' then take (length t - 1) t else t)"

definition StdDecode :: "string \<Rightarrow> bytes option" where
  "StdDecode s =
     (let t = filter (\<lambda>c. c \<noteq> CHR 0x0A \<and> c \<noteq> CHR 0x0D) s in
      if length t mod 4 \<noteq> 0 then None
      else case those (map std_value (strip_padding t)) of
        None \<Rightarrow> None
      | Some vs \<Rightarrow> map_option (map char_of) (decode_quanta vs))"

definition std_text :: "char \<Rightarrow> bool" where
  "std_text c = (is_digit c \<or> is_letter c \<or> c \<in> {CHR ''+'', CHR ''/'', CHR ''=''})"

lemma std_value_char: "n < 64 \<Longrightarrow> std_value (std_char n) = Some n"
proof -
  have "list_all (\<lambda>n. std_value (std_char n) = Some n) [0..<64]" by code_simp
  then show "n < 64 \<Longrightarrow> std_value (std_char n) = Some n" by (simp add: list_all_iff)
qed

lemma std_char_text: "n < 64 \<Longrightarrow> std_text (std_char n) \<and> std_char n \<noteq> CHR ''=''"
proof -
  have "list_all (\<lambda>n. std_text (std_char n) \<and> std_char n \<noteq> CHR ''='') [0..<64]" by code_simp
  then show "n < 64 \<Longrightarrow> std_text (std_char n) \<and> std_char n \<noteq> CHR ''=''" by (simp add: list_all_iff)
qed

lemma encode_quanta_length: "length (encode_quanta bs) mod 4 \<noteq> 1"
  by (induction bs rule: encode_quanta.induct) simp_all

lemma quanta_of_bytes: "v \<in> set (encode_quanta (map of_char b)) \<Longrightarrow> v < 64"
  using encode_quanta_bound [of "map of_char b"] by auto

lemma StdEncode_text: "c \<in> set (StdEncode b) \<Longrightarrow> std_text c"
proof -
  have "std_text (CHR ''='')" by (simp add: std_text_def)
  moreover assume "c \<in> set (StdEncode b)"
  ultimately show ?thesis
    using std_char_text quanta_of_bytes by (auto simp: StdEncode_def Let_def split: if_splits)
qed

lemma std_text_not: "std_text c \<Longrightarrow> c \<notin> {CHR 0x0A, CHR 0x0D, CHR '':'', CHR '','', CHR ''@'', CHR ''_'', CHR '' ''}"
proof -
  have "list_all (\<lambda>c. \<not> std_text c) [CHR 0x0A, CHR 0x0D, CHR '':'', CHR '','', CHR ''@'', CHR ''_'', CHR '' '']" by code_simp
  then show "std_text c \<Longrightarrow> ?thesis" by auto
qed

lemma strip_padding_append:
  assumes "CHR ''='' \<notin> set t" and "k \<le> 2"
  shows "strip_padding (t @ replicate k (CHR ''='')) = t"
proof -
  have n: "\<not> HasSuffix t ''=''" "\<not> HasSuffix t ''==''" "\<not> HasSuffix (t @ ''='') ''==''"
    using assms(1) by (auto simp: HasSuffix_iff append_eq_append_conv2 Cons_eq_append_conv)
  consider "k = 0" | "k = 1" | "k = 2" using assms(2) by linarith
  then show ?thesis
  proof cases
    case 3
    then have "replicate k (CHR ''='') = ''==''" by (simp add: numeral_2_eq_2)
    then show ?thesis by (simp add: strip_padding_def del: replicate.simps)
  qed (use n in \<open>simp_all add: strip_padding_def\<close>)
qed

lemma padding_amount:
  fixes n :: nat
  shows "(n + (4 - n mod 4) mod 4) mod 4 = 0" and "n mod 4 \<noteq> 1 \<Longrightarrow> (4 - n mod 4) mod 4 \<le> 2"
proof -
  define m where "m = n mod 4"
  have "m < 4" by (simp add: m_def)
  then have c: "m = 0 \<or> m = 1 \<or> m = 2 \<or> m = 3" by linarith
  then have "(m + (4 - m) mod 4) mod 4 = 0" by auto
  then show "(n + (4 - n mod 4) mod 4) mod 4 = 0" unfolding m_def by (simp only: mod_add_left_eq)
  show "n mod 4 \<noteq> 1 \<Longrightarrow> (4 - n mod 4) mod 4 \<le> 2" using c unfolding m_def [symmetric] by auto
qed

lemma Std_roundtrip [simp]: "StdDecode (StdEncode b) = Some b"
proof -
  let ?vs = "encode_quanta (map of_char b)"
  let ?t = "map std_char ?vs"
  let ?k = "(4 - length ?t mod 4) mod 4"
  have e: "StdEncode b = ?t @ replicate ?k (CHR ''='')" by (simp add: StdEncode_def Let_def)
  have f: "filter (\<lambda>c. c \<noteq> CHR 0x0A \<and> c \<noteq> CHR 0x0D) (StdEncode b) = StdEncode b"
    using StdEncode_text std_text_not by (force simp: filter_id_conv)
  have k2: "?k \<le> 2" using padding_amount(2) [OF encode_quanta_length [of "map of_char b"]] by simp
  have len: "length (StdEncode b) mod 4 = 0" unfolding e using padding_amount(1) [of "length ?t"] by simp
  have "CHR ''='' \<notin> set ?t" using std_char_text quanta_of_bytes by force
  then have s: "strip_padding (StdEncode b) = ?t" unfolding e by (rule strip_padding_append) (rule k2)
  have "those (map std_value ?t) = Some ?vs"
    using those_map_Some [of ?vs "\<lambda>v. std_value (std_char v)" "\<lambda>v. v"] std_value_char quanta_of_bytes by (simp add: comp_def)
  moreover have "decode_quanta ?vs = Some (map of_char b)" by (rule decode_encode_quanta) auto
  ultimately show ?thesis using f len s by (simp add: StdDecode_def Let_def comp_def)
qed

section \<open>Hexadecimal text\<close>

definition hex_lower :: "nat \<Rightarrow> char" where
  "hex_lower n = ''0123456789abcdef'' ! n"

definition HexEncode :: "bytes \<Rightarrow> string" where
  "HexEncode b = concat (map (\<lambda>c. [hex_lower (of_char c div 16), hex_lower (of_char c mod 16)]) b)"

fun HexDecode :: "string \<Rightarrow> bytes option" where
  "HexDecode [] = Some []"
| "HexDecode [c] = None"
| "HexDecode (h # l # s) =
     (case (unhex h, unhex l) of
        (Some x, Some y) \<Rightarrow> map_option ((#) (char_of (16 * x + y))) (HexDecode s)
      | _ \<Rightarrow> None)"

text \<open>The verb \<open>%03x\<close> and \<open>strconv.ParseUint(s, 16, 16)\<close>.\<close>

fun hex_nat :: "nat \<Rightarrow> string" where
  "hex_nat n = (if n < 16 then [hex_lower n] else hex_nat (n div 16) @ [hex_lower (n mod 16)])"

declare hex_nat.simps [simp del]

definition format_03x :: "nat \<Rightarrow> string" where
  "format_03x n = replicate (3 - length (hex_nat n)) (CHR ''0'') @ hex_nat n"

definition ParseUint16 :: "string \<Rightarrow> nat option" where
  "ParseUint16 s =
     (case those (map unhex s) of
        None \<Rightarrow> None
      | Some ds \<Rightarrow> (let v = foldl (\<lambda>a d. 16 * a + d) 0 ds in if s = [] \<or> v \<ge> 2 ^ 16 then None else Some v))"

lemma unhex_hex_lower [simp]: "n < 16 \<Longrightarrow> unhex (hex_lower n) = Some n"
proof -
  have "list_all (\<lambda>n. unhex (hex_lower n) = Some n) [0..<16]" by code_simp
  then show "n < 16 \<Longrightarrow> unhex (hex_lower n) = Some n" by (simp add: list_all_iff)
qed

lemma hex_lower_text: "n < 16 \<Longrightarrow> std_text (hex_lower n)"
proof -
  have "list_all (\<lambda>n. std_text (hex_lower n)) [0..<16]" by code_simp
  then show "n < 16 \<Longrightarrow> std_text (hex_lower n)" by (simp add: list_all_iff)
qed

lemma Hex_roundtrip [simp]: "HexDecode (HexEncode b) = Some b"
proof (induction b)
  case (Cons c b)
  have "16 * (of_char c div 16) + of_char c mod 16 = (of_char c :: nat)" by simp
  with Cons show ?case by (simp add: HexEncode_def nibbles)
qed (simp add: HexEncode_def)

lemma HexEncode_text: "c \<in> set (HexEncode b) \<Longrightarrow> std_text c"
  using hex_lower_text nibbles by (auto simp: HexEncode_def)

lemma those_append: "those xs = Some as \<Longrightarrow> those ys = Some bs \<Longrightarrow> those (xs @ ys) = Some (as @ bs)"
  by (induction xs arbitrary: as) (auto split: option.splits)

lemma hex_nat_value: "\<exists>ds. those (map unhex (hex_nat n)) = Some ds \<and> foldl (\<lambda>a d. 16 * a + d) 0 ds = n"
proof (induction n rule: hex_nat.induct)
  case (1 n)
  show ?case
  proof (cases "n < 16")
    case True
    then show ?thesis by (simp add: hex_nat.simps [of n])
  next
    case False
    with 1 obtain ds where "those (map unhex (hex_nat (n div 16))) = Some ds" "foldl (\<lambda>a d. 16 * a + d) 0 ds = n div 16" by blast
    with False show ?thesis by (simp add: hex_nat.simps [of n] those_append [of _ ds])
  qed
qed

lemma those_zeros: "those (map unhex s) = Some ds \<Longrightarrow> those (map unhex (replicate k (CHR ''0'') @ s)) = Some (replicate k 0 @ ds)"
proof -
  have "unhex (CHR ''0'') = Some 0" using unhex_hex_lower [of 0] by (simp add: hex_lower_def)
  then show "those (map unhex s) = Some ds \<Longrightarrow> ?thesis" by (induction k) auto
qed

lemma ParseUint16_format [simp]: "n < 2 ^ 16 \<Longrightarrow> ParseUint16 (format_03x n) = Some n"
proof -
  assume n: "n < 2 ^ 16"
  obtain ds where ds: "those (map unhex (hex_nat n)) = Some ds" "foldl (\<lambda>a d. 16 * a + d) 0 ds = n" using hex_nat_value by blast
  have "foldl (\<lambda>a d. 16 * a + d) 0 (replicate k (0 :: nat) @ xs) = foldl (\<lambda>a d. 16 * a + d) 0 xs" for k xs
    by (induction k) auto
  moreover have "hex_nat n \<noteq> []" by (simp add: hex_nat.simps [of n])
  ultimately show ?thesis using n ds by (simp add: ParseUint16_def format_03x_def those_zeros del: map_append)
qed

lemma hex_nat_text: "c \<in> set (hex_nat n) \<Longrightarrow> std_text c"
proof (induction n rule: hex_nat.induct)
  case (1 n)
  then show ?case using hex_lower_text [of n] hex_lower_text [of "n mod 16"] by (auto simp: hex_nat.simps [of n] split: if_splits)
qed

lemma format_03x_text: "c \<in> set (format_03x n) \<Longrightarrow> std_text c"
proof -
  have "std_text (CHR ''0'')" by code_simp
  then show "c \<in> set (format_03x n) \<Longrightarrow> std_text c" using hex_nat_text by (auto simp: format_03x_def split: if_splits)
qed

section \<open>Signed integers\<close>

definition FormatInt :: "int \<Rightarrow> string" where
  "FormatInt i = (if i < 0 then ''-'' @ Itoa (nat (- i)) else Itoa (nat i))"

lemma Atoi_FormatInt: "- (2 ^ 63) \<le> i \<Longrightarrow> i < 2 ^ 63 \<Longrightarrow> Atoi (FormatInt i) = (i, True)"
proof (cases "i < 0")
  case True
  assume "- (2 ^ 63) \<le> i"
  with True show ?thesis by (simp add: FormatInt_def Atoi_def HasPrefix_def)
next
  case False
  assume "i < 2 ^ 63"
  with False Atoi_Itoa [of "nat i"] show ?thesis by (simp add: FormatInt_def nat_less_iff)
qed

lemma FormatInt_chars: "c \<in> set (FormatInt i) \<Longrightarrow> c = CHR ''-'' \<or> is_digit c"
  using digit_set_Itoa by (auto simp: FormatInt_def split: if_splits)

section \<open>Bit patterns of doubles\<close>

text \<open>A double is its bit pattern. \<open>float64_of_int\<close> is the conversion \<open>float64(i)\<close> of an integer.\<close>

definition float64_of_int :: "int \<Rightarrow> u64" where
  "float64_of_int i =
     (if i = 0 then 0
      else let r = float64_of_nat (nat \<bar>i\<bar>);
               e = bit_len r - 1;
               m = r * 2 ^ 52 div 2 ^ e
           in word_of_nat ((if i < 0 then 2 ^ 63 else 0) + (e + 1023) * 2 ^ 52 + (m - 2 ^ 52)))"

text \<open>\<open>binary.LittleEndian.PutUint64\<close> and \<open>Uint64\<close> for eight bytes.\<close>

fun le_bytes :: "nat \<Rightarrow> nat \<Rightarrow> bytes" where
  "le_bytes 0 n = []"
| "le_bytes (Suc k) n = char_of (n mod 256) # le_bytes k (n div 256)"

definition PutUint64 :: "u64 \<Rightarrow> bytes" where
  "PutUint64 w = le_bytes 8 (unat w)"

definition GetUint64 :: "bytes \<Rightarrow> u64" where
  "GetUint64 b = word_of_nat (foldr (\<lambda>c a. of_char c + 256 * a) b 0)"

lemma le_bytes_value: "n < 256 ^ k \<Longrightarrow> foldr (\<lambda>c a. of_char c + 256 * a) (le_bytes k n) 0 = n"
  by (induction k arbitrary: n) (simp_all add: less_mult_imp_div_less mult.commute)

lemma Uint64_roundtrip [simp]: "GetUint64 (PutUint64 w) = w"
proof -
  have "unat w < 256 ^ 8" using unsigned_less [of w] by simp
  then show ?thesis by (simp only: PutUint64_def GetUint64_def le_bytes_value) simp
qed

lemma length_le_bytes [simp]: "length (le_bytes k n) = k"
  by (induction k arbitrary: n) simp_all

lemma length_PutUint64 [simp]: "length (PutUint64 w) = 8"
  by (simp add: PutUint64_def del: le_bytes.simps)

section \<open>Splitting at a longer separator\<close>

lemma Index_drop_shorter:
  assumes "sep \<noteq> []" and "Index s sep = Some i"
  shows "length (drop (i + length sep) s) < length s"
proof -
  have "take (length sep) (drop i s) = sep" using Index_SomeD [OF assms(2)] by (simp add: HasPrefix_def)
  with assms(1) have "drop i s \<noteq> []" by auto
  with assms(1) show ?thesis by (cases sep) auto
qed

text \<open>\<open>strings.Split(s, sep)\<close> for a separator that is not empty.\<close>

function split_on :: "string \<Rightarrow> string \<Rightarrow> string list" where
  "split_on sep s =
     (if sep = [] then [s]
      else case Index s sep of None \<Rightarrow> [s] | Some i \<Rightarrow> take i s # split_on sep (drop (i + length sep) s))"
  by pat_completeness auto

termination split_on
  by (relation "measure (\<lambda>(sep, s). length s)") (auto dest: Index_drop_shorter)

declare split_on.simps [simp del]

lemma Index_none: "sep \<noteq> [] \<Longrightarrow> hd sep \<notin> set s \<Longrightarrow> Index s sep = None"
  by (induction s) (auto simp: HasPrefix_def, (metis list.sel(1) take_Cons' list.exhaust_sel length_0_conv)+)

lemma split_on_last: "sep \<noteq> [] \<Longrightarrow> hd sep \<notin> set s \<Longrightarrow> split_on sep s = [s]"
  by (simp add: split_on.simps Index_none)

lemma split_on_cons: "sep \<noteq> [] \<Longrightarrow> hd sep \<notin> set a \<Longrightarrow> split_on sep (a @ sep @ s) = a # split_on sep s"
  by (subst split_on.simps) (simp add: Index_append)

section \<open>Header maps\<close>

text \<open>
  \<open>http.Header\<close>: canonical keys to lists of values. A key with a byte that is not allowed in
  a header name is its own canonical form.
\<close>

type_synonym http_header = "string \<Rightarrow> string list option"

definition token_char :: "char \<Rightarrow> bool" where
  "token_char c = (is_digit c \<or> is_letter c \<or> c \<in> set ''!#$%&*+-.^_`|~'' \<or> c = CHR 0x27)"

definition upper_char :: "char \<Rightarrow> char" where
  "upper_char c = (if CHR ''a'' \<le> c \<and> c \<le> CHR ''z'' then char_of (of_char c - 32 :: nat) else c)"

fun canonical_from :: "bool \<Rightarrow> string \<Rightarrow> string" where
  "canonical_from up [] = []"
| "canonical_from up (c # s) = (if up then upper_char c else lower_char c) # canonical_from (c = CHR ''-'') s"

definition CanonicalHeaderKey :: "string \<Rightarrow> string" where
  "CanonicalHeaderKey k = (if list_all token_char k then canonical_from True k else k)"

definition header_Get :: "http_header \<Rightarrow> string \<Rightarrow> string" where
  "header_Get h k = (case h (CanonicalHeaderKey k) of Some (v # vs) \<Rightarrow> v | _ \<Rightarrow> [])"

definition header_Set :: "string \<Rightarrow> string \<Rightarrow> http_header \<Rightarrow> http_header" where
  "header_Set k v h = h(CanonicalHeaderKey k \<mapsto> [v])"

definition header_Del :: "string \<Rightarrow> http_header \<Rightarrow> http_header" where
  "header_Del k h = mdel h (CanonicalHeaderKey k)"

lemma header_Get_Set: "header_Get (header_Set k v h) k' = (if CanonicalHeaderKey k' = CanonicalHeaderKey k then v else header_Get h k')"
  by (simp add: header_Get_def header_Set_def)

end
