(* ===== verification/Id_Codec.thy ===== *)
theory Id_Codec
  imports Go_Library
begin

text \<open>
  \<^verbatim>\<open>internal/idcodec\<close>: the identifiers that clients see for files and batches. An
  identifier is the sealed owner, kind, routing model and native identifier of a resource. The key
  derivation, the cipher and the keyed hash are the parameters \<open>crypto\<close> and \<open>aead\<close>;
  \<open>key_ok\<close> states what is used of them: opening a sealed text gives it back, the overhead
  is constant and the hash has 32 bytes.
\<close>

section \<open>Keys\<close>

record aead =
  ae_NonceSize :: nat
  ae_Overhead :: nat
  ae_Seal :: "bytes \<Rightarrow> bytes \<Rightarrow> bytes"
  ae_Open :: "bytes \<Rightarrow> bytes \<Rightarrow> bytes option"

record 'blk crypto =
  cy_pbkdf2 :: "string \<Rightarrow> bytes \<Rightarrow> int \<Rightarrow> nat \<Rightarrow> go_error + bytes"
  cy_NewCipher :: "bytes \<Rightarrow> go_error + 'blk"
  cy_NewGCM :: "'blk \<Rightarrow> go_error + aead"

text \<open>A key holds the keyed hash with its key already applied.\<close>

record key =
  key_aead :: aead
  key_mac :: "bytes \<Rightarrow> bytes"

record codec =
  codec_primary :: key
  codec_fallback :: "key option"

definition deriveKey :: "'blk crypto \<Rightarrow> (bytes \<Rightarrow> bytes \<Rightarrow> bytes) \<Rightarrow> string \<Rightarrow> int \<Rightarrow> go_error + key" where
  "deriveKey cy hmac seed iterations =
     (if seed = [] then Inl (errorf ''idcodec: seed must not be empty'')
      else case cy_pbkdf2 cy seed ''aigw-file-id-v1'' iterations 64 of
        Inl e \<Rightarrow> Inl (wrapf ''idcodec: derive keys: '' e)
      | Inr keys \<Rightarrow>
          (case cy_NewCipher cy (take 32 keys) of
             Inl e \<Rightarrow> Inl (wrapf ''idcodec: create cipher: '' e)
           | Inr block \<Rightarrow>
               (case cy_NewGCM cy block of
                  Inl e \<Rightarrow> Inl (wrapf ''idcodec: create gcm: '' e)
                | Inr a \<Rightarrow> Inr \<lparr>key_aead = a, key_mac = hmac (drop 32 keys)\<rparr>)))"

definition NewCodec ::
  "'blk crypto \<Rightarrow> (bytes \<Rightarrow> bytes \<Rightarrow> bytes) \<Rightarrow> string \<Rightarrow> int \<Rightarrow> string \<Rightarrow> int \<Rightarrow> go_error + codec" where
  "NewCodec cy hmac seed iterations fallbackSeed fallbackIterations =
     (case deriveKey cy hmac seed iterations of
        Inl e \<Rightarrow> Inl e
      | Inr primary \<Rightarrow>
          if fallbackSeed \<noteq> [] then
            (case deriveKey cy hmac fallbackSeed fallbackIterations of
               Inl e \<Rightarrow> Inl (wrapf ''fallback: '' e)
             | Inr fb \<Rightarrow> Inr \<lparr>codec_primary = primary, codec_fallback = Some fb\<rparr>)
          else Inr \<lparr>codec_primary = primary, codec_fallback = None\<rparr>)"

definition key_nonce :: "key \<Rightarrow> bytes \<Rightarrow> bytes" where
  "key_nonce k plaintext = take (ae_NonceSize (key_aead k)) (key_mac k plaintext)"

definition key_seal :: "key \<Rightarrow> bytes \<Rightarrow> bytes" where
  "key_seal k plaintext = (let n = key_nonce k plaintext in n @ ae_Seal (key_aead k) n plaintext)"

definition key_open :: "key \<Rightarrow> bytes \<Rightarrow> bytes option" where
  "key_open k raw =
     (let ns = ae_NonceSize (key_aead k) in
      if length raw < ns + ae_Overhead (key_aead k) then None
      else case ae_Open (key_aead k) (take ns raw) (drop ns raw) of
        None \<Rightarrow> None
      | Some p \<Rightarrow> if take ns raw \<noteq> key_nonce k p then None else Some p)"

section \<open>Identifiers\<close>

definition KindFile :: string where
  "KindFile = ''file''"

definition KindBatch :: string where
  "KindBatch = ''batch''"

record BackendID =
  bid_Namespace :: string
  bid_Name :: string
  bid_Kind :: string
  bid_Model :: string
  bid_NativeID :: string

definition ErrInvalidID :: go_error where
  "ErrInvalidID = errorf ''invalid gateway id''"

definition filePrefix :: string where
  "filePrefix = ''file-''"

definition batchPrefix :: string where
  "batchPrefix = ''batch-''"

definition prefixForKind :: "string \<Rightarrow> go_error + string" where
  "prefixForKind kind =
     (if kind = KindFile then Inr filePrefix
      else if kind = KindBatch then Inr batchPrefix
      else Inl (errorf (''idcodec: unsupported kind '' @ Quote kind)))"

definition payload_of :: "BackendID \<Rightarrow> bytes" where
  "payload_of b = Join [bid_Kind b, bid_Namespace b @ ''/'' @ bid_Name b, bid_Model b, bid_NativeID b] ''|''"

definition Encode :: "codec \<Rightarrow> BackendID \<Rightarrow> go_error + string" where
  "Encode c b =
     (case prefixForKind (bid_Kind b) of
        Inl e \<Rightarrow> Inl e
      | Inr p \<Rightarrow>
          if bid_Namespace b = [] \<or> bid_Name b = [] \<or> bid_NativeID b = []
          then Inl (errorf ''idcodec: namespace, name, and nativeID are required'')
          else if Contains (bid_Model b) ''|''
          then Inl (errorf (''idcodec: model must not contain '' @ Quote ''|''))
          else Inr (p @ RawURLEncode (key_seal (codec_primary c) (payload_of b))))"

definition parse_payload :: "string \<Rightarrow> bytes \<Rightarrow> go_error + BackendID" where
  "parse_payload kind p =
     (case SplitN p (CHR ''|'') 4 of
        [p0, p1, p2, p3] \<Rightarrow>
          if p0 \<noteq> kind then Inl ErrInvalidID
          else (case SplitN p1 (CHR ''/'') 2 of
                  [ns, n] \<Rightarrow>
                    if ns = [] \<or> n = [] \<or> p3 = [] then Inl ErrInvalidID
                    else Inr \<lparr>bid_Namespace = ns, bid_Name = n, bid_Kind = kind, bid_Model = p2, bid_NativeID = p3\<rparr>
                | _ \<Rightarrow> Inl ErrInvalidID)
      | _ \<Rightarrow> Inl ErrInvalidID)"

definition open_any :: "codec \<Rightarrow> bytes \<Rightarrow> bytes option" where
  "open_any c raw =
     (case key_open (codec_primary c) raw of
        Some p \<Rightarrow> Some p
      | None \<Rightarrow> (case codec_fallback c of None \<Rightarrow> None | Some k \<Rightarrow> key_open k raw))"

definition kind_and_body :: "string \<Rightarrow> (string \<times> string) option" where
  "kind_and_body gid =
     (if HasPrefix gid filePrefix then Some (KindFile, drop (length filePrefix) gid)
      else if HasPrefix gid batchPrefix then Some (KindBatch, drop (length batchPrefix) gid)
      else None)"

definition Decode :: "codec \<Rightarrow> string \<Rightarrow> go_error + BackendID" where
  "Decode c gid =
     (case kind_and_body gid of
        None \<Rightarrow> Inl ErrInvalidID
      | Some (kind, body) \<Rightarrow>
          (case RawURLDecode body of
             None \<Rightarrow> Inl ErrInvalidID
           | Some raw \<Rightarrow>
               (case open_any c raw of
                  None \<Rightarrow> Inl ErrInvalidID
                | Some p \<Rightarrow> parse_payload kind p)))"

section \<open>What a codec promises\<close>

text \<open>
  The contract the users of a codec rely on: every well-formed resource gets an identifier of its
  kind, and the identifier is handed back as the resource it was issued for.
\<close>

locale id_codec =
  fixes ok :: "'c \<Rightarrow> bool" and wf :: "BackendID \<Rightarrow> bool"
    and enc :: "'c \<Rightarrow> BackendID \<Rightarrow> go_error + string" and dec :: "'c \<Rightarrow> string \<Rightarrow> go_error + BackendID"
  assumes issues: "wf b \<Longrightarrow> \<exists>i. enc c b = Inr i"
    and handed_back: "ok c \<Longrightarrow> wf b \<Longrightarrow> enc c b = Inr i \<Longrightarrow> dec c i = Inr b"
begin

lemma identifiers_unique:
  assumes "ok c" and "wf b" and "wf b'" and "enc c b = enc c b'"
  shows "b = b'"
proof -
  obtain i where i: "enc c b = Inr i" using issues [OF assms(2)] by blast
  with assms(4) have "enc c b' = Inr i" by simp
  from handed_back [OF assms(1,3) this] handed_back [OF assms(1,2) i] show ?thesis by simp
qed

lemma recovered: "ok c \<Longrightarrow> wf b \<Longrightarrow> \<exists>i. enc c b = Inr i \<and> dec c i = Inr b"
  using issues handed_back by blast

end

definition key_ok :: "key \<Rightarrow> bool" where
  "key_ok k =
     ((\<forall>n p. ae_Open (key_aead k) n (ae_Seal (key_aead k) n p) = Some p) \<and>
      (\<forall>n p. length (ae_Seal (key_aead k) n p) = length p + ae_Overhead (key_aead k)) \<and>
      (\<forall>p. ae_NonceSize (key_aead k) \<le> length (key_mac k p)))"

text \<open>A resource whose namespace has no slash and whose name and model have no separator, as Kubernetes names do.\<close>

definition wf_id :: "BackendID \<Rightarrow> bool" where
  "wf_id b =
     ((bid_Kind b = KindFile \<or> bid_Kind b = KindBatch) \<and>
      bid_Namespace b \<noteq> [] \<and> CHR ''/'' \<notin> set (bid_Namespace b) \<and> CHR ''|'' \<notin> set (bid_Namespace b) \<and>
      bid_Name b \<noteq> [] \<and> CHR ''|'' \<notin> set (bid_Name b) \<and> CHR ''|'' \<notin> set (bid_Model b) \<and> bid_NativeID b \<noteq> [])"

definition codec_ok :: "codec \<Rightarrow> bool" where
  "codec_ok c = key_ok (codec_primary c)"

lemma open_seal: "key_ok k \<Longrightarrow> key_open k (key_seal k p) = Some p"
  by (simp add: key_ok_def key_open_def key_seal_def key_nonce_def Let_def)

lemma Contains_char: "Contains s [c] \<longleftrightarrow> c \<in> set s"
  unfolding Contains_def by (induction s) (auto simp: HasPrefix_def)

lemma kinds [simp]: "KindFile \<noteq> KindBatch" "CHR ''|'' \<notin> set KindFile" "CHR ''|'' \<notin> set KindBatch"
  by (simp_all add: KindFile_def KindBatch_def)

lemma SplitN_Cons:
  assumes "xs \<noteq> []"
  shows "SplitN s c (Suc (Suc n)) = x # xs \<longleftrightarrow> (\<exists>t. s = x @ c # t \<and> c \<notin> set x \<and> SplitN t c (Suc n) = xs)"
proof (cases "c \<in> set s")
  case True
  then obtain a t where s: "s = a @ c # t" "c \<notin> set a" by (metis split_list_first)
  have u: "x = a \<and> t' = t" if "c \<notin> set x" and "a @ c # t = x @ c # t'" for t'
    using that s(2) takeWhile_neq_append by (metis append_eq_append_conv list.inject)
  show ?thesis unfolding s(1) SplitN_append [OF s(2)] using s(2) u by blast
next
  case False
  with assms show ?thesis by auto
qed

lemma SplitN_4:
  "SplitN p c 4 = [x0, x1, x2, x3] \<longleftrightarrow>
   p = x0 @ c # (x1 @ c # (x2 @ c # x3)) \<and> c \<notin> set x0 \<and> c \<notin> set x1 \<and> c \<notin> set x2"
proof -
  have four: "(4 :: nat) = Suc (Suc (Suc (Suc 0)))" by simp
  show ?thesis unfolding four by (auto simp: SplitN_Cons simp del: SplitN.simps(3))
qed

lemma SplitN_2: "SplitN p c 2 = [x0, x1] \<longleftrightarrow> p = x0 @ c # x1 \<and> c \<notin> set x0"
proof -
  have two: "(2 :: nat) = Suc (Suc 0)" by simp
  show ?thesis unfolding two by (auto simp: SplitN_Cons simp del: SplitN.simps(3))
qed

lemma parse_payload_iff:
  "parse_payload kind p = Inr b \<longleftrightarrow>
   p = payload_of b \<and> bid_Kind b = kind \<and> CHR ''|'' \<notin> set kind \<and>
   bid_Namespace b \<noteq> [] \<and> CHR ''/'' \<notin> set (bid_Namespace b) \<and> CHR ''|'' \<notin> set (bid_Namespace b) \<and>
   bid_Name b \<noteq> [] \<and> CHR ''|'' \<notin> set (bid_Name b) \<and> CHR ''|'' \<notin> set (bid_Model b) \<and> bid_NativeID b \<noteq> []"
  (is "?l = ?r")
proof
  assume ?l
  then obtain p1 where 4: "SplitN p (CHR ''|'') 4 = [kind, p1, bid_Model b, bid_NativeID b]"
    and 2: "SplitN p1 (CHR ''/'') 2 = [bid_Namespace b, bid_Name b]"
    and r: "bid_Kind b = kind \<and> bid_Namespace b \<noteq> [] \<and> bid_Name b \<noteq> [] \<and> bid_NativeID b \<noteq> []"
    by (auto simp: parse_payload_def split: list.splits if_splits)
  from 4 2 r show ?r by (auto simp: SplitN_4 SplitN_2 payload_of_def)
next
  assume r: ?r
  then have 4: "SplitN p (CHR ''|'') 4 = [kind, bid_Namespace b @ CHR ''/'' # bid_Name b, bid_Model b, bid_NativeID b]"
    by (auto simp: SplitN_4 payload_of_def)
  have 2: "SplitN (bid_Namespace b @ CHR ''/'' # bid_Name b) (CHR ''/'') 2 = [bid_Namespace b, bid_Name b]"
    using r by (simp add: SplitN_2)
  from r show ?l unfolding parse_payload_def 4 by (simp add: 2)
qed

lemma wf_id_payload: "wf_id b \<Longrightarrow> parse_payload (bid_Kind b) (payload_of b) = Inr b"
  by (auto simp: wf_id_def parse_payload_iff)

lemma Encode_Inr:
  "Encode c b = Inr gid \<Longrightarrow>
   \<exists>body. kind_and_body gid = Some (bid_Kind b, body) \<and> RawURLDecode body = Some (key_seal (codec_primary c) (payload_of b))"
  by (auto simp: Encode_def prefixForKind_def kind_and_body_def HasPrefix_def filePrefix_def batchPrefix_def
      RawURL_roundtrip split: if_splits)

lemma Encode_wf: "wf_id b \<Longrightarrow> \<exists>gid. Encode c b = Inr gid"
  by (auto simp: wf_id_def Encode_def prefixForKind_def Contains_char)

definition opens_ids_of :: "codec \<Rightarrow> codec \<Rightarrow> BackendID \<Rightarrow> bool" where
  "opens_ids_of c c0 b =
     (codec_primary c = codec_primary c0 \<or>
      key_open (codec_primary c) (key_seal (codec_primary c0) (payload_of b)) = None \<and>
      codec_fallback c = Some (codec_primary c0))"

lemma Decode_issued:
  assumes "wf_id b" and "codec_ok c0" and "Encode c0 b = Inr gid" and "opens_ids_of c c0 b"
  shows "Decode c gid = Inr b"
proof -
  have "open_any c (key_seal (codec_primary c0) (payload_of b)) = Some (payload_of b)"
    using assms(2,4) by (auto simp: open_any_def opens_ids_of_def codec_ok_def open_seal)
  with Encode_Inr [OF assms(3)] wf_id_payload [OF assms(1)] show ?thesis by (auto simp: Decode_def)
qed

interpretation idc: id_codec codec_ok wf_id Encode Decode
proof
  show "wf_id b \<Longrightarrow> \<exists>i. Encode c b = Inr i" for b c by (rule Encode_wf)
  show "codec_ok c \<Longrightarrow> wf_id b \<Longrightarrow> Encode c b = Inr i \<Longrightarrow> Decode c i = Inr b" for c b i
    using Decode_issued [of b c i c] by (simp add: opens_ids_of_def)
qed

text \<open>
  C22. Identifiers survive a key rotation. An identifier issued for a resource is decoded to exactly
  that resource by the codec that issued it, and by a codec with a new seed that does not open it
  but keeps the old seed as its fallback; two resources never share an identifier.
\<close>

theorem identifier_roundtrip:
  assumes "wf_id b" and "codec_ok c0"
  shows "\<exists>gid. Encode c0 b = Inr gid \<and> Decode c0 gid = Inr b \<and>
    (\<forall>c. opens_ids_of c c0 b \<longrightarrow> Decode c gid = Inr b) \<and>
    (\<forall>b'. wf_id b' \<and> Encode c0 b' = Inr gid \<longrightarrow> b' = b)"
proof -
  obtain gid where gid: "Encode c0 b = Inr gid" "Decode c0 gid = Inr b"
    using idc.recovered [OF assms(2,1)] by blast
  have "b' = b" if "wf_id b'" "Encode c0 b' = Inr gid" for b'
    using idc.identifiers_unique [OF assms(2) that(1) assms(1)] that(2) gid(1) by simp
  with gid Decode_issued [OF assms gid(1)] show ?thesis by blast
qed

definition toy_key :: "char \<Rightarrow> key" where
  "toy_key t = \<lparr>key_aead = \<lparr>ae_NonceSize = 1, ae_Overhead = 1, ae_Seal = (\<lambda>n p. p @ [t]),
     ae_Open = (\<lambda>n ct. if ct \<noteq> [] \<and> last ct = t then Some (butlast ct) else None)\<rparr>, key_mac = (\<lambda>p. [t])\<rparr>"

definition toy_codec :: codec where
  "toy_codec = \<lparr>codec_primary = toy_key (CHR ''1''), codec_fallback = None\<rparr>"

definition rotated_codec :: codec where
  "rotated_codec = \<lparr>codec_primary = toy_key (CHR ''2''), codec_fallback = Some (toy_key (CHR ''1''))\<rparr>"

definition sample_id :: BackendID where
  "sample_id = \<lparr>bid_Namespace = ''ns'', bid_Name = ''b'', bid_Kind = KindFile, bid_Model = ''m'', bid_NativeID = ''x|y''\<rparr>"

lemma toy_key_ok: "key_ok (toy_key t)"
  by (simp add: key_ok_def toy_key_def)

lemma sample_id_wf: "wf_id sample_id"
  by (simp add: wf_id_def sample_id_def)

theorem identifier_roundtrip_witness:
  "\<exists>gid. Encode toy_codec sample_id = Inr gid \<and> Decode rotated_codec gid = Inr sample_id"
proof -
  have "codec_ok toy_codec" by (simp add: codec_ok_def toy_codec_def toy_key_ok)
  moreover have "opens_ids_of rotated_codec toy_codec sample_id"
    by (simp add: opens_ids_of_def rotated_codec_def toy_codec_def key_open_def key_seal_def toy_key_def key_nonce_def)
  ultimately show ?thesis using identifier_roundtrip [OF sample_id_wf] by blast
qed

definition key_canonical :: "key \<Rightarrow> bool" where
  "key_canonical k = (\<forall>n ct p. ae_Open (key_aead k) n ct = Some p \<longrightarrow> ae_Seal (key_aead k) n p = ct)"

lemma key_open_canonical: "key_canonical k \<Longrightarrow> key_open k raw = Some p \<Longrightarrow> raw = key_seal k p"
  unfolding key_open_def key_seal_def key_canonical_def Let_def
  by (auto split: if_splits option.splits) (metis append_take_drop_id)

text \<open>
  C23. Only issued identifiers decode. For a cipher in which a nonce and a text have one ciphertext,
  an identifier that decodes is one that the codec issues for the decoded resource under its primary
  or its fallback key, apart from the base64 spelling of the same bytes; in particular it has the
  prefix of its kind, so that a file identifier is never taken for a batch.
\<close>

theorem identifier_authentic:
  assumes "Decode c gid = Inr b" and "key_canonical (codec_primary c)"
    and "codec_fallback c = None \<or> key_canonical (the (codec_fallback c))"
  shows "\<exists>k gid' body body'. (k = codec_primary c \<or> codec_fallback c = Some k) \<and>
    Encode (c\<lparr>codec_primary := k\<rparr>) b = Inr gid' \<and>
    kind_and_body gid = Some (bid_Kind b, body) \<and> kind_and_body gid' = Some (bid_Kind b, body') \<and>
    RawURLDecode body = RawURLDecode body'"
proof -
  obtain kind body raw p where d: "kind_and_body gid = Some (kind, body)" "RawURLDecode body = Some raw"
    "open_any c raw = Some p" "parse_payload kind p = Inr b"
    using assms(1) by (auto simp: Decode_def split: option.splits)
  obtain k where k: "k = codec_primary c \<or> codec_fallback c = Some k" "key_open k raw = Some p" "key_canonical k"
    using d(3) assms(2,3) by (auto simp: open_any_def split: option.splits)
  have raw: "raw = key_seal k (payload_of b)" "bid_Kind b = kind"
    using key_open_canonical [OF k(3,2)] d(4) by (auto simp: parse_payload_iff)
  have "kind = KindFile \<or> kind = KindBatch" using d(1) by (auto simp: kind_and_body_def split: if_splits)
  with d(4) have "wf_id b" by (auto simp: wf_id_def parse_payload_iff)
  from Encode_wf [OF this] obtain gid' where g: "Encode (c\<lparr>codec_primary := k\<rparr>) b = Inr gid'" by blast
  from Encode_Inr [OF g] obtain body' where "kind_and_body gid' = Some (bid_Kind b, body')" "RawURLDecode body' = Some raw"
    by (auto simp: raw(1))
  with k(1) g d(1,2) raw(2) show ?thesis by auto
qed

theorem identifier_authentic_witness:
  "\<exists>gid. Decode toy_codec gid = Inr sample_id \<and> (\<exists>body. kind_and_body gid = Some (KindFile, body))"
proof -
  have "codec_ok toy_codec" by (simp add: codec_ok_def toy_codec_def toy_key_ok)
  from idc.recovered [OF this sample_id_wf] obtain gid where "Decode toy_codec gid = Inr sample_id" by blast
  moreover have "key_canonical (codec_primary toy_codec)" "codec_fallback toy_codec = None"
    by (auto simp: key_canonical_def toy_codec_def toy_key_def split: if_splits) (metis append_butlast_last_id)
  ultimately show ?thesis using identifier_authentic [of toy_codec gid sample_id] by (auto simp: sample_id_def)
qed

end
