(* ===== verification/Files_Processor.thy ===== *)
theory Files_Processor
  imports Extproc_Processor Id_Codec
begin

text \<open>
  \<^verbatim>\<open>internal/extproc/files_processor.go\<close> with the translators of
  \<^verbatim>\<open>internal/translator/files.go\<close> and \<^verbatim>\<open>openai_openai_files.go\<close>: the
  Files endpoints. One record serves the router and the upstream filter, as in the code; the router
  instance that the upstream instance points to is an argument. External are the media type parser,
  the multipart reader and writer and the JSON library, the fields of \<open>files_env\<close>. A
  multipart body is read as the parts that come before the end or before the first error.
\<close>

section \<open>Paths and queries\<close>

definition filesPathMarker :: string where
  "filesPathMarker = ''/v1/files''"

definition splitQuery :: "string \<Rightarrow> string \<times> string" where
  "splitQuery path = (case Index path ''?'' of Some i \<Rightarrow> (take i path, drop i path) | None \<Rightarrow> (path, []))"

definition queryParam :: "string \<Rightarrow> string \<Rightarrow> string" where
  "queryParam path name =
     (let raw = TrimPrefix (snd (splitQuery path)) ''?'';
          (vals, err) = ParseQuery raw
      in if err then [] else values_Get vals name)"

definition setQueryParam :: "string \<Rightarrow> string \<Rightarrow> string \<Rightarrow> string" where
  "setQueryParam path name v =
     (let (pathOnly, rawQuery) = splitQuery path;
          (vals, err) = ParseQuery (TrimPrefix rawQuery ''?'') in
      if err then path
      else if v = [] \<and> map_of vals name = None then path
      else (let vals' = (if v = [] then values_Del name vals else values_Set name v vals);
                encoded = values_Encode vals'
            in if encoded \<noteq> [] then pathOnly @ ''?'' @ encoded else pathOnly))"

datatype filesOperation = filesOpUpload | filesOpList | filesOpRetrieve | filesOpContent | filesOpDelete

definition classifyFilesRequest :: "string \<Rightarrow> string \<Rightarrow> go_error + filesOperation \<times> string" where
  "classifyFilesRequest meth rawPath =
     (let pathOnly = fst (splitQuery rawPath);
          unsupported = Inl (errorf (''unsupported method '' @ meth @ '' for '' @ rawPath)) in
      case Index pathOnly filesPathMarker of
        None \<Rightarrow> Inl (errorf (''not a files path: '' @ rawPath))
      | Some idx \<Rightarrow>
          (let sfx = drop (idx + length filesPathMarker) pathOnly in
           if sfx = [] \<or> sfx = ''/'' then
             (if meth = ''POST'' then Inr (filesOpUpload, [])
              else if meth = ''GET'' then Inr (filesOpList, [])
              else unsupported)
           else
             (let segs = Split (TrimPrefix sfx ''/'') (CHR ''/'') in
              case segs of
                [s0] \<Rightarrow>
                  if s0 \<noteq> [] \<and> meth = ''GET'' then Inr (filesOpRetrieve, s0)
                  else if s0 \<noteq> [] \<and> meth = ''DELETE'' then Inr (filesOpDelete, s0)
                  else unsupported
              | [s0, s1] \<Rightarrow>
                  if s0 \<noteq> [] \<and> s1 = ''content'' \<and> meth = ''GET'' then Inr (filesOpContent, s0) else unsupported
              | _ \<Rightarrow> unsupported)))"

text \<open>The path was classified before it is rewritten, so that the marker occurs in it.\<close>

definition rewrittenPath :: "string \<Rightarrow> filesOperation \<Rightarrow> string \<Rightarrow> string" where
  "rewrittenPath path op nativeID =
     (let (pathOnly, query) = splitQuery path;
          base = (case Index pathOnly filesPathMarker of
                    Some idx \<Rightarrow> take (idx + length filesPathMarker) pathOnly
                  | None \<Rightarrow> take (length filesPathMarker - 1) pathOnly);
          sfx = ''/'' @ nativeID @ (if op = filesOpContent then ''/content'' else [])
      in base @ sfx @ query)"

section \<open>Route rules\<close>

definition routeRuleKey :: "string \<Rightarrow> string option" where
  "routeRuleKey composite =
     (case Index composite ''/route/'' of
        None \<Rightarrow> None
      | Some ri \<Rightarrow>
          (let rest = drop (ri + 1) composite in
           case LastIndex rest ''/ref/'' of
             None \<Rightarrow> None
           | Some ref \<Rightarrow> Some (take ref rest)))"

definition routeRuleBackendCount :: "string list \<Rightarrow> ('h, 'p, 'c) RuntimeConfig option \<Rightarrow> string \<Rightarrow> nat" where
  "routeRuleBackendCount ord config composite =
     (case (routeRuleKey composite, config) of
        (Some key, Some cfg) \<Rightarrow>
          length (filter (\<lambda>other. routeRuleKey other = Some key) (range_keys ord (rt_Backends cfg)))
      | _ \<Rightarrow> 0)"

section \<open>Translators\<close>

record FilesRequest =
  fr_NativeID :: string
  fr_Path :: string
  fr_Method :: string
  fr_ContentType :: string
  fr_Model :: string
  fr_Query :: string

datatype FilesTranslator =
    openAIFileUploadTranslator | openAIFileRetrieveTranslator | openAIFileContentTranslator
  | openAIFileDeleteTranslator | openAIFileListTranslator

definition ft_RequestBody :: "FilesTranslator \<Rightarrow> slice \<Rightarrow> FilesRequest \<Rightarrow> bool \<Rightarrow> go_error + header list \<times> slice" where
  "ft_RequestBody t raw req retry = Inr ([], None)"

definition ft_ResponseHeaders :: "FilesTranslator \<Rightarrow> headers \<Rightarrow> go_error + header list" where
  "ft_ResponseHeaders t hdrs = Inr []"

definition ft_ResponseBody :: "FilesTranslator \<Rightarrow> headers \<Rightarrow> bytes \<Rightarrow> bool \<Rightarrow> go_error + header list \<times> slice" where
  "ft_ResponseBody t hdrs body endOfStream = Inr ([], None)"

definition ft_ResponseError :: "FilesTranslator \<Rightarrow> headers \<Rightarrow> bytes \<Rightarrow> go_error + header list \<times> slice" where
  "ft_ResponseError t hdrs body = Inr ([], None)"

definition unsupported_files_schema :: "VersionedAPISchema \<Rightarrow> go_error" where
  "unsupported_files_schema schema = errorf (''unsupported API schema for files: backend={'' @ schema_text (schema_Name schema) @ '' '' @
     schema_Version schema @ '' '' @ schema_Prefix schema @ ''}'')"

fun files_translator_for :: "filesOperation \<Rightarrow> FilesTranslator" where
  "files_translator_for filesOpUpload = openAIFileUploadTranslator"
| "files_translator_for filesOpList = openAIFileListTranslator"
| "files_translator_for filesOpRetrieve = openAIFileRetrieveTranslator"
| "files_translator_for filesOpContent = openAIFileContentTranslator"
| "files_translator_for filesOpDelete = openAIFileDeleteTranslator"

definition files_NewTranslator :: "filesOperation \<Rightarrow> VersionedAPISchema \<Rightarrow> go_error + FilesTranslator" where
  "files_NewTranslator op schema =
     (if schema_Name schema = APISchemaOpenAI then Inr (files_translator_for op)
      else Inl (unsupported_files_schema schema))"

section \<open>State\<close>

type_synonym backendKey = "string \<times> string"

record ('h, 'p) filesProcessor =
  fp_codec :: codec
  fp_config :: "('h, 'p, codec) RuntimeConfig option"
  fp_requestHeaders :: headers
  fp_isUpstreamFilter :: bool
  fp_op :: filesOperation
  fp_backend :: "backendKey option"
  fp_decodedBackend :: "backendKey option"
  fp_routingModel :: string
  fp_translator :: "FilesTranslator option"
  fp_responseHeaders :: "headers option"
  fp_filesRequestMetadata :: FilesRequest
  fp_requestBody :: slice

definition empty_files_request :: FilesRequest where
  "empty_files_request = \<lparr>fr_NativeID = [], fr_Path = [], fr_Method = [], fr_ContentType = [], fr_Model = [], fr_Query = []\<rparr>"

definition NewFilesProcessorFactory ::
  "codec \<Rightarrow> ('h, 'p, codec) RuntimeConfig option \<Rightarrow> headers \<Rightarrow> bool \<Rightarrow> ('h, 'p) filesProcessor" where
  "NewFilesProcessorFactory flagCodec config requestHeaders isUpstreamFilter =
     \<lparr>fp_codec = (case config of
                    Some cfg \<Rightarrow> (case rt_FileIDCodec cfg of Some c \<Rightarrow> c | None \<Rightarrow> flagCodec)
                  | None \<Rightarrow> flagCodec),
      fp_config = config, fp_requestHeaders = requestHeaders, fp_isUpstreamFilter = isUpstreamFilter,
      fp_op = filesOpUpload, fp_backend = None, fp_decodedBackend = None, fp_routingModel = [],
      fp_translator = None, fp_responseHeaders = None, fp_filesRequestMetadata = empty_files_request,
      fp_requestBody = None\<rparr>"

section \<open>Interfaces\<close>

type_synonym MIMEHeader = "(string \<times> string list) list"

record part =
  part_Header :: MIMEHeader
  part_FormName :: string
  part_Content :: bytes

record FileObject =
  fo_ID :: string
  fo_rest :: json

record FileListResponse =
  fl_Data :: "FileObject list option"
  fl_Object :: string
  fl_HasMore :: bool
  fl_FirstID :: string
  fl_LastID :: string

record files_env =
  fe_ParseMediaType :: "string \<Rightarrow> (string \<times> headers) option"
  fe_Parts :: "slice \<Rightarrow> string \<Rightarrow> part list \<times> go_error option"
  fe_Writer :: "string \<Rightarrow> go_error + ((MIMEHeader \<times> bytes) list \<Rightarrow> bytes)"
  fe_gjson_id :: "bytes \<Rightarrow> string"
  fe_sjson_set_id :: "bytes \<Rightarrow> string \<Rightarrow> go_error + bytes"
  fe_UnmarshalList :: "bytes \<Rightarrow> go_error + FileListResponse"
  fe_MarshalList :: "FileListResponse \<Rightarrow> go_error + bytes"
  fe_ord :: "string list"

section \<open>Multipart bodies\<close>

definition multipartBoundary :: "files_env \<Rightarrow> string \<Rightarrow> string" where
  "multipartBoundary env contentType =
     (if contentType = [] then []
      else case fe_ParseMediaType env contentType of
        None \<Rightarrow> []
      | Some (mediaType, params) \<Rightarrow> if HasPrefix mediaType ''multipart/'' then mget params ''boundary'' else [])"

definition fieldMaxBytes :: nat where
  "fieldMaxBytes = 1048576"

definition readMultipartFieldWithLimit :: "part \<Rightarrow> string \<Rightarrow> nat \<Rightarrow> go_error + bytes" where
  "readMultipartFieldWithLimit p fieldName maxBytes =
     (if length (part_Content p) > maxBytes
      then Inl (errorf (''multipart field '' @ Quote fieldName @ '' exceeds maximum allowed size of '' @ Itoa maxBytes @ '' bytes''))
      else Inr (part_Content p))"

text \<open>
  The loop of \<open>UnmarshalMultipart\<close>, with the fields that only the file upload itself needs
  reduced to their checks; the result is the extra body.
\<close>

fun unmarshal_parts :: "part list \<Rightarrow> headers \<Rightarrow> go_error + headers" where
  "unmarshal_parts [] extra = Inr extra"
| "unmarshal_parts (p # ps) extra =
     (let n = part_FormName p in
      if n = ''file'' then unmarshal_parts ps extra
      else case readMultipartFieldWithLimit p n fieldMaxBytes of
        Inl e \<Rightarrow> Inl e
      | Inr b \<Rightarrow>
          if n = ''purpose'' \<or> n = ''expires_after.anchor'' then unmarshal_parts ps extra
          else if n = ''expires_after.seconds''
          then (if snd (Atoi b) then unmarshal_parts ps extra else Inl (errorf ''invalid syntax''))
          else unmarshal_parts ps (extra(n \<mapsto> b)))"

definition UnmarshalMultipart :: "files_env \<Rightarrow> slice \<Rightarrow> string \<Rightarrow> go_error + headers" where
  "UnmarshalMultipart env data boundary =
     (let (ps, err) = fe_Parts env data boundary in
      case unmarshal_parts ps Map.empty of
        Inl e \<Rightarrow> Inl e
      | Inr extra \<Rightarrow> (case err of Some e \<Rightarrow> Inl e | None \<Rightarrow> Inr extra))"

definition stripMultipartField :: "files_env \<Rightarrow> slice \<Rightarrow> string \<Rightarrow> string \<Rightarrow> go_error + bytes" where
  "stripMultipartField env body boundary field =
     (case fe_Writer env boundary of
        Inl e \<Rightarrow> Inl e
      | Inr wr \<Rightarrow>
          (let (ps, err) = fe_Parts env body boundary in
           case err of
             Some e \<Rightarrow> Inl e
           | None \<Rightarrow> Inr (wr (map (\<lambda>p. (part_Header p, part_Content p)) (filter (\<lambda>p. part_FormName p \<noteq> field) ps)))))"

section \<open>Requests at the router\<close>

definition requestHeadersResponse :: "HeaderMutation \<Rightarrow> bool \<Rightarrow> ProcessingResponse" where
  "requestHeadersResponse headerMutation clearRouteCache =
     plain_response (Response_RequestHeaders
       (Some (empty_common\<lparr>cr_HeaderMutation := Some headerMutation, cr_ClearRouteCache := clearRouteCache\<rparr>)))"

definition newRequestHeaderMutation :: "('h, 'p) filesProcessor \<Rightarrow> HeaderMutation" where
  "newRequestHeaderMutation p = setHeader OriginalPathHeader (mget (fp_requestHeaders p) '':path'') empty_mutation"

definition routeByModel :: "HeaderMutation \<Rightarrow> string \<Rightarrow> ('h, 'p) filesProcessor \<Rightarrow> ('h, 'p) filesProcessor \<times> HeaderMutation" where
  "routeByModel headerMutation model p =
     (p\<lparr>fp_routingModel := model, fp_requestHeaders := (fp_requestHeaders p)(ModelNameHeaderKeyDefault \<mapsto> model)\<rparr>,
      setHeader ModelNameHeaderKeyDefault model headerMutation)"

definition handleListRequestHeaders :: "('h, 'p) filesProcessor \<Rightarrow> ('h, 'p) filesProcessor \<times> ProcessingResponse" where
  "handleListRequestHeaders p =
     (let path = mget (fp_requestHeaders p) '':path'';
          headerMutation = newRequestHeaderMutation p;
          model0 = queryParam path ''model'';
          upstreamPath0 = setQueryParam path ''model'' [];
          cursor = queryParam path ''after'';
          st = (if cursor \<noteq> [] then
                  (case Decode (fp_codec p) cursor of
                     Inl e \<Rightarrow> None
                   | Inr dcd \<Rightarrow>
                       if bid_Kind dcd \<noteq> KindFile then None
                       else Some (p\<lparr>fp_decodedBackend := Some (bid_Namespace dcd, bid_Name dcd)\<rparr>,
                                  if model0 = [] then bid_Model dcd else model0,
                                  setQueryParam upstreamPath0 ''after'' (bid_NativeID dcd)))
                else Some (p, model0, upstreamPath0))
      in case st of
           None \<Rightarrow> (p, createUserFacingErrorResponse 400 ''invalid_request_error'' ''invalid after cursor'')
         | Some (p1, model, upstreamPath) \<Rightarrow>
             if model = []
             then (p1, createUserFacingErrorResponse 400 ''invalid_request_error'' 
                     (''the '' @ [CHR 0x27] @ ''model'' @ [CHR 0x27] @ '' query parameter is required''))
             else (let (p2, hm) = routeByModel headerMutation model p1;
                       hm' = setHeader '':path'' upstreamPath hm;
                       req = (fp_filesRequestMetadata p2)\<lparr>fr_Path := upstreamPath, fr_Query := snd (splitQuery upstreamPath)\<rparr>
                   in (p2\<lparr>fp_filesRequestMetadata := req\<rparr>, requestHeadersResponse hm' True)))"

definition handleIDBearingRequestHeaders ::
  "filesOperation \<Rightarrow> string \<Rightarrow> ('h, 'p) filesProcessor \<Rightarrow> ('h, 'p) filesProcessor \<times> ProcessingResponse" where
  "handleIDBearingRequestHeaders op gatewayID p =
     (case (case Decode (fp_codec p) gatewayID of
              Inl e \<Rightarrow> None
            | Inr dcd \<Rightarrow> if bid_Kind dcd \<noteq> KindFile then None else Some dcd) of
        None \<Rightarrow> (p, createUserFacingErrorResponse 404 ''NotFoundError'' (''No such File object: '' @ gatewayID))
      | Some dcd \<Rightarrow>
          (let p1 = p\<lparr>fp_decodedBackend := Some (bid_Namespace dcd, bid_Name dcd),
                     fp_routingModel := bid_Model dcd\<rparr>;
               nativePath = rewrittenPath (mget (fp_requestHeaders p) '':path'') op (bid_NativeID dcd);
               hm = setHeader '':path'' nativePath (newRequestHeaderMutation p1);
               p2 = p1\<lparr>fp_filesRequestMetadata := (fp_filesRequestMetadata p1)\<lparr>fr_NativeID := bid_NativeID dcd, fr_Path := nativePath\<rparr>\<rparr>;
               (p3, hm') = (if bid_Model dcd \<noteq> [] then routeByModel hm (bid_Model dcd) p2 else (p2, hm))
           in (p3, requestHeadersResponse hm' True)))"

text \<open>The request of the upstream instance, which points to the router instance \<open>rp\<close> once its backend is set.\<close>

definition translateUpstreamRequest :: "('h, 'p) filesProcessor option \<Rightarrow> go_error + ProcessingResponse" where
  "translateUpstreamRequest rp =
     (case Option.bind rp (\<lambda>r. map_option (Pair r) (fp_translator r)) of
        None \<Rightarrow> Inr (plain_response (Response_RequestHeaders None))
      | Some (r, t) \<Rightarrow>
          (case ft_RequestBody t (fp_requestBody r) (fp_filesRequestMetadata r) False of
             Inl err \<Rightarrow>
               (case GetUserFacingError err of
                  Some userFacingErr \<Rightarrow> Inr (createUserFacingErrorResponse 422 ''UnprocessableEntity'' (err_msg userFacingErr))
                | None \<Rightarrow> Inl (wrapf ''failed to transform files request: '' err))
           | Inr (newHeaders, newBody) \<Rightarrow>
               (let (headerMutation, bodyMutation) = mutationsFromTranslationResult newHeaders newBody in
                case bodyMutation of
                  None \<Rightarrow> Inr (plain_response (Response_RequestHeaders (Some (empty_common\<lparr>cr_HeaderMutation := Some headerMutation\<rparr>))))
                | Some bm \<Rightarrow>
                    (let n = length (slice_bytes newBody);
                         hm = setHeader ''content-length'' (Itoa n) headerMutation
                     in Inr \<lparr>pr_Response = Response_RequestHeaders (Some (empty_common\<lparr>cr_HeaderMutation := Some hm,
                               cr_BodyMutation := Some bm, cr_Status := CONTINUE_AND_REPLACE\<rparr>)),
                             pr_DynamicMetadata = Some (buildContentLengthDynamicMetadataOnRequest n), pr_ModeOverride = None\<rparr>))))"

definition files_ProcessRequestHeaders ::
  "('h, 'p) filesProcessor option \<Rightarrow> ('h, 'p) filesProcessor \<Rightarrow> ('h, 'p) filesProcessor \<times> (go_error + ProcessingResponse)" where
  "files_ProcessRequestHeaders rp p =
     (if fp_isUpstreamFilter p then (p, translateUpstreamRequest rp)
      else
        (let meth = mget (fp_requestHeaders p) '':method'';
             path = mget (fp_requestHeaders p) '':path'' in
         case classifyFilesRequest meth path of
           Inl e \<Rightarrow> (p, Inr (createUserFacingErrorResponse 404 ''NotFoundError'' ''unsupported Files API request''))
         | Inr (op, fid) \<Rightarrow>
             (let p1 = p\<lparr>fp_op := op, fp_filesRequestMetadata := empty_files_request\<lparr>fr_Path := path, fr_Method := meth,
                        fr_ContentType := mget (fp_requestHeaders p) ''content-type''\<rparr>\<rparr> in
              case op of
                filesOpUpload \<Rightarrow> (p1, Inr (requestHeadersResponse (newRequestHeaderMutation p1) False))
              | filesOpList \<Rightarrow> (let (p2, resp) = handleListRequestHeaders p1 in (p2, Inr resp))
              | _ \<Rightarrow> (let (p2, resp) = handleIDBearingRequestHeaders op fid p1 in (p2, Inr resp)))))"

definition files_ProcessRequestBody ::
  "files_env \<Rightarrow> HttpBody \<Rightarrow> ('h, 'p) filesProcessor \<Rightarrow> ('h, 'p) filesProcessor \<times> ProcessingResponse" where
  "files_ProcessRequestBody env rawBody p =
     (if fp_isUpstreamFilter p \<or> fp_op p \<noteq> filesOpUpload then (p, plain_response (Response_RequestBody None))
      else
        (let headerMutation = newRequestHeaderMutation p;
             boundary = multipartBoundary env (mget (fp_requestHeaders p) ''content-type'');
             model = (if boundary \<noteq> []
                      then (case UnmarshalMultipart env (hb_Body rawBody) boundary of
                              Inl e \<Rightarrow> []
                            | Inr extra \<Rightarrow> mget extra ''model'')
                      else []) in
         if model = []
         then (p, createUserFacingErrorResponse 400 ''invalid_request_error''
                 (''the '' @ [CHR 0x27] @ ''model'' @ [CHR 0x27] @ '' field is required''))
         else
           (let (p1, hm) = routeByModel headerMutation model p;
                p2 = p1\<lparr>fp_filesRequestMetadata := (fp_filesRequestMetadata p1)\<lparr>fr_Model := model\<rparr>\<rparr> in
            case stripMultipartField env (hb_Body rawBody) boundary ''model'' of
              Inl e \<Rightarrow>
                (p2\<lparr>fp_requestBody := hb_Body rawBody\<rparr>, plain_response (Response_RequestBody
                   (Some (empty_common\<lparr>cr_HeaderMutation := Some hm, cr_ClearRouteCache := True\<rparr>))))
            | Inr stripped \<Rightarrow>
                (p2\<lparr>fp_requestBody := Some stripped\<rparr>, plain_response (Response_RequestBody
                   (Some (empty_common\<lparr>cr_HeaderMutation := Some (setHeader ''content-length'' (Itoa (length stripped)) hm),
                      cr_BodyMutation := Some (BodyMutation_Body (Some stripped)), cr_ClearRouteCache := True\<rparr>)))))))"

section \<open>Responses at the router\<close>

definition isSuccessResponse :: "('h, 'p) filesProcessor \<Rightarrow> bool" where
  "isSuccessResponse p =
     (case Option.bind (fp_responseHeaders p) (\<lambda>m. m '':status'') of
        None \<Rightarrow> True
      | Some st \<Rightarrow> (case Atoi st of (code, okay) \<Rightarrow> if okay then code \<ge> 200 \<and> code < 300 else True))"

definition passThroughResponseBody :: ProcessingResponse where
  "passThroughResponseBody = plain_response (Response_ResponseBody None)"

definition filesReEncodeError :: "string \<Rightarrow> ProcessingResponse" where
  "filesReEncodeError msg = createUserFacingErrorResponse 502 ''upstream_error'' msg"

definition bodyMutationResponse :: "bytes \<Rightarrow> ProcessingResponse" where
  "bodyMutationResponse newBody =
     plain_response (Response_ResponseBody (Some (empty_common
       \<lparr>cr_HeaderMutation := Some (setHeader ''content-length'' (Itoa (length newBody)) empty_mutation),
        cr_BodyMutation := Some (BodyMutation_Body (Some newBody))\<rparr>)))"

definition translatedBodyResponse :: "header list \<Rightarrow> slice \<Rightarrow> ProcessingResponse" where
  "translatedBodyResponse newHeaders newBody =
     (if newHeaders = [] \<and> newBody = None then passThroughResponseBody
      else (let (hm, bm) = mutationsFromTranslationResult newHeaders newBody;
                hm' = (case newBody of Some b \<Rightarrow> setHeader ''content-length'' (Itoa (length b)) hm | None \<Rightarrow> hm)
            in plain_response (Response_ResponseBody (Some (empty_common\<lparr>cr_HeaderMutation := Some hm', cr_BodyMutation := bm\<rparr>)))))"

definition encodeFileID :: "('h, 'p) filesProcessor \<Rightarrow> backendKey \<Rightarrow> string \<Rightarrow> go_error + string" where
  "encodeFileID p b nativeID =
     Encode (fp_codec p) \<lparr>bid_Namespace = fst b, bid_Name = snd b, bid_Kind = KindFile, bid_Model = fp_routingModel p,
       bid_NativeID = nativeID\<rparr>"

text \<open>The body to re-encode with the owning backend, or the error response.\<close>

definition translatedResponseBody ::
  "('h, 'p) filesProcessor \<Rightarrow> bytes \<Rightarrow> string \<Rightarrow> go_error + (ProcessingResponse + backendKey \<times> bytes)" where
  "translatedResponseBody p raw kind =
     (case fp_backend p of
        None \<Rightarrow> Inr (Inl (filesReEncodeError
          (if fp_op p = filesOpUpload \<and> fp_routingModel p \<noteq> []
           then ''no backend route found for model '' @ Quote (fp_routingModel p)
           else ''backend unknown for upstream '' @ kind)))
      | Some b \<Rightarrow>
          if raw = [] then Inr (Inl (filesReEncodeError (''empty body in upstream '' @ kind)))
          else (case fp_responseHeaders p of
                  None \<Rightarrow> Inr (Inr (b, raw))
                | Some hs \<Rightarrow>
                    (case fp_translator p of
                       None \<Rightarrow> Inl (GoError [GoPanic] ''nil pointer dereference'')
                     | Some t \<Rightarrow>
                         (case ft_ResponseBody t hs raw True of
                            Inl e \<Rightarrow> Inr (Inl (filesReEncodeError (''failed to process upstream '' @ kind)))
                          | Inr (newHeaders, mutatedBody) \<Rightarrow>
                              Inr (Inr (b, case mutatedBody of Some m \<Rightarrow> m | None \<Rightarrow> raw))))))"

definition reEncodeResponse :: "files_env \<Rightarrow> ('h, 'p) filesProcessor \<Rightarrow> bytes \<Rightarrow> go_error + ProcessingResponse" where
  "reEncodeResponse env p raw =
     (case translatedResponseBody p raw ''files response'' of
        Inl e \<Rightarrow> Inl e
      | Inr (Inl errResp) \<Rightarrow> Inr errResp
      | Inr (Inr (b, workingBody)) \<Rightarrow>
          (let nativeID = fe_gjson_id env workingBody;
               failed = filesReEncodeError ''failed to encode file id in upstream files response'' in
           if nativeID = [] then Inr (filesReEncodeError ''missing id in upstream files response'')
           else case encodeFileID p b nativeID of
             Inl e \<Rightarrow> Inr failed
           | Inr gw \<Rightarrow>
               (case fe_sjson_set_id env workingBody gw of
                  Inl e \<Rightarrow> Inr failed
                | Inr newBody \<Rightarrow> Inr (bodyMutationResponse newBody))))"

definition encode_nonempty :: "('h, 'p) filesProcessor \<Rightarrow> backendKey \<Rightarrow> string \<Rightarrow> go_error + string" where
  "encode_nonempty p b fid = (if fid = [] then Inr [] else encodeFileID p b fid)"

fun encode_objects :: "('h, 'p) filesProcessor \<Rightarrow> backendKey \<Rightarrow> FileObject list \<Rightarrow> go_error + FileObject list" where
  "encode_objects p b [] = Inr []"
| "encode_objects p b (x # xs) =
     (case encode_nonempty p b (fo_ID x) of
        Inl e \<Rightarrow> Inl e
      | Inr gw \<Rightarrow> (case encode_objects p b xs of Inl e \<Rightarrow> Inl e | Inr ys \<Rightarrow> Inr (x\<lparr>fo_ID := gw\<rparr> # ys)))"

definition encode_page :: "('h, 'p) filesProcessor \<Rightarrow> backendKey \<Rightarrow> FileObject list \<Rightarrow> FileListResponse \<Rightarrow> go_error + FileListResponse" where
  "encode_page p b data page =
     (case encode_objects p b data of
        Inl e \<Rightarrow> Inl e
      | Inr data' \<Rightarrow>
          (case encode_nonempty p b (fl_FirstID page) of
             Inl e \<Rightarrow> Inl e
           | Inr f \<Rightarrow>
               (case encode_nonempty p b (fl_LastID page) of
                  Inl e \<Rightarrow> Inl e
                | Inr l \<Rightarrow> Inr (page\<lparr>fl_Data := Some data', fl_FirstID := f, fl_LastID := l\<rparr>))))"

definition reEncodeListResponse :: "files_env \<Rightarrow> ('h, 'p) filesProcessor \<Rightarrow> bytes \<Rightarrow> go_error + ProcessingResponse" where
  "reEncodeListResponse env p raw =
     (case translatedResponseBody p raw ''files list response'' of
        Inl e \<Rightarrow> Inl e
      | Inr (Inl errResp) \<Rightarrow> Inr errResp
      | Inr (Inr (b, workingBody)) \<Rightarrow>
          (case (case fe_UnmarshalList env workingBody of
                   Inl e \<Rightarrow> None
                 | Inr page \<Rightarrow> map_option (Pair page) (fl_Data page)) of
             None \<Rightarrow> Inr (filesReEncodeError ''invalid or non-list body in upstream files list response'')
           | Some (page, data) \<Rightarrow>
               (case encode_page p b data page of
                  Inl e \<Rightarrow> Inr (filesReEncodeError ''failed to encode file id in upstream files list response'')
                | Inr page' \<Rightarrow>
                    (case fe_MarshalList env page' of
                       Inl e \<Rightarrow> Inr (filesReEncodeError ''failed to encode upstream files list response'')
                     | Inr newBody \<Rightarrow> Inr (bodyMutationResponse newBody)))))"

definition translateResponseError :: "('h, 'p) filesProcessor \<Rightarrow> bytes \<Rightarrow> go_error + ProcessingResponse" where
  "translateResponseError p raw =
     (case fp_translator p of
        None \<Rightarrow> Inr passThroughResponseBody
      | Some t \<Rightarrow>
          (case ft_ResponseError t (case fp_responseHeaders p of Some m \<Rightarrow> m | None \<Rightarrow> Map.empty) raw of
             Inl e \<Rightarrow> Inl (wrapf ''failed to transform files response error: '' e)
           | Inr (newHeaders, newBody) \<Rightarrow> Inr (translatedBodyResponse newHeaders newBody)))"

definition translateContentResponse :: "('h, 'p) filesProcessor \<Rightarrow> bytes \<Rightarrow> ProcessingResponse" where
  "translateContentResponse p raw =
     (case (fp_translator p, fp_responseHeaders p) of
        (Some t, Some hs) \<Rightarrow>
          (case ft_ResponseBody t hs raw True of
             Inl e \<Rightarrow> filesReEncodeError ''failed to process upstream files content response''
           | Inr (newHeaders, newBody) \<Rightarrow> translatedBodyResponse newHeaders newBody)
      | _ \<Rightarrow> passThroughResponseBody)"

definition files_ProcessResponseHeaders ::
  "HeaderMap option \<Rightarrow> ('h, 'p) filesProcessor \<Rightarrow> ('h, 'p) filesProcessor \<times> (go_error + ProcessingResponse)" where
  "files_ProcessResponseHeaders hs p =
     (if fp_isUpstreamFilter p then (p, Inr (plain_response (Response_ResponseHeaders None)))
      else
        (let captured = fold (\<lambda>h m. m(hv_Key h \<mapsto> hv_RawValue h)) (case hs of None \<Rightarrow> [] | Some l \<Rightarrow> l) Map.empty;
             p1 = p\<lparr>fp_responseHeaders := Some captured\<rparr> in
         case fp_translator p1 of
           None \<Rightarrow> (p1, Inr (plain_response (Response_ResponseHeaders None)))
         | Some t \<Rightarrow>
             (case ft_ResponseHeaders t captured of
                Inl e \<Rightarrow> (p1, Inl (wrapf ''failed to transform files response headers: '' e))
              | Inr newHeaders \<Rightarrow>
                  (p1, Inr (plain_response (Response_ResponseHeaders
                     (if newHeaders = [] then None
                      else Some (empty_common\<lparr>cr_HeaderMutation := Some (fst (mutationsFromTranslationResult newHeaders None))\<rparr>))))))))"

definition files_ProcessResponseBody :: "files_env \<Rightarrow> HttpBody \<Rightarrow> ('h, 'p) filesProcessor \<Rightarrow> go_error + ProcessingResponse" where
  "files_ProcessResponseBody env body p =
     (if fp_isUpstreamFilter p then Inr (plain_response (Response_ResponseBody None))
      else (let raw = slice_bytes (hb_Body body) in
            if \<not> isSuccessResponse p then translateResponseError p raw
            else case fp_op p of
              filesOpContent \<Rightarrow> Inr (translateContentResponse p raw)
            | filesOpList \<Rightarrow> reEncodeListResponse env p raw
            | _ \<Rightarrow> reEncodeResponse env p raw))"

section \<open>Choosing the backend\<close>

text \<open>The router instance is updated; on success the upstream instance points to it.\<close>

definition files_SetBackend ::
  "files_env \<Rightarrow> 'h RuntimeBackend \<Rightarrow> ('h, 'p) filesProcessor \<Rightarrow> ('h, 'p) filesProcessor \<times> (go_error + unit)" where
  "files_SetBackend env backend rp =
     (let b = rb_Backend backend; n = routeRuleBackendCount (fe_ord env) (fp_config rp) (be_Name b) in
      if n > 1
      then (rp, Inl (errorf (''files API supports exactly one backend per route rule, but the rule serving '' @
              Quote (be_Name b) @ '' has '' @ Itoa n @ '' backends'')))
      else case NamespaceAndNameFromBackendName (be_Name b) of
        None \<Rightarrow> (rp, Inl (errorf (''could not parse backend identity '' @ Quote (be_Name b) @ '' for files request'')))
      | Some (ns, name) \<Rightarrow>
          if fp_decodedBackend rp \<noteq> None \<and> fp_decodedBackend rp \<noteq> Some (ns, name)
          then (rp, Inl (errorf (''file id belongs to backend '' @ fst (the (fp_decodedBackend rp)) @ ''/'' @
                  snd (the (fp_decodedBackend rp)) @ '', but the request was routed to '' @ ns @ ''/'' @ name)))
          else (let rp1 = rp\<lparr>fp_backend := Some (ns, name)\<rparr> in
                case files_NewTranslator (fp_op rp1) (be_Schema b) of
                  Inl e \<Rightarrow> (rp1, Inl (wrapf (''files API not supported for schema '' @ schema_text (schema_Name (be_Schema b)) @ '': '') e))
                | Inr t \<Rightarrow> (rp1\<lparr>fp_translator := Some t\<rparr>, Inr ())))"

end
