(* ===== verification/Files_Correctness.thy ===== *)
theory Files_Correctness
  imports Files_Processor
begin

text \<open>
  What the Files endpoints guarantee: the rewriting of query parameters is exact, the identifiers a
  client sees lead back to the backend, the model and the native identifier they were issued for,
  and no native identifier reaches the client.
\<close>

section \<open>Query parameters\<close>

lemma Index_single: "Index s [c] = (if c \<in> set s then Some (length (takeWhile (\<lambda>x. x \<noteq> c) s)) else None)"
  by (induction s) (auto simp: HasPrefix_def)

lemma splitQuery_eq:
  "splitQuery path = (takeWhile (\<lambda>x. x \<noteq> CHR ''?'') path, dropWhile (\<lambda>x. x \<noteq> CHR ''?'') path)"
proof (cases "CHR ''?'' \<in> set path")
  case True
  then show ?thesis
    by (simp add: splitQuery_def Index_single takeWhile_eq_take [symmetric] dropWhile_eq_drop [symmetric])
next
  case False
  then have tw: "takeWhile (\<lambda>x. x \<noteq> CHR ''?'') path = path" "dropWhile (\<lambda>x. x \<noteq> CHR ''?'') path = []"
    by (auto simp: takeWhile_eq_all_conv dropWhile_eq_Nil_conv)
  show ?thesis using False unfolding tw splitQuery_def Index_single by simp
qed

lemma splitQuery_path: "CHR ''?'' \<notin> set p \<Longrightarrow> splitQuery (p @ CHR ''?'' # q) = (p, CHR ''?'' # q)"
  by (simp add: splitQuery_eq takeWhile_neq_append dropWhile_neq_append)

lemma splitQuery_plain: "CHR ''?'' \<notin> set p \<Longrightarrow> splitQuery p = (p, [])"
  by (simp add: splitQuery_def Index_single)

definition query_values :: "string \<Rightarrow> Values \<times> bool" where
  "query_values path = ParseQuery (TrimPrefix (snd (splitQuery path)) ''?'')"

lemma values_add_keys: "fst ` set (values_add k v m) = insert k (fst ` set m)"
  by (induction k v m rule: values_add.induct) (simp_all add: insert_commute)

lemma values_add_ok: "values_ok m \<Longrightarrow> values_ok (values_add k v m)"
  by (induction k v m rule: values_add.induct) (simp_all add: values_ok_def values_add_keys)

lemma ParseQuery_ok: "values_ok (fst (ParseQuery q))"
proof -
  have inv: "values_ok (fst st) \<Longrightarrow> values_ok (fst (fold parse_piece ps st))" for ps st
  proof (induction ps arbitrary: st)
    case (Cons p ps)
    then have "values_ok (fst (parse_piece p st))"
      by (auto simp: parse_piece_def values_add_ok split: option.splits prod.splits)
    with Cons.IH show ?case by simp
  qed simp
  have "values_ok []" by (simp add: values_ok_def)
  with inv [of "([], False)"] show ?thesis by (simp add: ParseQuery_def)
qed

lemma Get_sort: "values_ok m \<Longrightarrow> values_Get (sort_key fst m) k = values_Get m k"
  using map_of_inject_set [of "sort_key fst m" m] by (simp add: values_ok_def values_Get_def distinct_map)

lemma Encode_Nil: "values_ok m \<Longrightarrow> values_Encode m = [] \<Longrightarrow> m = []"
proof -
  assume ok: "values_ok m" and e: "values_Encode m = []"
  have "pair_text kv \<noteq> []" for kv by (simp add: pair_text_def)
  then have "values_pairs (sort_key fst m) = []"
    using e by (cases "values_pairs (sort_key fst m)"; cases "tl (values_pairs (sort_key fst m))")
      (auto simp: values_Encode_def)
  then have "\<forall>e \<in> set m. snd e = []" by (auto simp: values_pairs_def)
  with ok show "m = []" by (cases m) (auto simp: values_ok_def)
qed

lemma Get_Set: "values_Get (values_Set n v m) k = (if k = n then v else values_Get m k)"
  by (induction m) (auto simp: values_Set_def values_Del_def values_Get_def)

lemma Get_Del: "values_Get (values_Del n m) k = (if k = n then [] else values_Get m k)"
  by (induction m) (auto simp: values_Del_def values_Get_def)

lemma Set_Del_ok: "values_ok m \<Longrightarrow> values_ok (values_Set n v m)" "values_ok m \<Longrightarrow> values_ok (values_Del n m)"
  by (auto simp: values_ok_def values_Set_def values_Del_def distinct_map_filter)

lemma queryParam_of_values:
  assumes "CHR ''?'' \<notin> set p" and "values_ok m"
  shows "queryParam (if values_Encode m \<noteq> [] then p @ ''?'' @ values_Encode m else p) k = values_Get m k"
proof (cases "values_Encode m = []")
  case True
  with Encode_Nil [OF assms(2)] assms(1) show ?thesis
    by (simp add: queryParam_def splitQuery_plain TrimPrefix_def HasPrefix_def ParseQuery_def parse_piece_def)
next
  case False
  with assms Get_sort [OF assms(2)] show ?thesis
    by (simp add: queryParam_def splitQuery_path TrimPrefix_def HasPrefix_def ParseQuery_Encode)
qed

text \<open>
  Setting a query parameter is exact: in a path whose query parses, the parameter then has the
  given value (none if it is empty), every other parameter keeps its value, escaping included, and
  the path before the query is unchanged. This is what drops the routing model and substitutes the
  native cursor before a list request is forwarded.
\<close>

theorem setQueryParam_exact:
  assumes "\<not> snd (query_values path)"
  shows "queryParam (setQueryParam path n v) k = (if k = n then v else queryParam path k) \<and>
    fst (splitQuery (setQueryParam path n v)) = fst (splitQuery path)"
proof -
  obtain m where m: "query_values path = (m, False)" using assms by (cases "query_values path") auto
  then have ok: "values_ok m" using ParseQuery_ok [of "TrimPrefix (snd (splitQuery path)) ''?''"]
    by (simp add: query_values_def)
  obtain p q where pq: "splitQuery path = (p, q)" by fastforce
  then have p: "CHR ''?'' \<notin> set p" by (auto simp: splitQuery_eq dest: set_takeWhileD)
  have get: "queryParam path k = values_Get m k" for k
    using m by (simp add: queryParam_def query_values_def)
  show ?thesis
  proof (cases "v = [] \<and> map_of m n = None")
    case True
    then have "setQueryParam path n v = path" "values_Get m n = []"
      using m pq by (auto simp: setQueryParam_def query_values_def values_Get_def)
    with True get show ?thesis by simp
  next
    case False
    define m' where "m' = (if v = [] then values_Del n m else values_Set n v m)"
    have ok': "values_ok m'" using ok by (simp add: m'_def Set_Del_ok)
    have s: "setQueryParam path n v = (if values_Encode m' \<noteq> [] then p @ ''?'' @ values_Encode m' else p)"
      using False m pq by (auto simp: setQueryParam_def query_values_def m'_def Let_def)
    have "values_Get m' k = (if k = n then v else values_Get m k)" by (simp add: m'_def Get_Set Get_Del)
    with queryParam_of_values [OF p ok'] s get p pq show ?thesis
      by (simp add: splitQuery_path splitQuery_plain)
  qed
qed

theorem setQueryParam_exact_witness:
  "queryParam (setQueryParam ''/v1/files?after=x&model=m%20n'' ''after'' ''a&b'') ''after'' = ''a&b'' \<and>
   queryParam (setQueryParam ''/v1/files?after=x&model=m%20n'' ''after'' ''a&b'') ''model'' = ''m n''"
proof -
  have q: "\<not> snd (query_values ''/v1/files?after=x&model=m%20n'')" by code_simp
  have "queryParam ''/v1/files?after=x&model=m%20n'' ''model'' = ''m n''" by code_simp
  with setQueryParam_exact [OF q, of "''after''" "''a&b''"] show ?thesis by auto
qed

section \<open>The life of a file identifier\<close>

lemma HasPrefix_extend: "length p \<le> length s \<Longrightarrow> HasPrefix (s @ t) p = HasPrefix s p"
  by (simp add: HasPrefix_def)

lemma Index_extend: "Index (a @ p) p = Some (length a) \<Longrightarrow> Index (a @ p @ b) p = Some (length a)"
proof (induction a)
  case Nil
  then show ?case by (cases "p @ b"; cases p) (auto simp: HasPrefix_def)
next
  case (Cons x a)
  have "HasPrefix (x # a @ p @ b) p = HasPrefix (x # a @ p) p" using HasPrefix_extend [of p "x # a @ p" b] by simp
  with Cons show ?case by (auto split: if_splits)
qed

definition id_request :: "filesOperation \<Rightarrow> (string \<times> string) option" where
  "id_request op =
     (case op of
        filesOpRetrieve \<Rightarrow> Some (''GET'', [])
      | filesOpContent \<Rightarrow> Some (''GET'', ''/content'')
      | filesOpDelete \<Rightarrow> Some (''DELETE'', [])
      | _ \<Rightarrow> None)"

text \<open>A path prefix in front of the marker, such as a configured root prefix.\<close>

definition files_prefix :: "string \<Rightarrow> bool" where
  "files_prefix pfx = (CHR ''?'' \<notin> set pfx \<and> Index (pfx @ filesPathMarker) filesPathMarker = Some (length pfx))"

definition files_path :: "string \<Rightarrow> string \<Rightarrow> string \<Rightarrow> string" where
  "files_path pfx fid tail = pfx @ filesPathMarker @ ''/'' @ fid @ tail"

lemma files_path_split:
  assumes "files_prefix pfx" and "CHR ''?'' \<notin> set fid" and "id_request op = Some (meth, tail)"
  shows "splitQuery (files_path pfx fid tail) = (files_path pfx fid tail, [])"
    and "Index (files_path pfx fid tail) filesPathMarker = Some (length pfx)"
proof -
  have "CHR ''?'' \<notin> set tail" using assms(3) by (auto simp: id_request_def split: filesOperation.splits)
  with assms(1,2) show "splitQuery (files_path pfx fid tail) = (files_path pfx fid tail, [])"
    by (intro splitQuery_plain) (auto simp: files_path_def files_prefix_def filesPathMarker_def)
  show "Index (files_path pfx fid tail) filesPathMarker = Some (length pfx)"
    using assms(1) Index_extend [of pfx filesPathMarker "''/'' @ fid @ tail"] by (simp add: files_path_def files_prefix_def)
qed

lemma classify_files_path:
  assumes "files_prefix pfx" and "fid \<noteq> []" and "CHR ''?'' \<notin> set fid" and "CHR ''/'' \<notin> set fid"
    and "id_request op = Some (meth, tail)"
  shows "classifyFilesRequest meth (files_path pfx fid tail) = Inr (op, fid)"
proof -
  note fp = files_path_split [OF assms(1,3,5)]
  have d: "drop (length pfx + length filesPathMarker) (files_path pfx fid tail) = CHR ''/'' # fid @ tail"
    by (simp add: files_path_def)
  have split: "Split (fid @ tail) (CHR ''/'') = (if tail = [] then [fid] else [fid, ''content''])"
    using assms(4,5) by (auto simp: id_request_def Split_no_sep Split_append split: filesOperation.splits)
  show ?thesis
    using assms(2,5) unfolding classifyFilesRequest_def fp
    by (auto simp: d fp TrimPrefix_def HasPrefix_def split id_request_def Let_def split: filesOperation.splits)
qed

lemma rewritten_files_path:
  assumes "files_prefix pfx" and "CHR ''?'' \<notin> set fid" and "id_request op = Some (meth, tail)"
  shows "rewrittenPath (files_path pfx fid tail) op nativeID = files_path pfx nativeID tail"
proof -
  have "take (length pfx + length filesPathMarker) (files_path pfx fid tail) = pfx @ filesPathMarker"
    by (simp add: files_path_def)
  moreover have "tail = (if op = filesOpContent then ''/content'' else [])"
    using assms(3) by (auto simp: id_request_def split: filesOperation.splits)
  moreover have "rewrittenPath (files_path pfx fid tail) op nativeID =
    take (length pfx + length filesPathMarker) (files_path pfx fid tail) @ ''/'' @ nativeID @
    (if op = filesOpContent then ''/content'' else [])"
    by (simp add: rewrittenPath_def files_path_split [OF assms])
  ultimately show ?thesis by (simp only: files_path_def append_assoc)
qed

lemma gateway_id_chars:
  assumes "Encode c b = Inr gid" and "bid_Kind b = KindFile"
  shows "gid \<noteq> []" "CHR ''?'' \<notin> set gid" "CHR ''/'' \<notin> set gid"
proof -
  obtain raw where e: "gid = ''file-'' @ RawURLEncode raw"
    using assms by (auto simp: Encode_def prefixForKind_def filePrefix_def split: if_splits)
  have "CHR ''?'' \<notin> set b64_alphabet" "CHR ''/'' \<notin> set b64_alphabet" by code_simp+
  with e RawURLEncode_chars [of raw] show "gid \<noteq> []" "CHR ''?'' \<notin> set gid" "CHR ''/'' \<notin> set gid" by auto
qed

text \<open>What is used of the JSON library: the identifier that was set is the one that is read.\<close>

definition json_id_law :: "files_env \<Rightarrow> bool" where
  "json_id_law env = (\<forall>b g b'. fe_sjson_set_id env b g = Inr b' \<longrightarrow> fe_gjson_id env b' = g)"

definition owned_by :: "('h, 'p) filesProcessor \<Rightarrow> backendKey \<Rightarrow> string \<Rightarrow> BackendID" where
  "owned_by p b nativeID = \<lparr>bid_Namespace = fst b, bid_Name = snd b, bid_Kind = KindFile,
     bid_Model = fp_routingModel p, bid_NativeID = nativeID\<rparr>"

lemma response_shapes: "bodyMutationResponse x = bodyMutationResponse y \<longleftrightarrow> x = y"
  "filesReEncodeError m \<noteq> bodyMutationResponse x" "bodyMutationResponse x \<noteq> filesReEncodeError m"
  by (auto simp: bodyMutationResponse_def filesReEncodeError_def createUserFacingErrorResponse_def plain_response_def
      empty_common_def Let_def)

lemma translatedResponseBody_raw:
  "translatedResponseBody p raw kind = Inr (Inr (b, w)) \<Longrightarrow> fp_backend p = Some b \<and> w = raw"
  by (auto simp: translatedResponseBody_def ft_ResponseBody_def split: option.splits if_splits)

lemma translatedResponseBody_err:
  "translatedResponseBody p raw kind = Inr (Inl resp) \<Longrightarrow> \<exists>m. resp = filesReEncodeError m"
  by (auto simp: translatedResponseBody_def ft_ResponseBody_def split: option.splits if_splits)

lemma reEncodeResponse_body:
  assumes "json_id_law env" and "reEncodeResponse env p raw = Inr (bodyMutationResponse newBody)"
  shows "\<exists>b. fp_backend p = Some b \<and> Encode (fp_codec p) (owned_by p b (fe_gjson_id env raw)) = Inr (fe_gjson_id env newBody)"
proof -
  obtain b w where t: "translatedResponseBody p raw ''files response'' = Inr (Inr (b, w))"
    using assms(2) translatedResponseBody_err [of p raw "''files response''"]
    by (cases "translatedResponseBody p raw ''files response''")
       (auto simp: reEncodeResponse_def response_shapes split: sum.splits)
  note w = translatedResponseBody_raw [OF t]
  from assms(2) w obtain gw where gw: "encodeFileID p b (fe_gjson_id env raw) = Inr gw"
    "fe_sjson_set_id env raw gw = Inr newBody"
    by (auto simp: reEncodeResponse_def t response_shapes Let_def split: sum.splits if_splits)
  then have "fe_gjson_id env newBody = gw" using assms(1) by (simp add: json_id_law_def)
  with gw(1) w show ?thesis by (auto simp: encodeFileID_def owned_by_def)
qed

lemma owner_checked:
  assumes "files_SetBackend env backend rp = (rp', Inr ())"
  shows "\<exists>k. NamespaceAndNameFromBackendName (be_Name (rb_Backend backend)) = Some k \<and>
    (fp_decodedBackend rp = None \<or> fp_decodedBackend rp = Some k) \<and> fp_backend rp' = Some k \<and>
    routeRuleBackendCount (fe_ord env) (fp_config rp) (be_Name (rb_Backend backend)) \<le> 1"
  using assms
  by (cases "fp_decodedBackend rp") (auto simp: files_SetBackend_def Let_def split: if_splits option.splits sum.splits)

lemma decoded_id_request:
  assumes "Decode (fp_codec p) g = Inr d" and "bid_Kind d = KindFile"
  shows "\<exists>q hm. handleIDBearingRequestHeaders op g p = (q, requestHeadersResponse hm True) \<and>
    raw_header APPEND_IF_EXISTS_OR_ADD '':path''
      (rewrittenPath (mget (fp_requestHeaders p) '':path'') op (bid_NativeID d)) \<in> set (SetHeaders hm) \<and>
    (bid_Model d \<noteq> [] \<longrightarrow>
       raw_header APPEND_IF_EXISTS_OR_ADD ModelNameHeaderKeyDefault (bid_Model d) \<in> set (SetHeaders hm)) \<and>
    fp_op q = fp_op p \<and> fp_routingModel q = bid_Model d \<and> fp_decodedBackend q = Some (bid_Namespace d, bid_Name d)"
  using assms
  by (cases "bid_Model d = []")
     (simp_all add: handleIDBearingRequestHeaders_def routeByModel_def setHeader_def Let_def,
      (rule exI, rule conjI, rule refl, simp)+)

text \<open>
  C18. A file identifier leads back to its file. When the response to an upload (or to a request for
  one file) has been rewritten, a later request for the identifier that the client received, under
  any path prefix, is sent to the native identifier of the file, is routed by the model of the
  upload, and is only accepted by the backend that owns the file.
\<close>

theorem file_identifier_lifecycle:
  assumes "json_id_law env" and "codec_ok (fp_codec p)"
    and "fp_backend p = Some (ns, name)" and "label ns" and "CHR ''|'' \<notin> set ns \<union> set name"
    and "reEncodeResponse env p raw = Inr (bodyMutationResponse newBody)"
    and "fp_codec q = fp_codec p" and "\<not> fp_isUpstreamFilter q"
    and "files_prefix pfx" and "id_request op = Some (meth, tail)"
    and "mget (fp_requestHeaders q) '':method'' = meth"
    and "mget (fp_requestHeaders q) '':path'' = files_path pfx (fe_gjson_id env newBody) tail"
  shows "\<exists>q' hm. files_ProcessRequestHeaders None q = (q', Inr (requestHeadersResponse hm True)) \<and>
    raw_header APPEND_IF_EXISTS_OR_ADD '':path'' (files_path pfx (fe_gjson_id env raw) tail) \<in> set (SetHeaders hm) \<and>
    (fp_routingModel p \<noteq> [] \<longrightarrow>
       raw_header APPEND_IF_EXISTS_OR_ADD ModelNameHeaderKeyDefault (fp_routingModel p) \<in> set (SetHeaders hm)) \<and>
    fp_op q' = op \<and> fp_routingModel q' = fp_routingModel p \<and>
    (\<forall>backend q''. files_SetBackend env backend q' = (q'', Inr ()) \<longrightarrow>
       NamespaceAndNameFromBackendName (be_Name (rb_Backend backend)) = Some (ns, name))"
proof -
  let ?b = "owned_by p (ns, name) (fe_gjson_id env raw)" and ?g = "fe_gjson_id env newBody"
  have e: "Encode (fp_codec p) ?b = Inr ?g" using reEncodeResponse_body [OF assms(1,6)] assms(3) by auto
  then have "wf_id ?b" using assms(4,5)
    by (auto simp: Encode_def wf_id_def owned_by_def prefixForKind_def label_def Contains_char split: if_splits)
  with idc.handed_back [OF assms(2) _ e] have d: "Decode (fp_codec q) ?g = Inr ?b" by (simp add: assms(7))
  note g = gateway_id_chars [OF e]
  have kind: "bid_Kind ?b = KindFile" by (simp add: owned_by_def)
  have c: "classifyFilesRequest (mget (fp_requestHeaders q) '':method'') (mget (fp_requestHeaders q) '':path'') = Inr (op, ?g)"
    using classify_files_path [OF assms(9) g [OF kind] assms(10)] by (simp add: assms(11,12))
  have op: "op \<noteq> filesOpUpload" "op \<noteq> filesOpList" using assms(10) by (auto simp: id_request_def)
  define q1 where "q1 = q\<lparr>fp_op := op, fp_filesRequestMetadata := empty_files_request\<lparr>fr_Path := files_path pfx ?g tail,
    fr_Method := meth, fr_ContentType := mget (fp_requestHeaders q) ''content-type''\<rparr>\<rparr>"
  have "Decode (fp_codec q1) ?g = Inr ?b" using d by (simp add: q1_def)
  from decoded_id_request [OF this kind, of op] obtain q' hm
    where h: "handleIDBearingRequestHeaders op ?g q1 = (q', requestHeadersResponse hm True)"
      "raw_header APPEND_IF_EXISTS_OR_ADD '':path''
        (rewrittenPath (files_path pfx ?g tail) op (fe_gjson_id env raw)) \<in> set (SetHeaders hm)"
      "fp_routingModel p \<noteq> [] \<longrightarrow>
        raw_header APPEND_IF_EXISTS_OR_ADD ModelNameHeaderKeyDefault (fp_routingModel p) \<in> set (SetHeaders hm)"
      "fp_op q' = op" "fp_routingModel q' = fp_routingModel p" "fp_decodedBackend q' = Some (ns, name)"
    by (auto simp: q1_def owned_by_def assms(12))
  have r: "files_ProcessRequestHeaders None q = (q', Inr (requestHeadersResponse hm True))"
    using c op h(1) assms(8,11,12) by (cases op) (simp_all add: files_ProcessRequestHeaders_def q1_def Let_def)
  have path: "rewrittenPath (files_path pfx ?g tail) op (fe_gjson_id env raw) = files_path pfx (fe_gjson_id env raw) tail"
    by (rule rewritten_files_path [OF assms(9) g(2) [OF kind] assms(10)])
  have "NamespaceAndNameFromBackendName (be_Name (rb_Backend backend)) = Some (ns, name)"
    if "files_SetBackend env backend q' = (q'', Inr ())" for backend q''
    using owner_checked [OF that] h(6) by auto
  with r h(2-5) show ?thesis unfolding path by blast
qed

text \<open>A JSON library in which a file object is its identifier and a page is its only file.\<close>

definition single_page :: "string \<Rightarrow> FileListResponse" where
  "single_page b = \<lparr>fl_Data = Some [\<lparr>fo_ID = b, fo_rest = JNull\<rparr>], fl_Object = ''list'', fl_HasMore = False,
     fl_FirstID = b, fl_LastID = b\<rparr>"

definition toy_files_env :: files_env where
  "toy_files_env = \<lparr>fe_ParseMediaType = (\<lambda>_. None), fe_Parts = (\<lambda>_ _. ([], None)), fe_Writer = (\<lambda>_. Inr (\<lambda>_. [])),
     fe_gjson_id = (\<lambda>b. b), fe_sjson_set_id = (\<lambda>b g. Inr g),
     fe_UnmarshalList = (\<lambda>b. Inr (single_page b)),
     fe_MarshalList = (\<lambda>pg. if pg = single_page (fl_FirstID pg) then Inr (fl_FirstID pg) else Inl (errorf ''page'')), fe_ord = []\<rparr>"

definition sample_files :: "headers \<Rightarrow> (unit, unit) filesProcessor" where
  "sample_files hdrs = (NewFilesProcessorFactory toy_codec None hdrs False)
     \<lparr>fp_backend := Some (''ns'', ''b''), fp_routingModel := ''m''\<rparr>"

theorem file_identifier_lifecycle_witness:
  "\<exists>g q hm. reEncodeResponse toy_files_env (sample_files Map.empty) ''abc'' = Inr (bodyMutationResponse g) \<and>
     files_ProcessRequestHeaders None (sample_files ['':method'' \<mapsto> ''GET'', '':path'' \<mapsto> ''/v1/files/'' @ g @ ''/content'']) =
       (q, Inr (requestHeadersResponse hm True)) \<and>
     raw_header APPEND_IF_EXISTS_OR_ADD '':path'' ''/v1/files/abc/content'' \<in> set (SetHeaders hm)"
proof -
  obtain g where g: "Encode toy_codec (owned_by (sample_files Map.empty) (''ns'', ''b'') ''abc'') = Inr g"
    using Encode_wf [of "owned_by (sample_files Map.empty) (''ns'', ''b'') ''abc''" toy_codec]
    by (auto simp: wf_id_def owned_by_def sample_files_def)
  then have r: "reEncodeResponse toy_files_env (sample_files Map.empty) ''abc'' = Inr (bodyMutationResponse g)"
    by (simp add: reEncodeResponse_def translatedResponseBody_def sample_files_def NewFilesProcessorFactory_def
        toy_files_env_def encodeFileID_def owned_by_def)
  let ?q = "sample_files ['':method'' \<mapsto> ''GET'', '':path'' \<mapsto> ''/v1/files/'' @ g @ ''/content'']"
  have "json_id_law toy_files_env" "codec_ok (fp_codec (sample_files Map.empty))" "label ''ns''"
    "files_prefix []" "id_request filesOpContent = Some (''GET'', ''/content'')"
    "CHR ''|'' \<notin> set ''ns'' \<union> set ''b''" "fp_backend (sample_files Map.empty) = Some (''ns'', ''b'')"
    "fp_codec ?q = fp_codec (sample_files Map.empty)" "\<not> fp_isUpstreamFilter ?q"
    by (simp_all add: json_id_law_def toy_files_env_def codec_ok_def sample_files_def NewFilesProcessorFactory_def
        toy_codec_def toy_key_ok label_def files_prefix_def filesPathMarker_def HasPrefix_def id_request_def)
  note h = this
  have "fe_gjson_id toy_files_env g = g" by (simp add: toy_files_env_def)
  with file_identifier_lifecycle [OF h(1,2,7,3,6) r h(8,9,4,5)] r show ?thesis
    by (simp add: sample_files_def NewFilesProcessorFactory_def files_path_def filesPathMarker_def toy_files_env_def) blast
qed

section \<open>No native identifier reaches the client\<close>

definition json_list_law :: "files_env \<Rightarrow> bool" where
  "json_list_law env = (\<forall>pg b. fe_MarshalList env pg = Inr b \<longrightarrow> fe_UnmarshalList env b = Inr pg)"

definition issued :: "('h, 'p) filesProcessor \<Rightarrow> backendKey \<Rightarrow> string \<Rightarrow> string \<Rightarrow> bool" where
  "issued p b nativeID g = (if nativeID = [] then g = [] else Encode (fp_codec p) (owned_by p b nativeID) = Inr g)"

definition page_issued :: "('h, 'p) filesProcessor \<Rightarrow> backendKey \<Rightarrow> FileListResponse \<Rightarrow> FileListResponse \<Rightarrow> bool" where
  "page_issued p b pg pg' =
     (\<exists>d d'. fl_Data pg = Some d \<and> fl_Data pg' = Some d' \<and>
        list_all2 (\<lambda>x y. issued p b (fo_ID x) (fo_ID y) \<and> fo_rest y = fo_rest x) d d' \<and>
        issued p b (fl_FirstID pg) (fl_FirstID pg') \<and> issued p b (fl_LastID pg) (fl_LastID pg') \<and>
        fl_HasMore pg' = fl_HasMore pg \<and> fl_Object pg' = fl_Object pg)"

lemma encode_nonempty_issued: "encode_nonempty p b n = Inr g \<Longrightarrow> issued p b n g"
  by (auto simp: encode_nonempty_def issued_def encodeFileID_def owned_by_def split: if_splits)

lemma encode_objects_issued:
  "encode_objects p b d = Inr d' \<Longrightarrow> list_all2 (\<lambda>x y. issued p b (fo_ID x) (fo_ID y) \<and> fo_rest y = fo_rest x) d d'"
  by (induction d arbitrary: d') (auto simp: encode_nonempty_issued split: sum.splits)

lemma encode_page_issued: "fl_Data pg = Some d \<Longrightarrow> encode_page p b d pg = Inr pg' \<Longrightarrow> page_issued p b pg pg'"
  by (auto simp: encode_page_def page_issued_def encode_objects_issued encode_nonempty_issued split: sum.splits)

lemma reEncodeListResponse_result:
  assumes "json_list_law env" and "reEncodeListResponse env p raw = Inr resp"
  shows "(\<exists>m. resp = filesReEncodeError m) \<or>
    (\<exists>newBody b pg pg'. resp = bodyMutationResponse newBody \<and> fp_backend p = Some b \<and>
       fe_UnmarshalList env raw = Inr pg \<and> fe_UnmarshalList env newBody = Inr pg' \<and> page_issued p b pg pg')"
proof (cases "translatedResponseBody p raw ''files list response''")
  case (Inr t)
  show ?thesis
  proof (cases t)
    case (Inl e)
    with Inr translatedResponseBody_err [of p raw "''files list response''"] assms(2) show ?thesis
      by (auto simp: reEncodeListResponse_def)
  next
    case t: (Inr bw)
    obtain b where b: "bw = (b, raw)" "fp_backend p = Some b"
      using translatedResponseBody_raw [of p raw "''files list response''"] Inr t by (cases bw) auto
    show ?thesis
    proof (cases "\<exists>pg d pg' nb. fe_UnmarshalList env raw = Inr pg \<and> fl_Data pg = Some d \<and>
        encode_page p b d pg = Inr pg' \<and> fe_MarshalList env pg' = Inr nb")
      case True
      then obtain pg d pg' nb where u: "fe_UnmarshalList env raw = Inr pg" "fl_Data pg = Some d"
        "encode_page p b d pg = Inr pg'" "fe_MarshalList env pg' = Inr nb" by blast
      then have "resp = bodyMutationResponse nb" using assms(2) Inr t b by (simp add: reEncodeListResponse_def)
      with u b assms(1) encode_page_issued [OF u(2,3)] show ?thesis by (auto simp: json_list_law_def)
    next
      case False
      with assms(2) Inr t b show ?thesis
        by (auto simp: reEncodeListResponse_def split: sum.splits option.splits)
    qed
  qed
qed (use assms(2) in \<open>simp add: reEncodeListResponse_def\<close>)

lemma reEncodeResponse_result:
  assumes "json_id_law env" and "reEncodeResponse env p raw = Inr resp"
  shows "(\<exists>m. resp = filesReEncodeError m) \<or>
    (\<exists>newBody b. resp = bodyMutationResponse newBody \<and> fp_backend p = Some b \<and>
       issued p b (fe_gjson_id env raw) (fe_gjson_id env newBody) \<and> fe_gjson_id env raw \<noteq> [])"
proof (cases "\<exists>nb. resp = bodyMutationResponse nb")
  case True
  then obtain nb where nb: "resp = bodyMutationResponse nb" by blast
  with reEncodeResponse_body [OF assms(1)] assms(2) obtain b where b: "fp_backend p = Some b"
    "Encode (fp_codec p) (owned_by p b (fe_gjson_id env raw)) = Inr (fe_gjson_id env nb)" by blast
  then have "fe_gjson_id env raw \<noteq> []" by (auto simp: Encode_def owned_by_def split: sum.splits if_splits)
  with b nb show ?thesis by (auto simp: issued_def)
next
  case False
  with assms(2) translatedResponseBody_err [of p raw "''files response''"] show ?thesis
    by (auto simp: reEncodeResponse_def Let_def split: sum.splits if_splits)
qed

text \<open>
  C29. No native identifier reaches the client. A successful response to an upload, a list, a retrieval
  or a deletion is either answered by an error of the gateway, or every identifier in the body that
  is sent (of the file, of each file of a page, and of the cursors) is the one issued for the owning
  backend, the routing model and the native identifier, and nothing else of a page changes.
\<close>

theorem response_identifiers_issued:
  assumes "json_id_law env" and "json_list_law env"
    and "\<not> fp_isUpstreamFilter p" and "isSuccessResponse p" and "fp_op p \<noteq> filesOpContent"
    and "files_ProcessResponseBody env body p = Inr resp"
  shows "(\<exists>m. resp = filesReEncodeError m) \<or>
    (\<exists>newBody b. resp = bodyMutationResponse newBody \<and> fp_backend p = Some b \<and>
       (if fp_op p = filesOpList
        then \<exists>pg pg'. fe_UnmarshalList env (slice_bytes (hb_Body body)) = Inr pg \<and>
               fe_UnmarshalList env newBody = Inr pg' \<and> page_issued p b pg pg'
        else issued p b (fe_gjson_id env (slice_bytes (hb_Body body))) (fe_gjson_id env newBody) \<and>
             fe_gjson_id env newBody \<noteq> []))"
proof (cases "fp_op p = filesOpList")
  case True
  with assms(3,4,6) have "reEncodeListResponse env p (slice_bytes (hb_Body body)) = Inr resp"
    by (simp add: files_ProcessResponseBody_def)
  from reEncodeListResponse_result [OF assms(2) this] True show ?thesis by auto
next
  case False
  with assms(3-6) have r: "reEncodeResponse env p (slice_bytes (hb_Body body)) = Inr resp"
    by (cases "fp_op p") (simp_all add: files_ProcessResponseBody_def)
  have "issued p b n g \<Longrightarrow> n \<noteq> [] \<Longrightarrow> g \<noteq> []" for b n g
    using gateway_id_chars(1) [of "fp_codec p" "owned_by p b n" g] by (simp add: issued_def owned_by_def)
  with reEncodeResponse_result [OF assms(1) r] False show ?thesis by auto
qed

theorem response_identifiers_issued_witness:
  "\<exists>g. files_ProcessResponseBody toy_files_env \<lparr>hb_Body = Some ''abc'', hb_EndOfStream = True\<rparr>
         ((sample_files Map.empty)\<lparr>fp_op := filesOpRetrieve\<rparr>) = Inr (bodyMutationResponse g) \<and>
       issued (sample_files Map.empty) (''ns'', ''b'') ''abc'' g \<and> g \<noteq> []"
proof -
  let ?p = "(sample_files Map.empty)\<lparr>fp_op := filesOpRetrieve\<rparr>"
  let ?b = "\<lparr>hb_Body = Some ''abc'', hb_EndOfStream = True\<rparr>"
  obtain g where g: "Encode toy_codec (owned_by ?p (''ns'', ''b'') ''abc'') = Inr g"
    using Encode_wf [of "owned_by ?p (''ns'', ''b'') ''abc''" toy_codec] by (auto simp: wf_id_def owned_by_def sample_files_def)
  have r: "files_ProcessResponseBody toy_files_env ?b ?p = Inr (bodyMutationResponse g)"
    using g by (simp add: files_ProcessResponseBody_def isSuccessResponse_def reEncodeResponse_def translatedResponseBody_def
        sample_files_def NewFilesProcessorFactory_def toy_files_env_def encodeFileID_def owned_by_def)
  have "json_id_law toy_files_env" "isSuccessResponse ?p" "\<not> fp_isUpstreamFilter ?p" "fp_op ?p \<noteq> filesOpContent"
    by (simp_all add: json_id_law_def toy_files_env_def isSuccessResponse_def sample_files_def NewFilesProcessorFactory_def)
  note h = this
  have l: "json_list_law toy_files_env" by (auto simp: json_list_law_def toy_files_env_def split: if_splits)
  have "fp_op ?p \<noteq> filesOpList" "fp_backend ?p = Some (''ns'', ''b'')" "fe_gjson_id toy_files_env = (\<lambda>b. b)"
    by (simp_all add: sample_files_def toy_files_env_def)
  with response_identifiers_issued [OF h(1) l h(3,2,4) r]
  have "issued ?p (''ns'', ''b'') ''abc'' g \<and> g \<noteq> []" by (auto simp: response_shapes)
  with r show ?thesis by (auto simp: issued_def owned_by_def)
qed

section \<open>One backend per route rule\<close>

lemma Index_skip: "p \<noteq> [] \<Longrightarrow> hd p \<notin> set a \<Longrightarrow> Index (a @ s) p = map_option ((+) (length a)) (Index s p)"
proof (induction a)
  case Nil
  then show ?case by (cases "Index s p") auto
next
  case (Cons x a)
  then have "\<not> HasPrefix (x # a @ s) p" by (cases p) (auto simp: HasPrefix_def)
  with Cons show ?case by (cases "Index s p") auto
qed

lemma LastIndex_None: "p \<noteq> [] \<Longrightarrow> hd p \<notin> set s \<Longrightarrow> LastIndex s p = None"
  by (induction s; cases p) (auto simp: HasPrefix_def)

lemma LastIndex_ref: "CHR ''/'' \<notin> set d \<Longrightarrow> LastIndex (x @ ''/ref/'' @ d) ''/ref/'' = Some (length x)"
proof (induction x)
  case Nil
  then have "\<not> HasPrefix (CHR ''/'' # d) ''/ref/''" by (auto simp: HasPrefix_iff)
  with Nil show ?case using LastIndex_None [of "''/ref/''" d] by (simp add: HasPrefix_def)
qed simp

lemma routeRuleKey_backend_name:
  assumes "label ns" and "label n" and "n \<noteq> ''route''"
  shows "routeRuleKey (PerRouteRuleRefBackendName ns n r i j) = Some (''route/'' @ r @ ''/rule/'' @ Itoa i)"
proof -
  let ?key = "''route/'' @ r @ ''/rule/'' @ Itoa i" and ?ref = "''/ref/'' @ Itoa j"
  have first: "\<not> HasPrefix (CHR ''/'' # n @ ''/route/'' @ rest) ''/route/''" for rest
  proof
    assume "HasPrefix (CHR ''/'' # n @ ''/route/'' @ rest) ''/route/''"
    then obtain t where "n @ CHR ''/'' # (''route/'' @ rest) = ''route'' @ CHR ''/'' # t" by (auto simp: HasPrefix_iff)
    from arg_cong [OF this, of "takeWhile (\<lambda>x. x \<noteq> CHR ''/'')"] have "n = ''route''"
      using assms(2) takeWhile_neq_append [of "CHR ''/''" n "''route/'' @ rest"] by (simp add: label_def)
    with assms(3) show False by simp
  qed
  have "PerRouteRuleRefBackendName ns n r i j = ns @ (CHR ''/'' # n @ ''/'' @ ?key @ ?ref)"
    by (simp add: PerRouteRuleRefBackendName_def)
  moreover have "Index (n @ ''/'' @ ?key @ ?ref) ''/route/'' = Some (length n)"
    using assms(2) Index_append [of "''/route/''" n] by (simp add: label_def)
  ultimately have idx: "Index (PerRouteRuleRefBackendName ns n r i j) ''/route/'' = Some (length ns + Suc (length n))"
    using assms(1) first [of "r @ ''/rule/'' @ Itoa i @ ?ref"] Index_skip [of "''/route/''" ns] by (simp add: label_def)
  define key where "key = ?key"
  have d: "drop (length ns + Suc (length n) + 1) (PerRouteRuleRefBackendName ns n r i j) = key @ ?ref"
    by (simp add: PerRouteRuleRefBackendName_def key_def)
  have "CHR ''/'' \<notin> set (Itoa j)" using digit_set_Itoa by (fastforce simp: is_digit_def less_eq_char_def)
  then have "LastIndex (key @ ?ref) ''/ref/'' = Some (length key)" by (rule LastIndex_ref)
  then have "routeRuleKey (PerRouteRuleRefBackendName ns n r i j) = Some key"
    unfolding routeRuleKey_def idx by (simp only: d option.case Let_def) simp
  then show ?thesis by (simp only: key_def)
qed

lemma backend_name_parts: "label ns \<Longrightarrow> label n \<Longrightarrow> NamespaceAndNameFromBackendName (PerRouteRuleRefBackendName ns n r i j) = Some (ns, n)"
  using SplitN_backend_name [of ns n "''route/'' @ r @ ''/rule/'' @ Itoa i @ ''/ref/'' @ Itoa j"]
  by (simp add: NamespaceAndNameFromBackendName_def PerRouteRuleRefBackendName_def label_def)

text \<open>
  Routes of the same name in two namespaces disturb each other. The key by which the backends of
  a route rule are counted lacks the namespace of the route: if two routes of one name, in different
  namespaces, each have a rule with exactly one backend, then the Files request to either of them is
  rejected as if its rule had several backends.
\<close>

theorem same_named_routes_rejected:
  assumes "label ns" and "label ns'" and "ns \<noteq> ns'" and "label n" and "label n'"
    and "n \<noteq> ''route''" and "n' \<noteq> ''route''"
    and "fp_config rp = Some cfg" and "enumerates (fe_ord env) (rt_Backends cfg)"
    and "rt_Backends cfg = [PerRouteRuleRefBackendName ns n r i 0 \<mapsto> b, PerRouteRuleRefBackendName ns' n' r i 0 \<mapsto> b']"
    and "be_Name (rb_Backend b) = PerRouteRuleRefBackendName ns n r i 0"
  shows "\<exists>e. files_SetBackend env b rp = (rp, Inl e)"
proof -
  let ?x = "PerRouteRuleRefBackendName ns n r i 0" and ?y = "PerRouteRuleRefBackendName ns' n' r i 0"
  have ne: "?x \<noteq> ?y"
    using assms(1-5) backend_name_parts [of ns n r i 0] backend_name_parts [of ns' n' r i 0] by auto
  have "length (filter (\<lambda>other. routeRuleKey other = routeRuleKey ?x) (range_keys (fe_ord env) (rt_Backends cfg))) =
    card {other \<in> dom (rt_Backends cfg). routeRuleKey other = routeRuleKey ?x}"
    using set_range_keys [OF assms(9)] distinct_card [of "filter (\<lambda>other. routeRuleKey other = routeRuleKey ?x)
      (range_keys (fe_ord env) (rt_Backends cfg))"] by simp
  also have "{other \<in> dom (rt_Backends cfg). routeRuleKey other = routeRuleKey ?x} = {?x, ?y}"
    using routeRuleKey_backend_name [OF assms(1,4,6), of r i 0] routeRuleKey_backend_name [OF assms(2,5,7), of r i 0]
    by (auto simp: assms(10) split: if_splits)
  finally have "routeRuleBackendCount (fe_ord env) (fp_config rp) ?x = 2"
    using ne routeRuleKey_backend_name [OF assms(1,4,6), of r i 0] by (simp add: routeRuleBackendCount_def assms(8))
  then show ?thesis by (simp add: files_SetBackend_def assms(11))
qed

definition named_backend :: "string \<Rightarrow> unit RuntimeBackend" where
  "named_backend n = \<lparr>rb_Backend = sample_backend\<lparr>be_Name := n\<rparr>, rb_Handler = None\<rparr>"

definition two_routes :: "(unit, unit, codec) RuntimeConfig" where
  "two_routes = \<lparr>rt_UUID = [], rt_GlobalRequestCosts = [], rt_RequestCosts = [], rt_DeclaredModels = [],
     rt_ModelsByHost = Map.empty, rt_UnscopedModels = [],
     rt_Backends = [PerRouteRuleRefBackendName ''ns1'' ''b'' ''r'' 0 0 \<mapsto> named_backend (PerRouteRuleRefBackendName ''ns1'' ''b'' ''r'' 0 0),
                    PerRouteRuleRefBackendName ''ns2'' ''b'' ''r'' 0 0 \<mapsto> named_backend (PerRouteRuleRefBackendName ''ns2'' ''b'' ''r'' 0 0)],
     rt_FileIDCodec = None\<rparr>"

theorem same_named_routes_rejected_witness:
  "\<exists>e. snd (files_SetBackend (toy_files_env\<lparr>fe_ord := [PerRouteRuleRefBackendName ''ns1'' ''b'' ''r'' 0 0,
          PerRouteRuleRefBackendName ''ns2'' ''b'' ''r'' 0 0]\<rparr>)
        (named_backend (PerRouteRuleRefBackendName ''ns1'' ''b'' ''r'' 0 0))
        ((sample_files Map.empty)\<lparr>fp_config := Some two_routes\<rparr>)) = Inl e"
proof -
  let ?env = "toy_files_env\<lparr>fe_ord := [PerRouteRuleRefBackendName ''ns1'' ''b'' ''r'' 0 0,
    PerRouteRuleRefBackendName ''ns2'' ''b'' ''r'' 0 0]\<rparr>"
  let ?b = "named_backend (PerRouteRuleRefBackendName ''ns1'' ''b'' ''r'' 0 0)"
  have "enumerates (fe_ord ?env) (rt_Backends two_routes)" by (auto simp: enumerates_def two_routes_def split: if_splits)
  from same_named_routes_rejected [OF _ _ _ _ _ _ _ _ this, of "''ns1''" "''ns2''" "''b''" "''b''"
      "(sample_files Map.empty)\<lparr>fp_config := Some two_routes\<rparr>" "''r''" 0 ?b]
  obtain e where "files_SetBackend ?env ?b ((sample_files Map.empty)\<lparr>fp_config := Some two_routes\<rparr>) =
      ((sample_files Map.empty)\<lparr>fp_config := Some two_routes\<rparr>, Inl e)"
    by (auto simp: label_def two_routes_def named_backend_def)
  then show ?thesis by simp
qed

end
