(* ===== verification/Extproc_Server.thy ===== *)
theory Extproc_Server
  imports Extproc_Processor Models_Processor Redaction Files_Processor
begin

text \<open>
  \<^verbatim>\<open>internal/extproc/server.go\<close> and \<^verbatim>\<open>processor.go\<close>: the gRPC server
  that Envoy calls. Envoy opens one stream per request at the router filter and one per attempt at
  the upstream filter. The processors are shared objects: they live in a heap, a stream holds the
  address of its processor, the router processor that of the upstream processor of its last attempt,
  and that one the address of its parent. A step of the server handles what one stream receives; the
  generated UUID and the clock are arguments. The server serves only after the first configuration
  was loaded (\<^verbatim>\<open>cmd/extproc/mainlib\<close>), so the configuration is not nil. A panic is an
  error whose chain contains \<open>GoPanic\<close>. The debug log is an output of the step.
\<close>

section \<open>Processors\<close>

text \<open>
  The dynamic type of a router or upstream processor includes its endpoint specification, a number
  here; \<open>rp_eh\<close> is that of the router processor.
\<close>

datatype ('req, 'tr, 'h, 'p) processor =
    PassThrough
  | RouterP "('req, 'h, 'p, codec) routerProcessor" "nat option"
  | UpstreamP nat "('tr, 'h) upstreamProcessor" "nat option"
  | ModelsP openai_ModelList
  | AnthropicModelsP anthropic_ModelList
  | FilesP "('h, 'p) filesProcessor" "nat option"

type_synonym ('req, 'tr, 'h, 'p) heap = "nat \<Rightarrow> ('req, 'tr, 'h, 'p) processor option"

datatype factory = EndpointFactory nat | ModelsFactory | AnthropicModelsFactory | FilesFactory codec

record ('req, 'tr, 'h, 'p) server_env =
  se_proc :: "('req, 'tr, 'h, 'p) proc_env"
  se_files :: files_env
  se_metrics :: "nat \<Rightarrow> metricsImplFactory"
  se_MarshalModels :: "openai_ModelList \<Rightarrow> go_error + bytes"
  se_MarshalAnthropicModels :: "anthropic_ModelList \<Rightarrow> go_error + bytes"
  se_FormatRFC3339 :: "int \<Rightarrow> string"
  se_hosts :: "string list"
  se_sha :: "bytes \<Rightarrow> string"

definition nil_deref :: go_error where
  "nil_deref = GoError [GoPanic] ''nil pointer dereference''"

definition go_panic :: "string \<Rightarrow> go_error" where
  "go_panic msg = GoError [GoPanic] msg"

text \<open>\<open>NewFactory\<close> and the other factories, applied.\<close>

fun new_processor ::
  "('req, 'tr, 'h, 'p) server_env \<Rightarrow> factory \<Rightarrow> ('h, 'p, codec) RuntimeConfig \<Rightarrow> headers \<Rightarrow> bool \<Rightarrow> ('req, 'tr, 'h, 'p) processor" where
  "new_processor env (EndpointFactory e) config hdrs isUpstreamFilter =
     (if \<not> isUpstreamFilter then RouterP (newRouterProcessor e config hdrs) None
      else UpstreamP e (newUpstreamProcessor hdrs (NewMetrics (se_metrics env e))) None)"
| "new_processor env ModelsFactory config hdrs isUpstreamFilter =
     (case NewModelsProcessor (se_hosts env) config hdrs isUpstreamFilter of
        None \<Rightarrow> PassThrough
      | Some l \<Rightarrow> ModelsP l)"
| "new_processor env AnthropicModelsFactory config hdrs isUpstreamFilter =
     (case NewAnthropicModelsProcessor (se_FormatRFC3339 env) (se_hosts env) config hdrs isUpstreamFilter of
        None \<Rightarrow> PassThrough
      | Some l \<Rightarrow> AnthropicModelsP l)"
| "new_processor env (FilesFactory flagCodec) config hdrs isUpstreamFilter =
     FilesP (NewFilesProcessorFactory flagCodec (Some config) hdrs isUpstreamFilter) None"

section \<open>The methods of a processor\<close>

type_synonym ('req, 'tr, 'h, 'p) method_result =
  "('req, 'tr, 'h, 'p) heap \<times> (go_error + ProcessingResponse)"

text \<open>Calling a method of the upstream processor at address \<open>a\<close> with its parent.\<close>

definition with_upstream ::
  "(('req, 'h, 'p, codec) routerProcessor \<times> ('tr, 'h) upstreamProcessor \<Rightarrow>
    (('req, 'h, 'p, codec) routerProcessor \<times> ('tr, 'h) upstreamProcessor) \<times> (go_error + ProcessingResponse)) \<Rightarrow>
   ('req, 'tr, 'h, 'p) heap \<Rightarrow> nat \<Rightarrow> ('req, 'tr, 'h, 'p) method_result" where
  "with_upstream f hp a =
     (case hp a of
        Some (UpstreamP e u (Some ra)) \<Rightarrow>
          (case hp ra of
             Some (RouterP r up) \<Rightarrow>
               (let ((r', u'), res) = f (r, u)
                in (hp(ra \<mapsto> RouterP r' up, a \<mapsto> UpstreamP e u' (Some ra)), res))
           | _ \<Rightarrow> (hp, Inl nil_deref))
      | _ \<Rightarrow> (hp, Inl nil_deref))"

fun files_router :: "('req, 'tr, 'h, 'p) heap \<Rightarrow> nat option \<Rightarrow> ('h, 'p) filesProcessor option" where
  "files_router hp None = None"
| "files_router hp (Some ra) = (case hp ra of Some (FilesP rp _) \<Rightarrow> Some rp | _ \<Rightarrow> None)"

definition p_ProcessRequestHeaders ::
  "('req, 'tr, 'h, 'p) server_env \<Rightarrow> (nat \<Rightarrow> int) \<Rightarrow> metadata_ctx \<Rightarrow> ('req, 'tr, 'h, 'p) heap \<Rightarrow> nat \<Rightarrow>
   ('req, 'tr, 'h, 'p) method_result" where
  "p_ProcessRequestHeaders env clk md hp a =
     (case hp a of
        Some (UpstreamP e u parent) \<Rightarrow> with_upstream (upstream_ProcessRequestHeaders (se_proc env) clk md) hp a
      | Some (ModelsP l) \<Rightarrow> (hp, models_ProcessRequestHeaders (se_MarshalModels env) l)
      | Some (AnthropicModelsP l) \<Rightarrow> (hp, models_ProcessRequestHeaders (se_MarshalAnthropicModels env) l)
      | Some (FilesP p rp) \<Rightarrow>
          (let (p', res) = files_ProcessRequestHeaders (files_router hp rp) p in (hp(a \<mapsto> FilesP p' rp), res))
      | _ \<Rightarrow> (hp, Inr (plain_response (Response_RequestHeaders None))))"

definition p_ProcessRequestBody ::
  "('req, 'tr, 'h, 'p) server_env \<Rightarrow> HttpBody \<Rightarrow> ('req, 'tr, 'h, 'p) heap \<Rightarrow> nat \<Rightarrow> ('req, 'tr, 'h, 'p) method_result" where
  "p_ProcessRequestBody env body hp a =
     (case hp a of
        Some (RouterP r up) \<Rightarrow>
          (let (r', res) = router_ProcessRequestBody (se_proc env) body r in (hp(a \<mapsto> RouterP r' up), res))
      | Some (UpstreamP e u parent) \<Rightarrow>
          (hp, Inl (go_panic ''BUG: ProcessRequestBody should not be called in the upstream filter''))
      | Some (FilesP p rp) \<Rightarrow>
          (let (p', resp) = files_ProcessRequestBody (se_files env) body p in (hp(a \<mapsto> FilesP p' rp), Inr resp))
      | _ \<Rightarrow> (hp, Inr (plain_response (Response_RequestBody None))))"

definition p_ProcessResponseHeaders ::
  "('req, 'tr, 'h, 'p) server_env \<Rightarrow> (nat \<Rightarrow> int) \<Rightarrow> HeaderMap option \<Rightarrow> ('req, 'tr, 'h, 'p) heap \<Rightarrow> nat \<Rightarrow>
   ('req, 'tr, 'h, 'p) method_result" where
  "p_ProcessResponseHeaders env clk hs hp a =
     (case hp a of
        Some (RouterP r (Some ua)) \<Rightarrow> with_upstream (upstream_ProcessResponseHeaders (se_proc env) clk hs) hp ua
      | Some (UpstreamP e u parent) \<Rightarrow> with_upstream (upstream_ProcessResponseHeaders (se_proc env) clk hs) hp a
      | Some (FilesP p rp) \<Rightarrow>
          (let (p', res) = files_ProcessResponseHeaders hs p in (hp(a \<mapsto> FilesP p' rp), res))
      | _ \<Rightarrow> (hp, Inr (plain_response (Response_ResponseHeaders None))))"

definition p_ProcessResponseBody ::
  "('req, 'tr, 'h, 'p) server_env \<Rightarrow> (nat \<Rightarrow> int) \<Rightarrow> HttpBody \<Rightarrow> ('req, 'tr, 'h, 'p) heap \<Rightarrow> nat \<Rightarrow>
   ('req, 'tr, 'h, 'p) method_result" where
  "p_ProcessResponseBody env clk body hp a =
     (case hp a of
        Some (RouterP r (Some ua)) \<Rightarrow> with_upstream (upstream_ProcessResponseBody (se_proc env) clk body) hp ua
      | Some (UpstreamP e u parent) \<Rightarrow> with_upstream (upstream_ProcessResponseBody (se_proc env) clk body) hp a
      | Some (FilesP p rp) \<Rightarrow> (hp, files_ProcessResponseBody (se_files env) body p)
      | _ \<Rightarrow> (hp, Inr (plain_response (Response_ResponseBody None))))"

text \<open>\<open>SetBackend\<close> of the processor at \<open>a\<close> with the router processor at \<open>ra\<close>.\<close>

definition p_SetBackend ::
  "('req, 'tr, 'h, 'p) server_env \<Rightarrow> int \<Rightarrow> 'h RuntimeBackend \<Rightarrow> string \<Rightarrow> nat \<Rightarrow> ('req, 'tr, 'h, 'p) heap \<Rightarrow> nat \<Rightarrow>
   ('req, 'tr, 'h, 'p) heap \<times> (go_error + unit)" where
  "p_SetBackend env now backend routeName ra hp a =
     (case hp a of
        Some (UpstreamP e u parent) \<Rightarrow>
          (case hp ra of
             Some (RouterP r up) \<Rightarrow>
               if rp_eh r \<noteq> e then (hp, Inl (go_panic ''BUG: expected routeProcessor to be of type *routerProcessor''))
               else (let ((r', u'), res) = upstream_SetBackend (se_proc env) now backend routeName (r, u);
                         up' = (if res = Inr True then Some a else up)
                     in (hp(ra \<mapsto> RouterP r' up', a \<mapsto> UpstreamP e u' (Some ra)),
                         case res of Inl er \<Rightarrow> Inl er | Inr _ \<Rightarrow> Inr ()))
           | _ \<Rightarrow> (hp, Inl (go_panic ''BUG: expected routeProcessor to be of type *routerProcessor'')))
      | Some (FilesP p rp) \<Rightarrow>
          (case hp ra of
             Some (FilesP r rr) \<Rightarrow>
               (let (r', res) = files_SetBackend (se_files env) backend r
                in case res of
                     Inl er \<Rightarrow> (hp(ra \<mapsto> FilesP r' rr), Inl er)
                   | Inr _ \<Rightarrow> (hp(ra \<mapsto> FilesP r' rr, a \<mapsto> FilesP p (Some ra)), Inr ()))
           | _ \<Rightarrow> (hp, Inl (go_panic ''BUG: expected routeProcessor to be *filesProcessor'')))
      | _ \<Rightarrow> (hp, Inr ()))"

section \<open>The server\<close>

datatype log_entry =
    LogHeaders "header option list"
  | LogResponse "Response option"
  | LogRequest ProcessingRequest
  | LogRawHeaders "HeaderMap option"
  | LogFull ProcessingResponse

record ('req, 'tr, 'h, 'p) Server =
  sv_debugLogEnabled :: bool
  sv_enableRedaction :: bool
  sv_config :: "('h, 'p, codec) RuntimeConfig"
  sv_processorFactories :: "string \<Rightarrow> factory option"
  sv_prefixProcessorFactories :: "(string \<times> factory) list"
  sv_routerProcessorsPerReqID :: "string \<Rightarrow> nat option"
  sv_heap :: "('req, 'tr, 'h, 'p) heap"
  sv_next :: nat

definition NewServer :: "bool \<Rightarrow> bool \<Rightarrow> ('h, 'p, codec) RuntimeConfig \<Rightarrow> ('req, 'tr, 'h, 'p) Server" where
  "NewServer debugLogEnabled enableRedaction config =
     \<lparr>sv_debugLogEnabled = debugLogEnabled, sv_enableRedaction = enableRedaction, sv_config = config,
      sv_processorFactories = Map.empty, sv_prefixProcessorFactories = [], sv_routerProcessorsPerReqID = Map.empty,
      sv_heap = Map.empty, sv_next = 0\<rparr>"

definition LoadConfig ::
  "(Config \<Rightarrow> go_error + ('h, 'p, codec) RuntimeConfig) \<Rightarrow> Config \<Rightarrow> ('req, 'tr, 'h, 'p) Server \<Rightarrow>
   ('req, 'tr, 'h, 'p) Server \<times> go_error option" where
  "LoadConfig newRuntimeConfig config s =
     (case newRuntimeConfig config of
        Inl e \<Rightarrow> (s, Some (wrapf ''cannot create runtime filter config: '' e))
      | Inr newConfig \<Rightarrow> (s\<lparr>sv_config := newConfig\<rparr>, None))"

definition Register :: "string \<Rightarrow> factory \<Rightarrow> ('req, 'tr, 'h, 'p) Server \<Rightarrow> ('req, 'tr, 'h, 'p) Server" where
  "Register path f s = s\<lparr>sv_processorFactories := (sv_processorFactories s)(path \<mapsto> f)\<rparr>"

definition RegisterPrefix :: "string \<Rightarrow> factory \<Rightarrow> ('req, 'tr, 'h, 'p) Server \<Rightarrow> ('req, 'tr, 'h, 'p) Server" where
  "RegisterPrefix pfx f s = s\<lparr>sv_prefixProcessorFactories := sv_prefixProcessorFactories s @ [(pfx, f)]\<rparr>"

text \<open>The loop over the prefixes, with the best match so far and its length (-1 for none).\<close>

fun best_prefix :: "string \<Rightarrow> (string \<times> factory) list \<Rightarrow> factory option \<times> int \<Rightarrow> factory option \<times> int" where
  "best_prefix path [] best = best"
| "best_prefix path ((pfx, f) # pfs) best =
     best_prefix path pfs
       (if (path = pfx \<or> HasPrefix path (pfx @ ''/'')) \<and> int (length pfx) > snd best
        then (Some f, int (length pfx)) else best)"

definition lookup_path :: "headers \<Rightarrow> bool \<Rightarrow> string" where
  "lookup_path requestHeaders isUpstreamFilter =
     before_char (CHR ''?'') (mget requestHeaders (if isUpstreamFilter then OriginalPathHeader else '':path''))"

definition factory_for :: "('req, 'tr, 'h, 'p) Server \<Rightarrow> string \<Rightarrow> factory option" where
  "factory_for s path =
     (case sv_processorFactories s path of
        Some f \<Rightarrow> Some f
      | None \<Rightarrow> fst (best_prefix path (sv_prefixProcessorFactories s) (None, -1)))"

definition processorForPath ::
  "('req, 'tr, 'h, 'p) server_env \<Rightarrow> ('req, 'tr, 'h, 'p) Server \<Rightarrow> headers \<Rightarrow> bool \<Rightarrow> go_error + ('req, 'tr, 'h, 'p) processor" where
  "processorForPath env s requestHeaders isUpstreamFilter =
     (case factory_for s (lookup_path requestHeaders isUpstreamFilter) of
        Some f \<Rightarrow> Inr (new_processor env f (sv_config s) requestHeaders isUpstreamFilter)
      | None \<Rightarrow> Inl (GoError [ErrNoProcessor]
          (''no processor registered for the given path: '' @ lookup_path requestHeaders isUpstreamFilter)))"

definition internalReqIDHeader :: string where
  "internalReqIDHeader = EnvoyAIGatewayHeaderPrefix @ ''internal-req-id''"

section \<open>Backend selection\<close>

definition xds_metadata :: "string \<Rightarrow> string \<Rightarrow> string" where
  "xds_metadata source field = source @ ''.filter_metadata['' @ [CHR 0x27] @ ''aigateway.envoy.io'' @ [CHR 0x27] @ ''][''
     @ [CHR 0x27] @ field @ [CHR 0x27] @ '']''"

fun xds_key :: "xds_path \<Rightarrow> string" where
  "xds_key XDSClusterMetadataBackendNamePath = xds_metadata ''xds.cluster_metadata'' ''per_route_rule_backend_name''"
| "xds_key XDSUpstreamHostMetadataBackendNamePath = xds_metadata ''xds.upstream_host_metadata'' ''per_route_rule_backend_name''"
| "xds_key XDSUpstreamHostMetadataUpstreamHostPath = xds_metadata ''xds.upstream_host_metadata'' ''upstream_host''"
| "xds_key XDSRouteMetadataRouteNamePath = xds_metadata ''xds.route_metadata'' ''aigw_route_name''"

definition resolveBackendName :: "bool \<Rightarrow> pstruct \<Rightarrow> go_error + string" where
  "resolveBackendName isEndpointPicker attrs =
     (let backendNamePath = (if isEndpointPicker then xds_key XDSClusterMetadataBackendNamePath
                             else xds_key XDSUpstreamHostMetadataBackendNamePath) in
      case attrs backendNamePath of
        Some b \<Rightarrow> Inr (GetStringValue b)
      | None \<Rightarrow>
          (case (if \<not> isEndpointPicker then attrs (xds_key XDSClusterMetadataBackendNamePath) else None) of
             Some b \<Rightarrow> Inr (GetStringValue b)
           | None \<Rightarrow> Inl (errorf (''missing backend name in attributes at path: '' @ backendNamePath))))"

definition resolveRouteName :: "pstruct \<Rightarrow> string" where
  "resolveRouteName attrs =
     (case attrs (xds_key XDSRouteMetadataRouteNamePath) of Some v \<Rightarrow> GetStringValue v | None \<Rightarrow> [])"

definition setUpstreamHostAttributes :: "headers \<Rightarrow> pstruct option \<Rightarrow> headers" where
  "setUpstreamHostAttributes hdrs attributes =
     (let hdrs1 = mdel hdrs UpstreamHostHeader in
      case attributes of
        None \<Rightarrow> hdrs1
      | Some attrs \<Rightarrow>
          (case attrs (xds_key XDSUpstreamHostMetadataUpstreamHostPath) of
             Some v \<Rightarrow> if GetStringValue v \<noteq> [] then hdrs1(UpstreamHostHeader \<mapsto> GetStringValue v) else hdrs1
           | None \<Rightarrow> hdrs1))"

text \<open>An error with a gRPC status code; formatting another error into it keeps only that it was a panic.\<close>

definition status_error :: "string \<Rightarrow> string \<Rightarrow> go_error" where
  "status_error code msg = errorf (''rpc error: code = '' @ code @ '' desc = '' @ msg)"

definition status_wrap :: "string \<Rightarrow> string \<Rightarrow> go_error \<Rightarrow> go_error" where
  "status_wrap code msg e = GoError (filter ((=) GoPanic) (err_chain e)) (''rpc error: code = '' @ code @ '' desc = '' @ msg @ err_msg e)"

definition ext_proc_attributes :: "ProcessingRequest \<Rightarrow> pstruct option" where
  "ext_proc_attributes req = Option.bind (pq_Attributes req) (\<lambda>m. m ''envoy.filters.http.ext_proc'')"

definition setBackend ::
  "('req, 'tr, 'h, 'p) server_env \<Rightarrow> int \<Rightarrow> nat \<Rightarrow> string \<Rightarrow> bool \<Rightarrow> ProcessingRequest \<Rightarrow> ('req, 'tr, 'h, 'p) Server \<Rightarrow>
   ('req, 'tr, 'h, 'p) Server \<times> (go_error + unit)" where
  "setBackend env now a internalReqID isEndpointPicker req s =
     (case ext_proc_attributes req of
        None \<Rightarrow> (s, Inl (status_error ''Internal'' ''missing attributes in request''))
      | Some attrs \<Rightarrow>
          if attrs = Map.empty then (s, Inl (status_error ''Internal'' ''missing attributes in request''))
          else (case resolveBackendName isEndpointPicker attrs of
                  Inl e \<Rightarrow> (s, Inl (status_wrap ''Internal'' [] e))
                | Inr backendName \<Rightarrow>
                    (case rt_Backends (sv_config s) backendName of
                       None \<Rightarrow> (s, Inl (status_error ''Internal'' (''unknown backend: '' @ backendName)))
                     | Some backend \<Rightarrow>
                         (case sv_routerProcessorsPerReqID s internalReqID of
                            None \<Rightarrow> (s, Inl (status_error ''Internal'' (''no router processor found, request_id='' @
                                      internalReqID @ '', backend='' @ backendName)))
                          | Some ra \<Rightarrow>
                              (let (hp, res) = p_SetBackend env now backend (resolveRouteName attrs) ra (sv_heap s) a
                               in (s\<lparr>sv_heap := hp\<rparr>,
                                   case res of Inl e \<Rightarrow> Inl (status_wrap ''Internal'' ''cannot set backend: '' e) | Inr _ \<Rightarrow> Inr ()))))))"

section \<open>Messages\<close>

fun passThrough_response :: "Request \<Rightarrow> go_error + ProcessingResponse" where
  "passThrough_response (Request_RequestHeaders _) = Inr (plain_response (Response_RequestHeaders None))"
| "passThrough_response (Request_RequestBody _) = Inr (plain_response (Response_RequestBody None))"
| "passThrough_response (Request_ResponseHeaders _) = Inr (plain_response (Response_ResponseHeaders None))"
| "passThrough_response (Request_ResponseBody _) = Inr (plain_response (Response_ResponseBody None))"
| "passThrough_response Request_Other = Inl (errorf ''unknown request type'')"

text \<open>The call of the method for a message, with the text put in front of its error.\<close>

fun call_processor ::
  "('req, 'tr, 'h, 'p) server_env \<Rightarrow> (nat \<Rightarrow> int) \<Rightarrow> ProcessingRequest \<Rightarrow> Request \<Rightarrow> ('req, 'tr, 'h, 'p) heap \<Rightarrow> nat \<Rightarrow>
   string \<times> ('req, 'tr, 'h, 'p) method_result" where
  "call_processor env clk req (Request_RequestHeaders hs) hp a =
     (''cannot process request headers: '', p_ProcessRequestHeaders env clk (pq_MetadataContext req) hp a)"
| "call_processor env clk req (Request_RequestBody body) hp a =
     (''cannot process request body: '', p_ProcessRequestBody env body hp a)"
| "call_processor env clk req (Request_ResponseHeaders hs) hp a =
     (''cannot process response headers: '', p_ProcessResponseHeaders env clk hs hp a)"
| "call_processor env clk req (Request_ResponseBody body) hp a =
     (''cannot process response body: '', p_ProcessResponseBody env clk body hp a)"
| "call_processor env clk req Request_Other hp a = ([], hp, Inl (errorf ''unknown request type''))"

definition inject_reqid :: "string \<Rightarrow> ProcessingResponse \<Rightarrow> ProcessingResponse" where
  "inject_reqid internalReqID resp =
     (case pr_Response resp of
        Response_RequestHeaders c \<Rightarrow>
          (let c' = (case c of Some x \<Rightarrow> x | None \<Rightarrow> empty_common);
               m = (case cr_HeaderMutation c' of Some x \<Rightarrow> x | None \<Rightarrow> empty_mutation)
           in resp\<lparr>pr_Response := Response_RequestHeaders
                (Some (c'\<lparr>cr_HeaderMutation := Some (setHeader internalReqIDHeader internalReqID m)\<rparr>))\<rparr>)
      | _ \<Rightarrow> resp)"

definition log_before :: "('req, 'tr, 'h, 'p) Server \<Rightarrow> ProcessingRequest \<Rightarrow> log_entry list" where
  "log_before s req =
     (case pq_Request req of
        Request_RequestHeaders hs \<Rightarrow>
          if sv_debugLogEnabled s then [LogHeaders (filterSensitiveHeadersForLogging hs sensitiveHeaderKeys)] else []
      | Request_RequestBody _ \<Rightarrow> if sv_debugLogEnabled s \<and> \<not> sv_enableRedaction s then [LogRequest req] else []
      | Request_ResponseHeaders hs \<Rightarrow> if sv_debugLogEnabled s then [LogRawHeaders hs] else []
      | Request_ResponseBody _ \<Rightarrow> if sv_debugLogEnabled s \<and> \<not> sv_enableRedaction s then [LogRequest req] else []
      | Request_Other \<Rightarrow> [])"

definition log_after ::
  "('req, 'tr, 'h, 'p) server_env \<Rightarrow> ('req, 'tr, 'h, 'p) Server \<Rightarrow> ProcessingRequest \<Rightarrow> ProcessingResponse \<Rightarrow> log_entry list" where
  "log_after env s req resp =
     (if \<not> sv_debugLogEnabled s then []
      else case pq_Request req of
        Request_RequestHeaders _ \<Rightarrow>
          (case pr_Response resp of
             Response_RequestHeaders c \<Rightarrow>
               [LogResponse (Some (redactProcessingResponseRequestHeaders (se_sha env) c sensitiveHeaderKeys (sv_enableRedaction s)))]
           | Response_Immediate im \<Rightarrow> [LogResponse (Some (redactImmediateResponse im sensitiveHeaderKeys))]
           | _ \<Rightarrow> [LogResponse None])
      | Request_RequestBody _ \<Rightarrow>
          (case pr_Response resp of
             Response_RequestBody c \<Rightarrow>
               [LogResponse (Some (redactRequestBodyResponse (se_sha env) c sensitiveHeaderKeys (sv_enableRedaction s)))]
           | Response_Immediate im \<Rightarrow> [LogResponse (Some (redactImmediateResponse im sensitiveHeaderKeys))]
           | _ \<Rightarrow> [])
      | Request_ResponseHeaders _ \<Rightarrow> [LogFull resp]
      | Request_ResponseBody _ \<Rightarrow>
          if sv_enableRedaction s then
            (case pr_Response resp of
               Response_ResponseBody c \<Rightarrow> [LogResponse (Some (redactResponseBodyResponseFull (se_sha env) c sensitiveHeaderKeys))]
             | Response_Immediate im \<Rightarrow> [LogResponse (Some (redactImmediateResponse im sensitiveHeaderKeys))]
             | _ \<Rightarrow> [LogResponse None])
          else [LogFull resp]
      | Request_Other \<Rightarrow> [])"

fun is_request_headers :: "Request \<Rightarrow> bool" where
  "is_request_headers (Request_RequestHeaders _) = True"
| "is_request_headers _ = False"

definition processMsg ::
  "('req, 'tr, 'h, 'p) server_env \<Rightarrow> (nat \<Rightarrow> int) \<Rightarrow> nat option \<Rightarrow> ProcessingRequest \<Rightarrow> string \<Rightarrow> bool \<Rightarrow>
   ('req, 'tr, 'h, 'p) Server \<Rightarrow> ('req, 'tr, 'h, 'p) Server \<times> log_entry list \<times> (go_error + ProcessingResponse)" where
  "processMsg env clk pa req internalReqID isUpstreamFilter s =
     (let (pre, hp, res) = (case pa of
            None \<Rightarrow> ([], sv_heap s, passThrough_response (pq_Request req))
          | Some a \<Rightarrow> call_processor env clk req (pq_Request req) (sv_heap s) a);
          s1 = s\<lparr>sv_heap := hp\<rparr> in
      case res of
        Inl e \<Rightarrow> (s1, log_before s req, Inl (wrapf pre e))
      | Inr resp \<Rightarrow>
          (let resp' = (if is_request_headers (pq_Request req) \<and> \<not> isUpstreamFilter then inject_reqid internalReqID resp else resp)
           in (s1, log_before s req @ log_after env s req resp', Inr resp')))"

section \<open>Streams\<close>

text \<open>The local variables of \<open>Process\<close>; no address stands for the pass-through processor.\<close>

record stream =
  st_p :: "nat option"
  st_isUpstreamFilter :: bool
  st_internalReqID :: string

definition new_stream :: stream where
  "new_stream = \<lparr>st_p = None, st_isUpstreamFilter = False, st_internalReqID = []\<rparr>"

definition unsupported_path_response :: "string \<Rightarrow> ProcessingResponse" where
  "unsupported_path_response path = plain_response (Response_Immediate
     \<lparr>im_Status = 404, im_Headers = None, im_Body = ''unsupported path: '' @ path, im_GrpcStatus = 5, im_Details = []\<rparr>)"

text \<open>
  The handling of the request headers: the responses sent and the error returned, if any.
\<close>

definition choose_processor ::
  "('req, 'tr, 'h, 'p) server_env \<Rightarrow> int \<Rightarrow> headers \<Rightarrow> ProcessingRequest \<Rightarrow> ('req, 'tr, 'h, 'p) Server \<times> stream \<Rightarrow>
   ('req, 'tr, 'h, 'p) Server \<times> stream \<times> ProcessingResponse list \<times> go_error option" where
  "choose_processor env now headersMap req sst =
     (let (s, st) = sst in
      case processorForPath env s headersMap (st_isUpstreamFilter st) of
        Inl err \<Rightarrow>
          (let path = mget headersMap '':path'' in
           if errors_is err ErrNoProcessor
           then (s, st, [unsupported_path_response path], Some (status_error ''NotFound'' (''unsupported path: '' @ path)))
           else (s, st, [], Some (status_wrap ''NotFound'' [] err)))
      | Inr p \<Rightarrow>
          (let a = sv_next s;
               s1 = s\<lparr>sv_heap := (sv_heap s)(a \<mapsto> p), sv_next := Suc a\<rparr>;
               st1 = st\<lparr>st_p := Some a\<rparr> in
           if st_isUpstreamFilter st
           then (let (s2, res) = setBackend env now a (st_internalReqID st)
                       (headersMap EndpointPickerHeaderKey \<noteq> None) req s1
                 in (s2, st1, [], case res of
                       Inl e \<Rightarrow> Some (status_wrap ''Unknown'' ''error processing request message: '' e)
                     | Inr _ \<Rightarrow> None))
           else (s1\<lparr>sv_routerProcessorsPerReqID := (sv_routerProcessorsPerReqID s1)(st_internalReqID st \<mapsto> a)\<rparr>, st1, [], None)))"

definition handle_headers ::
  "('req, 'tr, 'h, 'p) server_env \<Rightarrow> string \<Rightarrow> int \<Rightarrow> HeaderMap \<Rightarrow> ProcessingRequest \<Rightarrow> ('req, 'tr, 'h, 'p) Server \<times> stream \<Rightarrow>
   ('req, 'tr, 'h, 'p) Server \<times> stream \<times> ProcessingResponse list \<times> go_error option" where
  "handle_headers env uuid now hs req sst =
     (let (s, st) = sst;
          headersMap = headersToMap (Some hs);
          originalReqID = mget headersMap ''x-request-id'';
          st1 = st\<lparr>st_isUpstreamFilter := pq_Attributes req \<noteq> None\<rparr> in
      if st_isUpstreamFilter st1 then
        (let st2 = st1\<lparr>st_internalReqID := mget headersMap internalReqIDHeader\<rparr> in
         if st_internalReqID st2 = []
         then (s, st2, [], Some (status_error ''Internal'' ''missing internal request ID header from router filter''))
         else choose_processor env now (setUpstreamHostAttributes headersMap (ext_proc_attributes req)) req (s, st2))
      else choose_processor env now headersMap req (s, st1\<lparr>st_internalReqID := originalReqID @ ''-'' @ uuid\<rparr>))"

datatype received = Msg ProcessingRequest | RecvEOF | RecvError string | CtxDone string

text \<open>
  What a step of a stream outputs: the responses sent, whether the method returned (with which
  error), and the debug log.
\<close>

record step_output =
  out_sent :: "ProcessingResponse list"
  out_return :: "go_error option option"
  out_log :: "log_entry list"

definition handle_message ::
  "('req, 'tr, 'h, 'p) server_env \<Rightarrow> (nat \<Rightarrow> int) \<Rightarrow> ProcessingRequest \<Rightarrow> ('req, 'tr, 'h, 'p) Server \<times> stream \<Rightarrow>
   ('req, 'tr, 'h, 'p) Server \<times> stream \<times> step_output" where
  "handle_message env clk req sst =
     (let (s, st) = sst;
          (s1, lg, res) = processMsg env clk (st_p st) req (st_internalReqID st) (st_isUpstreamFilter st) s
      in case res of
           Inl e \<Rightarrow> (s1, st, \<lparr>out_sent = [],
              out_return = Some (Some (status_wrap ''Unknown'' ''error processing request message: '' e)), out_log = lg\<rparr>)
         | Inr resp \<Rightarrow> (s1, st, \<lparr>out_sent = [resp], out_return = None, out_log = lg\<rparr>))"

fun stream_body ::
  "('req, 'tr, 'h, 'p) server_env \<Rightarrow> string \<Rightarrow> (nat \<Rightarrow> int) \<Rightarrow> received \<Rightarrow> ('req, 'tr, 'h, 'p) Server \<times> stream \<Rightarrow>
   ('req, 'tr, 'h, 'p) Server \<times> stream \<times> step_output" where
  "stream_body env uuid clk (CtxDone e) sst =
     (fst sst, snd sst, \<lparr>out_sent = [], out_return = Some (Some (errorf e)), out_log = []\<rparr>)"
| "stream_body env uuid clk RecvEOF sst = (fst sst, snd sst, \<lparr>out_sent = [], out_return = Some None, out_log = []\<rparr>)"
| "stream_body env uuid clk (RecvError e) sst =
     (fst sst, snd sst, \<lparr>out_sent = [], out_return = Some (Some (status_error ''Unknown'' (''cannot receive stream request: '' @ e))),
        out_log = []\<rparr>)"
| "stream_body env uuid clk (Msg req) sst =
     (case pq_Request req of
        Request_RequestHeaders (Some hs) \<Rightarrow>
          (let (s, st, sent, err) = handle_headers env uuid (clk 3) hs req sst in
           case err of
             Some e \<Rightarrow> (s, st, \<lparr>out_sent = sent, out_return = Some (Some e), out_log = []\<rparr>)
           | None \<Rightarrow> handle_message env clk req (s, st))
      | _ \<Rightarrow> handle_message env clk req sst)"

text \<open>One iteration of the loop of \<open>Process\<close>, with its deferred function when it returns.\<close>

definition Process_step ::
  "('req, 'tr, 'h, 'p) server_env \<Rightarrow> string \<Rightarrow> (nat \<Rightarrow> int) \<Rightarrow> received \<Rightarrow> ('req, 'tr, 'h, 'p) Server \<times> stream \<Rightarrow>
   ('req, 'tr, 'h, 'p) Server \<times> stream \<times> step_output" where
  "Process_step env uuid clk ev sst =
     (let (s, st, out) = stream_body env uuid clk ev sst in
      (if out_return out \<noteq> None \<and> \<not> st_isUpstreamFilter st
       then s\<lparr>sv_routerProcessorsPerReqID := mdel (sv_routerProcessorsPerReqID s) (st_internalReqID st)\<rparr> else s,
       st, out))"

section \<open>Health\<close>

datatype health = SERVING

definition Check :: "go_error + health" where
  "Check = Inr SERVING"

definition Watch :: "go_error + unit" where
  "Watch = Inl (status_error ''Unimplemented'' ''Watch is not implemented'')"

definition health_List :: "go_error + (string \<times> health) list" where
  "health_List = Inr [(''extproc'', SERVING)]"

end
