(* ===== verification/Server_Invariant.thy ===== *)
theory Server_Invariant
  imports Extproc_Server Processor_Correctness
begin

text \<open>
  The invariant of the server: the shared processors are well formed and the registry of router
  processors agrees with the live streams, under any interleaving of the steps of streams. The heap
  is abstracted to the kinds of its processors, which the methods of the processors keep.
\<close>

section \<open>What the methods keep\<close>

text \<open>
  The methods of a processor change neither its dynamic type nor whether its translator is set.
\<close>

definition keeps ::
  "('req, 'h, 'p, 'c) routerProcessor \<times> ('tr, 'h) upstreamProcessor \<Rightarrow>
   ('req, 'h, 'p, 'c) routerProcessor \<times> ('tr, 'h) upstreamProcessor \<Rightarrow> bool" where
  "keeps ru ru' = (rp_eh (fst ru') = rp_eh (fst ru) \<and> (up_translator (snd ru') = None \<longleftrightarrow> up_translator (snd ru) = None))"

lemma apply_header_mutator_translator [simp]: "up_translator (fst (apply_header_mutator env b hm u)) = up_translator u"
  by (simp add: apply_header_mutator_def split: option.split prod.split)

lemma upstream_prepare_translator [simp]: "up_translator (fst (upstream_prepare env f nh nb r u)) = up_translator u"
  by (simp add: upstream_prepare_def mutationsFromTranslationResult_def Let_def split_beta)

lemma upstream_send_keeps: "keeps ru (fst (upstream_send env clk md f nh nb ru))"
proof -
  obtain r u where ru: "ru = (r, u)" by fastforce
  obtain u2 hm bm w where prep: "upstream_prepare env f nh nb r u = (u2, hm, bm, w)" by (metis prod_cases4)
  then have t: "up_translator u2 = up_translator u" using upstream_prepare_translator [of env f nh nb r u] by simp
  show ?thesis
  proof (cases "up_handler u2")
    case None
    with prep t show ?thesis by (simp add: ru keeps_def upstream_send_def)
  next
    case (Some h)
    obtain hdrs' x where d: "pe_Do env (clk 1) h md (up_requestHeaders u2) (GetBody (Some bm)) = (hdrs', x)" by force
    show ?thesis
    proof (cases x)
      case (Inl err)
      with prep t Some d show ?thesis
        by (cases "errors_is err ErrCredentialMissing")
           (simp_all add: ru keeps_def upstream_send_def respondLocally_result Let_def)
    next
      case (Inr hdrs)
      with prep t Some d show ?thesis by (simp add: ru keeps_def upstream_send_def Let_def)
    qed
  qed
qed

lemma keeps_trans: "keeps a b \<Longrightarrow> keeps b c \<Longrightarrow> keeps a c"
  by (simp add: keeps_def)

lemma upstream_translate_keeps: "keeps ru (fst (upstream_translate env clk md ru))"
proof -
  obtain r u where ru: "ru = (r, u)" by fastforce
  show ?thesis
  proof (cases "up_translator u")
    case None
    then show ?thesis by (simp add: ru keeps_def upstream_translate_def)
  next
    case (Some t)
    obtain t' x where t: "tr_RequestBody (pe_translator env) t (rp_originalRequestBodyRaw r) (rp_originalRequestBody r)
        (onRetry r \<or> rp_forceBodyMutation r) = (t', x)" by force
    show ?thesis
    proof (cases x)
      case (Inl err)
      with Some t show ?thesis
        by (cases "GetUserFacingError err") (auto simp: ru keeps_def upstream_translate_def respondLocally_result)
    next
      case (Inr y)
      obtain nh nb where y: "y = (nh, nb)" by force
      have e: "upstream_translate env clk md ru = upstream_send env clk md (onRetry r \<or> rp_forceBodyMutation r) nh nb
          (r, u\<lparr>up_translator := Some t'\<rparr>)"
        using Some t Inr y by (simp add: ru upstream_translate_def)
      have "keeps ru (r, u\<lparr>up_translator := Some t'\<rparr>)" using Some by (simp add: ru keeps_def)
      then show ?thesis unfolding e using upstream_send_keeps keeps_trans by blast
    qed
  qed
qed

lemma defer_completion_keeps: "keeps ru (fst x) \<Longrightarrow> keeps ru (fst (defer_completion env now x))"
  by (auto simp: keeps_def defer_completion_def split: prod.splits sum.splits)

lemma upstream_ProcessRequestHeaders_keeps: "keeps ru (fst (upstream_ProcessRequestHeaders env clk md ru))"
proof -
  obtain r u where ru: "ru = (r, u)" by fastforce
  let ?u = "start_metrics (clk 0) r u"
  have k: "keeps ru (r, ?u)" by (simp add: ru keeps_def start_metrics_def Let_def)
  show ?thesis
  proof (cases "up_unsupportedBackendErr ?u")
    case None
    have "keeps ru (fst (upstream_translate env clk md (r, ?u)))"
      using k upstream_translate_keeps keeps_trans by blast
    with None show ?thesis
      unfolding upstream_ProcessRequestHeaders_def ru Let_def by (simp add: defer_completion_keeps)
  next
    case (Some e)
    with k show ?thesis
      unfolding upstream_ProcessRequestHeaders_def ru Let_def
      by (simp add: respondLocally_result keeps_def defer_completion_def)
  qed
qed

lemma upstream_ProcessResponseHeaders_keeps: "keeps ru (fst (upstream_ProcessResponseHeaders env clk hs ru))"
proof -
  obtain r u where ru: "ru = (r, u)" by fastforce
  show ?thesis
  proof (cases "rp_localReplyEmitted r")
    case True
    then show ?thesis by (simp add: ru keeps_def upstream_ProcessResponseHeaders_def)
  next
    case False
    then show ?thesis
      unfolding ru upstream_ProcessResponseHeaders_def Let_def
      by (simp add: keeps_def defer_completion_def split: option.split prod.split sum.split)
  qed
qed

lemma record_tokens_of_body_translator [simp]: "up_translator (record_tokens_of_body env now st eos u) = up_translator u"
  by (simp add: record_tokens_of_body_def Let_def)

lemma upstream_ok_body_keeps:
  "upstream_ok_body env clk code b d t (r, u) = (flag, ru', res) \<Longrightarrow> rp_eh (fst ru') = rp_eh r \<and> up_translator (snd ru') \<noteq> None"
proof -
  assume a: "upstream_ok_body env clk code b d t (r, u) = (flag, ru', res)"
  obtain t' td where t: "tr_ResponseBody (pe_translator env) t (up_responseHeaders u) (cd_reader d)
      (hb_EndOfStream b) (rp_span r \<noteq> None) = (t', td)" by force
  obtain hm bm where hb: "mutationsFromTranslationResult (td_headers td) (td_body td) = (hm, bm)" by force
  show ?thesis
    using a t hb by (cases "td_err td") (auto simp: upstream_ok_body_def Let_def split: if_splits sum.splits)
qed

lemma upstream_error_body_keeps:
  "upstream_error_body env code b d t (r, u) = (flag, ru', res) \<Longrightarrow> rp_eh (fst ru') = rp_eh r \<and> up_translator (snd ru') \<noteq> None"
  by (auto simp: upstream_error_body_def Let_def split: prod.splits sum.splits)

lemma defer_body_completion_keeps:
  "keeps ru ru' \<Longrightarrow> keeps ru (fst (defer_body_completion env now eos (flag, ru', res)))"
  by (cases ru') (auto simp: keeps_def defer_body_completion_def)

lemma upstream_ProcessResponseBody_keeps: "keeps ru (fst (upstream_ProcessResponseBody env clk b ru))"
proof -
  obtain r u where ru: "ru = (r, u)" by fastforce
  obtain u1 d where d: "decode_body env (rp_stream r) b u = (u1, d)" by force
  note u1 = decode_body_simps [OF d]
  have k1: "keeps ru (r, u1)" using u1 by (simp add: ru keeps_def)
  have "\<exists>flag ru' res. keeps ru ru' \<and> (case d of
           Inl err \<Rightarrow> (False, (r, u1), Inl err)
         | Inr dr \<Rightarrow>
             (let code = fst (Atoi (mget (up_responseHeaders u1) '':status'')) in
              case up_translator u1 of
                None \<Rightarrow> (False, (r, u1), Inl (GoError [GoPanic] ''nil pointer dereference''))
              | Some t \<Rightarrow>
                  if \<not> isGoodStatusCode code then upstream_error_body env code b dr t (r, u1)
                  else upstream_ok_body env clk code b dr t (r, u1))) = (flag, ru', res)"
  proof (cases "isl d \<or> up_translator u1 = None")
    case True
    with k1 show ?thesis by (auto split: sum.splits)
  next
    case False
    then obtain dr t where dt: "d = Inr dr" "up_translator u1 = Some t" by (cases d) auto
    let ?code = "fst (Atoi (mget (up_responseHeaders u1) '':status''))"
    obtain flag ru' res where x: "(if \<not> isGoodStatusCode ?code then upstream_error_body env ?code b dr t (r, u1)
        else upstream_ok_body env clk ?code b dr t (r, u1)) = (flag, ru', res)" by (metis surj_pair)
    then have "rp_eh (fst ru') = rp_eh r \<and> up_translator (snd ru') \<noteq> None"
      using upstream_ok_body_keeps [of env clk ?code b dr t r u1] upstream_error_body_keeps [of env ?code b dr t r u1]
      by (cases "isGoodStatusCode ?code") simp_all
    then have "keeps ru ru'" using dt(2) u1 by (simp add: ru keeps_def)
    with x dt show ?thesis by (cases ru') (simp add: Let_def)
  qed
  then show ?thesis
    using d k1 by (auto simp: ru upstream_ProcessResponseBody_def defer_body_completion_keeps keeps_def [of "(r, u)" "(r, u)"])
qed

lemma router_ProcessRequestBody_eh [simp]: "rp_eh (fst (router_ProcessRequestBody env body r)) = rp_eh r"
  by (simp add: router_ProcessRequestBody_def Let_def split: sum.split option.split prod.split)

lemma upstream_SetBackend_result:
  assumes "upstream_SetBackend env now b rn (r, u) = ((r', u'), res)"
  shows "rp_eh r' = rp_eh r \<and> (up_translator u' \<noteq> None \<longleftrightarrow> res = Inr True) \<and>
    (res = Inr False \<longrightarrow> up_unsupportedBackendErr u' \<noteq> None)"
  using assms
  by (auto simp: upstream_SetBackend_def defer_completion_def Let_def split: sum.splits option.splits prod.splits)

section \<open>Well-formed heaps\<close>

text \<open>The kind of a processor: its dynamic type, the address it holds, and whether its translator is set.\<close>

datatype kind = KPass | KRouter nat "nat option" | KUpstream nat "nat option" bool | KModels | KFiles "nat option"

fun kind_of :: "('req, 'tr, 'h, 'p) processor \<Rightarrow> kind" where
  "kind_of PassThrough = KPass"
| "kind_of (RouterP r up) = KRouter (rp_eh r) up"
| "kind_of (UpstreamP e u parent) = KUpstream e parent (up_translator u \<noteq> None)"
| "kind_of (ModelsP l) = KModels"
| "kind_of (AnthropicModelsP l) = KModels"
| "kind_of (FilesP p rp) = KFiles rp"

definition kinds :: "('req, 'tr, 'h, 'p) heap \<Rightarrow> nat \<Rightarrow> kind option" where
  "kinds hp a = map_option kind_of (hp a)"

lemma kinds_upd [simp]: "kinds (hp(a \<mapsto> p)) = (kinds hp)(a \<mapsto> kind_of p)"
  by (auto simp: kinds_def)

lemma kinds_same:
  "hp a = Some (FilesP p rp) \<Longrightarrow> (kinds hp)(a \<mapsto> KFiles rp) = kinds hp"
  "hp a = Some (RouterP r up) \<Longrightarrow> (kinds hp)(a \<mapsto> KRouter (rp_eh r) up) = kinds hp"
  by (auto simp: kinds_def)

lemma kinds_Some: "kinds hp a = Some k \<Longrightarrow> \<exists>p. hp a = Some p \<and> kind_of p = k"
  by (auto simp: kinds_def)

lemma with_upstream_kinds:
  assumes "\<And>ru. keeps ru (fst (f ru))"
  shows "kinds (fst (with_upstream f hp a)) = kinds hp"
proof (cases "\<exists>e u ra r up. hp a = Some (UpstreamP e u (Some ra)) \<and> hp ra = Some (RouterP r up)")
  case True
  then obtain e u ra r up where h: "hp a = Some (UpstreamP e u (Some ra))" "hp ra = Some (RouterP r up)" by blast
  obtain r' u' res where f: "f (r, u) = ((r', u'), res)" by (metis surj_pair)
  have "rp_eh r' = rp_eh r" "up_translator u' = None \<longleftrightarrow> up_translator u = None"
    using assms [of "(r, u)"] f by (simp_all add: keeps_def)
  with h f show ?thesis by (auto simp: with_upstream_def kinds_def)
next
  case False
  then show ?thesis by (auto simp: with_upstream_def split: option.splits processor.splits)
qed

lemma call_processor_kinds: "kinds (fst (snd (call_processor env clk req q hp a))) = kinds hp"
proof (cases q)
  case (Request_RequestHeaders hs)
  then show ?thesis
    using with_upstream_kinds [OF upstream_ProcessRequestHeaders_keeps]
    by (auto simp: p_ProcessRequestHeaders_def Let_def kinds_same split: option.split processor.split prod.split)
next
  case (Request_RequestBody body)
  then show ?thesis
    by (auto simp: p_ProcessRequestBody_def split_beta kinds_same split: option.split processor.split)
next
  case (Request_ResponseHeaders hs)
  then show ?thesis
    using with_upstream_kinds [OF upstream_ProcessResponseHeaders_keeps]
    by (auto simp: p_ProcessResponseHeaders_def Let_def kinds_same split: option.split processor.split prod.split)
next
  case (Request_ResponseBody body)
  then show ?thesis
    using with_upstream_kinds [OF upstream_ProcessResponseBody_keeps]
    by (auto simp: p_ProcessResponseBody_def split: option.split processor.split)
qed simp

definition wf_kinds :: "(nat \<Rightarrow> kind option) \<Rightarrow> bool" where
  "wf_kinds k =
     ((\<forall>a e ua. k a = Some (KRouter e (Some ua)) \<longrightarrow> k ua = Some (KUpstream e (Some a) True)) \<and>
      (\<forall>a e ra t. k a = Some (KUpstream e (Some ra) t) \<longrightarrow> (\<exists>up. k ra = Some (KRouter e up))) \<and>
      (\<forall>a ra. k a = Some (KFiles (Some ra)) \<longrightarrow> (\<exists>rr. k ra = Some (KFiles rr))))"

text \<open>The kind a factory creates holds no address.\<close>

fun rootless :: "kind \<Rightarrow> bool" where
  "rootless (KRouter e up) = (up = None)"
| "rootless (KUpstream e parent t) = (parent = None \<and> \<not> t)"
| "rootless (KFiles rp) = (rp = None)"
| "rootless _ = True"

lemma new_processor_rootless: "rootless (kind_of (new_processor env f config hdrs up))"
  by (cases f) (auto simp: newUpstreamProcessor_def split: option.split)

lemma wf_kinds_alloc: "wf_kinds k \<Longrightarrow> k a = None \<Longrightarrow> rootless x \<Longrightarrow> wf_kinds (k(a \<mapsto> x))"
  unfolding wf_kinds_def by (cases x) (simp_all, (metis option.distinct(1))+)

lemma wf_kinds_pair:
  assumes "wf_kinds k" and "k ra = Some (KRouter e up)" and "k a = Some (KUpstream e None False)"
  shows "wf_kinds (k(ra \<mapsto> KRouter e (if t then Some a else up), a \<mapsto> KUpstream e (Some ra) t))"
proof -
  have ne: "a \<noteq> ra" using assms by auto
  have r: "k c = Some (KRouter f (Some ua)) \<Longrightarrow> k ua = Some (KUpstream f (Some c) True)" for c f ua
    using assms(1) by (simp add: wf_kinds_def)
  have u: "k c = Some (KUpstream f (Some rc) b) \<Longrightarrow> \<exists>up. k rc = Some (KRouter f up)" for c f rc b
    using assms(1) unfolding wf_kinds_def by blast
  have f: "k c = Some (KFiles (Some rc)) \<Longrightarrow> \<exists>rr. k rc = Some (KFiles rr)" for c rc
    using assms(1) unfolding wf_kinds_def by blast
  show ?thesis
    unfolding wf_kinds_def
  proof (intro conjI allI impI)
    fix c f ua
    assume "(k(ra \<mapsto> KRouter e (if t then Some a else up), a \<mapsto> KUpstream e (Some ra) t)) c = Some (KRouter f (Some ua))"
    then show "(k(ra \<mapsto> KRouter e (if t then Some a else up), a \<mapsto> KUpstream e (Some ra) t)) ua = Some (KUpstream f (Some c) True)"
      using ne r [of c f ua] r [of ra e ua] assms(2,3) by (auto split: if_splits)
  next
    fix c f rc b
    assume "(k(ra \<mapsto> KRouter e (if t then Some a else up), a \<mapsto> KUpstream e (Some ra) t)) c = Some (KUpstream f (Some rc) b)"
    then show "\<exists>up'. (k(ra \<mapsto> KRouter e (if t then Some a else up), a \<mapsto> KUpstream e (Some ra) t)) rc = Some (KRouter f up')"
      using ne u [of c f rc b] assms(2,3) by (auto split: if_splits)
  next
    fix c rc
    assume "(k(ra \<mapsto> KRouter e (if t then Some a else up), a \<mapsto> KUpstream e (Some ra) t)) c = Some (KFiles (Some rc))"
    then show "\<exists>rr. (k(ra \<mapsto> KRouter e (if t then Some a else up), a \<mapsto> KUpstream e (Some ra) t)) rc = Some (KFiles rr)"
      using ne f [of c rc] assms(2,3) by (auto split: if_splits)
  qed
qed

lemma wf_kinds_files:
  assumes "wf_kinds k" and "k ra = Some (KFiles rr)" and "k a = Some (KFiles None)"
  shows "wf_kinds (k(a \<mapsto> KFiles (Some ra)))"
  using assms unfolding wf_kinds_def by (simp, metis kind.distinct kind.inject option.inject)

text \<open>What the choice of a backend for a new processor does to the heap.\<close>

definition attached ::
  "nat \<Rightarrow> nat \<Rightarrow> ('req, 'tr, 'h, 'p) heap \<Rightarrow> ('req, 'tr, 'h, 'p) heap \<Rightarrow> bool \<Rightarrow> bool" where
  "attached ra a hp hp' success =
     (wf_kinds (kinds hp') \<and> dom hp' = dom hp \<and> (\<forall>c. c \<noteq> a \<and> c \<noteq> ra \<longrightarrow> hp' c = hp c) \<and>
      (\<forall>c e par t. c \<noteq> a \<longrightarrow> kinds hp' c = Some (KUpstream e par t) \<longleftrightarrow> kinds hp c = Some (KUpstream e par t)) \<and>
      (\<forall>c e up. kinds hp' c = Some (KRouter e up) \<longrightarrow> (\<exists>up0. kinds hp c = Some (KRouter e up0))) \<and>
      (success \<longrightarrow> (\<forall>e par t. kinds hp' a = Some (KUpstream e par t) \<longrightarrow>
         par = Some ra \<and> (t \<longrightarrow> kinds hp' ra = Some (KRouter e (Some a))))))"

lemma p_SetBackend_attached:
  assumes "p_SetBackend env now b rn ra hp a = (hp', res)"
    and "hp a = Some x" and "rootless (kind_of x)" and "a \<noteq> ra" and "wf_kinds (kinds hp)"
  shows "attached ra a hp hp' (\<not> isl res)"
proof (cases x)
  case (UpstreamP e u par)
  with assms(2,3) have a: "hp a = Some (UpstreamP e u None)" "up_translator u = None" by auto
  show ?thesis
  proof (cases "\<exists>r up. hp ra = Some (RouterP r up) \<and> rp_eh r = e")
    case True
    then obtain r up where r: "hp ra = Some (RouterP r up)" "rp_eh r = e" by blast
    obtain r' u' z where z: "upstream_SetBackend (se_proc env) now b rn (r, u) = ((r', u'), z)" by (metis surj_pair)
    note zr = upstream_SetBackend_result [OF z]
    have hp': "hp' = hp(ra \<mapsto> RouterP r' (if up_translator u' \<noteq> None then Some a else up), a \<mapsto> UpstreamP e u' (Some ra))"
      using assms(1) a r z zr by (auto simp: p_SetBackend_def)
    have "kinds hp ra = Some (KRouter e up)" "kinds hp a = Some (KUpstream e None False)"
      using a r by (simp_all add: kinds_def)
    from wf_kinds_pair [OF assms(5) this, of "up_translator u' \<noteq> None"] zr r
    have "wf_kinds (kinds hp')" by (simp add: hp')
    with a r assms(4) zr show ?thesis by (auto simp: attached_def hp' kinds_def)
  next
    case False
    with assms(1) a have "hp' = hp" "isl res"
      by (auto simp: p_SetBackend_def split: option.splits processor.splits if_splits)
    with assms(5) show ?thesis by (simp add: attached_def)
  qed
next
  case (FilesP p par)
  with assms(2,3) have a: "hp a = Some (FilesP p None)" by auto
  show ?thesis
  proof (cases "\<exists>r rr. hp ra = Some (FilesP r rr)")
    case True
    then obtain r rr where r: "hp ra = Some (FilesP r rr)" by blast
    obtain r' z where z: "files_SetBackend (se_files env) b r = (r', z)" by fastforce
    have k: "kinds hp ra = Some (KFiles rr)" "kinds hp a = Some (KFiles None)" using a r by (simp_all add: kinds_def)
    have "hp' = hp(ra \<mapsto> FilesP r' rr) \<or> hp' = hp(ra \<mapsto> FilesP r' rr, a \<mapsto> FilesP p (Some ra))"
      using assms(1) a r z by (auto simp: p_SetBackend_def split: sum.splits)
    with wf_kinds_files [OF assms(5) k] assms(4,5) a r kinds_same(1) [of hp ra r rr] show ?thesis
      by (auto simp: attached_def) (auto simp: kinds_def split: if_splits)
  next
    case False
    with assms(1) a have "hp' = hp" "isl res"
      by (auto simp: p_SetBackend_def split: option.splits processor.splits)
    with assms(5) show ?thesis by (simp add: attached_def)
  qed
qed (use assms in \<open>auto simp: p_SetBackend_def attached_def kinds_def\<close>)

section \<open>Interleaved streams\<close>

record ('req, 'tr, 'h, 'p) system =
  sy_server :: "('req, 'tr, 'h, 'p) Server"
  sy_streams :: "nat \<Rightarrow> stream option"

definition headers_message :: "received \<Rightarrow> bool" where
  "headers_message ev = (case ev of Msg req \<Rightarrow> (\<exists>hs. pq_Request req = Request_RequestHeaders (Some hs)) | _ \<Rightarrow> False)"

text \<open>
  What the environment guarantees: Envoy sends the request headers once per stream, and the
  generated UUID is not part of the identifier of a live request.
\<close>

definition fresh_uuid :: "(nat \<Rightarrow> stream option) \<Rightarrow> string \<Rightarrow> bool" where
  "fresh_uuid streams uuid = (\<forall>sid st x. streams sid = Some st \<longrightarrow> st_internalReqID st \<noteq> x @ ''-'' @ uuid)"

inductive sys_step ::
  "('req, 'tr, 'h, 'p) server_env \<Rightarrow> ('req, 'tr, 'h, 'p) system \<Rightarrow> ('req, 'tr, 'h, 'p) system \<Rightarrow> bool" for env where
  open_stream: "sy_streams y sid = None \<Longrightarrow> sys_step env y (y\<lparr>sy_streams := (sy_streams y)(sid \<mapsto> new_stream)\<rparr>)"
| receive: "sy_streams y sid = Some st \<Longrightarrow> (headers_message ev \<Longrightarrow> st_p st = None) \<Longrightarrow> fresh_uuid (sy_streams y) uuid \<Longrightarrow>
     Process_step env uuid clk ev (sy_server y, st) = (s', st', out) \<Longrightarrow>
     sys_step env y \<lparr>sy_server = s', sy_streams = (sy_streams y)(sid := if out_return out = None then Some st' else None)\<rparr>"
| reload: "sys_step env y (y\<lparr>sy_server := (sy_server y)\<lparr>sv_config := config\<rparr>\<rparr>)"

inductive reachable ::
  "('req, 'tr, 'h, 'p) server_env \<Rightarrow> ('req, 'tr, 'h, 'p) Server \<Rightarrow> ('req, 'tr, 'h, 'p) system \<Rightarrow> bool" for env s0 where
  start: "reachable env s0 \<lparr>sy_server = s0, sy_streams = Map.empty\<rparr>"
| step: "reachable env s0 y \<Longrightarrow> sys_step env y y' \<Longrightarrow> reachable env s0 y'"

definition server_ok :: "('req, 'tr, 'h, 'p) Server \<Rightarrow> bool" where
  "server_ok s = (wf_kinds (kinds (sv_heap s)) \<and> (\<forall>a. sv_next s \<le> a \<longrightarrow> sv_heap s a = None))"

definition stream_ok :: "(nat \<Rightarrow> kind option) \<Rightarrow> stream \<Rightarrow> bool" where
  "stream_ok k st =
     (case st_p st of
        None \<Rightarrow> \<not> st_isUpstreamFilter st \<and> st_internalReqID st = []
      | Some a \<Rightarrow>
          (\<not> st_isUpstreamFilter st \<longrightarrow> st_internalReqID st \<noteq> []) \<and>
          (case k a of
             None \<Rightarrow> False
           | Some (KUpstream e par t) \<Rightarrow> st_isUpstreamFilter st \<and> par \<noteq> None
           | Some (KRouter e up) \<Rightarrow> \<not> st_isUpstreamFilter st
           | _ \<Rightarrow> True))"

definition owner_of :: "(nat \<Rightarrow> stream option) \<Rightarrow> nat \<Rightarrow> string \<Rightarrow> nat \<Rightarrow> bool" where
  "owner_of streams sid k a =
     (\<exists>st. streams sid = Some st \<and> \<not> st_isUpstreamFilter st \<and> st_p st = Some a \<and> st_internalReqID st = k)"

definition registry_ok :: "(string \<Rightarrow> nat option) \<Rightarrow> (nat \<Rightarrow> stream option) \<Rightarrow> bool" where
  "registry_ok reg streams =
     ((\<forall>k a. reg k = Some a \<longleftrightarrow> (\<exists>sid. owner_of streams sid k a)) \<and>
      (\<forall>k sid sid' a a'. owner_of streams sid k a \<and> owner_of streams sid' k a' \<longrightarrow> sid = sid'))"

definition sys_inv :: "('req, 'tr, 'h, 'p) system \<Rightarrow> bool" where
  "sys_inv y =
     (server_ok (sy_server y) \<and> registry_ok (sv_routerProcessorsPerReqID (sy_server y)) (sy_streams y) \<and>
      (\<forall>sid st. sy_streams y sid = Some st \<longrightarrow> stream_ok (kinds (sv_heap (sy_server y))) st))"

section \<open>The effect of a step on the shared state\<close>

definition same_role :: "kind \<Rightarrow> kind \<Rightarrow> bool" where
  "same_role k k' =
     (case k' of
        KUpstream e par t \<Rightarrow> k = k'
      | KRouter e up \<Rightarrow> (\<exists>up0. k = KRouter e up0)
      | _ \<Rightarrow> True)"

definition evolves :: "(nat \<Rightarrow> kind option) \<Rightarrow> (nat \<Rightarrow> kind option) \<Rightarrow> bool" where
  "evolves k k' = (\<forall>a x. k a = Some x \<longrightarrow> (\<exists>x'. k' a = Some x' \<and> same_role x x'))"

lemma evolves_refl [simp]: "evolves k k"
  by (auto simp: evolves_def same_role_def split: kind.split)

lemma stream_ok_evolves:
  assumes "evolves k k'" and "stream_ok k st"
  shows "stream_ok k' st"
proof (cases "st_p st")
  case (Some a)
  with assms(2) obtain x where x: "k a = Some x" by (cases "k a") (auto simp: stream_ok_def)
  with assms(1) obtain x' where x': "k' a = Some x'" "same_role x x'" by (auto simp: evolves_def)
  from assms(2) Some x x' show ?thesis
    by (cases x'; cases x) (auto simp: stream_ok_def same_role_def)
qed (use assms(2) in \<open>simp add: stream_ok_def\<close>)

lemma processMsg_effect:
  assumes "processMsg env clk pa req i up s = (s', lg, res)"
  shows "kinds (sv_heap s') = kinds (sv_heap s) \<and> sv_next s' = sv_next s \<and> sv_config s' = sv_config s \<and>
    sv_routerProcessorsPerReqID s' = sv_routerProcessorsPerReqID s"
  using assms call_processor_kinds [of env clk req "pq_Request req" "sv_heap s" "the pa"]
  by (auto simp: processMsg_def Let_def split: option.splits sum.splits prod.splits)

lemma handle_message_effect:
  assumes "handle_message env clk req (s, st) = (s', st', out)"
  shows "kinds (sv_heap s') = kinds (sv_heap s) \<and> sv_next s' = sv_next s \<and> st' = st \<and>
    sv_routerProcessorsPerReqID s' = sv_routerProcessorsPerReqID s"
proof -
  obtain s1 lg res where p: "processMsg env clk (st_p st) req (st_internalReqID st) (st_isUpstreamFilter st) s = (s1, lg, res)"
    by (metis surj_pair)
  from assms p processMsg_effect [OF p] show ?thesis by (auto simp: handle_message_def split: sum.splits)
qed

lemma kinds_None: "kinds hp a = None \<longleftrightarrow> hp a = None"
  by (simp add: kinds_def)

lemma server_ok_kinds:
  "server_ok s \<Longrightarrow> kinds (sv_heap s') = kinds (sv_heap s) \<Longrightarrow> sv_next s' = sv_next s \<Longrightarrow> server_ok s'"
  unfolding server_ok_def by (metis kinds_None)

lemma new_processor_side:
  "kind_of (new_processor env f config hdrs up) = KRouter e x \<Longrightarrow> \<not> up"
  "kind_of (new_processor env f config hdrs up) = KUpstream e par t \<Longrightarrow> up"
  by (cases f; auto split: if_splits option.splits)+

lemma server_ok_alloc:
  assumes "server_ok s" and "rootless (kind_of p)"
  shows "server_ok (s\<lparr>sv_heap := (sv_heap s)(sv_next s \<mapsto> p), sv_next := Suc (sv_next s)\<rparr>)"
    and "evolves (kinds (sv_heap s)) (kinds ((sv_heap s)(sv_next s \<mapsto> p)))"
proof -
  have n: "kinds (sv_heap s) (sv_next s) = None" using assms(1) by (simp add: server_ok_def kinds_def)
  with assms wf_kinds_alloc [of "kinds (sv_heap s)" "sv_next s" "kind_of p"] show
    "server_ok (s\<lparr>sv_heap := (sv_heap s)(sv_next s \<mapsto> p), sv_next := Suc (sv_next s)\<rparr>)"
    by (auto simp: server_ok_def)
  show "evolves (kinds (sv_heap s)) (kinds ((sv_heap s)(sv_next s \<mapsto> p)))"
    using n by (auto simp: evolves_def same_role_def split: kind.split)
qed

lemma attached_evolves:
  assumes at: "attached ra a hp hp' b"
  shows "evolves ((kinds hp)(a := None)) (kinds hp')"
proof -
  have "\<exists>y'. kinds hp' c = Some y' \<and> same_role y y'" if c: "c \<noteq> a" "kinds hp c = Some y" for c y
  proof -
    have "hp c \<noteq> None" using c(2) by (auto simp: kinds_def)
    then have "hp' c \<noteq> None" using at unfolding attached_def by (metis domIff)
    then obtain y' where y': "kinds hp' c = Some y'" by (auto simp: kinds_def)
    have u: "kinds hp c = Some (KUpstream e par t)" if "kinds hp' c = Some (KUpstream e par t)" for e par t
      using at c(1) that unfolding attached_def by blast
    have r: "\<exists>up0. kinds hp c = Some (KRouter e up0)" if "kinds hp' c = Some (KRouter e up)" for e up
      using at that unfolding attached_def by blast
    have "same_role y y'" using u r y' c(2) by (cases y') (auto simp: same_role_def)
    with y' show ?thesis by blast
  qed
  then show ?thesis by (simp add: evolves_def)
qed

lemma setBackend_attached:
  assumes "setBackend env now a i ep req s = (s', res)"
    and "sv_heap s a = Some x" and "rootless (kind_of x)" and "wf_kinds (kinds (sv_heap s))"
    and "\<forall>k ra. sv_routerProcessorsPerReqID s k = Some ra \<longrightarrow> ra \<noteq> a"
  shows "sv_next s' = sv_next s \<and> sv_config s' = sv_config s \<and> sv_routerProcessorsPerReqID s' = sv_routerProcessorsPerReqID s \<and>
    (isl res \<and> s' = s \<or>
     (\<exists>ra. sv_routerProcessorsPerReqID s i = Some ra \<and> attached ra a (sv_heap s) (sv_heap s') (\<not> isl res)))"
proof (cases "\<exists>attrs bn backend ra. ext_proc_attributes req = Some attrs \<and> attrs \<noteq> Map.empty \<and>
    resolveBackendName ep attrs = Inr bn \<and> rt_Backends (sv_config s) bn = Some backend \<and>
    sv_routerProcessorsPerReqID s i = Some ra")
  case True
  then obtain attrs bn backend ra where t: "ext_proc_attributes req = Some attrs" "attrs \<noteq> Map.empty"
    "resolveBackendName ep attrs = Inr bn" "rt_Backends (sv_config s) bn = Some backend"
    "sv_routerProcessorsPerReqID s i = Some ra" by blast
  obtain hp z where z: "p_SetBackend env now backend (resolveRouteName attrs) ra (sv_heap s) a = (hp, z)" by fastforce
  from p_SetBackend_attached [OF z assms(2,3) _ assms(4)] assms(5) t(5)
  have "attached ra a (sv_heap s) hp (\<not> isl z)" by metis
  moreover have "s' = s\<lparr>sv_heap := hp\<rparr>" "isl res = isl z"
    using assms(1) t z by (auto simp: setBackend_def split: sum.splits)
  ultimately show ?thesis using t(5) by auto
next
  case False
  with assms(1) show ?thesis
    by (auto simp: setBackend_def split: option.splits sum.splits if_splits)
qed

text \<open>
  The effect of handling the request headers: on an error nothing is registered; otherwise the
  stream has a new processor, of the kind for its side, registered under its identifier if the
  stream is at the router.
\<close>

definition headers_effect ::
  "('req, 'tr, 'h, 'p) Server \<Rightarrow> ('req, 'tr, 'h, 'p) Server \<Rightarrow> stream \<Rightarrow> bool \<Rightarrow> bool" where
  "headers_effect s s' st failed =
     (server_ok s' \<and> evolves (kinds (sv_heap s)) (kinds (sv_heap s')) \<and>
      (if failed then sv_routerProcessorsPerReqID s' = sv_routerProcessorsPerReqID s
       else st_p st = Some (sv_next s) \<and>
            (st_internalReqID st \<noteq> [] \<longrightarrow> stream_ok (kinds (sv_heap s')) st) \<and>
            sv_routerProcessorsPerReqID s' =
              (if st_isUpstreamFilter st then sv_routerProcessorsPerReqID s
               else (sv_routerProcessorsPerReqID s)(st_internalReqID st \<mapsto> sv_next s))))"

lemma choose_processor_effect:
  assumes c: "choose_processor env now hm req (s, st) = (s', st', sent, err)"
    and ok: "server_ok s" and reg: "\<And>k ra. sv_routerProcessorsPerReqID s k = Some ra \<Longrightarrow> sv_heap s ra \<noteq> None"
  shows "st_isUpstreamFilter st' = st_isUpstreamFilter st \<and> st_internalReqID st' = st_internalReqID st \<and>
    headers_effect s s' st' (err \<noteq> None)"
proof (cases "processorForPath env s hm (st_isUpstreamFilter st)")
  case (Inl e)
  with c have "s' = s" "st' = st" "err \<noteq> None" by (auto simp: choose_processor_def Let_def split: if_splits)
  with ok show ?thesis by (simp add: headers_effect_def)
next
  case (Inr p)
  then obtain f where p: "p = new_processor env f (sv_config s) hm (st_isUpstreamFilter st)"
    by (auto simp: processorForPath_def split: option.splits)
  let ?a = "sv_next s"
  let ?s1 = "s\<lparr>sv_heap := (sv_heap s)(?a \<mapsto> p), sv_next := Suc ?a\<rparr>"
  have root: "rootless (kind_of p)" unfolding p by (rule new_processor_rootless)
  note al = server_ok_alloc [OF ok root]
  show ?thesis
  proof (cases "st_isUpstreamFilter st")
    case False
    then have s': "s' = ?s1\<lparr>sv_routerProcessorsPerReqID := (sv_routerProcessorsPerReqID s)(st_internalReqID st \<mapsto> ?a)\<rparr>"
      "st' = st\<lparr>st_p := Some ?a\<rparr>" "err = None"
      using c Inr by (auto simp: choose_processor_def Let_def)
    have "\<not> (\<exists>e par t. kind_of p = KUpstream e par t)" using new_processor_side(2) False p by metis
    then have "stream_ok ((kinds (sv_heap s))(?a \<mapsto> kind_of p)) st'" if "st_internalReqID st \<noteq> []"
      using False that by (auto simp: s'(2) stream_ok_def split: kind.split)
    with al False s' show ?thesis by (simp add: headers_effect_def server_ok_def)
  next
    case True
    obtain s2 res where sb: "setBackend env now ?a (st_internalReqID st) (hm EndpointPickerHeaderKey \<noteq> None) req ?s1 = (s2, res)"
      by fastforce
    have s': "s' = s2" "st' = st\<lparr>st_p := Some ?a\<rparr>" "err \<noteq> None \<longleftrightarrow> isl res"
      using c Inr True sb by (auto simp: choose_processor_def Let_def split: sum.splits)
    have fresh: "\<forall>k ra. sv_routerProcessorsPerReqID ?s1 k = Some ra \<longrightarrow> ra \<noteq> ?a"
      using reg ok by (force simp: server_ok_def)
    have "wf_kinds (kinds (sv_heap ?s1))" using al(1) by (simp only: server_ok_def)
    from setBackend_attached [OF sb _ root this fresh]
    have e: "sv_next s2 = Suc ?a" "sv_routerProcessorsPerReqID s2 = sv_routerProcessorsPerReqID s"
      "isl res \<and> s2 = ?s1 \<or> (\<exists>ra. attached ra ?a (sv_heap ?s1) (sv_heap s2) (\<not> isl res))" by auto
    show ?thesis
    proof (cases "isl res \<and> s2 = ?s1")
      case True
      with al e s' show ?thesis by (simp add: headers_effect_def)
    next
      case False
      with e(3) obtain ra where at: "attached ra ?a (sv_heap ?s1) (sv_heap s2) (\<not> isl res)" by blast
      have n: "kinds (sv_heap s) ?a = None" using ok by (simp add: server_ok_def kinds_def)
      have "kinds (sv_heap s) = (kinds (sv_heap ?s1))(?a := None)" using n by (intro ext) simp
      then have ev: "evolves (kinds (sv_heap s)) (kinds (sv_heap s2))" using attached_evolves [OF at] by simp
      have dom: "dom (sv_heap s2) = insert ?a (dom (sv_heap s))" using at by (simp add: attached_def)
      then have "sv_heap s2 b = None" if "Suc ?a \<le> b" for b
        using that ok by (metis Suc_n_not_le_n domIff insert_iff server_ok_def Suc_leD)
      then have ok2: "server_ok s2" using at e(1) by (simp add: server_ok_def attached_def)
      have "stream_ok (kinds (sv_heap s2)) st'" if nf: "\<not> isl res"
      proof -
        have "?a \<in> dom (sv_heap s2)" by (simp add: dom)
        then obtain x where x: "kinds (sv_heap s2) ?a = Some x" by (auto simp: kinds_def)
        have "par \<noteq> None" if "x = KUpstream e par t" for e par t
          using at x nf that unfolding attached_def by fastforce
        moreover have "x \<noteq> KRouter e up" for e up
        proof
          assume "x = KRouter e up"
          then obtain up0 where "kinds (sv_heap ?s1) ?a = Some (KRouter e up0)"
            using at x unfolding attached_def by blast
          then have "kind_of p = KRouter e up0" by (simp add: kinds_def)
          with new_processor_side(1) True p show False by metis
        qed
        ultimately show ?thesis using x True by (cases x) (auto simp: stream_ok_def s'(2))
      qed
      with ok2 ev e(2) s' True show ?thesis by (auto simp: headers_effect_def)
    qed
  qed
qed

lemma handle_headers_effect:
  assumes h: "handle_headers env uuid now hs req (s, st) = (s', st', sent, err)"
    and ok: "server_ok s" and reg: "\<And>k ra. sv_routerProcessorsPerReqID s k = Some ra \<Longrightarrow> sv_heap s ra \<noteq> None"
  shows "(\<not> st_isUpstreamFilter st' \<longrightarrow> (\<exists>x. st_internalReqID st' = x @ ''-'' @ uuid)) \<and>
    (err = None \<longrightarrow> st_internalReqID st' \<noteq> []) \<and> headers_effect s s' st' (err \<noteq> None)"
proof -
  let ?hm = "headersToMap (Some hs)"
  show ?thesis
  proof (cases "pq_Attributes req = None")
    case True
    let ?st = "st\<lparr>st_isUpstreamFilter := False, st_internalReqID := mget ?hm ''x-request-id'' @ ''-'' @ uuid\<rparr>"
    have c: "choose_processor env now ?hm req (s, ?st) = (s', st', sent, err)"
      using h True by (simp add: handle_headers_def Let_def)
    from choose_processor_effect [OF c ok reg] show ?thesis by auto
  next
    case False
    let ?st = "st\<lparr>st_isUpstreamFilter := True, st_internalReqID := mget ?hm internalReqIDHeader\<rparr>"
    show ?thesis
    proof (cases "mget ?hm internalReqIDHeader = []")
      case True
      with h False have "s' = s" "st' = ?st" "err \<noteq> None" by (auto simp: handle_headers_def Let_def)
      with ok show ?thesis by (auto simp: headers_effect_def)
    next
      case ne: False
      have c: "choose_processor env now (setUpstreamHostAttributes ?hm (ext_proc_attributes req)) req (s, ?st) = (s', st', sent, err)"
        using h False ne by (simp add: handle_headers_def Let_def)
      from choose_processor_effect [OF c ok reg] ne show ?thesis by auto
    qed
  qed
qed

lemma stream_body_effect:
  assumes b: "stream_body env uuid clk ev (s, st) = (s', st', out)"
    and ok: "server_ok s" and reg: "\<forall>k ra. sv_routerProcessorsPerReqID s k = Some ra \<longrightarrow> sv_heap s ra \<noteq> None"
  shows "if headers_message ev
    then (\<not> st_isUpstreamFilter st' \<longrightarrow> (\<exists>x. st_internalReqID st' = x @ ''-'' @ uuid)) \<and>
      (\<exists>failed. headers_effect s s' st' failed \<and> (failed \<longrightarrow> out_return out \<noteq> None) \<and> (\<not> failed \<longrightarrow> st_internalReqID st' \<noteq> []))
    else st' = st \<and> kinds (sv_heap s') = kinds (sv_heap s) \<and> sv_next s' = sv_next s \<and>
      sv_routerProcessorsPerReqID s' = sv_routerProcessorsPerReqID s"
proof (cases "headers_message ev")
  case True
  then obtain req hs where ev: "ev = Msg req" "pq_Request req = Request_RequestHeaders (Some hs)"
    by (auto simp: headers_message_def split: received.splits)
  obtain s1 st1 sent err where h: "handle_headers env uuid (clk 3) hs req (s, st) = (s1, st1, sent, err)" by (metis surj_pair)
  have he: "(\<not> st_isUpstreamFilter st1 \<longrightarrow> (\<exists>x. st_internalReqID st1 = x @ ''-'' @ uuid)) \<and>
      (err = None \<longrightarrow> st_internalReqID st1 \<noteq> []) \<and> headers_effect s s1 st1 (err \<noteq> None)"
    by (rule handle_headers_effect [OF h ok]) (use reg in blast)
  show ?thesis
  proof (cases err)
    case (Some e)
    with b ev h have "s' = s1" "st' = st1" "out_return out = Some (Some e)" by auto
    with he Some True show ?thesis by (auto intro!: exI [of _ True])
  next
    case None
    with b ev h have m: "handle_message env clk req (s1, st1) = (s', st', out)" by simp
    from handle_message_effect [OF m] he None True server_ok_kinds [of s1 s'] show ?thesis
      by (auto simp: headers_effect_def intro!: exI [of _ False])
  qed
next
  case False
  show ?thesis
  proof (cases ev)
    case (Msg req)
    with False have "stream_body env uuid clk ev (s, st) = handle_message env clk req (s, st)"
      by (auto simp: headers_message_def split: Request.split option.split)
    with b handle_message_effect [of env clk req s st s' st' out] False show ?thesis by auto
  qed (use b False in auto)
qed

section \<open>The registry\<close>

lemma owner_of_upd: "owner_of (streams(sid := x)) i k a \<longleftrightarrow>
   (if i = sid then (case x of None \<Rightarrow> False | Some st \<Rightarrow> \<not> st_isUpstreamFilter st \<and> st_p st = Some a \<and> st_internalReqID st = k)
    else owner_of streams i k a)"
  by (auto simp: owner_of_def split: option.splits)

lemma registry_close:
  assumes "registry_ok reg streams" and "streams sid = Some st" and "\<And>i s. streams i = Some s \<Longrightarrow> stream_ok k s"
  shows "registry_ok (if st_isUpstreamFilter st then reg else mdel reg (st_internalReqID st)) (streams(sid := None))"
proof -
  have r: "reg j = Some a \<longleftrightarrow> (\<exists>i. owner_of streams i j a)" for j a
    using assms(1) by (simp add: registry_ok_def)
  have u: "owner_of streams i j a \<Longrightarrow> owner_of streams i' j a' \<Longrightarrow> i = i'" for i i' j a a'
    using assms(1) unfolding registry_ok_def by blast
  have nonempty: "j \<noteq> []" if "owner_of streams i j a" for i j a
    using that assms(3) [of i] by (auto simp: owner_of_def stream_ok_def)
  have mine: "owner_of streams sid j a \<longleftrightarrow> \<not> st_isUpstreamFilter st \<and> st_p st = Some a \<and> st_internalReqID st = j" for j a
    using assms(2) by (auto simp: owner_of_def)
  have empty: "st_internalReqID st = []" if "st_p st = None" using assms(3) [OF assms(2)] that by (simp add: stream_ok_def)
  have "(if st_isUpstreamFilter st then reg else mdel reg (st_internalReqID st)) j = Some a \<longleftrightarrow>
      (\<exists>i. owner_of (streams(sid := None)) i j a)" for j a
  proof (cases "\<not> st_isUpstreamFilter st \<and> j = st_internalReqID st")
    case True
    have "\<not> owner_of streams i j a" if "i \<noteq> sid" for i
    proof (cases "st_p st")
      case None
      with empty True nonempty [of i j a] show ?thesis by auto
    next
      case (Some b)
      then have "owner_of streams sid j b" using mine True by simp
      with u [of i j a sid b] that show ?thesis by auto
    qed
    with True show ?thesis by (auto simp: owner_of_upd)
  next
    case False
    then have "\<not> owner_of streams sid j a" using mine by auto
    then have "(\<exists>i. owner_of streams i j a) = (\<exists>i. i \<noteq> sid \<and> owner_of streams i j a)" by metis
    with False r show ?thesis by (auto simp: owner_of_upd)
  qed
  moreover have "i = i'" if "owner_of (streams(sid := None)) i j a" "owner_of (streams(sid := None)) i' j a'" for i i' j a a'
    using that u by (auto simp: owner_of_upd split: if_splits)
  ultimately show ?thesis unfolding registry_ok_def by blast
qed

lemma registry_keep:
  assumes "registry_ok reg streams" and "\<And>j a. \<not> owner_of streams sid j a"
    and "case x of None \<Rightarrow> True | Some st \<Rightarrow> st_isUpstreamFilter st"
  shows "registry_ok reg (streams(sid := x))"
proof -
  have "owner_of (streams(sid := x)) = owner_of streams"
    using assms(2,3) by (intro ext) (auto simp: owner_of_upd split: option.splits)
  with assms(1) show ?thesis by (simp add: registry_ok_def)
qed

lemma registry_open:
  assumes r: "registry_ok reg streams" and n: "\<And>j a. \<not> owner_of streams sid j a"
    and f: "\<And>i a. \<not> owner_of streams i (st_internalReqID st) a"
    and st: "\<not> st_isUpstreamFilter st" "st_p st = Some b"
  shows "registry_ok (reg(st_internalReqID st \<mapsto> b)) (streams(sid \<mapsto> st))"
proof -
  have reg: "reg j = Some a \<longleftrightarrow> (\<exists>i. owner_of streams i j a)" for j a
    using r by (simp add: registry_ok_def)
  have u: "owner_of streams i j a \<Longrightarrow> owner_of streams i' j a' \<Longrightarrow> i = i'" for i i' j a a'
    using r unfolding registry_ok_def by blast
  have o: "owner_of (streams(sid \<mapsto> st)) i j a \<longleftrightarrow>
      (if i = sid then a = b \<and> j = st_internalReqID st else owner_of streams i j a)" for i j a
    using st by (auto simp: owner_of_upd)
  have "(reg(st_internalReqID st \<mapsto> b)) j = Some a \<longleftrightarrow> (\<exists>i. owner_of (streams(sid \<mapsto> st)) i j a)" for j a
  proof (cases "j = st_internalReqID st")
    case True
    with f o show ?thesis by auto
  next
    case False
    with n have "(\<exists>i. owner_of streams i j a) = (\<exists>i. i \<noteq> sid \<and> owner_of streams i j a)" by metis
    with False o reg show ?thesis by auto
  qed
  moreover have "i = i'" if "owner_of (streams(sid \<mapsto> st)) i j a" "owner_of (streams(sid \<mapsto> st)) i' j a'" for i i' j a a'
    using that f u [of i j a i' a'] by (auto simp: o split: if_splits)
  ultimately show ?thesis unfolding registry_ok_def by blast
qed

lemma mdel_absent: "m k = None \<Longrightarrow> mdel m k = m"
  by (auto simp: mdel_def)

lemma registry_after_step:
  assumes b: "Process_step env uuid clk ev (s, st) = (s', st', out)"
    and ok: "server_ok s" and reg: "registry_ok (sv_routerProcessorsPerReqID s) streams"
    and all: "\<And>i x. streams i = Some x \<Longrightarrow> stream_ok (kinds (sv_heap s)) x"
    and sid: "streams sid = Some st" and once: "headers_message ev \<Longrightarrow> st_p st = None"
    and fresh: "fresh_uuid streams uuid"
  shows "server_ok s' \<and> evolves (kinds (sv_heap s)) (kinds (sv_heap s')) \<and>
    (out_return out = None \<longrightarrow> stream_ok (kinds (sv_heap s')) st') \<and>
    registry_ok (sv_routerProcessorsPerReqID s') (streams(sid := if out_return out = None then Some st' else None))"
proof -
  obtain s1 where sb: "stream_body env uuid clk ev (s, st) = (s1, st', out)"
    and s': "s' = (if out_return out \<noteq> None \<and> \<not> st_isUpstreamFilter st'
      then s1\<lparr>sv_routerProcessorsPerReqID := mdel (sv_routerProcessorsPerReqID s1) (st_internalReqID st')\<rparr> else s1)"
    using b by (auto simp: Process_step_def split: prod.splits)
  have hp: "sv_heap s' = sv_heap s1" "sv_next s' = sv_next s1" by (simp_all add: s')
  have sok: "server_ok s' = server_ok s1" by (simp add: server_ok_def hp)
  have live: "sv_heap s a \<noteq> None" if "sv_routerProcessorsPerReqID s k = Some a" for k a
  proof -
    from that reg obtain i where "owner_of streams i k a" by (auto simp: registry_ok_def)
    then obtain x where "streams i = Some x" "st_p x = Some a" by (auto simp: owner_of_def)
    with all [of i x] show ?thesis by (auto simp: stream_ok_def kinds_def split: option.splits)
  qed
  then have "\<forall>k a. sv_routerProcessorsPerReqID s k = Some a \<longrightarrow> sv_heap s a \<noteq> None" by blast
  note eff = stream_body_effect [OF sb ok this]
  have close: "registry_ok (if st_isUpstreamFilter st then sv_routerProcessorsPerReqID s
      else mdel (sv_routerProcessorsPerReqID s) (st_internalReqID st)) (streams(sid := None))"
    by (rule registry_close [OF reg sid]) (rule all)
  show ?thesis
  proof (cases "headers_message ev")
    case False
    with eff have e: "st' = st" "kinds (sv_heap s1) = kinds (sv_heap s)" "sv_next s1 = sv_next s"
      "sv_routerProcessorsPerReqID s1 = sv_routerProcessorsPerReqID s" by auto
    have "server_ok s1" using server_ok_kinds [OF ok e(2,3)] .
    moreover have "streams(sid \<mapsto> st) = streams" using sid by auto
    ultimately show ?thesis
      using close reg e all [OF sid] by (auto simp: hp sok) (auto simp: s' split: if_splits)
  next
    case True
    then have none: "st_p st = None" by (rule once)
    have notmine: "\<not> owner_of streams sid j a" for j a using sid none by (auto simp: owner_of_def)
    have newid: "\<not> owner_of streams i (st_internalReqID st') a" if "\<not> st_isUpstreamFilter st'" for i a
      using that eff True fresh by (auto simp: owner_of_def fresh_uuid_def)
    have absent: "sv_routerProcessorsPerReqID s (st_internalReqID st') = None" if "\<not> st_isUpstreamFilter st'"
      using newid [OF that] reg by (cases "sv_routerProcessorsPerReqID s (st_internalReqID st')") (auto simp: registry_ok_def)
    from eff True obtain failed where he: "headers_effect s s1 st' failed"
      and fl: "failed \<longrightarrow> out_return out \<noteq> None" and id: "\<not> failed \<longrightarrow> st_internalReqID st' \<noteq> []" by auto
    have closed: "sv_routerProcessorsPerReqID s' = sv_routerProcessorsPerReqID s" if "out_return out \<noteq> None"
      using that he absent by (auto simp: s' headers_effect_def mdel_absent fun_upd_idem split: if_splits)
    have "registry_ok (sv_routerProcessorsPerReqID s') (streams(sid := if out_return out = None then Some st' else None))"
    proof (cases "out_return out = None")
      case False
      then show ?thesis using registry_keep [OF reg notmine, of None] closed by auto
    next
      case ret: True
      show ?thesis
      proof (cases "st_isUpstreamFilter st'")
        case True
        with ret fl he show ?thesis using registry_keep [OF reg notmine, of "Some st'"] by (auto simp: s' headers_effect_def)
      next
        case False
        with ret fl he have p: "st_p st' = Some (sv_next s)"
          "sv_routerProcessorsPerReqID s' = (sv_routerProcessorsPerReqID s)(st_internalReqID st' \<mapsto> sv_next s)"
          by (auto simp: s' headers_effect_def)
        show ?thesis using registry_open [OF reg notmine newid [OF False] False p(1)] p(2) ret by simp
      qed
    qed
    with he fl id show ?thesis by (auto simp: headers_effect_def hp sok)
  qed
qed

lemma sys_step_inv:
  assumes "sys_step env y y'" and inv: "sys_inv y"
  shows "sys_inv y'"
  using assms(1)
proof cases
  case (open_stream sid)
  have "registry_ok (sv_routerProcessorsPerReqID (sy_server y)) ((sy_streams y)(sid \<mapsto> new_stream))"
  proof -
    have "owner_of ((sy_streams y)(sid \<mapsto> new_stream)) = owner_of (sy_streams y)"
      using open_stream(2) by (intro ext) (auto simp: owner_of_upd new_stream_def owner_of_def)
    then show ?thesis using inv by (simp add: sys_inv_def registry_ok_def)
  qed
  then show ?thesis using inv open_stream by (auto simp: sys_inv_def stream_ok_def new_stream_def)
next
  case (receive sid st ev uuid clk s' st' out)
  have ok: "server_ok (sy_server y)" and reg: "registry_ok (sv_routerProcessorsPerReqID (sy_server y)) (sy_streams y)"
    and all: "\<And>i x. sy_streams y i = Some x \<Longrightarrow> stream_ok (kinds (sv_heap (sy_server y))) x"
    using inv by (simp_all add: sys_inv_def)
  have "server_ok s' \<and> evolves (kinds (sv_heap (sy_server y))) (kinds (sv_heap s')) \<and>
    (out_return out = None \<longrightarrow> stream_ok (kinds (sv_heap s')) st') \<and>
    registry_ok (sv_routerProcessorsPerReqID s') ((sy_streams y)(sid := if out_return out = None then Some st' else None))"
    by (rule registry_after_step [OF receive(5) ok reg _ receive(2) _ receive(4)]) (use all receive(3) in auto)
  then show ?thesis using all receive(1)
    by (auto simp: sys_inv_def intro: stream_ok_evolves split: if_splits)
next
  case (reload config)
  then show ?thesis using inv by (simp add: sys_inv_def server_ok_def)
qed

text \<open>A server as \<open>NewServer\<close> and the registrations leave it: no processor, no registered request.\<close>

definition initial_server :: "('req, 'tr, 'h, 'p) Server \<Rightarrow> bool" where
  "initial_server s = (sv_heap s = Map.empty \<and> sv_next s = 0 \<and> sv_routerProcessorsPerReqID s = Map.empty)"

lemma reachable_inv:
  assumes "reachable env s0 y" and "initial_server s0"
  shows "sys_inv y"
  using assms(1)
proof induction
  case start
  then show ?case using assms(2)
    by (simp add: sys_inv_def initial_server_def server_ok_def registry_ok_def owner_of_def wf_kinds_def kinds_def)
qed (rule sys_step_inv)

lemma choose_processor_attached:
  assumes c: "choose_processor env now hm req (s, st) = (s', st', sent, None)" and up: "st_isUpstreamFilter st"
    and ok: "server_ok s" and reg: "\<And>k ra. sv_routerProcessorsPerReqID s k = Some ra \<Longrightarrow> sv_heap s ra \<noteq> None"
  shows "\<exists>ra p. sv_routerProcessorsPerReqID s (st_internalReqID st) = Some ra \<and>
    attached ra (sv_next s) ((sv_heap s)(sv_next s \<mapsto> p)) (sv_heap s') True"
proof -
  let ?a = "sv_next s"
  obtain f where p: "processorForPath env s hm True = Inr (new_processor env f (sv_config s) hm True)"
    using c up by (cases "processorForPath env s hm True")
      (auto simp: choose_processor_def Let_def processorForPath_def split: if_splits option.splits)
  let ?p = "new_processor env f (sv_config s) hm True"
  let ?s1 = "s\<lparr>sv_heap := (sv_heap s)(?a \<mapsto> ?p), sv_next := Suc ?a\<rparr>"
  obtain s2 res where sb: "setBackend env now ?a (st_internalReqID st) (hm EndpointPickerHeaderKey \<noteq> None) req ?s1 = (s2, res)"
    by fastforce
  have s': "s' = s2" "\<not> isl res"
    using c p up sb by (auto simp: choose_processor_def Let_def split: sum.splits)
  have root: "rootless (kind_of ?p)" by (rule new_processor_rootless)
  have wf: "wf_kinds (kinds (sv_heap ?s1))" using server_ok_alloc(1) [OF ok root] by (simp only: server_ok_def)
  have "\<forall>k ra. sv_routerProcessorsPerReqID ?s1 k = Some ra \<longrightarrow> ra \<noteq> ?a"
    using reg ok by (force simp: server_ok_def)
  from setBackend_attached [OF sb _ root wf this] s' show ?thesis by auto
qed

lemma sys_inv_registered:
  "sys_inv y \<Longrightarrow> sv_routerProcessorsPerReqID (sy_server y) k = Some a \<Longrightarrow>
     (\<exists>sid. owner_of (sy_streams y) sid k a) \<and> sv_heap (sy_server y) a \<noteq> None"
  by (fastforce simp: sys_inv_def registry_ok_def owner_of_def stream_ok_def kinds_def split: option.splits)

end
