(* ===== verification/Server_Correctness.thy ===== *)
theory Server_Correctness
  imports Server_Invariant Files_Correctness
begin

text \<open>
  Correctness of the server: the registry of live requests, the refinement of the abstract request
  by the shared processors, the pairing of an upstream attempt with its own request, and the choice
  of the processor for a path.
\<close>

section \<open>The abstract request\<close>

text \<open>
  The view of a request: its router processor with the upstream processor of its last attempt, the
  pair on which the operations of the processor are defined.
\<close>

definition request_view ::
  "('req, 'tr, 'h, 'p) heap \<Rightarrow> nat \<Rightarrow>
   (('req, 'h, 'p, codec) routerProcessor \<times> ('tr, 'h) upstreamProcessor option) option" where
  "request_view hp a =
     (case hp a of
        Some (RouterP r up) \<Rightarrow>
          Some (r, case up of
                     None \<Rightarrow> None
                   | Some ua \<Rightarrow> (case hp ua of Some (UpstreamP e u par) \<Rightarrow> Some u | _ \<Rightarrow> None))
      | _ \<Rightarrow> None)"

lemma wf_router_upstream:
  assumes "wf_kinds (kinds hp)" and "hp a = Some (RouterP r (Some ua))"
  obtains u where "hp ua = Some (UpstreamP (rp_eh r) u (Some a))" and "up_translator u \<noteq> None"
proof -
  have "kinds hp a = Some (KRouter (rp_eh r) (Some ua))" using assms(2) by (simp add: kinds_def)
  with assms(1) have "kinds hp ua = Some (KUpstream (rp_eh r) (Some a) True)" by (simp add: wf_kinds_def)
  then obtain p where "hp ua = Some p" "kind_of p = KUpstream (rp_eh r) (Some a) True" using kinds_Some by blast
  with that show ?thesis by (cases p) auto
qed

lemma request_view_frame:
  assumes wf: "wf_kinds (kinds hp)" and "hp a = Some (RouterP r (Some ua))" and "b \<noteq> a"
    and "request_view hp b = Some ru"
  shows "request_view (hp(a \<mapsto> x, ua \<mapsto> y)) b = Some ru"
proof -
  obtain u where u: "hp ua = Some (UpstreamP (rp_eh r) u (Some a))" using wf_router_upstream [OF wf assms(2)] .
  from assms(4) obtain rb up where b: "hp b = Some (RouterP rb up)"
    by (auto simp: request_view_def split: option.splits processor.splits)
  show ?thesis
  proof (cases up)
    case None
    with b u assms(3,4) show ?thesis by (auto simp: request_view_def)
  next
    case (Some ub)
    with b obtain v where v: "hp ub = Some (UpstreamP (rp_eh rb) v (Some b))" using wf_router_upstream [OF wf] by metis
    with u assms(2,3) have "ub \<noteq> ua" "ub \<noteq> a" "b \<noteq> ua" using b by auto
    with Some b v assms(3,4) show ?thesis by (auto simp: request_view_def)
  qed
qed

lemma with_upstream_view:
  assumes wf: "wf_kinds (kinds hp)" and a: "hp a = Some (RouterP r (Some ua))"
    and view: "request_view hp a = Some (r, Some u)" and f: "f (r, u) = ((r', u'), res)"
  shows "\<exists>hp'. with_upstream f hp ua = (hp', res) \<and> request_view hp' a = Some (r', Some u') \<and>
    (\<forall>b ru. b \<noteq> a \<and> request_view hp b = Some ru \<longrightarrow> request_view hp' b = Some ru)"
proof -
  obtain v where v: "hp ua = Some (UpstreamP (rp_eh r) v (Some a))" using wf_router_upstream [OF wf a] .
  with view a have "v = u" by (simp add: request_view_def)
  with v a f have "with_upstream f hp ua = (hp(a \<mapsto> RouterP r' (Some ua), ua \<mapsto> UpstreamP (rp_eh r) u' (Some a)), res)"
    by (simp add: with_upstream_def)
  moreover have "ua \<noteq> a" using a v by auto
  ultimately show ?thesis using request_view_frame [OF wf a] by (auto simp: request_view_def)
qed

section \<open>A sample run\<close>

definition sample_senv :: "(string, string, bool, unit) server_env" where
  "sample_senv = \<lparr>se_proc = sample_penv, se_files = toy_files_env,
     se_metrics = (\<lambda>_. \<lparr>mf_requestHeaderAttributeMapping = Map.empty, mf_operation = ''chat''\<rparr>),
     se_MarshalModels = (\<lambda>_. Inr []), se_MarshalAnthropicModels = (\<lambda>_. Inr []), se_FormatRFC3339 = (\<lambda>_. []),
     se_hosts = [], se_sha = (\<lambda>b. b)\<rparr>"

definition sample_runtime :: "(bool, unit, codec) RuntimeConfig" where
  "sample_runtime = \<lparr>rt_UUID = [], rt_GlobalRequestCosts = [], rt_RequestCosts = [], rt_DeclaredModels = [],
     rt_ModelsByHost = Map.empty, rt_UnscopedModels = [],
     rt_Backends = [''b'' \<mapsto> \<lparr>rb_Backend = sample_backend, rb_Handler = Some True\<rparr>], rt_FileIDCodec = None\<rparr>"

definition sample_server :: "(string, string, bool, unit) Server" where
  "sample_server = RegisterPrefix ''/v1'' ModelsFactory (Register ''/chat'' (EndpointFactory 0) (NewServer True True sample_runtime))"

definition header_values :: "(string \<times> string) list \<Rightarrow> HeaderMap" where
  "header_values = map (\<lambda>(k, v). \<lparr>hv_Key = k, hv_Value = v, hv_RawValue = []\<rparr>)"

definition headers_request :: "(string \<times> string) list \<Rightarrow> (string \<Rightarrow> pstruct option) option \<Rightarrow> ProcessingRequest" where
  "headers_request hs attrs = \<lparr>pq_Request = Request_RequestHeaders (Some (header_values hs)),
     pq_Attributes = attrs, pq_MetadataContext = None\<rparr>"

definition router_hs :: "(string \<times> string) list" where
  "router_hs = [('':path'', ''/chat?x''), (''x-request-id'', ''r'')]"

definition attempt_hs :: "(string \<times> string) list" where
  "attempt_hs = [(internalReqIDHeader, ''r-u''), (OriginalPathHeader, ''/chat'')]"

definition attempt_headers :: ProcessingRequest where
  "attempt_headers = headers_request attempt_hs
     (Some [''envoy.filters.http.ext_proc'' \<mapsto> [xds_key XDSUpstreamHostMetadataBackendNamePath \<mapsto> StringValue ''b'']])"

lemma sample_headers [simp]:
  "headersToMap (Some (header_values router_hs)) = ['':path'' \<mapsto> ''/chat?x'', ''x-request-id'' \<mapsto> ''r'']"
  "headersToMap (Some (header_values attempt_hs)) = [internalReqIDHeader \<mapsto> ''r-u'', OriginalPathHeader \<mapsto> ''/chat'']"
  by (simp_all add: headersToMap_def header_values_def router_hs_def attempt_hs_def)

text \<open>The state after the request headers of the first stream, with a second stream open.\<close>

definition routed_system :: "(string, string, bool, unit) system" where
  "routed_system = \<lparr>sy_server = sample_server\<lparr>sv_heap := [0 \<mapsto> RouterP (newRouterProcessor 0 sample_runtime
        ['':path'' \<mapsto> ''/chat?x'', ''x-request-id'' \<mapsto> ''r'']) None],
        sv_next := 1, sv_routerProcessorsPerReqID := [''r-u'' \<mapsto> 0]\<rparr>,
     sy_streams = [0 \<mapsto> \<lparr>st_p = Some 0, st_isUpstreamFilter = False, st_internalReqID = ''r-u''\<rparr>, 1 \<mapsto> new_stream]\<rparr>"

lemmas sample_server_defs = sample_server_def RegisterPrefix_def Register_def NewServer_def

lemma initial_sample_server: "initial_server sample_server"
  by (simp add: initial_server_def sample_server_defs)

lemma routed_headers:
  "handle_headers sample_senv ''u'' 0 (header_values router_hs) (headers_request router_hs None) (sample_server, new_stream) =
     (sy_server routed_system, \<lparr>st_p = Some 0, st_isUpstreamFilter = False, st_internalReqID = ''r-u''\<rparr>, [], None)"
  by (simp add: handle_headers_def headers_request_def choose_processor_def processorForPath_def factory_for_def lookup_path_def
      sample_server_defs routed_system_def new_stream_def mget_def before_char_def Let_def)

lemma routed_step:
  "\<exists>out. Process_step sample_senv ''u'' (\<lambda>_. 0) (Msg (headers_request router_hs None)) (sample_server, new_stream) =
     (sy_server routed_system, \<lparr>st_p = Some 0, st_isUpstreamFilter = False, st_internalReqID = ''r-u''\<rparr>, out) \<and> out_return out = None"
proof -
  let ?st = "\<lparr>st_p = Some 0, st_isUpstreamFilter = False, st_internalReqID = ''r-u''\<rparr>"
  obtain out where "handle_message sample_senv (\<lambda>_. 0) (headers_request router_hs None) (sy_server routed_system, ?st) =
      (sy_server routed_system, ?st, out)" "out_return out = None"
    by (auto simp: handle_message_def headers_request_def processMsg_def p_ProcessRequestHeaders_def routed_system_def Let_def)
  moreover have "pq_Request (headers_request router_hs None) = Request_RequestHeaders (Some (header_values router_hs))"
    by (simp add: headers_request_def)
  ultimately show ?thesis by (simp add: Process_step_def routed_headers)
qed

lemma routed_reachable: "reachable sample_senv sample_server routed_system"
proof -
  let ?y0 = "\<lparr>sy_server = sample_server, sy_streams = Map.empty\<rparr>"
  let ?y1 = "?y0\<lparr>sy_streams := (sy_streams ?y0)(0 \<mapsto> new_stream)\<rparr>"
  let ?st = "\<lparr>st_p = Some 0, st_isUpstreamFilter = False, st_internalReqID = ''r-u''\<rparr>"
  let ?y2 = "\<lparr>sy_server = sy_server routed_system, sy_streams = (sy_streams ?y1)(0 \<mapsto> ?st)\<rparr>"
  have y1: "reachable sample_senv sample_server ?y1"
    by (rule reachable.step [OF reachable.start sys_step.open_stream]) simp
  obtain out where "Process_step sample_senv ''u'' (\<lambda>_. 0) (Msg (headers_request router_hs None)) (sy_server ?y1, new_stream) =
      (sy_server routed_system, ?st, out)" and out: "out_return out = None" using routed_step by auto
  then have "sys_step sample_senv ?y1 \<lparr>sy_server = sy_server routed_system,
      sy_streams = (sy_streams ?y1)(0 := if out_return out = None then Some ?st else None)\<rparr>"
    by (intro sys_step.receive [where uuid = "''u''"]) (auto simp: new_stream_def fresh_uuid_def)
  then have y2: "reachable sample_senv sample_server ?y2" using y1 out by (auto intro: reachable.step)
  have "routed_system = ?y2\<lparr>sy_streams := (sy_streams ?y2)(1 \<mapsto> new_stream)\<rparr>"
    by (auto simp: routed_system_def)
  then show ?thesis using reachable.step [OF y2 sys_step.open_stream [of ?y2 1]] by simp
qed

lemma attempt_backend:
  "\<exists>hp u. p_SetBackend sample_senv 0 \<lparr>rb_Backend = sample_backend, rb_Handler = Some True\<rparr> [] 0
       ((sv_heap (sy_server routed_system))(1 \<mapsto> UpstreamP 0 (newUpstreamProcessor hm m) None)) 1 = (hp, Inr ()) \<and>
     hp 1 = Some (UpstreamP 0 u (Some 0)) \<and> up_translator u = Some ''t'' \<and> kinds hp 0 = Some (KRouter 0 (Some 1))"
  by (simp add: kinds_def span_do_def p_SetBackend_def routed_system_def upstream_SetBackend_def newRouterProcessor_def newUpstreamProcessor_def
      sample_senv_def sample_penv_def sample_endpoint_def sample_ops_def sample_backend_def configure_translator_def
      defer_completion_def Let_def)

lemmas header_name_defs = internalReqIDHeader_def OriginalPathHeader_def UpstreamHostHeader_def EnvoyAIGatewayHeaderPrefix_def
  EndpointPickerHeaderKey_def

lemma attempt_path:
  "processorForPath sample_senv (sy_server routed_system)
     (setUpstreamHostAttributes [internalReqIDHeader \<mapsto> ''r-u'', OriginalPathHeader \<mapsto> ''/chat'']
        (Some [xds_key XDSUpstreamHostMetadataBackendNamePath \<mapsto> StringValue ''b''])) True =
     Inr (UpstreamP 0 (newUpstreamProcessor [internalReqIDHeader \<mapsto> ''r-u'', OriginalPathHeader \<mapsto> ''/chat'']
        (NewMetrics (se_metrics sample_senv 0))) None)"
  by (simp add: processorForPath_def factory_for_def lookup_path_def setUpstreamHostAttributes_def mdel_absent header_name_defs
      xds_metadata_def sample_server_defs routed_system_def mget_def before_char_def Let_def)

lemma routed_system_simps:
  "sv_next (sy_server routed_system) = 1" "sv_routerProcessorsPerReqID (sy_server routed_system) = [''r-u'' \<mapsto> 0]"
  "rt_Backends (sv_config (sy_server routed_system)) = [''b'' \<mapsto> \<lparr>rb_Backend = sample_backend, rb_Handler = Some True\<rparr>]"
  by (simp_all add: routed_system_def sample_server_defs sample_runtime_def)

lemma attempt_step:
  "\<exists>s' u. handle_headers sample_senv ''v'' 0 (header_values attempt_hs) attempt_headers (sy_server routed_system, new_stream) =
     (s', \<lparr>st_p = Some 1, st_isUpstreamFilter = True, st_internalReqID = ''r-u''\<rparr>, [], None) \<and>
     sv_heap s' 1 = Some (UpstreamP 0 u (Some 0)) \<and> up_translator u = Some ''t'' \<and>
     kinds (sv_heap s') 0 = Some (KRouter 0 (Some 1))"
proof -
  let ?hm = "[internalReqIDHeader \<mapsto> ''r-u'', OriginalPathHeader \<mapsto> ''/chat'']"
  let ?p = "UpstreamP 0 (newUpstreamProcessor ?hm (NewMetrics (se_metrics sample_senv 0))) None"
  let ?attrs = "[xds_key XDSUpstreamHostMetadataBackendNamePath \<mapsto> StringValue ''b'']"
  let ?s1 = "(sy_server routed_system)\<lparr>sv_heap := (sv_heap (sy_server routed_system))(1 \<mapsto> ?p), sv_next := 2\<rparr>"
  obtain hp u where b: "p_SetBackend sample_senv 0 \<lparr>rb_Backend = sample_backend, rb_Handler = Some True\<rparr> [] 0
      ((sv_heap (sy_server routed_system))(1 \<mapsto> ?p)) 1 = (hp, Inr ())"
    "hp 1 = Some (UpstreamP 0 u (Some 0))" "up_translator u = Some ''t''" "kinds hp 0 = Some (KRouter 0 (Some 1))"
    using attempt_backend by blast
  have at: "ext_proc_attributes attempt_headers = Some ?attrs"
    by (simp add: ext_proc_attributes_def attempt_headers_def headers_request_def)
  have r: "resolveRouteName ?attrs = []" by (simp add: resolveRouteName_def xds_metadata_def)
  have "setBackend sample_senv 0 1 ''r-u'' False attempt_headers ?s1 = (?s1\<lparr>sv_heap := hp\<rparr>, Inr ())"
    unfolding setBackend_def at using b(1) r
    by (simp add: resolveBackendName_def routed_system_simps Let_def del: xds_key.simps)
  moreover have "(setUpstreamHostAttributes ?hm (Some ?attrs)) EndpointPickerHeaderKey = None"
    by (simp add: setUpstreamHostAttributes_def header_name_defs xds_metadata_def)
  moreover have "pq_Attributes attempt_headers \<noteq> None" "mget ?hm internalReqIDHeader = ''r-u''"
    by (simp_all add: attempt_headers_def headers_request_def mget_def header_name_defs)
  ultimately have "handle_headers sample_senv ''v'' 0 (header_values attempt_hs) attempt_headers (sy_server routed_system, new_stream) =
     (?s1\<lparr>sv_heap := hp\<rparr>, \<lparr>st_p = Some 1, st_isUpstreamFilter = True, st_internalReqID = ''r-u''\<rparr>, [], None)"
    using attempt_path
    by (simp add: handle_headers_def choose_processor_def at new_stream_def routed_system_simps Let_def numeral_2_eq_2
        del: xds_key.simps)
  with b(2,3,4) show ?thesis by simp
qed

section \<open>Properties\<close>

text \<open>
  C1. The registry of router processors is exact in every reachable state of the server, for any
  interleaving of streams, failures and reloads: an identifier is registered with a processor if and
  only if a live router stream has that identifier and that processor, no two live streams share an
  identifier, and no entry is left when no stream is live.
\<close>

theorem registry_tracks_live_requests:
  assumes "reachable env s0 y" and "initial_server s0"
  shows "(sv_routerProcessorsPerReqID (sy_server y) k = Some a \<longleftrightarrow> (\<exists>sid. owner_of (sy_streams y) sid k a)) \<and>
    (owner_of (sy_streams y) i k a \<and> owner_of (sy_streams y) j k b \<longrightarrow> i = j) \<and>
    (sy_streams y = Map.empty \<longrightarrow> sv_routerProcessorsPerReqID (sy_server y) = Map.empty)"
proof -
  have r: "registry_ok (sv_routerProcessorsPerReqID (sy_server y)) (sy_streams y)"
    using reachable_inv [OF assms] by (simp add: sys_inv_def)
  have "sv_routerProcessorsPerReqID (sy_server y) x = None" if "sy_streams y = Map.empty" for x
    using r that by (cases "sv_routerProcessorsPerReqID (sy_server y) x") (auto simp: registry_ok_def owner_of_def)
  with r show ?thesis unfolding registry_ok_def by blast
qed

theorem registry_tracks_live_requests_witness:
  "reachable sample_senv sample_server routed_system \<and> initial_server sample_server \<and>
   (\<exists>sid. owner_of (sy_streams routed_system) sid ''r-u'' 0)"
  using registry_tracks_live_requests [OF routed_reachable initial_sample_server, of "''r-u''" 0]
  by (simp add: routed_reachable initial_sample_server routed_system_simps)

text \<open>
  C7. In every reachable state the response operations on the shared processors implement those on
  the abstract request: they give the same result, change the view of their request in the same
  way, never dereference a nil processor, and leave the view of every other request as it was.
\<close>

theorem response_operations_refine:
  assumes "reachable env s0 y" and "initial_server s0" and view: "request_view (sv_heap (sy_server y)) a = Some (r, Some u)"
  shows "(\<exists>hp' ru' res. p_ProcessResponseHeaders env clk hs (sv_heap (sy_server y)) a = (hp', res) \<and>
      router_ProcessResponseHeaders (se_proc env) clk hs (r, Some u) = (ru', res) \<and> request_view hp' a = Some ru' \<and>
      (\<forall>b x. b \<noteq> a \<and> request_view (sv_heap (sy_server y)) b = Some x \<longrightarrow> request_view hp' b = Some x)) \<and>
    (\<exists>hp' ru' res. p_ProcessResponseBody env clk body (sv_heap (sy_server y)) a = (hp', res) \<and>
      router_ProcessResponseBody (se_proc env) clk body (r, Some u) = (ru', res) \<and> request_view hp' a = Some ru' \<and>
      (\<forall>b x. b \<noteq> a \<and> request_view (sv_heap (sy_server y)) b = Some x \<longrightarrow> request_view hp' b = Some x))"
proof -
  have wf: "wf_kinds (kinds (sv_heap (sy_server y)))"
    using reachable_inv [OF assms(1,2)] by (simp add: sys_inv_def server_ok_def)
  obtain ua where a: "sv_heap (sy_server y) a = Some (RouterP r (Some ua))"
    using view by (auto simp: request_view_def split: option.splits processor.splits)
  obtain r1 u1 res1 where h: "upstream_ProcessResponseHeaders (se_proc env) clk hs (r, u) = ((r1, u1), res1)" by (metis surj_pair)
  obtain r2 u2 res2 where b: "upstream_ProcessResponseBody (se_proc env) clk body (r, u) = ((r2, u2), res2)" by (metis surj_pair)
  show ?thesis
    using with_upstream_view [where f = "upstream_ProcessResponseHeaders (se_proc env) clk hs", OF wf a view h]
      with_upstream_view [where f = "upstream_ProcessResponseBody (se_proc env) clk body", OF wf a view b] h b
    by (simp add: p_ProcessResponseHeaders_def p_ProcessResponseBody_def router_ProcessResponseHeaders_def
        router_ProcessResponseBody_def a)
qed

lemma attempted_reachable:
  "\<exists>y r u. reachable sample_senv sample_server y \<and> request_view (sv_heap (sy_server y)) 0 = Some (r, Some u)"
proof -
  let ?st = "\<lparr>st_p = Some 1, st_isUpstreamFilter = True, st_internalReqID = ''r-u''\<rparr>"
  obtain s1 u where h: "handle_headers sample_senv ''v'' 0 (header_values attempt_hs) attempt_headers
      (sy_server routed_system, new_stream) = (s1, ?st, [], None)" "kinds (sv_heap s1) 0 = Some (KRouter 0 (Some 1))" using attempt_step by blast
  obtain s2 st2 out where m2: "handle_message sample_senv (\<lambda>_. 0) attempt_headers (s1, ?st) = (s2, st2, out)"
    by (metis surj_pair)
  with handle_message_effect [OF m2] have m: "handle_message sample_senv (\<lambda>_. 0) attempt_headers (s1, ?st) = (s2, ?st, out)" by simp
  have rq: "pq_Request attempt_headers = Request_RequestHeaders (Some (header_values attempt_hs))"
    by (simp add: attempt_headers_def headers_request_def)
  have "Process_step sample_senv ''v'' (\<lambda>_. 0) (Msg attempt_headers) (sy_server routed_system, new_stream) = (s2, ?st, out)"
    using h(1) m rq by (simp add: Process_step_def)
  then have "sys_step sample_senv routed_system \<lparr>sy_server = s2,
      sy_streams = (sy_streams routed_system)(1 := if out_return out = None then Some ?st else None)\<rparr>" (is "sys_step _ _ ?y")
    by (intro sys_step.receive [where uuid = "''v''" and st = new_stream])
       (auto simp: routed_system_def new_stream_def fresh_uuid_def split: if_splits)
  then have y: "reachable sample_senv sample_server ?y" using routed_reachable by (blast intro: reachable.step)
  have "kinds (sv_heap s2) 0 = Some (KRouter 0 (Some 1))" using h(2) handle_message_effect [OF m] by simp
  then obtain q where "sv_heap s2 0 = Some q" "kind_of q = KRouter 0 (Some 1)" using kinds_Some by blast
  then obtain r where r: "sv_heap (sy_server ?y) 0 = Some (RouterP r (Some 1))" by (cases q) auto
  have wf: "wf_kinds (kinds (sv_heap (sy_server ?y)))"
    using reachable_inv [OF y initial_sample_server] by (simp add: sys_inv_def server_ok_def)
  obtain u where "sv_heap (sy_server ?y) 1 = Some (UpstreamP (rp_eh r) u (Some 0))"
    by (rule wf_router_upstream [of "sv_heap (sy_server ?y)" 0 r 1, OF wf r])
  with r have "request_view (sv_heap (sy_server ?y)) 0 = Some (r, Some u)" by (simp add: request_view_def)
  with y show ?thesis by blast
qed

theorem response_operations_refine_witness:
  "\<exists>y r u hp' ru' res. reachable sample_senv sample_server y \<and> request_view (sv_heap (sy_server y)) 0 = Some (r, Some u) \<and>
     p_ProcessResponseHeaders sample_senv (\<lambda>_. 0) None (sv_heap (sy_server y)) 0 = (hp', res) \<and>
     router_ProcessResponseHeaders sample_penv (\<lambda>_. 0) None (r, Some u) = (ru', res) \<and> request_view hp' 0 = Some ru'"
proof -
  obtain y r u where y: "reachable sample_senv sample_server y" "request_view (sv_heap (sy_server y)) 0 = Some (r, Some u)"
    using attempted_reachable by blast
  moreover have "se_proc sample_senv = sample_penv" by (simp add: sample_senv_def)
  ultimately show ?thesis
    using response_operations_refine [OF y(1) initial_sample_server y(2), where clk = "\<lambda>_. 0" and hs = None] by metis
qed

text \<open>
  C2. An upstream attempt is attached to its own request and to no other: when the request headers of
  an attempt are accepted, the new upstream processor's parent is the router processor of the live
  stream with the internal identifier of the attempt, of the same endpoint; once its translator is
  chosen it is the one that router forwards responses to; every other processor is unchanged.
\<close>

theorem attempt_paired_with_its_request:
  assumes "reachable env s0 y" and "initial_server s0" and attempt: "pq_Attributes req \<noteq> None"
    and h: "handle_headers env uuid now hs req (sy_server y, st) = (s', st', sent, None)"
    and new: "sv_heap s' (sv_next (sy_server y)) = Some (UpstreamP e u par)"
  shows "\<exists>ra sid r up. par = Some ra \<and>
    owner_of (sy_streams y) sid (mget (headersToMap (Some hs)) internalReqIDHeader) ra \<and>
    sv_heap s' ra = Some (RouterP r up) \<and> rp_eh r = e \<and> (up_translator u \<noteq> None \<longrightarrow> up = Some (sv_next (sy_server y))) \<and>
    (\<forall>c. c \<noteq> ra \<and> c \<noteq> sv_next (sy_server y) \<longrightarrow> sv_heap s' c = sv_heap (sy_server y) c)"
proof -
  let ?i = "mget (headersToMap (Some hs)) internalReqIDHeader" and ?a = "sv_next (sy_server y)"
  have inv: "sys_inv y" using reachable_inv [OF assms(1,2)] .
  have ok: "server_ok (sy_server y)" using inv by (simp add: sys_inv_def)
  have c: "choose_processor env now (setUpstreamHostAttributes (headersToMap (Some hs)) (ext_proc_attributes req)) req
      (sy_server y, st\<lparr>st_isUpstreamFilter := True, st_internalReqID := ?i\<rparr>) = (s', st', sent, None)"
    using h attempt by (auto simp: handle_headers_def Let_def split: if_splits)
  have "\<exists>ra p. sv_routerProcessorsPerReqID (sy_server y)
        (st_internalReqID (st\<lparr>st_isUpstreamFilter := True, st_internalReqID := ?i\<rparr>)) = Some ra \<and>
      attached ra ?a ((sv_heap (sy_server y))(?a \<mapsto> p)) (sv_heap s') True"
    by (rule choose_processor_attached [OF c _ ok]) (use sys_inv_registered [OF inv] in auto)
  then obtain ra p where ra: "sv_routerProcessorsPerReqID (sy_server y) ?i = Some ra"
    and at: "attached ra ?a ((sv_heap (sy_server y))(?a \<mapsto> p)) (sv_heap s') True" by auto
  obtain sid where own: "owner_of (sy_streams y) sid ?i ra" using sys_inv_registered [OF inv ra] by blast
  have ka: "kinds (sv_heap s') ?a = Some (KUpstream e par (up_translator u \<noteq> None))" using new by (simp add: kinds_def)
  have par: "par = Some ra" "up_translator u \<noteq> None \<longrightarrow> kinds (sv_heap s') ra = Some (KRouter e (Some ?a))"
    using at ka unfolding attached_def by blast+
  have "wf_kinds (kinds (sv_heap s'))" using at by (simp add: attached_def)
  then obtain up0 where "kinds (sv_heap s') ra = Some (KRouter e up0)" using ka par(1) unfolding wf_kinds_def by blast
  then obtain q where "sv_heap s' ra = Some q" "kind_of q = KRouter e up0" using kinds_Some by blast
  then obtain r up where r: "sv_heap s' ra = Some (RouterP r up)" "rp_eh r = e" by (cases q) auto
  have "up_translator u \<noteq> None \<longrightarrow> up = Some ?a" using par(2) r by (simp add: kinds_def)
  moreover have "\<forall>c. c \<noteq> ra \<and> c \<noteq> ?a \<longrightarrow> sv_heap s' c = sv_heap (sy_server y) c" using at by (simp add: attached_def)
  ultimately show ?thesis using par(1) own r by blast
qed

theorem attempt_paired_with_its_request_witness:
  "\<exists>s' st' u r up sid. handle_headers sample_senv ''v'' 0 (header_values attempt_hs) attempt_headers
        (sy_server routed_system, new_stream) = (s', st', [], None) \<and>
     sv_heap s' 1 = Some (UpstreamP 0 u (Some 0)) \<and> sv_heap s' 0 = Some (RouterP r (Some 1)) \<and>
     owner_of (sy_streams routed_system) sid ''r-u'' 0"
proof -
  obtain s' st' u where h: "handle_headers sample_senv ''v'' 0 (header_values attempt_hs) attempt_headers
      (sy_server routed_system, new_stream) = (s', st', [], None)"
    "sv_heap s' 1 = Some (UpstreamP 0 u (Some 0))" "up_translator u = Some ''t''" using attempt_step by blast
  have "pq_Attributes attempt_headers \<noteq> None" by (simp add: attempt_headers_def headers_request_def)
  from attempt_paired_with_its_request [OF routed_reachable initial_sample_server this h(1), of 0 u "Some 0"] h
  show ?thesis by (auto simp: routed_system_simps mget_def header_name_defs)
qed


section \<open>Routing by path\<close>

text \<open>A path lies under a registered prefix when it is the prefix or continues it with a new segment.\<close>

definition path_under :: "string \<Rightarrow> string \<Rightarrow> bool" where
  "path_under p path = (\<exists>rest. path = p @ rest \<and> (rest = [] \<or> hd rest = CHR ''/''))"

lemma path_under_iff: "path = p \<or> HasPrefix path (p @ ''/'') \<longleftrightarrow> path_under p path"
proof
  assume "path_under p path"
  then obtain rest where r: "path = p @ rest" "rest = [] \<or> hd rest = CHR ''/''" by (auto simp: path_under_def)
  then show "path = p \<or> HasPrefix path (p @ ''/'')" by (cases rest) (auto simp: HasPrefix_def)
next
  assume "path = p \<or> HasPrefix path (p @ ''/'')"
  moreover have "path = p @ CHR ''/'' # drop (Suc (length p)) path" if "HasPrefix path (p @ ''/'')"
  proof -
    have "take (Suc (length p)) path = p @ ''/''" using that by (simp add: HasPrefix_def)
    then show ?thesis by (metis append_take_drop_id append.assoc append_Cons append_Nil)
  qed
  ultimately show "path_under p path" unfolding path_under_def by (metis append_Nil2 list.sel(1))
qed

lemma best_prefix_spec:
  "best_prefix path l (b, n) = (b', n') \<Longrightarrow>
     (b' = b \<and> n' = n \<and> (\<forall>q g. (q, g) \<in> set l \<and> path_under q path \<longrightarrow> int (length q) \<le> n)) \<or>
     (\<exists>p f. map_of l p = Some f \<and> path_under p path \<and> b' = Some f \<and> n' = int (length p) \<and> n < n' \<and>
        (\<forall>q g. (q, g) \<in> set l \<and> path_under q path \<longrightarrow> length q \<le> length p))"
proof (induction l arbitrary: b n)
  case (Cons x l)
  obtain q g where x: "x = (q, g)" by fastforce
  show ?case
  proof (cases "path_under q path \<and> int (length q) > n")
    case True
    then have "best_prefix path l (Some g, int (length q)) = (b', n')" using Cons.prems x by (simp add: path_under_iff)
    from Cons.IH [OF this] show ?thesis
    proof
      assume "b' = Some g \<and> n' = int (length q) \<and> (\<forall>q' g'. (q', g') \<in> set l \<and> path_under q' path \<longrightarrow> int (length q') \<le> int (length q))"
      with True x show ?thesis by auto
    next
      assume "\<exists>p f. map_of l p = Some f \<and> path_under p path \<and> b' = Some f \<and> n' = int (length p) \<and> int (length q) < n' \<and>
        (\<forall>q g. (q, g) \<in> set l \<and> path_under q path \<longrightarrow> length q \<le> length p)"
      then obtain p f where p: "map_of l p = Some f" "path_under p path" "b' = Some f" "n' = int (length p)" "length q < length p"
        "\<forall>q g. (q, g) \<in> set l \<and> path_under q path \<longrightarrow> length q \<le> length p" by auto
      then have "map_of (x # l) p = Some f" using x by auto
      with p True x show ?thesis by (intro disjI2 exI [of _ p] exI [of _ f]) auto
    qed
  next
    case False
    then have "best_prefix path l (b, n) = (b', n')" using Cons.prems x by (auto simp: path_under_iff)
    from Cons.IH [OF this] show ?thesis
    proof
      assume "b' = b \<and> n' = n \<and> (\<forall>q' g'. (q', g') \<in> set l \<and> path_under q' path \<longrightarrow> int (length q') \<le> n)"
      with False x show ?thesis by auto
    next
      assume "\<exists>p f. map_of l p = Some f \<and> path_under p path \<and> b' = Some f \<and> n' = int (length p) \<and> n < n' \<and>
        (\<forall>q g. (q, g) \<in> set l \<and> path_under q path \<longrightarrow> length q \<le> length p)"
      then obtain p f where p: "map_of l p = Some f" "path_under p path" "b' = Some f" "n' = int (length p)" "n < int (length p)"
        "\<forall>q g. (q, g) \<in> set l \<and> path_under q path \<longrightarrow> length q \<le> length p" by auto
      have "q \<noteq> p" using False p by auto
      then have "map_of (x # l) p = Some f" using p(1) x by auto
      with p False x show ?thesis by (intro disjI2 exI [of _ p] exI [of _ f]) auto
    qed
  qed
qed simp

text \<open>
  C32. The processor of a stream is chosen by the path without its query: the factory registered for
  exactly that path if there is one, otherwise the first one registered for the longest prefix that
  ends at a segment boundary; if there is neither the result is the error that no processor is
  registered.
\<close>

theorem processor_by_longest_prefix:
  "(\<exists>f. processorForPath env s hdrs up = Inr (new_processor env f (sv_config s) hdrs up) \<and>
      (sv_processorFactories s (lookup_path hdrs up) = Some f \<or>
       sv_processorFactories s (lookup_path hdrs up) = None \<and>
       (\<exists>p. map_of (sv_prefixProcessorFactories s) p = Some f \<and> path_under p (lookup_path hdrs up) \<and>
          (\<forall>q g. (q, g) \<in> set (sv_prefixProcessorFactories s) \<and> path_under q (lookup_path hdrs up) \<longrightarrow> length q \<le> length p)))) \<or>
    (\<exists>msg. processorForPath env s hdrs up = Inl (GoError [ErrNoProcessor] msg) \<and> sv_processorFactories s (lookup_path hdrs up) = None \<and>
      (\<forall>q g. (q, g) \<in> set (sv_prefixProcessorFactories s) \<longrightarrow> \<not> path_under q (lookup_path hdrs up)))"
proof (cases "sv_processorFactories s (lookup_path hdrs up)")
  case None
  obtain b n where b: "best_prefix (lookup_path hdrs up) (sv_prefixProcessorFactories s) (None, -1) = (b, n)" by fastforce
  from best_prefix_spec [OF b] None b show ?thesis
    by (fastforce simp: processorForPath_def factory_for_def)
qed (auto simp: processorForPath_def factory_for_def)

theorem processor_by_longest_prefix_witness:
  "\<exists>p. map_of (sv_prefixProcessorFactories sample_server) p = Some ModelsFactory \<and> path_under p ''/v1/models''"
proof -
  have l: "lookup_path ['':path'' \<mapsto> ''/v1/models?a''] False = ''/v1/models''"
    by (simp add: lookup_path_def mget_def before_char_def)
  have u: "path_under ''/v1'' ''/v1/models''" by (simp add: path_under_def)
  have "\<not> (\<forall>q g. (q, g) \<in> set (sv_prefixProcessorFactories sample_server) \<longrightarrow> \<not> path_under q ''/v1/models'')"
    "sv_processorFactories sample_server ''/v1/models'' = None"
    using u by (auto simp: sample_server_defs)
  with processor_by_longest_prefix [of sample_senv sample_server "['':path'' \<mapsto> ''/v1/models?a'']" False, unfolded l]
  obtain p f where "map_of (sv_prefixProcessorFactories sample_server) p = Some f" "path_under p ''/v1/models''" by auto
  then show ?thesis by (auto simp: sample_server_defs split: if_splits)
qed

text \<open>
  A request whose path no processor is registered for is answered with a 404 immediate response
  that names the path, its stream ends with a NotFound status, and the server is left as it was.
\<close>

theorem unsupported_path_rejected:
  assumes "pq_Request req = Request_RequestHeaders (Some hs)" and "pq_Attributes req = None"
    and "factory_for s (lookup_path (headersToMap (Some hs)) False) = None"
    and "sv_routerProcessorsPerReqID s (mget (headersToMap (Some hs)) ''x-request-id'' @ ''-'' @ uuid) = None"
  shows "\<exists>st' out. Process_step env uuid clk (Msg req) (s, st) = (s, st', out) \<and>
    out_sent out = [unsupported_path_response (mget (headersToMap (Some hs)) '':path'')] \<and>
    out_return out = Some (Some (status_error ''NotFound'' (''unsupported path: '' @ mget (headersToMap (Some hs)) '':path'')))"
proof -
  have "errors_is (GoError [ErrNoProcessor] m) ErrNoProcessor" for m by (simp add: errors_is_def)
  then have "handle_headers env uuid (clk 3) hs req (s, st) =
    (s, st\<lparr>st_isUpstreamFilter := False, st_internalReqID := mget (headersToMap (Some hs)) ''x-request-id'' @ ''-'' @ uuid\<rparr>,
     [unsupported_path_response (mget (headersToMap (Some hs)) '':path'')],
     Some (status_error ''NotFound'' (''unsupported path: '' @ mget (headersToMap (Some hs)) '':path'')))"
    using assms(2,3) by (simp add: handle_headers_def choose_processor_def processorForPath_def Let_def)
  with assms(1,4) show ?thesis by (simp add: Process_step_def mdel_absent)
qed

theorem unsupported_path_rejected_witness:
  "\<exists>st' out. Process_step sample_senv ''w'' (\<lambda>_. 0) (Msg (headers_request [('':path'', ''/v12'')] None))
       (sy_server routed_system, new_stream) = (sy_server routed_system, st', out) \<and>
     out_sent out = [unsupported_path_response ''/v12'']"
proof -
  have "headersToMap (Some (header_values [('':path'', ''/v12'')])) = ['':path'' \<mapsto> ''/v12'']"
    by (simp add: headersToMap_def header_values_def)
  moreover have "factory_for (sy_server routed_system) (lookup_path ['':path'' \<mapsto> ''/v12''] False) = None"
    by (simp add: factory_for_def lookup_path_def mget_def before_char_def HasPrefix_def routed_system_def sample_server_defs)
  ultimately show ?thesis
    using unsupported_path_rejected [of "headers_request [('':path'', ''/v12'')] None" "header_values [('':path'', ''/v12'')]"
        "sy_server routed_system" "''w''" sample_senv "\<lambda>_. 0" new_stream]
    by (auto simp: headers_request_def routed_system_simps mget_def)
qed

end
