(* ===== verification/Mcp_Crypto.thy ===== *)
theory Mcp_Crypto
  imports Go_Encoding Id_Codec
begin

text \<open>
  \<^verbatim>\<open>internal/mcpproxy/crypto.go\<close>: the encryption of session and event identifiers.
  A \<open>SessionCrypto\<close> is either the password-based cipher or a pair of which the second only
  decrypts. The key derivation and the cipher are the parameter \<open>crypto\<close> that the file
  identifiers use too; the bytes read from the random source are arguments. The locale
  \<open>session_crypto\<close> states what the sessions rely on.
\<close>

section \<open>The ciphers\<close>

record pbkdf2AesGcm =
  pa_seed :: string
  pa_saltSize :: nat
  pa_keyLength :: nat
  pa_iterations :: int

datatype SessionCrypto =
    Pbkdf2AesGcm pbkdf2AesGcm
  | FallbackEnabled SessionCrypto "SessionCrypto option"

definition NewPBKDF2AesGcmSessionCrypto :: "string \<Rightarrow> int \<Rightarrow> SessionCrypto" where
  "NewPBKDF2AesGcmSessionCrypto seed iterations =
     Pbkdf2AesGcm \<lparr>pa_seed = seed, pa_saltSize = 16, pa_keyLength = 32, pa_iterations = iterations\<rparr>"

definition session_key :: "'blk crypto \<Rightarrow> pbkdf2AesGcm \<Rightarrow> bytes \<Rightarrow> go_error + bytes" where
  "session_key cy p salt = cy_pbkdf2 cy (pa_seed p) salt (pa_iterations p) (pa_keyLength p)"

definition new_gcm :: "'blk crypto \<Rightarrow> bytes \<Rightarrow> go_error + aead" where
  "new_gcm cy k = (case cy_NewCipher cy k of Inl e \<Rightarrow> Inl e | Inr block \<Rightarrow> cy_NewGCM cy block)"

text \<open>A read of the random source: an error, or as many bytes as asked for.\<close>

type_synonym random = "nat \<Rightarrow> go_error + bytes"

definition encryptAESGCM :: "'blk crypto \<Rightarrow> random \<Rightarrow> bytes \<Rightarrow> bytes \<Rightarrow> bytes \<Rightarrow> go_error + bytes" where
  "encryptAESGCM cy rnd k salt plaintext =
     (case new_gcm cy k of
        Inl e \<Rightarrow> Inl e
      | Inr gcm \<Rightarrow>
          (case rnd (ae_NonceSize gcm) of
             Inl e \<Rightarrow> Inl e
           | Inr nonce \<Rightarrow> Inr (salt @ nonce @ ae_Seal gcm nonce plaintext)))"

definition decryptAESGCM :: "'blk crypto \<Rightarrow> bytes \<Rightarrow> bytes \<Rightarrow> bytes \<Rightarrow> go_error + bytes" where
  "decryptAESGCM cy k salt ciphertext =
     (case new_gcm cy k of
        Inl e \<Rightarrow> Inl e
      | Inr gcm \<Rightarrow>
          (let n = length salt; m = ae_NonceSize gcm in
           if length ciphertext < n + m then Inl (errorf ''ciphertext too short'')
           else case ae_Open gcm (take m (drop n ciphertext)) (drop (n + m) ciphertext) of
             None \<Rightarrow> Inl (errorf ''cipher: message authentication failed'')
           | Some p \<Rightarrow> Inr p))"

text \<open>The two random reads of one encryption are the arguments \<open>rs\<close> (salt) and \<open>rn\<close> (nonce).\<close>

primrec session_Encrypt :: "'blk crypto \<Rightarrow> random \<Rightarrow> random \<Rightarrow> SessionCrypto \<Rightarrow> string \<Rightarrow> go_error + string" where
  "session_Encrypt cy rs rn (Pbkdf2AesGcm p) plaintext =
     (case rs (pa_saltSize p) of
        Inl e \<Rightarrow> Inl e
      | Inr salt \<Rightarrow>
          (case session_key cy p salt of
             Inl e \<Rightarrow> Inl e
           | Inr k \<Rightarrow> map_sum (\<lambda>e. e) StdEncode (encryptAESGCM cy rn k salt plaintext)))"
| "session_Encrypt cy rs rn (FallbackEnabled primary fb) plaintext = session_Encrypt cy rs rn primary plaintext"

definition pbkdf2_Decrypt :: "'blk crypto \<Rightarrow> pbkdf2AesGcm \<Rightarrow> string \<Rightarrow> go_error + string" where
  "pbkdf2_Decrypt cy p encrypted =
     (case StdDecode encrypted of
        None \<Rightarrow> Inl (errorf ''illegal base64 data'')
      | Some data \<Rightarrow>
          if length data < pa_saltSize p then Inl (errorf ''data too short'')
          else (let salt = take (pa_saltSize p) data in
                case session_key cy p salt of
                  Inl e \<Rightarrow> Inl e
                | Inr k \<Rightarrow> decryptAESGCM cy k salt data))"

fun session_Decrypt :: "'blk crypto \<Rightarrow> SessionCrypto \<Rightarrow> string \<Rightarrow> go_error + string" where
  "session_Decrypt cy (Pbkdf2AesGcm p) encrypted = pbkdf2_Decrypt cy p encrypted"
| "session_Decrypt cy (FallbackEnabled primary fb) encrypted =
     (case session_Decrypt cy primary encrypted of
        Inr p \<Rightarrow> Inr p
      | Inl e \<Rightarrow> (case fb of Some f \<Rightarrow> session_Decrypt cy f encrypted | None \<Rightarrow> Inl e))"

section \<open>The configured cipher\<close>

record MCPSessionEncryption =
  mse_Seed :: string
  mse_Iterations :: int
  mse_FallbackSeed :: string
  mse_FallbackIterations :: int

definition sessionCryptoFromConfig :: "MCPSessionEncryption option \<Rightarrow> SessionCrypto option" where
  "sessionCryptoFromConfig c =
     (case c of
        None \<Rightarrow> None
      | Some c \<Rightarrow>
          (let sessionCrypto = NewPBKDF2AesGcmSessionCrypto (mse_Seed c) (mse_Iterations c) in
           Some (if mse_FallbackSeed c \<noteq> []
                 then FallbackEnabled sessionCrypto
                        (Some (NewPBKDF2AesGcmSessionCrypto (mse_FallbackSeed c) (mse_FallbackIterations c)))
                 else sessionCrypto)))"

section \<open>The contract\<close>

text \<open>
  What is used of the cipher: a key opens what it sealed. What is used of the random source: a
  successful read has the length asked for.
\<close>

definition gcm_ok :: "'blk crypto \<Rightarrow> bool" where
  "gcm_ok cy = (\<forall>k gcm n p. new_gcm cy k = Inr gcm \<and> length n = ae_NonceSize gcm \<longrightarrow> ae_Open gcm n (ae_Seal gcm n p) = Some p)"

definition random_ok :: "random \<Rightarrow> bool" where
  "random_ok rnd = (\<forall>n b. rnd n = Inr b \<longrightarrow> length b = n)"

fun primary_of :: "SessionCrypto \<Rightarrow> pbkdf2AesGcm" where
  "primary_of (Pbkdf2AesGcm p) = p"
| "primary_of (FallbackEnabled primary fb) = primary_of primary"

lemma pbkdf2_roundtrip:
  assumes "gcm_ok cy" and "random_ok rs" and "random_ok rn"
    and e: "session_Encrypt cy rs rn (Pbkdf2AesGcm p) plaintext = Inr c"
  shows "pbkdf2_Decrypt cy p c = Inr plaintext"
proof -
  from e obtain salt k gcm nonce where
    s: "rs (pa_saltSize p) = Inr salt" "session_key cy p salt = Inr k" "new_gcm cy k = Inr gcm" "rn (ae_NonceSize gcm) = Inr nonce"
    "c = StdEncode (salt @ nonce @ ae_Seal gcm nonce plaintext)"
    by (auto simp: encryptAESGCM_def split: sum.splits)
  have "length salt = pa_saltSize p" "length nonce = ae_NonceSize gcm" using assms(2,3) s by (auto simp: random_ok_def)
  moreover have "ae_Open gcm nonce (ae_Seal gcm nonce plaintext) = Some plaintext"
    using assms(1) s(3) calculation(2) by (simp add: gcm_ok_def)
  ultimately show ?thesis using s by (simp add: pbkdf2_Decrypt_def decryptAESGCM_def Let_def)
qed

lemma session_Encrypt_primary: "session_Encrypt cy rs rn sc plaintext = session_Encrypt cy rs rn (Pbkdf2AesGcm (primary_of sc)) plaintext"
  by (induction sc rule: primary_of.induct) auto

lemma session_Decrypt_primary: "pbkdf2_Decrypt cy (primary_of sc) c = Inr p \<Longrightarrow> session_Decrypt cy sc c = Inr p"
  by (induction sc rule: primary_of.induct) auto

lemma session_roundtrip:
  assumes "gcm_ok cy" and "random_ok rs" and "random_ok rn" and "session_Encrypt cy rs rn sc plaintext = Inr c"
  shows "session_Decrypt cy sc c = Inr plaintext"
  using session_Decrypt_primary pbkdf2_roundtrip [OF assms(1-3)] assms(4) session_Encrypt_primary by metis

text \<open>
  The contract the sessions rely on: a cipher \<open>c\<close> with the randomness \<open>r\<close> gives out texts that it
  takes back. Its lemmas are used for session identifiers and for event identifiers.
\<close>

locale session_crypto =
  fixes ok :: "'c \<Rightarrow> 'r \<Rightarrow> bool" and enc :: "'c \<Rightarrow> 'r \<Rightarrow> string \<Rightarrow> go_error + string"
    and dec :: "'c \<Rightarrow> string \<Rightarrow> go_error + string"
  assumes taken_back: "ok c r \<Longrightarrow> enc c r p = Inr t \<Longrightarrow> dec c t = Inr p"
begin

lemma tokens_unique:
  assumes "ok c r" and "ok c r'" and "enc c r p = Inr t" and "enc c r' q = Inr t"
  shows "p = q"
proof -
  have "dec c t = Inr p" and "dec c t = Inr q" using taken_back assms by blast+
  then show ?thesis by simp
qed

end

definition cipher_ok :: "'blk crypto \<times> SessionCrypto \<Rightarrow> random \<times> random \<Rightarrow> bool" where
  "cipher_ok c r = (gcm_ok (fst c) \<and> random_ok (fst r) \<and> random_ok (snd r))"

definition cipher_Encrypt :: "'blk crypto \<times> SessionCrypto \<Rightarrow> random \<times> random \<Rightarrow> string \<Rightarrow> go_error + string" where
  "cipher_Encrypt c r p = session_Encrypt (fst c) (fst r) (snd r) (snd c) p"

definition cipher_Decrypt :: "'blk crypto \<times> SessionCrypto \<Rightarrow> string \<Rightarrow> go_error + string" where
  "cipher_Decrypt c t = session_Decrypt (fst c) (snd c) t"

interpretation sc: session_crypto cipher_ok cipher_Encrypt cipher_Decrypt
  by unfold_locales (auto simp: cipher_ok_def cipher_Encrypt_def cipher_Decrypt_def intro: session_roundtrip)

text \<open>
  Key rotation: with a new primary that does not open a token, the cipher that issued it, kept as
  the fallback, still does.
\<close>

lemma rotated_Decrypt:
  assumes "cipher_ok (cy, old) r" and "cipher_Encrypt (cy, old) r p = Inr t" and "session_Decrypt cy new t = Inl e"
  shows "cipher_Decrypt (cy, FallbackEnabled new (Some old)) t = Inr p"
  using sc.taken_back [OF assms(1,2)] assms(3) by (simp add: cipher_Decrypt_def)

lemma rotated_Encrypt: "cipher_Encrypt (cy, FallbackEnabled new (Some old)) r p = cipher_Encrypt (cy, new) r p"
  by (simp add: cipher_Encrypt_def)

end
