(* ===== verification/Mcp_Session.thy ===== *)
theory Mcp_Session
  imports Mcp_Crypto
begin

text \<open>
  \<^verbatim>\<open>internal/mcpproxy/session.go\<close>: what an MCP session is made of and how it is carried by its
  identifier. Capabilities are packed into nine bits, the session of every backend into one text
  with the route and the subject, the last events of every backend into another. The order in
  which Go walks the map of backends is the list \<open>ord\<close>.
\<close>

section \<open>Data\<close>

text \<open>A Go \<open>any\<close> decoded from JSON; numbers are the bits of a \<open>float64\<close>.\<close>

datatype any = AnyNil | AnyBool bool | AnyNumber u64 | AnyString string | AnyList "any list" | AnyMap "string \<Rightarrow> any option"

record ResourceCapabilities =
  rc_ListChanged :: bool
  rc_Subscribe :: bool

text \<open>The capabilities without sub-fields are present or not.\<close>

record ServerCapabilities =
  sc_Tools :: "bool option"
  sc_Prompts :: "bool option"
  sc_Logging :: bool
  sc_Resources :: "ResourceCapabilities option"
  sc_Completions :: bool
  sc_Extensions :: "string \<Rightarrow> any option"

definition no_capabilities :: ServerCapabilities where
  "no_capabilities = \<lparr>sc_Tools = None, sc_Prompts = None, sc_Logging = False, sc_Resources = None,
     sc_Completions = False, sc_Extensions = Map.empty\<rparr>"

record compositeSessionEntry =
  ce_backendName :: string
  ce_sessionID :: string
  ce_lastEventID :: string
  ce_capabilities :: "ServerCapabilities option"
  ce_protocolVersion :: string

section \<open>Capability flags\<close>

unbundle bit_operations_syntax

definition cap_bit :: "bool \<Rightarrow> nat \<Rightarrow> u64" where
  "cap_bit b i = (if b then push_bit i 1 else 0)"

definition capBitAll :: u64 where
  "capBitAll = mask 9"

definition encodeCapabilityFlags :: "ServerCapabilities option \<Rightarrow> string" where
  "encodeCapabilityFlags caps =
     (case caps of
        None \<Rightarrow> ''000''
      | Some c \<Rightarrow> format_03x (unat (
          (case sc_Tools c of None \<Rightarrow> 0 | Some l \<Rightarrow> cap_bit True 0 OR cap_bit l 1) OR
          (case sc_Prompts c of None \<Rightarrow> 0 | Some l \<Rightarrow> cap_bit True 2 OR cap_bit l 3) OR
          cap_bit (sc_Logging c) 4 OR
          (case sc_Resources c of None \<Rightarrow> 0
           | Some r \<Rightarrow> cap_bit True 5 OR cap_bit (rc_ListChanged r) 6 OR cap_bit (rc_Subscribe r) 7) OR
          cap_bit (sc_Completions c) 8)))"

definition decodeCapabilityFlags :: "string \<Rightarrow> ServerCapabilities" where
  "decodeCapabilityFlags hex =
     (let bits = (case ParseUint16 hex of None \<Rightarrow> capBitAll | Some n \<Rightarrow> of_nat n) in
      no_capabilities
        \<lparr>sc_Tools := (if bit bits 0 then Some (bit bits 1) else None),
         sc_Prompts := (if bit bits 2 then Some (bit bits 3) else None),
         sc_Logging := bit bits 4,
         sc_Resources := (if bit bits 5 then Some \<lparr>rc_ListChanged = bit bits 6, rc_Subscribe = bit bits 7\<rparr> else None),
         sc_Completions := bit bits 8\<rparr>)"

definition union_one :: "ServerCapabilities \<Rightarrow> ServerCapabilities \<Rightarrow> ServerCapabilities" where
  "union_one c merged =
     (let or_flag = (\<lambda>m c. case c of None \<Rightarrow> m | Some l \<Rightarrow> Some ((m = Some True) \<or> l)) in
      merged
        \<lparr>sc_Tools := or_flag (sc_Tools merged) (sc_Tools c),
         sc_Prompts := or_flag (sc_Prompts merged) (sc_Prompts c),
         sc_Logging := sc_Logging merged \<or> sc_Logging c,
         sc_Resources := (case sc_Resources c of
             None \<Rightarrow> sc_Resources merged
           | Some r \<Rightarrow>
               (let m = (case sc_Resources merged of Some m \<Rightarrow> m | None \<Rightarrow> \<lparr>rc_ListChanged = False, rc_Subscribe = False\<rparr>) in
                Some \<lparr>rc_ListChanged = rc_ListChanged m \<or> rc_ListChanged r, rc_Subscribe = rc_Subscribe m \<or> rc_Subscribe r\<rparr>)),
         sc_Completions := sc_Completions merged \<or> sc_Completions c,
         sc_Extensions := (\<lambda>id. case sc_Extensions merged id of Some x \<Rightarrow> Some x | None \<Rightarrow> sc_Extensions c id)\<rparr>)"

definition unionServerCapabilities :: "ServerCapabilities option list \<Rightarrow> ServerCapabilities" where
  "unionServerCapabilities all = fold (\<lambda>c merged. case c of None \<Rightarrow> merged | Some c \<Rightarrow> union_one c merged) all no_capabilities"

section \<open>Session identifiers\<close>

definition entry_text :: "compositeSessionEntry \<Rightarrow> string" where
  "entry_text e = ce_backendName e @ '':'' @ StdEncode (ce_sessionID e) @ '':'' @ encodeCapabilityFlags (ce_capabilities e)"

text \<open>
  The code writes a comma after every entry and cuts the last byte; without an entry that byte is
  the \<open>@\<close> after the subject.
\<close>

definition clientToGatewaySessionIDFromEntries :: "string \<Rightarrow> compositeSessionEntry list \<Rightarrow> string \<Rightarrow> string" where
  "clientToGatewaySessionIDFromEntries subject entries routeName =
     routeName @ ''@'' @ butlast (subject @ ''@'' @ concat (map (\<lambda>e. entry_text e @ '','') entries))"

text \<open>One part \<open>{backendName}:{base64(sessionID)}:{capHex}\<close>.\<close>

definition parse_entry :: "string \<Rightarrow> go_error + compositeSessionEntry" where
  "parse_entry part =
     (let fields = SplitN part (CHR '':'') 3 in
      if length fields < 2 then Inl (errorf (''invalid session ID: missing ':' separator in backend session ID part '' @ Quote part))
      else if fields ! 0 = [] then Inl (errorf (''invalid session ID: empty backend name in part '' @ Quote part))
      else
        (let caps = decodeCapabilityFlags (if length fields = 3 then fields ! 2 else []);
             entry = (\<lambda>sid. \<lparr>ce_backendName = fields ! 0, ce_sessionID = sid, ce_lastEventID = [],
                             ce_capabilities = Some caps, ce_protocolVersion = []\<rparr>) in
         if fields ! 1 \<noteq> [] then
           (case StdDecode (fields ! 1) of
              None \<Rightarrow> Inl (errorf (''invalid session ID: failed to base64 decode session ID in part '' @ Quote part @ '': illegal base64 data''))
            | Some sid \<Rightarrow> Inr (entry sid))
         else Inr (entry [])))"

type_synonym entries = "string \<Rightarrow> compositeSessionEntry option"

primrec parse_entries :: "string list \<Rightarrow> entries \<Rightarrow> go_error + entries" where
  "parse_entries [] m = Inr m"
| "parse_entries (part # parts) m =
     (case parse_entry part of Inl e \<Rightarrow> Inl e | Inr e \<Rightarrow> parse_entries parts (m(ce_backendName e \<mapsto> e)))"

definition backendSessionIDs :: "string \<Rightarrow> go_error + (entries \<times> string \<times> string)" where
  "backendSessionIDs sid =
     (case LastIndex sid ''@'' of
        None \<Rightarrow> Inl (errorf ''invalid session ID: missing '@' separator'')
      | Some lastAt \<Rightarrow>
          (let backendSessions = drop (lastAt + 1) sid; prefix = take lastAt sid; (route, subject) = Cut prefix (CHR ''@'') in
           if CHR ''@'' \<notin> set prefix then Inl (errorf ''invalid session ID: missing '@' separator'')
           else case parse_entries (Split backendSessions (CHR '','')) Map.empty of
             Inl e \<Rightarrow> Inl e
           | Inr m \<Rightarrow> Inr (m, route, subject)))"

section \<open>Event identifiers\<close>

definition setLastEventID :: "string \<Rightarrow> string \<Rightarrow> entries \<Rightarrow> entries" where
  "setLastEventID backend lastEventID m =
     (case m backend of None \<Rightarrow> m | Some e \<Rightarrow> m(backend \<mapsto> e\<lparr>ce_lastEventID := lastEventID\<rparr>))"

definition event_text :: "compositeSessionEntry \<Rightarrow> string" where
  "event_text e = ce_backendName e @ '':'' @ StdEncode (ce_lastEventID e)"

text \<open>The text before encryption; cutting the last byte of the empty text panics.\<close>

definition event_id_text :: "string list \<Rightarrow> entries \<Rightarrow> go_error + string" where
  "event_id_text ord m =
     (let b = concat (map (\<lambda>k. case m k of None \<Rightarrow> [] | Some e \<Rightarrow> event_text e @ '','') (range_keys ord m)) in
      if b = [] then Inl (GoError [GoPanic] ''slice bounds out of range'') else Inr (butlast b))"

definition session_lastEventID :: "'blk crypto \<Rightarrow> SessionCrypto option \<Rightarrow> random \<times> random \<Rightarrow> string list \<Rightarrow> entries \<Rightarrow> go_error + string" where
  "session_lastEventID cy crypto r ord m =
     (case event_id_text ord m of
        Inl e \<Rightarrow> Inl e
      | Inr t \<Rightarrow>
          (case crypto of
             None \<Rightarrow> Inr t
           | Some c \<Rightarrow> (case cipher_Encrypt (cy, c) r t of Inl e \<Rightarrow> Inr [] | Inr enc \<Rightarrow> Inr enc)))"

definition event_part :: "string \<Rightarrow> (string \<Rightarrow> string option) \<Rightarrow> string \<Rightarrow> string option" where
  "event_part part result =
     (case Index part '':'' of
        None \<Rightarrow> result
      | Some colon \<Rightarrow>
          (let backendName = take colon part; eventID = drop (colon + 1) part in
           if backendName = [] then result
           else if eventID = [] then result(backendName \<mapsto> [])
           else case StdDecode eventID of None \<Rightarrow> result | Some d \<Rightarrow> result(backendName \<mapsto> d)))"

definition backendEventIDs :: "string \<Rightarrow> string \<Rightarrow> string option" where
  "backendEventIDs e = fold event_part (Split e (CHR '','')) Map.empty"

section \<open>Operations of a session\<close>

definition mergedCapabilities :: "string list \<Rightarrow> entries \<Rightarrow> ServerCapabilities" where
  "mergedCapabilities ord m =
     unionServerCapabilities (map (\<lambda>k. case m k of Some e \<Rightarrow> ce_capabilities e | None \<Rightarrow> None) (range_keys ord m))"

section \<open>Protocol versions\<close>

text \<open>
  \<open>mergedProtocolVersion\<close> of \<^verbatim>\<open>mcpproxy.go\<close>. Beside the version, the result has the two lists of
  backends the code warns about. Versions are compared as texts, byte by byte.
\<close>

record backendReportedVersions =
  brv_name :: string
  brv_versions :: "string list"

definition backend_max :: "string list \<Rightarrow> string" where
  "backend_max versions = fold (\<lambda>v m. if v = [] then m else if v > m then v else m) versions []"

definition named_max_step :: "backendReportedVersions \<Rightarrow> (string \<times> string) list \<times> string \<Rightarrow> (string \<times> string) list \<times> string" where
  "named_max_step b st =
     (let (backendMaxes, backendMin) = st; m = backend_max (brv_versions b) in
      if m = [] then st
      else
        (let name = (if brv_name b = [] then ''backend['' @ Itoa (length backendMaxes) @ '']'' else brv_name b) in
         (backendMaxes @ [(name, m)], if backendMin = [] \<or> m < backendMin then m else backendMin)))"

definition protocolVersion20250618 :: string where
  "protocolVersion20250618 = ''2025-06-18''"

definition mergedProtocolVersion :: "string \<Rightarrow> backendReportedVersions list \<Rightarrow> string \<times> string list \<times> string list" where
  "mergedProtocolVersion clientVersion backends =
     (let floor = protocolVersion20250618; (backendMaxes, backendMin) = fold named_max_step backends ([], []) in
      if backendMin = [] then (floor, [], [])
      else
        (let merged = (if clientVersion \<noteq> [] \<and> clientVersion < backendMin then clientVersion else backendMin);
             merged = (if merged < floor then floor else merged);
             show_max = (\<lambda>bm. fst bm @ ''('' @ snd bm @ '')'') in
         (merged, map show_max (filter (\<lambda>bm. snd bm > merged) backendMaxes),
          map show_max (filter (\<lambda>bm. snd bm < floor) backendMaxes))))"

definition session_mergedProtocolVersion :: "string list \<Rightarrow> entries \<Rightarrow> string \<Rightarrow> string \<times> string list \<times> string list" where
  "session_mergedProtocolVersion ord m clientVersion =
     (let backends = map (\<lambda>k. \<lparr>brv_name = k, brv_versions = [case m k of Some e \<Rightarrow> ce_protocolVersion e | None \<Rightarrow> []]\<rparr>) (range_keys ord m) in
      mergedProtocolVersion clientVersion (sort_key brv_name backends))"

section \<open>Capabilities survive the identifier\<close>

lemma bit_cap_bit: "i < 64 \<Longrightarrow> bit (cap_bit b i) j \<longleftrightarrow> b \<and> i = j"
  by (auto simp: cap_bit_def bit_simps)

lemma unat_small_bits:
  assumes "\<And>n. bit w n \<Longrightarrow> n < k"
  shows "unat (w :: u64) < 2 ^ k"
proof -
  have "w = take_bit k w" using assms by (intro bit_word_eqI) (auto simp: bit_take_bit_iff)
  then have "unat w = take_bit k (unat w)" by (metis unsigned_take_bit_eq)
  then show ?thesis by (metis take_bit_nat_less_exp)
qed

definition cap_bits :: "ServerCapabilities \<Rightarrow> u64" where
  "cap_bits c =
     (case sc_Tools c of None \<Rightarrow> 0 | Some l \<Rightarrow> cap_bit True 0 OR cap_bit l 1) OR
     (case sc_Prompts c of None \<Rightarrow> 0 | Some l \<Rightarrow> cap_bit True 2 OR cap_bit l 3) OR
     cap_bit (sc_Logging c) 4 OR
     (case sc_Resources c of None \<Rightarrow> 0
      | Some r \<Rightarrow> cap_bit True 5 OR cap_bit (rc_ListChanged r) 6 OR cap_bit (rc_Subscribe r) 7) OR
     cap_bit (sc_Completions c) 8"

lemma bit_cap_bits:
  "bit (cap_bits c) n \<longleftrightarrow>
     n = 0 \<and> sc_Tools c \<noteq> None \<or> n = 1 \<and> sc_Tools c = Some True \<or>
     n = 2 \<and> sc_Prompts c \<noteq> None \<or> n = 3 \<and> sc_Prompts c = Some True \<or>
     n = 4 \<and> sc_Logging c \<or>
     n = 5 \<and> sc_Resources c \<noteq> None \<or> n = 6 \<and> (\<exists>r. sc_Resources c = Some r \<and> rc_ListChanged r) \<or>
     n = 7 \<and> (\<exists>r. sc_Resources c = Some r \<and> rc_Subscribe r) \<or>
     n = 8 \<and> sc_Completions c"
  by (cases "sc_Tools c"; cases "sc_Prompts c"; cases "sc_Resources c")
    (auto simp: cap_bits_def bit_or_iff bit_cap_bit)

lemma encode_cap_bits: "encodeCapabilityFlags (Some c) = format_03x (unat (cap_bits c))"
  by (simp add: encodeCapabilityFlags_def cap_bits_def)

lemma cap_bits_small: "unat (cap_bits c) < 2 ^ 16"
proof -
  have "unat (cap_bits c) < 2 ^ 9" by (rule unat_small_bits) (auto simp: bit_cap_bits)
  then show ?thesis by simp
qed

lemma flags_parsed [simp]: "ParseUint16 (format_03x (unat (cap_bits c))) = Some (unat (cap_bits c))"
  by (rule ParseUint16_format [OF cap_bits_small])

lemma no_flags: "ParseUint16 ''000'' = Some 0"
proof -
  have "''000'' = format_03x 0" by (simp add: format_03x_def hex_nat.simps hex_lower_def numeral_2_eq_2)
  then show ?thesis using ParseUint16_format [of 0] by simp
qed

lemma decode_encode_flags:
  "decodeCapabilityFlags (encodeCapabilityFlags caps) =
     (case caps of None \<Rightarrow> no_capabilities | Some c \<Rightarrow> c\<lparr>sc_Extensions := Map.empty\<rparr>)"
proof (cases caps)
  case None
  then show ?thesis by (simp add: encodeCapabilityFlags_def decodeCapabilityFlags_def no_flags no_capabilities_def)
next
  case (Some c)
  then show ?thesis
    by (cases c; cases "sc_Tools c"; cases "sc_Prompts c"; cases "sc_Resources c")
      (simp_all add: encode_cap_bits decodeCapabilityFlags_def Let_def bit_cap_bits no_capabilities_def)
qed

lemma flags_text: "ch \<in> set (encodeCapabilityFlags caps) \<Longrightarrow> std_text ch"
proof (cases caps)
  case None
  moreover assume "ch \<in> set (encodeCapabilityFlags caps)"
  ultimately have "ch = CHR ''0''" by (simp add: encodeCapabilityFlags_def)
  then show ?thesis using hex_lower_text [of 0] by (simp add: hex_lower_def)
qed (auto simp: encode_cap_bits intro: format_03x_text)

section \<open>Session identifiers are read back\<close>

text \<open>A backend name has none of the separators, a route name no \<open>@\<close>; a subject is any text.\<close>

definition wf_name :: "string \<Rightarrow> bool" where
  "wf_name n = (n \<noteq> [] \<and> CHR '':'' \<notin> set n \<and> CHR '','' \<notin> set n \<and> CHR ''@'' \<notin> set n)"

text \<open>What is left of an entry after a round trip: not the last event, the version or the extensions.\<close>

definition restored :: "compositeSessionEntry \<Rightarrow> compositeSessionEntry" where
  "restored e = e\<lparr>ce_lastEventID := [], ce_protocolVersion := [],
     ce_capabilities := Some (case ce_capabilities e of None \<Rightarrow> no_capabilities | Some c \<Rightarrow> c\<lparr>sc_Extensions := Map.empty\<rparr>)\<rparr>"

definition entry_map :: "compositeSessionEntry list \<Rightarrow> entries" where
  "entry_map es = map_of (rev (map (\<lambda>e. (ce_backendName e, e)) es))"

lemma butlast_terminated:
  "es \<noteq> [] \<Longrightarrow> butlast (x @ concat (map (\<lambda>e. f e @ [c]) es)) = x @ Join (map f es) [c]"
proof (induction es arbitrary: x)
  case (Cons e es)
  then show ?case
  proof (cases es)
    case (Cons e' es')
    then show ?thesis using Cons.IH [of "x @ f e @ [c]"] by simp
  qed (simp add: butlast_append)
qed simp

lemma LastIndex_none: "c \<notin> set s \<Longrightarrow> LastIndex s [c] = None"
  by (induction s) (auto simp: HasPrefix_single)

lemma LastIndex_append: "c \<notin> set b \<Longrightarrow> LastIndex (a @ c # b) [c] = Some (length a)"
  by (induction a) (auto simp: LastIndex_none HasPrefix_single)

lemma set_Join: "set (Join ps sep) \<subseteq> (\<Union>p \<in> set ps. set p) \<union> set sep"
  by (induction ps sep rule: Join.induct) auto

lemma StdEncode_sep: "CHR '':'' \<notin> set (StdEncode b)" "CHR '','' \<notin> set (StdEncode b)" "CHR ''@'' \<notin> set (StdEncode b)"
  using StdEncode_text std_text_not by blast+

lemma flags_sep: "CHR '':'' \<notin> set (encodeCapabilityFlags c)" "CHR '','' \<notin> set (encodeCapabilityFlags c)" "CHR ''@'' \<notin> set (encodeCapabilityFlags c)"
  using flags_text std_text_not by blast+

lemma entry_text_sep: "wf_name (ce_backendName e) \<Longrightarrow> CHR '','' \<notin> set (entry_text e) \<and> CHR ''@'' \<notin> set (entry_text e)"
  by (simp add: wf_name_def entry_text_def StdEncode_sep flags_sep)

lemma StdEncode_Nil: "StdEncode b = [] \<longleftrightarrow> b = []"
proof
  have e: "StdEncode [] = []" by (simp add: StdEncode_def)
  show "b = []" if "StdEncode b = []" using Std_roundtrip [of b] Std_roundtrip [of "[]"] that e by simp
  show "StdEncode b = []" if "b = []" using e that by simp
qed

lemma entry_fields:
  "wf_name (ce_backendName e) \<Longrightarrow>
   SplitN (entry_text e) (CHR '':'') 3 = [ce_backendName e, StdEncode (ce_sessionID e), encodeCapabilityFlags (ce_capabilities e)]"
  by (simp add: entry_text_def wf_name_def takeWhile_neq_append dropWhile_neq_append StdEncode_sep numeral_3_eq_3)

lemma parse_entry_text: "wf_name (ce_backendName e) \<Longrightarrow> parse_entry (entry_text e) = Inr (restored e)"
  by (cases e) (auto simp: parse_entry_def entry_fields Let_def nth_Cons' decode_encode_flags restored_def StdEncode_Nil wf_name_def)

lemma parse_entries_text:
  "\<forall>e \<in> set es. wf_name (ce_backendName e) \<Longrightarrow>
   parse_entries (map entry_text es) m = Inr (m ++ entry_map (map restored es))"
proof (induction es arbitrary: m)
  case (Cons e es)
  then show ?case by (simp add: parse_entry_text entry_map_def restored_def map_add_upd_left map_add_assoc)
qed (simp add: entry_map_def)

lemma session_id_text:
  "es \<noteq> [] \<Longrightarrow> clientToGatewaySessionIDFromEntries subject es route = route @ ''@'' @ subject @ ''@'' @ Join (map entry_text es) '',''"
  using butlast_terminated [of es "subject @ ''@''" entry_text "CHR '',''"] by (simp add: clientToGatewaySessionIDFromEntries_def)

lemma session_id_roundtrip:
  assumes "es \<noteq> []" and names: "\<forall>e \<in> set es. wf_name (ce_backendName e)" and route: "CHR ''@'' \<notin> set route"
  shows "backendSessionIDs (clientToGatewaySessionIDFromEntries subject es route) = Inr (entry_map (map restored es), route, subject)"
proof -
  let ?b = "Join (map entry_text es) '',''"
  let ?p = "route @ CHR ''@'' # subject"
  have no: "CHR ''@'' \<notin> set ?b" using set_Join [of "map entry_text es" "'',''"] names entry_text_sep by fastforce
  have "clientToGatewaySessionIDFromEntries subject es route = ?p @ CHR ''@'' # ?b"
    using session_id_text [OF assms(1)] by simp
  moreover have "Split ?b (CHR '','') = map entry_text es"
    using Split_Join [of "map entry_text es" "CHR '',''"] assms(1) names entry_text_sep by simp
  ultimately show ?thesis
    using LastIndex_append [OF no, of ?p] Cut_append [OF route, of subject] parse_entries_text [OF names, of Map.empty]
    by (simp add: backendSessionIDs_def Let_def)
qed

section \<open>Event identifiers are read back\<close>

text \<open>The entries of a session are filed under their own, well-formed, names.\<close>

definition wf_entries :: "entries \<Rightarrow> bool" where
  "wf_entries m = (\<forall>k e. m k = Some e \<longrightarrow> ce_backendName e = k \<and> wf_name k)"

definition event_ids :: "entries \<Rightarrow> string \<Rightarrow> string option" where
  "event_ids m = map_option ce_lastEventID \<circ> m"

lemma event_part_text:
  assumes "wf_name (ce_backendName e)"
  shows "event_part (event_text e) r = r(ce_backendName e \<mapsto> ce_lastEventID e)"
proof -
  let ?n = "ce_backendName e"
  have "Index (?n @ CHR '':'' # StdEncode (ce_lastEventID e)) '':'' = Some (length ?n)"
    using Index_append [of "'':''" ?n "StdEncode (ce_lastEventID e)"] assms by (simp add: wf_name_def)
  then show ?thesis using assms
    by (cases "ce_lastEventID e = []") (auto simp: event_part_def event_text_def wf_name_def StdEncode_Nil)
qed

lemma event_text_sep: "wf_name (ce_backendName e) \<Longrightarrow> CHR '','' \<notin> set (event_text e) \<and> CHR ''@'' \<notin> set (event_text e)"
  by (simp add: wf_name_def event_text_def StdEncode_sep)

lemma fold_event_parts:
  "\<forall>e \<in> set es. wf_name (ce_backendName e) \<Longrightarrow>
   fold event_part (map event_text es) r = r ++ map_of (rev (map (\<lambda>e. (ce_backendName e, ce_lastEventID e)) es))"
  by (induction es arbitrary: r) (simp_all add: event_part_text map_add_upd_left map_add_assoc)

definition session_entries :: "string list \<Rightarrow> entries \<Rightarrow> compositeSessionEntry list" where
  "session_entries ord m = map (\<lambda>k. the (m k)) (range_keys ord m)"

lemma in_range_keys: "k \<in> set (range_keys ord m) \<Longrightarrow> \<exists>e. m k = Some e"
  by (auto simp: range_keys_def)

lemma session_entries_wf: "wf_entries m \<Longrightarrow> e \<in> set (session_entries ord m) \<Longrightarrow> wf_name (ce_backendName e)"
  by (auto simp: session_entries_def wf_entries_def dest!: in_range_keys)

lemma event_id_text_Join:
  assumes "session_entries ord m \<noteq> []"
  shows "event_id_text ord m = Inr (Join (map event_text (session_entries ord m)) '','')"
proof -
  have c: "map (\<lambda>k. case m k of None \<Rightarrow> [] | Some e \<Rightarrow> event_text e @ '','') (range_keys ord m) =
      map (\<lambda>e. event_text e @ '','') (session_entries ord m)"
    by (auto simp: session_entries_def dest!: in_range_keys)
  have "concat (map (\<lambda>e. event_text e @ '','') (session_entries ord m)) \<noteq> []" using assms by auto
  then show ?thesis
    using butlast_terminated [OF assms, of "[]" event_text "CHR '',''"] by (simp add: event_id_text_def c)
qed

lemma map_of_session_entries:
  assumes "wf_entries m" and "enumerates ord m"
  shows "map_of (rev (map (\<lambda>e. (ce_backendName e, ce_lastEventID e)) (session_entries ord m))) = event_ids m"
proof -
  let ?f = "\<lambda>k. ce_lastEventID (the (m k))"
  have k: "map (\<lambda>e. (ce_backendName e, ce_lastEventID e)) (session_entries ord m) = map (\<lambda>k. (k, ?f k)) (range_keys ord m)"
    using assms(1) by (auto simp: session_entries_def wf_entries_def dest!: in_range_keys)
  have "map_of (map (\<lambda>k. (k, ?f k)) (rev (range_keys ord m))) = (Some \<circ> ?f) |` dom m"
    using set_range_keys [OF assms(2)] by (simp add: map_of_map_restrict)
  then show ?thesis by (auto simp: k rev_map event_ids_def restrict_map_def fun_eq_iff domIff)
qed

lemma event_id_roundtrip:
  assumes "wf_entries m" and "enumerates ord m" and "m \<noteq> Map.empty"
  shows "\<exists>t. event_id_text ord m = Inr t \<and> backendEventIDs t = event_ids m"
proof -
  have "range_keys ord m \<noteq> []" using set_range_keys [OF assms(2)] assms(3) by (metis dom_eq_empty_conv set_empty)
  then have ne: "session_entries ord m \<noteq> []" by (simp add: session_entries_def)
  have wf: "\<forall>e \<in> set (session_entries ord m). wf_name (ce_backendName e)" using session_entries_wf [OF assms(1)] by blast
  have "Split (Join (map event_text (session_entries ord m)) '','') (CHR '','') = map event_text (session_entries ord m)"
    using Split_Join [of "map event_text (session_entries ord m)" "CHR '',''"] ne wf event_text_sep by simp
  then show ?thesis
    using event_id_text_Join [OF ne] fold_event_parts [OF wf, of Map.empty] map_of_session_entries [OF assms(1,2)]
    by (simp add: backendEventIDs_def)
qed

text \<open>An event identifier is never taken for a session identifier.\<close>

lemma event_id_not_session:
  assumes "wf_entries m" and "event_id_text ord m = Inr t"
  shows "\<exists>e. backendSessionIDs t = Inl e"
proof -
  have ne: "session_entries ord m \<noteq> []" using assms(2) by (auto simp: event_id_text_def session_entries_def Let_def split: if_splits)
  have "CHR ''@'' \<notin> set t"
    using event_id_text_Join [OF ne] assms(2) set_Join [of "map event_text (session_entries ord m)" "'',''"]
      session_entries_wf [OF assms(1)] event_text_sep by fastforce
  then show ?thesis by (simp add: backendSessionIDs_def LastIndex_none)
qed

section \<open>The negotiated version\<close>

text \<open>The highest version each backend reported, for the backends that reported one.\<close>

definition reported :: "backendReportedVersions list \<Rightarrow> string set" where
  "reported bs = {Max (set (brv_versions b)) | b. b \<in> set bs \<and> (\<exists>v \<in> set (brv_versions b). v \<noteq> [])}"

lemma Nil_least [simp]: "\<not> v < ([] :: string)" "([] :: string) \<le> v"
  by (simp_all add: not_less_Nil)

lemma backend_max_fold:
  "fold (\<lambda>v m. if v = [] then m else if v > m then v else m) vs (m :: string) = Max (insert m (set vs))"
proof (induction vs arbitrary: m)
  case (Cons v vs)
  have "(if v = [] then m else if v > m then v else m) = max m v" by (auto simp: max_def)
  then show ?case using Cons by (cases "set vs = {}") (simp_all add: Max_insert max.assoc)
qed simp

lemma backend_max_Max: "vs \<noteq> [] \<Longrightarrow> backend_max vs = Max (set vs)"
  using backend_max_fold [of vs "[]"] by (simp add: backend_max_def Max_insert max_absorb2)

lemma backend_max_Nil: "backend_max vs = [] \<longleftrightarrow> (\<forall>v \<in> set vs. v = [])"
proof (cases "vs = []")
  case False
  have "Max (set vs) = [] \<longleftrightarrow> (\<forall>v \<in> set vs. v \<le> [])"
    using Max_le_iff [of "set vs" "[]"] False by (metis List.finite_set Nil_least(2) order.antisym order.refl set_empty)
  then show ?thesis using backend_max_Max [OF False] by (simp add: le_less)
qed (simp add: backend_max_def)

lemma reported_simps:
  "reported [] = {}"
  "reported (b # bs) = (if backend_max (brv_versions b) = [] then reported bs else insert (backend_max (brv_versions b)) (reported bs))"
proof -
  show "reported [] = {}" by (simp add: reported_def)
  show "reported (b # bs) = (if backend_max (brv_versions b) = [] then reported bs else insert (backend_max (brv_versions b)) (reported bs))"
  proof (cases "backend_max (brv_versions b) = []")
    case False
    then have "brv_versions b \<noteq> []" by (auto simp: backend_max_def)
    then have "backend_max (brv_versions b) = Max (set (brv_versions b))" by (rule backend_max_Max)
    with False show ?thesis using backend_max_Nil [of "brv_versions b"] by (auto simp: reported_def)
  qed (auto simp: reported_def backend_max_Nil)
qed

lemma finite_reported [simp]: "finite (reported bs)"
  by (induction bs) (simp_all add: reported_simps)

lemma reported_not_Nil: "[] \<notin> reported bs"
  by (induction bs) (auto simp: reported_simps)

lemma named_max_step_pair:
  "backend_max (brv_versions b) = [] \<Longrightarrow> named_max_step b (ms, m) = (ms, m)"
  "backend_max (brv_versions b) \<noteq> [] \<Longrightarrow>
   \<exists>n. named_max_step b (ms, m) = (ms @ [(n, backend_max (brv_versions b))], if m = [] \<or> backend_max (brv_versions b) < m then backend_max (brv_versions b) else m)"
  by (auto simp: named_max_step_def Let_def)

lemma named_max_fold:
  "snd (fold named_max_step bs (ms, m)) = (if reported bs = {} then m else if m = [] then Min (reported bs) else Min (insert m (reported bs)))"
proof (induction bs arbitrary: ms m)
  case (Cons b bs)
  let ?v = "backend_max (brv_versions b)"
  show ?case
  proof (cases "?v = []")
    case False
    have v: "(if m = [] \<or> ?v < m then ?v else m) = (if m = [] then ?v else min m ?v)" by (auto simp: min_def not_less)
    moreover have "(if m = [] then ?v else min m ?v) \<noteq> []" using False by (auto simp: min_def)
    moreover obtain n where "named_max_step b (ms, m) = (ms @ [(n, ?v)], if m = [] then ?v else min m ?v)"
      using named_max_step_pair(2) [OF False, of ms m] v by auto
    ultimately show ?thesis using False Cons [of _ "if m = [] then ?v else min m ?v"]
      by (cases "reported bs = {}") (simp_all add: reported_simps min.assoc)
  qed (simp add: named_max_step_pair Cons reported_simps)
qed (simp add: reported_simps)

lemma clamp:
  fixes c v f :: "'a :: linorder"
  shows "(if (if P \<and> c < v then c else v) < f then f else if P \<and> c < v then c else v) = max f (if P then min c v else v)"
  by (auto simp: max_def min_def)

lemma merged_version:
  "fst (mergedProtocolVersion clientVersion bs) =
     (if reported bs = {} then protocolVersion20250618
      else max protocolVersion20250618
        (if clientVersion = [] then Min (reported bs) else min clientVersion (Min (reported bs))))"
proof -
  obtain ms m where f: "fold named_max_step bs ([], []) = (ms, m)" by (cases "fold named_max_step bs ([], [])")
  then have m: "m = (if reported bs = {} then [] else Min (reported bs))" using named_max_fold [of bs "[]" "[]"] by simp
  have "Min (reported bs) \<noteq> []" if "reported bs \<noteq> {}" using Min_in [OF finite_reported that] reported_not_Nil [of bs] by auto
  then have "m = [] \<longleftrightarrow> reported bs = {}" using m by simp
  moreover have "fst (mergedProtocolVersion clientVersion bs) =
      (if m = [] then protocolVersion20250618 else max protocolVersion20250618 (if clientVersion \<noteq> [] then min clientVersion m else m))"
    unfolding mergedProtocolVersion_def f Let_def by (simp add: clamp)
  ultimately show ?thesis using m by simp
qed

section \<open>Merged capabilities\<close>

text \<open>
  An extension that two backends declare differently is merged to the one whose backend Go's map
  iteration visits first, so two calls on one session may differ.
\<close>

definition extension_entry :: "string \<Rightarrow> bool \<Rightarrow> compositeSessionEntry" where
  "extension_entry n b = \<lparr>ce_backendName = n, ce_sessionID = [], ce_lastEventID = [],
     ce_capabilities = Some (no_capabilities\<lparr>sc_Extensions := [''ext'' \<mapsto> AnyBool b]\<rparr>), ce_protocolVersion = []\<rparr>"

definition extension_session :: entries where
  "extension_session = [''a'' \<mapsto> extension_entry ''a'' True, ''b'' \<mapsto> extension_entry ''b'' False]"

theorem merged_extensions_follow_map_order:
  "enumerates [''a'', ''b''] extension_session \<and> enumerates [''b'', ''a''] extension_session \<and>
   sc_Extensions (mergedCapabilities [''a'', ''b''] extension_session) ''ext'' = Some (AnyBool True) \<and>
   sc_Extensions (mergedCapabilities [''b'', ''a''] extension_session) ''ext'' = Some (AnyBool False)"
  by (auto simp: enumerates_def extension_session_def extension_entry_def mergedCapabilities_def range_keys_def
      unionServerCapabilities_def union_one_def no_capabilities_def Let_def)

end
