(* ===== verification/Mcp_Authorization.thy ===== *)
theory Mcp_Authorization
  imports Mcp_Session
begin

text \<open>
  \<^verbatim>\<open>internal/mcpproxy/authorization.go\<close> with the configuration types of
  \<^verbatim>\<open>internal/filterapi/mcpconfig.go\<close> it reads: the compilation of the rules of a route, the
  decision for one request, and the context several decisions share. The CEL library, the JWT
  parser and the JSON codec are parameters. Logging is left out.
\<close>

section \<open>Configuration\<close>

text \<open>Slices that \<open>reflect.DeepEqual\<close> compares keep the difference of nil and empty.\<close>

definition elems :: "'a list option \<Rightarrow> 'a list" where
  "elems xs = (case xs of None \<Rightarrow> [] | Some ys \<Rightarrow> ys)"

record ToolCall =
  tc_Backend :: string
  tc_Tool :: string

record JWTClaim =
  jc_Name :: string
  jc_ValueType :: string
  jc_Values :: "string list option"

record JWTSource =
  js_Scopes :: "string list option"
  js_Claims :: "JWTClaim list option"

record MCPRouteAuthorizationRule =
  ru_Action :: string
  ru_Source :: "JWTSource option"
  ru_Target :: "ToolCall list option"
  ru_CEL :: "string option"

record MCPRouteAuthorization =
  ra_DefaultAction :: string
  ra_Rules :: "MCPRouteAuthorizationRule list"
  ra_ResourceMetadataURL :: string
  ra_VerifiedJWT :: bool

definition AuthorizationActionAllow :: string where
  "AuthorizationActionAllow = ''Allow''"

section \<open>Requests and the values CEL reads\<close>

text \<open>\<open>'p\<close> is the type of the decoded parameters of an MCP message.\<close>

record 'p authorizationRequest =
  ar_Headers :: http_header
  ar_HTTPMethod :: string
  ar_Host :: string
  ar_HTTPPath :: string
  ar_MCPMethod :: string
  ar_Backend :: string
  ar_Tool :: string
  ar_Params :: "'p option"

datatype 'p cel_params = ParamsNil | ParamsMap "string \<Rightarrow> any option" | ParamsRaw 'p

text \<open>The activation is the tree of maps under \<open>request\<close>; \<open>mcp\<close> is the part that is patched.\<close>

record 'p cel_mcp =
  cm_method :: string
  cm_backend :: string
  cm_tool :: string
  cm_params :: "'p cel_params"

record 'p activation =
  av_method :: string
  av_host :: string
  av_headers :: "string \<Rightarrow> string option"
  av_headers_all :: "string \<Rightarrow> string list option"
  av_path :: string
  av_claims :: "string \<Rightarrow> any option"
  av_scopes :: "string list"
  av_mcp :: "'p cel_mcp"

datatype cel_value = CelBool bool | CelOther

type_synonym 'p cel_program = "'p activation \<Rightarrow> go_error + cel_value"

record ('ast, 'p) cel_library =
  cel_NewEnv :: "go_error option"
  cel_Compile :: "string \<Rightarrow> go_error + 'ast"
  cel_Program :: "'ast \<Rightarrow> go_error + 'p cel_program"

text \<open>
  The parser fills the claims it could read even when it reports an error. The headers are walked
  in the order \<open>ae_order\<close>.
\<close>

record 'p authz_env =
  ae_ParseUnverified :: "string \<Rightarrow> (string \<Rightarrow> any option) \<times> bool"
  ae_Marshal :: "'p \<Rightarrow> go_error + bytes"
  ae_UnmarshalMap :: "bytes \<Rightarrow> go_error + (string \<Rightarrow> any option)"
  ae_order :: "string list"

section \<open>Compilation\<close>

record 'p compiledAuthorizationRule =
  cr_Source :: "JWTSource option"
  cr_Target :: "ToolCall list"
  cr_Action :: string
  cr_celExpression :: string
  cr_celProgram :: "'p cel_program option"

record 'p compiledAuthorization =
  ca_ResourceMetadataURL :: string
  ca_Rules :: "'p compiledAuthorizationRule list"
  ca_DefaultAction :: string
  ca_VerifiedJWT :: bool

definition compile_rule :: "('ast, 'p) cel_library \<Rightarrow> MCPRouteAuthorizationRule \<Rightarrow> go_error + 'p compiledAuthorizationRule" where
  "compile_rule cel rule =
     (let cr = \<lparr>cr_Source = ru_Source rule, cr_Target = elems (ru_Target rule), cr_Action = ru_Action rule,
                cr_celExpression = [], cr_celProgram = None\<rparr> in
      case ru_CEL rule of
        None \<Rightarrow> Inr cr
      | Some c \<Rightarrow>
          if TrimSpace c = [] then Inr cr
          else case cel_Compile cel (TrimSpace c) of
            Inl e \<Rightarrow> Inl (wrapf ''failed to compile rule CEL: '' e)
          | Inr ast \<Rightarrow>
              (case cel_Program cel ast of
                 Inl e \<Rightarrow> Inl (wrapf ''failed to build rule CEL program: '' e)
               | Inr program \<Rightarrow> Inr (cr\<lparr>cr_celExpression := TrimSpace c, cr_celProgram := Some program\<rparr>)))"

primrec compile_rules :: "('ast, 'p) cel_library \<Rightarrow> MCPRouteAuthorizationRule list \<Rightarrow> go_error + 'p compiledAuthorizationRule list" where
  "compile_rules cel [] = Inr []"
| "compile_rules cel (r # rs) =
     (case compile_rule cel r of
        Inl e \<Rightarrow> Inl e
      | Inr c \<Rightarrow> (case compile_rules cel rs of Inl e \<Rightarrow> Inl e | Inr cs \<Rightarrow> Inr (c # cs)))"

definition compileAuthorization :: "('ast, 'p) cel_library \<Rightarrow> MCPRouteAuthorization option \<Rightarrow> go_error + 'p compiledAuthorization option" where
  "compileAuthorization cel auth =
     (case auth of
        None \<Rightarrow> Inr None
      | Some a \<Rightarrow>
          (case cel_NewEnv cel of
             Some e \<Rightarrow> Inl (wrapf ''failed to create CEL environment: '' e)
           | None \<Rightarrow>
               (case compile_rules cel (ra_Rules a) of
                  Inl e \<Rightarrow> Inl e
                | Inr rules \<Rightarrow>
                    Inr (Some \<lparr>ca_ResourceMetadataURL = ra_ResourceMetadataURL a, ca_Rules = rules,
                               ca_DefaultAction = ra_DefaultAction a, ca_VerifiedJWT = ra_VerifiedJWT a\<rparr>))))"

definition same_rule :: "'p compiledAuthorizationRule \<Rightarrow> 'p compiledAuthorizationRule \<Rightarrow> bool" where
  "same_rule ra rb = (cr_Action ra = cr_Action rb \<and> cr_celExpression ra = cr_celExpression rb \<and>
     cr_Source ra = cr_Source rb \<and> cr_Target ra = cr_Target rb)"

text \<open>For pointers, \<open>a == other\<close> with one of them nil holds when both are.\<close>

definition same :: "'p compiledAuthorization option \<Rightarrow> 'p compiledAuthorization option \<Rightarrow> bool" where
  "same a other =
     (case (a, other) of
        (Some a, Some b) \<Rightarrow>
          ca_ResourceMetadataURL a = ca_ResourceMetadataURL b \<and> ca_DefaultAction a = ca_DefaultAction b \<and>
          ca_VerifiedJWT a = ca_VerifiedJWT b \<and> list_all2 same_rule (ca_Rules a) (ca_Rules b)
      | (None, None) \<Rightarrow> True
      | _ \<Rightarrow> False)"

section \<open>Tokens and claims\<close>

definition bearerToken :: "string \<Rightarrow> go_error + string" where
  "bearerToken header =
     (if header = [] then Inl (errorf ''missing Authorization header'')
      else
        (let parts = SplitN header (CHR '' '') 2 in
         if length parts \<noteq> 2 \<or> \<not> EqualFold (parts ! 0) ''bearer'' then Inl (errorf ''invalid Authorization header'')
         else if TrimSpace (parts ! 1) = [] then Inl (errorf ''missing bearer token'')
         else Inr (TrimSpace (parts ! 1))))"

text \<open>\<open>strings.Fields\<close>.\<close>

function Fields :: "string \<Rightarrow> string list" where
  "Fields s =
     (case dropWhile is_space s of
        [] \<Rightarrow> []
      | c # cs \<Rightarrow> takeWhile (\<lambda>c. \<not> is_space c) (c # cs) # Fields (dropWhile (\<lambda>c. \<not> is_space c) cs))"
  by pat_completeness auto

lemma Fields_shorter: "dropWhile is_space s = c # cs \<Longrightarrow> length (dropWhile (\<lambda>c. \<not> is_space c) cs) < length s"
  using length_dropWhile_le [of "\<lambda>c. \<not> is_space c" cs] length_dropWhile_le [of is_space s] by simp

termination Fields
  by (relation "measure length") (auto simp: Fields_shorter)

declare Fields.simps [simp del]

definition scopes_of :: "any \<Rightarrow> string list" where
  "scopes_of v =
     (case v of
        AnyString s \<Rightarrow> Fields s
      | AnyList items \<Rightarrow> concat (map (\<lambda>i. case i of AnyString s \<Rightarrow> if s \<noteq> [] then [s] else [] | _ \<Rightarrow> []) items)
      | _ \<Rightarrow> [])"

definition extractScopes :: "(string \<Rightarrow> any option) \<Rightarrow> string list" where
  "extractScopes claims = concat (map (\<lambda>k. case claims k of None \<Rightarrow> [] | Some raw \<Rightarrow> scopes_of raw) [''scope'', ''scp''])"

fun lookup_path :: "string list \<Rightarrow> any \<Rightarrow> any option" where
  "lookup_path [] current = Some current"
| "lookup_path (part # parts) current =
     (case current of
        AnyMap m \<Rightarrow> (case m part of None \<Rightarrow> None | Some next \<Rightarrow> lookup_path parts next)
      | _ \<Rightarrow> None)"

definition lookupClaim :: "(string \<Rightarrow> any option) \<Rightarrow> string \<Rightarrow> any option" where
  "lookupClaim claims path = lookup_path (Split path (CHR ''.'')) (AnyMap claims)"

definition claimHasAllowedString :: "any \<Rightarrow> string list \<Rightarrow> bool" where
  "claimHasAllowedString v allowed =
     (case v of
        AnyList items \<Rightarrow> list_ex (\<lambda>i. case i of AnyString s \<Rightarrow> s \<in> set allowed | _ \<Rightarrow> False) items
      | AnyString s \<Rightarrow> s \<in> set allowed
      | _ \<Rightarrow> False)"

definition claim_satisfied :: "(string \<Rightarrow> any option) \<Rightarrow> JWTClaim \<Rightarrow> bool" where
  "claim_satisfied claims claim =
     (case lookupClaim claims (jc_Name claim) of
        None \<Rightarrow> False
      | Some v \<Rightarrow>
          if jc_ValueType claim = ''String'' then (case v of AnyString s \<Rightarrow> s \<in> set (elems (jc_Values claim)) | _ \<Rightarrow> False)
          else if jc_ValueType claim = ''StringArray'' then claimHasAllowedString v (elems (jc_Values claim))
          else False)"

definition claimsSatisfied :: "(string \<Rightarrow> any option) \<Rightarrow> JWTClaim list \<Rightarrow> bool" where
  "claimsSatisfied claims required = list_all (claim_satisfied claims) required"

definition scopesSatisfied :: "string list \<Rightarrow> string list \<Rightarrow> bool" where
  "scopesSatisfied have required = list_all (\<lambda>s. s \<in> set have) required"

definition toolMatches :: "string \<Rightarrow> string \<Rightarrow> ToolCall list \<Rightarrow> bool" where
  "toolMatches backend tool tools = (tools = [] \<or> list_ex (\<lambda>t. tc_Backend t = backend \<and> tc_Tool t = tool) tools)"

section \<open>The shared context\<close>

record 'p authzContext =
  ac_claims :: "string \<Rightarrow> any option"
  ac_scopes :: "string list"
  ac_activation :: "'p activation option"

definition newAuthzContext :: "'p authz_env \<Rightarrow> 'p authorizationRequest \<Rightarrow> bool \<Rightarrow> 'p authzContext" where
  "newAuthzContext env req verifiedJWT =
     (let ctx = (\<lambda>c s. \<lparr>ac_claims = c, ac_scopes = s, ac_activation = None\<rparr>) in
      if \<not> verifiedJWT then ctx Map.empty []
      else case bearerToken (header_Get (ar_Headers req) ''Authorization'') of
        Inl e \<Rightarrow> ctx Map.empty []
      | Inr token \<Rightarrow>
          (let (claims, ok) = ae_ParseUnverified env token in
           if \<not> ok then ctx claims []
           else ctx (mdel (mdel claims ''scope'') ''scp'') (extractScopes claims)))"

definition normalizeParams :: "'p authz_env \<Rightarrow> 'p option \<Rightarrow> 'p cel_params" where
  "normalizeParams env params =
     (case params of
        None \<Rightarrow> ParamsNil
      | Some p \<Rightarrow>
          (case ae_Marshal env p of
             Inl e \<Rightarrow> ParamsRaw p
           | Inr data \<Rightarrow> (case ae_UnmarshalMap env data of Inl e \<Rightarrow> ParamsRaw p | Inr m \<Rightarrow> ParamsMap m)))"

definition mcp_part :: "'p authz_env \<Rightarrow> 'p authorizationRequest \<Rightarrow> 'p cel_mcp" where
  "mcp_part env req = \<lparr>cm_method = ar_MCPMethod req, cm_backend = ar_Backend req, cm_tool = ar_Tool req,
     cm_params = normalizeParams env (ar_Params req)\<rparr>"

text \<open>The headers with a value, under their lower-case names.\<close>

definition lower_headers :: "string list \<Rightarrow> http_header \<Rightarrow> string \<Rightarrow> string list option" where
  "lower_headers ord h =
     fold (\<lambda>k m. case h k of Some (v # vs) \<Rightarrow> m(ToLower k \<mapsto> v # vs) | _ \<Rightarrow> m) (range_keys ord h) Map.empty"

definition buildCELActivation :: "'p authz_env \<Rightarrow> 'p authorizationRequest \<Rightarrow> (string \<Rightarrow> any option) \<Rightarrow> string list \<Rightarrow> 'p activation" where
  "buildCELActivation env req claims scopes =
     \<lparr>av_method = ar_HTTPMethod req, av_host = ar_Host req,
      av_headers = map_option hd \<circ> lower_headers (ae_order env) (ar_Headers req),
      av_headers_all = lower_headers (ae_order env) (ar_Headers req), av_path = ar_HTTPPath req,
      av_claims = claims, av_scopes = sort (remdups scopes), av_mcp = mcp_part env req\<rparr>"

definition activationFor :: "'p authz_env \<Rightarrow> 'p authorizationRequest \<Rightarrow> 'p authzContext \<Rightarrow> 'p activation \<times> 'p authzContext" where
  "activationFor env req a =
     (let act = (case ac_activation a of
          None \<Rightarrow> buildCELActivation env req (ac_claims a) (ac_scopes a)
        | Some act \<Rightarrow> act\<lparr>av_mcp := mcp_part env req\<rparr>) in
      (act, a\<lparr>ac_activation := Some act\<rparr>))"

section \<open>The decision\<close>

definition evalRuleCEL :: "'p cel_program \<Rightarrow> 'p activation \<Rightarrow> go_error + bool" where
  "evalRuleCEL program act =
     (case program act of
        Inl e \<Rightarrow> Inl e
      | Inr (CelBool b) \<Rightarrow> Inr b
      | Inr CelOther \<Rightarrow> Inl (errorf ''authorization CEL did not return a boolean''))"

text \<open>
  The loop over the rules: \<open>challenge\<close> is the smallest set of scopes a rule missed so far,
  \<open>celActivation\<close> the activation of this call once it is built. The slice of scopes is nil when
  there is no challenge.
\<close>

fun rule_loop ::
  "'p authz_env \<Rightarrow> 'p authorizationRequest \<Rightarrow> bool \<Rightarrow> 'p compiledAuthorizationRule list \<Rightarrow> string list \<Rightarrow> 'p activation option \<Rightarrow>
   'p authzContext \<Rightarrow> (bool \<times> string list) \<times> 'p authzContext" where
  "rule_loop env req defaultAction [] challenge celActivation ac = ((defaultAction, challenge), ac)"
| "rule_loop env req defaultAction (rule # rules) challenge celActivation ac =
     (let shouldAllow = (cr_Action rule = AuthorizationActionAllow) in
      if cr_Target rule \<noteq> [] \<and> \<not> toolMatches (ar_Backend req) (ar_Tool req) (cr_Target rule)
      then rule_loop env req defaultAction rules challenge celActivation ac
      else if \<exists>s \<in> set_option (cr_Source rule). \<not> claimsSatisfied (ac_claims ac) (elems (js_Claims s))
      then rule_loop env req defaultAction rules challenge celActivation ac
      else if \<exists>s \<in> set_option (cr_Source rule). shouldAllow \<and> \<not> scopesSatisfied (ac_scopes ac) (elems (js_Scopes s))
      then
        (let required = elems (js_Scopes (the (cr_Source rule))) in
         rule_loop env req defaultAction rules
           (if length challenge = 0 \<or> length required < length challenge then required else challenge) celActivation ac)
      else case cr_celProgram rule of
        None \<Rightarrow> ((shouldAllow, []), ac)
      | Some program \<Rightarrow>
          (let (act, ac') = (case celActivation of Some act \<Rightarrow> (act, ac) | None \<Rightarrow> activationFor env req ac) in
           case evalRuleCEL program act of
             Inl e \<Rightarrow> ((False, []), ac')
           | Inr match \<Rightarrow>
               if \<not> match then rule_loop env req defaultAction rules challenge (Some act) ac'
               else ((shouldAllow, []), ac')))"

definition authorizeRequestWith ::
  "'p authz_env \<Rightarrow> 'p compiledAuthorization \<Rightarrow> 'p authorizationRequest \<Rightarrow> 'p authzContext \<Rightarrow> (bool \<times> string list) \<times> 'p authzContext" where
  "authorizeRequestWith env authorization req ac =
     rule_loop env req (ca_DefaultAction authorization = AuthorizationActionAllow) (ca_Rules authorization) [] None ac"

definition authorizeRequest :: "'p authz_env \<Rightarrow> 'p compiledAuthorization option \<Rightarrow> 'p authorizationRequest \<Rightarrow> bool \<times> string list" where
  "authorizeRequest env authorization req =
     (case authorization of
        None \<Rightarrow> (True, [])
      | Some a \<Rightarrow>
          if ca_Rules a = [] then (ca_DefaultAction a = AuthorizationActionAllow, [])
          else fst (authorizeRequestWith env a req (newAuthzContext env req (ca_VerifiedJWT a))))"

text \<open>The header of a refused request that misses scopes.\<close>

definition buildInsufficientScopeHeader :: "string list \<Rightarrow> string \<Rightarrow> string" where
  "buildInsufficientScopeHeader scopes resourceMetadata =
     Join ([''Bearer error=\"insufficient_scope\"'', ''scope=\"'' @ Join scopes '' '' @ ''\"''] @
       (if resourceMetadata \<noteq> [] then [''resource_metadata=\"'' @ resourceMetadata @ ''\"''] else []) @
       [''error_description=\"The token is missing required scopes\"'']) '', ''"

section \<open>Sharing the context\<close>

text \<open>
  A context belongs to a request when its claims and scopes are those of the request's token and
  its activation, once built, is the request's except for the part that is patched.
\<close>

definition same_caller :: "'p authorizationRequest \<Rightarrow> 'p authorizationRequest \<Rightarrow> bool" where
  "same_caller r r' = (ar_Headers r = ar_Headers r' \<and> ar_HTTPMethod r = ar_HTTPMethod r' \<and> ar_Host r = ar_Host r' \<and> ar_HTTPPath r = ar_HTTPPath r')"

definition context_of :: "'p authz_env \<Rightarrow> bool \<Rightarrow> 'p authorizationRequest \<Rightarrow> 'p authzContext \<Rightarrow> bool" where
  "context_of env v req ac =
     (let fresh = newAuthzContext env req v in
      ac_claims ac = ac_claims fresh \<and> ac_scopes ac = ac_scopes fresh \<and>
      (\<forall>act. ac_activation ac = Some act \<longrightarrow>
         act\<lparr>av_mcp := mcp_part env req\<rparr> = buildCELActivation env req (ac_claims fresh) (ac_scopes fresh)))"

lemma context_of_fresh: "context_of env v req (newAuthzContext env req v)"
  by (auto simp: context_of_def newAuthzContext_def Let_def split: sum.splits prod.splits if_splits)

lemma same_caller_context:
  assumes "same_caller req req'"
  shows "newAuthzContext env req v = newAuthzContext env req' v"
    and "context_of env v req ac \<Longrightarrow> context_of env v req' ac"
proof -
  show n: "newAuthzContext env req v = newAuthzContext env req' v"
    using assms by (simp add: newAuthzContext_def same_caller_def)
  assume c: "context_of env v req ac"
  have "act\<lparr>av_mcp := mcp_part env req'\<rparr> = buildCELActivation env req' c s"
    if "act\<lparr>av_mcp := mcp_part env req\<rparr> = buildCELActivation env req c s" for act :: "'a activation" and c s
    using that assms by (cases act) (simp add: buildCELActivation_def same_caller_def)
  with c show "context_of env v req' ac" by (simp add: context_of_def n Let_def)
qed

lemma activation_of_context:
  assumes "context_of env v req ac"
  shows "fst (activationFor env req ac) = buildCELActivation env req (ac_claims ac) (ac_scopes ac)"
    and "context_of env v req (snd (activationFor env req ac))"
  using assms by (auto simp: context_of_def activationFor_def Let_def buildCELActivation_def split: option.splits)

text \<open>
  What one rule makes of a request, with the claims, the scopes and the activation given: it does not
  apply, it misses scopes, its condition fails to evaluate, or it matches.
\<close>

datatype rule_outcome = NotApplicable | MissingScopes "string list" | ConditionFails | Matches

definition outcome ::
  "'p authorizationRequest \<Rightarrow> (string \<Rightarrow> any option) \<Rightarrow> string list \<Rightarrow> 'p activation \<Rightarrow> 'p compiledAuthorizationRule \<Rightarrow> rule_outcome" where
  "outcome req claims scopes act rule =
     (if cr_Target rule \<noteq> [] \<and> (\<forall>t \<in> set (cr_Target rule). tc_Backend t \<noteq> ar_Backend req \<or> tc_Tool t \<noteq> ar_Tool req) then NotApplicable
      else if \<exists>s. cr_Source rule = Some s \<and> \<not> claimsSatisfied claims (elems (js_Claims s)) then NotApplicable
      else if \<exists>s. cr_Source rule = Some s \<and> cr_Action rule = AuthorizationActionAllow \<and> \<not> set (elems (js_Scopes s)) \<subseteq> set scopes
      then MissingScopes (elems (js_Scopes (the (cr_Source rule))))
      else case cr_celProgram rule of
        None \<Rightarrow> Matches
      | Some program \<Rightarrow>
          (case program act of Inr (CelBool True) \<Rightarrow> Matches | Inr (CelBool False) \<Rightarrow> NotApplicable | _ \<Rightarrow> ConditionFails))"

text \<open>The decision as a function of the outcomes: the first rule that decides.\<close>

fun decide :: "bool \<Rightarrow> (rule_outcome \<times> bool) list \<Rightarrow> string list \<Rightarrow> bool \<times> string list" where
  "decide def [] challenge = (def, challenge)"
| "decide def ((NotApplicable, allow) # os) challenge = decide def os challenge"
| "decide def ((MissingScopes s, allow) # os) challenge =
     decide def os (if challenge = [] \<or> length s < length challenge then s else challenge)"
| "decide def ((ConditionFails, allow) # os) challenge = (False, [])"
| "decide def ((Matches, allow) # os) challenge = (allow, [])"

definition outcomes ::
  "'p authz_env \<Rightarrow> 'p authorizationRequest \<Rightarrow> (string \<Rightarrow> any option) \<Rightarrow> string list \<Rightarrow> 'p compiledAuthorizationRule list \<Rightarrow> (rule_outcome \<times> bool) list" where
  "outcomes env req claims scopes rules =
     map (\<lambda>r. (outcome req claims scopes (buildCELActivation env req claims scopes) r, cr_Action r = AuthorizationActionAllow)) rules"

lemma activationFor_keeps:
  "ac_claims (snd (activationFor env req ac)) = ac_claims ac" "ac_scopes (snd (activationFor env req ac)) = ac_scopes ac"
  by (simp_all add: activationFor_def Let_def)

lemma toolMatches_iff: "ts \<noteq> [] \<and> \<not> toolMatches b t ts \<longleftrightarrow> ts \<noteq> [] \<and> (\<forall>c \<in> set ts. tc_Backend c \<noteq> b \<or> tc_Tool c \<noteq> t)"
  by (auto simp: toolMatches_def list_ex_iff)

lemma scopesSatisfied_iff: "scopesSatisfied have required \<longleftrightarrow> set required \<subseteq> set have"
  by (auto simp: scopesSatisfied_def list_all_iff)

lemma source_iff: "(\<exists>s \<in> set_option x. P s) \<longleftrightarrow> (\<exists>s. x = Some s \<and> P s)"
  by auto

lemma rule_loop_decide:
  assumes "context_of env v req ac" and "ac_claims ac = cl" and "ac_scopes ac = sco"
    and "\<forall>a. celActivation = Some a \<longrightarrow> a = buildCELActivation env req cl sco"
  shows "fst (rule_loop env req def rules challenge celActivation ac) = decide def (outcomes env req cl sco rules) challenge
    \<and> context_of env v req (snd (rule_loop env req def rules challenge celActivation ac))"
  using assms
proof (induction rules arbitrary: challenge celActivation ac)
  case Nil
  then show ?case by (simp add: outcomes_def)
next
  case (Cons rule rules)
  let ?act = "buildCELActivation env req cl sco"
  let ?allow = "cr_Action rule = AuthorizationActionAllow"
  obtain act ac' where p: "(case celActivation of Some act \<Rightarrow> (act, ac) | None \<Rightarrow> activationFor env req ac) = (act, ac')" by force
  have act: "act = ?act" and ac': "context_of env v req ac'" "ac_claims ac' = cl" "ac_scopes ac' = sco"
    using p Cons.prems activation_of_context [OF Cons.prems(1)] activationFor_keeps [of env req ac] by (auto split: option.splits)
  have IH: "fst (rule_loop env req def rules ch cA ac) = decide def (outcomes env req cl sco rules) ch
      \<and> context_of env v req (snd (rule_loop env req def rules ch cA ac))" if "cA = celActivation" for ch cA
    using Cons.IH [OF Cons.prems(1-3)] Cons.prems(4) that by blast
  have IH': "fst (rule_loop env req def rules ch (Some act) ac') = decide def (outcomes env req cl sco rules) ch
      \<and> context_of env v req (snd (rule_loop env req def rules ch (Some act) ac'))" for ch
    using Cons.IH [OF ac'] act by blast
  have o: "outcomes env req cl sco (rule # rules) = (outcome req cl sco ?act rule, ?allow) # outcomes env req cl sco rules"
    by (simp add: outcomes_def)
  note rl = rule_loop.simps(2) [of env req def rule rules challenge celActivation ac, unfolded p toolMatches_iff scopesSatisfied_iff source_iff Cons.prems(2,3)]
  show ?case
  proof (cases "outcome req cl sco ?act rule")
    case NotApplicable
    then show ?thesis using IH [OF refl] IH' Cons.prems(1) act unfolding o rl
      by (auto simp: outcome_def evalRuleCEL_def Let_def split: if_splits option.splits sum.splits cel_value.splits bool.splits)
  next
    case (MissingScopes x)
    then show ?thesis using IH [OF refl] unfolding o rl
      by (auto simp: outcome_def Let_def split: if_splits option.splits sum.splits cel_value.splits bool.splits)
  next
    case ConditionFails
    then show ?thesis using ac'(1) act unfolding o rl
      by (auto simp: outcome_def evalRuleCEL_def Let_def split: if_splits option.splits sum.splits cel_value.splits bool.splits)
  next
    case Matches
    then show ?thesis using ac'(1) act Cons.prems(1) unfolding o rl
      by (auto simp: outcome_def evalRuleCEL_def Let_def split: if_splits option.splits sum.splits cel_value.splits bool.splits)
  qed
qed

lemma authorizeRequestWith_shared:
  assumes "context_of env (ca_VerifiedJWT a) req ac"
  shows "fst (authorizeRequestWith env a req ac) = authorizeRequest env (Some a) req"
    and "context_of env (ca_VerifiedJWT a) req (snd (authorizeRequestWith env a req ac))"
proof -
  let ?fresh = "newAuthzContext env req (ca_VerifiedJWT a)"
  have c: "ac_claims ac = ac_claims ?fresh" "ac_scopes ac = ac_scopes ?fresh" using assms by (simp_all add: context_of_def Let_def)
  note l = rule_loop_decide [where v = "ca_VerifiedJWT a" and celActivation = None and challenge = "[]" and rules = "ca_Rules a" and env = env and req = req]
  show "fst (authorizeRequestWith env a req ac) = authorizeRequest env (Some a) req"
    using l [OF assms c] l [OF context_of_fresh refl refl] by (auto simp: authorizeRequestWith_def authorizeRequest_def outcomes_def)
  show "context_of env (ca_VerifiedJWT a) req (snd (authorizeRequestWith env a req ac))"
    using l [OF assms c] by (simp add: authorizeRequestWith_def)
qed

definition request_outcomes :: "'p authz_env \<Rightarrow> 'p compiledAuthorization \<Rightarrow> 'p authorizationRequest \<Rightarrow> (rule_outcome \<times> bool) list" where
  "request_outcomes env a req =
     (let ac = newAuthzContext env req (ca_VerifiedJWT a) in outcomes env req (ac_claims ac) (ac_scopes ac) (ca_Rules a))"

lemma authorizeRequest_decide:
  "authorizeRequest env (Some a) req = decide (ca_DefaultAction a = AuthorizationActionAllow) (request_outcomes env a req) []"
  using rule_loop_decide [OF context_of_fresh refl refl, where celActivation = None and env = env and v = "ca_VerifiedJWT a" and req = req
      and def = "ca_DefaultAction a = AuthorizationActionAllow" and rules = "ca_Rules a" and challenge = "[]"]
  by (auto simp: authorizeRequest_def authorizeRequestWith_def request_outcomes_def outcomes_def Let_def)

section \<open>Which rule decides\<close>

fun decides :: "rule_outcome \<times> bool \<Rightarrow> bool" where
  "decides (Matches, allow) = True"
| "decides (ConditionFails, allow) = True"
| "decides (_, allow) = False"

text \<open>The scopes the rules missed, in the order of the rules.\<close>

fun missed :: "(rule_outcome \<times> bool) list \<Rightarrow> string list list" where
  "missed [] = []"
| "missed ((MissingScopes s, allow) # os) = s # missed os"
| "missed (_ # os) = missed os"

lemma decide_find:
  "decide def os challenge =
     (case find decides os of
        Some (oc, allow) \<Rightarrow> (oc = Matches \<and> allow, [])
      | None \<Rightarrow> (def, fold (\<lambda>s ch. if ch = [] \<or> length s < length ch then s else ch) (missed os) challenge))"
  by (induction def os challenge rule: decide.induct) (auto split: option.split)

lemma hd_insort_key: "hd (insort_key f x ys) = (if ys = [] \<or> f x \<le> f (hd ys) then x else hd ys)"
  by (cases ys) auto

lemma shortest_first:
  "ch \<noteq> [] \<Longrightarrow> [] \<notin> set ms \<Longrightarrow>
   fold (\<lambda>s ch. if ch = [] \<or> length s < length ch then s else ch) ms ch = hd (sort_key length (ch # ms))"
proof (induction ms arbitrary: ch)
  case (Cons s ms)
  have ne: "sort_key length ms = [] \<longleftrightarrow> ms = []" by (metis length_0_conv length_sort)
  show ?case
  proof (cases "length s < length ch")
    case True
    then show ?thesis using Cons.IH [of s] Cons.prems by (auto simp: hd_insort_key ne split: if_splits)
  next
    case False
    then show ?thesis using Cons.IH [of ch] Cons.prems by (auto simp: hd_insort_key ne split: if_splits)
  qed
qed simp

lemma shortest_missed:
  assumes "[] \<notin> set ms"
  shows "fold (\<lambda>s ch. if ch = [] \<or> length s < length ch then s else ch) ms [] = (if ms = [] then [] else hd (sort_key length ms))"
proof (cases ms)
  case (Cons m ms')
  then show ?thesis using shortest_first [of m ms'] assms by auto
qed simp

lemma missed_not_Nil: "[] \<notin> set (missed (outcomes env req cl sco rules))"
  by (induction rules) (auto simp: outcomes_def outcome_def split: option.splits sum.splits cel_value.splits bool.splits)


section \<open>Unverified tokens\<close>

lemma unverified_context: "newAuthzContext env req False = \<lparr>ac_claims = Map.empty, ac_scopes = [], ac_activation = None\<rparr>"
  by (simp add: newAuthzContext_def)

lemma activation_parse [simp]:
  "buildCELActivation (env\<lparr>ae_ParseUnverified := f\<rparr>) req cl sco = buildCELActivation env req cl sco"
  by (simp add: buildCELActivation_def mcp_part_def normalizeParams_def split: option.splits sum.splits)

lemma lookup_empty_claims: "lookupClaim Map.empty path = None"
  by (cases "Split path (CHR ''.'')") (simp_all add: lookupClaim_def)

definition needs_token :: "'p compiledAuthorizationRule \<Rightarrow> bool" where
  "needs_token r = (\<exists>s. cr_Source r = Some s \<and>
     (elems (js_Claims s) \<noteq> [] \<or> cr_Action r = AuthorizationActionAllow \<and> elems (js_Scopes s) \<noteq> []))"

lemma unverified_outcome: "needs_token r \<Longrightarrow> outcome req Map.empty [] act r \<noteq> Matches"
  by (auto simp: needs_token_def outcome_def claimsSatisfied_def claim_satisfied_def lookup_empty_claims neq_Nil_conv)

lemma find_SomeD: "find P xs = Some x \<Longrightarrow> x \<in> set xs \<and> P x"
  by (induction xs) (auto split: if_splits)


definition sample_authz_env :: "unit authz_env" where
  "sample_authz_env = \<lparr>ae_ParseUnverified = (\<lambda>t. ([''role'' \<mapsto> AnyString ''admin''], True)),
     ae_Marshal = (\<lambda>p. Inr []), ae_UnmarshalMap = (\<lambda>d. Inr Map.empty), ae_order = [''Authorization'']\<rparr>"

definition admin_rule :: "unit compiledAuthorizationRule" where
  "admin_rule = \<lparr>cr_Source = Some \<lparr>js_Scopes = None, js_Claims = Some [\<lparr>jc_Name = ''role'', jc_ValueType = ''String'', jc_Values = Some [''admin'']\<rparr>]\<rparr>,
     cr_Target = [], cr_Action = ''Allow'', cr_celExpression = [], cr_celProgram = None\<rparr>"

definition admin_only :: "bool \<Rightarrow> unit compiledAuthorization" where
  "admin_only verified = \<lparr>ca_ResourceMetadataURL = [], ca_Rules = [admin_rule], ca_DefaultAction = ''Deny'', ca_VerifiedJWT = verified\<rparr>"

definition admin_request :: "unit authorizationRequest" where
  "admin_request = \<lparr>ar_Headers = [''Authorization'' \<mapsto> [''Bearer t'']], ar_HTTPMethod = ''POST'', ar_Host = [], ar_HTTPPath = ''/'',
     ar_MCPMethod = ''tools/call'', ar_Backend = ''b'', ar_Tool = ''t'', ar_Params = None\<rparr>"


section \<open>Comparing configurations\<close>

lemma compile_rule_same:
  assumes "compile_rule cel x = Inr a" and "compile_rule cel y = Inr b" and "same_rule a b"
  shows "a = b"
proof -
  have e: "cr_celProgram c = (if cr_celExpression c = [] then None else
      (case cel_Compile cel (cr_celExpression c) of Inl e \<Rightarrow> None
       | Inr ast \<Rightarrow> (case cel_Program cel ast of Inl e \<Rightarrow> None | Inr p \<Rightarrow> Some p)))"
    if "compile_rule cel z = Inr c" for z c
    using that by (auto simp: compile_rule_def Let_def split: option.splits if_splits sum.splits)
  show ?thesis using e [OF assms(1)] e [OF assms(2)] assms(3)
    by (intro compiledAuthorizationRule.equality) (simp_all add: same_rule_def)
qed

lemma compile_rules_same:
  "compile_rules cel xs = Inr as \<Longrightarrow> compile_rules cel ys = Inr bs \<Longrightarrow> list_all2 same_rule as bs \<Longrightarrow> as = bs"
proof (induction xs arbitrary: as ys bs)
  case (Cons x xs)
  then obtain a as' where a: "compile_rule cel x = Inr a" "compile_rules cel xs = Inr as'" "as = a # as'" by (auto split: sum.splits)
  then obtain b bs' where b: "bs = b # bs'" "same_rule a b" "list_all2 same_rule as' bs'" using Cons.prems(3) by (auto simp: list_all2_Cons1)
  then obtain y ys' where y: "compile_rule cel y = Inr b" "compile_rules cel ys' = Inr bs'"
    using Cons.prems(2) by (cases ys) (auto split: sum.splits)
  show ?case using a(3) b compile_rule_same [OF a(1) y(1) b(2)] Cons.IH [OF a(2) y(2) b(3)] by simp
qed auto

text \<open>Two compiled authorizations that are \<open>same\<close> are equal, compiled conditions included.\<close>

lemma same_compiled:
  assumes "compileAuthorization cel x = Inr a" and "compileAuthorization cel y = Inr b" and "same a b"
  shows "a = b"
proof (cases "a = None \<or> b = None")
  case True
  then show ?thesis using assms(3) by (auto simp: same_def split: option.splits)
next
  case False
  then obtain a' b' where ab: "a = Some a'" "b = Some b'" by auto
  have "\<exists>rs. compile_rules cel rs = Inr (ca_Rules c)" if "compileAuthorization cel z = Inr (Some c)" for z c
    using that by (force simp: compileAuthorization_def split: option.splits sum.splits)
  then obtain ra rb where "compile_rules cel ra = Inr (ca_Rules a')" "compile_rules cel rb = Inr (ca_Rules b')"
    using assms(1,2) ab by blast
  then have "ca_Rules a' = ca_Rules b'" using compile_rules_same assms(3) ab by (auto simp: same_def)
  then show ?thesis using assms(3) ab by (auto simp: same_def intro: compiledAuthorization.equality)
qed

text \<open>
  A rule that denies ignores scopes, whatever it lists; and an authorization without rules applies
  its default action.
\<close>

lemma deny_rule_ignores_scopes:
  "cr_Action r \<noteq> AuthorizationActionAllow \<Longrightarrow> outcome req cl sco act r = outcome req cl sco' act r"
  by (simp only: outcome_def simp_thms)

lemma no_rules_use_default:
  "ca_Rules a = [] \<Longrightarrow> authorizeRequest env (Some a) req = (ca_DefaultAction a = AuthorizationActionAllow, [])"
  by (simp add: authorizeRequest_def)

end
