(* ===== verification/Mcp_Config.thy ===== *)
theory Mcp_Config
  imports Mcp_Authorization
begin

text \<open>
  \<^verbatim>\<open>internal/mcpproxy/config.go\<close> with the backend and route types of
  \<^verbatim>\<open>internal/filterapi/mcpconfig.go\<close>: tool selectors, the configuration of a route with its
  indexes of unprefixed names, the comparison of configurations, loading, and the signal that wakes
  the streams when the tools change. Regular expressions are a parameter.
\<close>

section \<open>Configuration\<close>

record MCPToolSelector =
  mts_Include :: "string list"
  mts_IncludeRegex :: "string list"
  mts_Exclude :: "string list"
  mts_ExcludeRegex :: "string list"

record MCPHeaderForward =
  hf_Name :: string
  hf_BackendHeader :: string

definition ForwardName :: "MCPHeaderForward \<Rightarrow> string" where
  "ForwardName h = (if hf_BackendHeader h \<noteq> [] then hf_BackendHeader h else hf_Name h)"

text \<open>Prompt selectors have the fields of tool selectors.\<close>

record MCPBackend =
  mb_Name :: string
  mb_ToolSelector :: "MCPToolSelector option"
  mb_PromptSelector :: "MCPToolSelector option"
  mb_ForwardHeaders :: "MCPHeaderForward list"
  mb_PrefixMode :: string

record MCPRoute =
  mr_Name :: string
  mr_Backends :: "MCPBackend list"
  mr_Authorization :: "MCPRouteAuthorization option"
  mr_BackendSelector :: "MCPRouteAuthorization option"
  mr_ForwardHeaders :: "string list"
  mr_PrefixMode :: string

record MCPConfig =
  mc_BackendListenerAddr :: string
  mc_Routes :: "MCPRoute list"
  mc_SessionEncryption :: "MCPSessionEncryption option"

definition PrefixModeNever :: string where
  "PrefixModeNever = ''Never''"

text \<open>\<open>regexp.Compile\<close> and \<open>MatchString\<close>; a compiled expression is kept as its source.\<close>

record regexp_library =
  re_Compile :: "string \<Rightarrow> go_error option"
  re_MatchString :: "string \<Rightarrow> string \<Rightarrow> bool"

section \<open>Selectors\<close>

record toolSelector =
  ts_include :: "string set"
  ts_includeRegexps :: "string list"
  ts_exclude :: "string set"
  ts_excludeRegexps :: "string list"

primrec compileRegexps :: "regexp_library \<Rightarrow> string list \<Rightarrow> string \<Rightarrow> string \<Rightarrow> string \<Rightarrow> go_error + string list" where
  "compileRegexps re [] kind backendName routeName = Inr []"
| "compileRegexps re (expr # exprs) kind backendName routeName =
     (case re_Compile re expr of
        Some e \<Rightarrow> Inl (wrapf (''failed to compile '' @ kind @ '' regex '' @ Quote expr @ '' for backend '' @ Quote backendName @ '' in route '' @ Quote routeName @ '': '') e)
      | None \<Rightarrow> (case compileRegexps re exprs kind backendName routeName of Inl e \<Rightarrow> Inl e | Inr rs \<Rightarrow> Inr (expr # rs)))"

definition buildSelector :: "regexp_library \<Rightarrow> MCPToolSelector \<Rightarrow> string \<Rightarrow> string \<Rightarrow> string \<Rightarrow> string \<Rightarrow> go_error + toolSelector" where
  "buildSelector re s includeKind excludeKind backendName routeName =
     (case compileRegexps re (mts_IncludeRegex s) includeKind backendName routeName of
        Inl e \<Rightarrow> Inl e
      | Inr includeRegexps \<Rightarrow>
          (case compileRegexps re (mts_ExcludeRegex s) excludeKind backendName routeName of
             Inl e \<Rightarrow> Inl e
           | Inr excludeRegexps \<Rightarrow>
               Inr \<lparr>ts_include = set (mts_Include s), ts_includeRegexps = includeRegexps,
                    ts_exclude = set (mts_Exclude s), ts_excludeRegexps = excludeRegexps\<rparr>))"

definition allows :: "regexp_library \<Rightarrow> toolSelector \<Rightarrow> string \<Rightarrow> bool" where
  "allows re t tool =
     (if tool \<in> ts_exclude t then False
      else if list_ex (\<lambda>r. re_MatchString re r tool) (ts_excludeRegexps t) then False
      else if ts_include t \<noteq> {} then tool \<in> ts_include t
      else if ts_includeRegexps t \<noteq> [] then list_ex (\<lambda>r. re_MatchString re r tool) (ts_includeRegexps t)
      else True)"

definition selector_sameTools :: "toolSelector \<Rightarrow> toolSelector \<Rightarrow> bool" where
  "selector_sameTools t other =
     (ts_include t = ts_include other \<and> ts_exclude t = ts_exclude other \<and>
      sort (ts_includeRegexps t) = sort (ts_includeRegexps other) \<and>
      sort (ts_excludeRegexps t) = sort (ts_excludeRegexps other))"

text \<open>\<open>maps.EqualFunc\<close>.\<close>

definition maps_EqualFunc :: "('v \<Rightarrow> 'w \<Rightarrow> bool) \<Rightarrow> ('k \<Rightarrow> 'v option) \<Rightarrow> ('k \<Rightarrow> 'w option) \<Rightarrow> bool" where
  "maps_EqualFunc eq m m' = (\<forall>k. rel_option eq (m k) (m' k))"

section \<open>Routes\<close>

record 'p mcpProxyConfigRoute =
  pr_backends :: "string \<Rightarrow> MCPBackend option"
  pr_toolSelectors :: "string \<Rightarrow> toolSelector option"
  pr_promptSelectors :: "string \<Rightarrow> toolSelector option"
  pr_authorization :: "'p compiledAuthorization option"
  pr_backendSelector :: "'p compiledAuthorization option"
  pr_forwardHeaders :: "string list"
  pr_routePrefixMode :: string
  pr_neverModeToolIndex :: "string \<Rightarrow> string option"
  pr_neverModePromptIndex :: "string \<Rightarrow> string option"

definition effectivePrefixMode :: "'p mcpProxyConfigRoute \<Rightarrow> string \<Rightarrow> string" where
  "effectivePrefixMode r backendName =
     (case pr_backends r backendName of
        Some b \<Rightarrow> if mb_PrefixMode b \<noteq> [] then mb_PrefixMode b else pr_routePrefixMode r
      | None \<Rightarrow> pr_routePrefixMode r)"

definition route_sameTools :: "'p mcpProxyConfigRoute \<Rightarrow> 'p mcpProxyConfigRoute \<Rightarrow> bool" where
  "route_sameTools m other =
     (maps_EqualFunc (\<lambda>_ _. True) (pr_backends m) (pr_backends other) \<and>
      same (pr_authorization m) (pr_authorization other) \<and>
      pr_neverModeToolIndex m = pr_neverModeToolIndex other \<and>
      pr_neverModePromptIndex m = pr_neverModePromptIndex other \<and>
      maps_EqualFunc selector_sameTools (pr_promptSelectors m) (pr_promptSelectors other) \<and>
      maps_EqualFunc selector_sameTools (pr_toolSelectors m) (pr_toolSelectors other))"

text \<open>One backend of the first loop: its record and its selectors.\<close>

definition load_backend :: "regexp_library \<Rightarrow> string \<Rightarrow> MCPBackend \<Rightarrow> 'p mcpProxyConfigRoute \<Rightarrow> go_error + 'p mcpProxyConfigRoute" where
  "load_backend re routeName b r =
     (let r1 = r\<lparr>pr_backends := (pr_backends r)(mb_Name b \<mapsto> b)\<rparr>;
          tools = (case mb_ToolSelector b of
              None \<Rightarrow> Inr r1
            | Some s \<Rightarrow>
                (case buildSelector re s ''include'' ''exclude'' (mb_Name b) routeName of
                   Inl e \<Rightarrow> Inl e
                 | Inr ts \<Rightarrow> Inr (r1\<lparr>pr_toolSelectors := (pr_toolSelectors r1)(mb_Name b \<mapsto> ts)\<rparr>))) in
      case tools of
        Inl e \<Rightarrow> Inl e
      | Inr r2 \<Rightarrow>
          (case mb_PromptSelector b of
             None \<Rightarrow> Inr r2
           | Some s \<Rightarrow>
               (case buildSelector re s ''prompt include'' ''prompt exclude'' (mb_Name b) routeName of
                  Inl e \<Rightarrow> Inl e
                | Inr ps \<Rightarrow> Inr (r2\<lparr>pr_promptSelectors := (pr_promptSelectors r2)(mb_Name b \<mapsto> ps)\<rparr>))))"

primrec load_backends :: "regexp_library \<Rightarrow> string \<Rightarrow> MCPBackend list \<Rightarrow> 'p mcpProxyConfigRoute \<Rightarrow> go_error + 'p mcpProxyConfigRoute" where
  "load_backends re routeName [] r = Inr r"
| "load_backends re routeName (b # bs) r =
     (case load_backend re routeName b r of Inl e \<Rightarrow> Inl e | Inr r' \<Rightarrow> load_backends re routeName bs r')"

text \<open>The names of one selector enter the index unless an earlier backend claims them.\<close>

definition claim_names :: "regexp_library \<Rightarrow> string \<Rightarrow> toolSelector option \<Rightarrow> (string \<Rightarrow> string option) \<Rightarrow> string \<Rightarrow> string option" where
  "claim_names re backendName sel idx =
     (case sel of
        None \<Rightarrow> idx
      | Some ts \<Rightarrow> (\<lambda>name. case idx name of
            Some existing \<Rightarrow> Some existing
          | None \<Rightarrow> if name \<in> ts_include ts \<and> allows re ts name then Some backendName else None))"

definition index_backend :: "regexp_library \<Rightarrow> MCPBackend \<Rightarrow> 'p mcpProxyConfigRoute \<Rightarrow> 'p mcpProxyConfigRoute" where
  "index_backend re b r =
     (if effectivePrefixMode r (mb_Name b) \<noteq> PrefixModeNever then r
      else r\<lparr>pr_neverModeToolIndex := claim_names re (mb_Name b) (pr_toolSelectors r (mb_Name b)) (pr_neverModeToolIndex r),
             pr_neverModePromptIndex := claim_names re (mb_Name b) (pr_promptSelectors r (mb_Name b)) (pr_neverModePromptIndex r)\<rparr>)"

definition load_route :: "('ast, 'p) cel_library \<Rightarrow> regexp_library \<Rightarrow> MCPRoute \<Rightarrow> go_error + 'p mcpProxyConfigRoute" where
  "load_route cel re route =
     (case compileAuthorization cel (mr_Authorization route) of
        Inl e \<Rightarrow> Inl (wrapf (''failed to compile authorization rules for route '' @ mr_Name route @ '': '') e)
      | Inr compiledAuth \<Rightarrow>
          (case compileAuthorization cel (mr_BackendSelector route) of
             Inl e \<Rightarrow> Inl (wrapf (''failed to compile backend selector rules for route '' @ mr_Name route @ '': '') e)
           | Inr compiledBackendSel \<Rightarrow>
               (case load_backends re (mr_Name route) (mr_Backends route)
                   \<lparr>pr_backends = Map.empty, pr_toolSelectors = Map.empty, pr_promptSelectors = Map.empty,
                    pr_authorization = compiledAuth, pr_backendSelector = compiledBackendSel,
                    pr_forwardHeaders = mr_ForwardHeaders route, pr_routePrefixMode = mr_PrefixMode route,
                    pr_neverModeToolIndex = Map.empty, pr_neverModePromptIndex = Map.empty\<rparr> of
                  Inl e \<Rightarrow> Inl e
                | Inr r \<Rightarrow> Inr (fold (index_backend re) (mr_Backends route) r))))"

section \<open>The proxy's configuration\<close>

record 'p mcpProxyConfig =
  cfg_backendListenerAddr :: string
  cfg_routes :: "string \<Rightarrow> 'p mcpProxyConfigRoute option"
  cfg_sessionCrypto :: "SessionCrypto option"

definition config_sameTools :: "'p mcpProxyConfig option \<Rightarrow> 'p mcpProxyConfig option \<Rightarrow> bool" where
  "config_sameTools m other =
     (case (m, other) of
        (Some a, Some b) \<Rightarrow> maps_EqualFunc route_sameTools (cfg_routes a) (cfg_routes b)
      | (None, None) \<Rightarrow> True
      | _ \<Rightarrow> False)"

text \<open>
  The channel that is handed out has a number; \<open>sg_closed\<close> are the channels that are closed. Closing
  a closed channel panics.
\<close>

record signaler =
  sg_notify :: nat
  sg_closed :: "nat list"

definition newMultiWatcherSignaler :: signaler where
  "newMultiWatcherSignaler = \<lparr>sg_notify = 0, sg_closed = []\<rparr>"

definition Watch :: "signaler \<Rightarrow> nat" where
  "Watch s = sg_notify s"

definition Signal :: "signaler \<Rightarrow> go_error + signaler" where
  "Signal s =
     (if sg_notify s \<in> set (sg_closed s) then Inl (GoError [GoPanic] ''close of closed channel'')
      else Inr \<lparr>sg_notify = sg_notify s + 1, sg_closed = sg_notify s # sg_closed s\<rparr>)"

record 'p ProxyConfig =
  px_config :: "'p mcpProxyConfig option"
  px_signaler :: signaler
  px_sessionCrypto :: "SessionCrypto option"
  px_maxRequestBodySize :: int

definition currentSessionCrypto :: "'p ProxyConfig \<Rightarrow> SessionCrypto option" where
  "currentSessionCrypto p =
     (case px_config p of
        Some c \<Rightarrow> (case cfg_sessionCrypto c of Some sc \<Rightarrow> Some sc | None \<Rightarrow> px_sessionCrypto p)
      | None \<Rightarrow> px_sessionCrypto p)"

primrec load_routes ::
  "('ast, 'p) cel_library \<Rightarrow> regexp_library \<Rightarrow> MCPRoute list \<Rightarrow> (string \<Rightarrow> 'p mcpProxyConfigRoute option) \<Rightarrow>
   go_error + (string \<Rightarrow> 'p mcpProxyConfigRoute option)" where
  "load_routes cel re [] m = Inr m"
| "load_routes cel re (r # rs) m =
     (case load_route cel re r of Inl e \<Rightarrow> Inl e | Inr c \<Rightarrow> load_routes cel re rs (m(mr_Name r \<mapsto> c)))"

text \<open>The error result of \<open>LoadConfig\<close> is the first component; the second is the proxy after the call.\<close>

definition LoadConfig :: "('ast, 'p) cel_library \<Rightarrow> regexp_library \<Rightarrow> MCPConfig option \<Rightarrow> 'p ProxyConfig \<Rightarrow> go_error option \<times> 'p ProxyConfig" where
  "LoadConfig cel re config p =
     (case config of
        None \<Rightarrow> (None, p)
      | Some c \<Rightarrow>
          (case load_routes cel re (mc_Routes c) Map.empty of
             Inl e \<Rightarrow> (Some e, p)
           | Inr routes \<Rightarrow>
               (let newConfig = \<lparr>cfg_backendListenerAddr = mc_BackendListenerAddr c, cfg_routes = routes,
                                 cfg_sessionCrypto = sessionCryptoFromConfig (mc_SessionEncryption c)\<rparr>;
                    p' = p\<lparr>px_config := Some newConfig\<rparr> in
                if config_sameTools (px_config p) (Some newConfig) then (None, p')
                else case Signal (px_signaler p) of
                  Inl e \<Rightarrow> (Some e, p')
                | Inr s \<Rightarrow> (None, p'\<lparr>px_signaler := s\<rparr>))))"

section \<open>Waking the watchers\<close>

definition signaler_ok :: "signaler \<Rightarrow> bool" where
  "signaler_ok s = (\<forall>n \<in> set (sg_closed s). n < sg_notify s)"

lemma signaler_ok_new: "signaler_ok newMultiWatcherSignaler"
  by (simp add: signaler_ok_def newMultiWatcherSignaler_def)

lemma Signal_ok:
  assumes "signaler_ok s"
  shows "\<exists>s'. Signal s = Inr s' \<and> signaler_ok s' \<and> Watch s \<in> set (sg_closed s') \<and> Watch s' \<notin> set (sg_closed s') \<and> set (sg_closed s) \<subseteq> set (sg_closed s')"
proof -
  have "sg_notify s \<notin> set (sg_closed s)" using assms by (auto simp: signaler_ok_def)
  then show ?thesis using assms by (auto simp: Signal_def Watch_def signaler_ok_def)
qed

section \<open>What a loaded route holds\<close>

lemma load_backend_fields:
  assumes "load_backend re n b r = Inr r'"
  shows "pr_backends r' = (pr_backends r)(mb_Name b \<mapsto> b)"
    and "pr_authorization r' = pr_authorization r" and "pr_backendSelector r' = pr_backendSelector r"
    and "pr_forwardHeaders r' = pr_forwardHeaders r" and "pr_routePrefixMode r' = pr_routePrefixMode r"
    and "pr_neverModeToolIndex r' = pr_neverModeToolIndex r" and "pr_neverModePromptIndex r' = pr_neverModePromptIndex r"
    and "k \<noteq> mb_Name b \<Longrightarrow> pr_toolSelectors r' k = pr_toolSelectors r k" and "k \<noteq> mb_Name b \<Longrightarrow> pr_promptSelectors r' k = pr_promptSelectors r k"
    and "pr_toolSelectors r (mb_Name b) = None \<Longrightarrow>
      rel_option (\<lambda>s ts. buildSelector re s ''include'' ''exclude'' (mb_Name b) n = Inr ts) (mb_ToolSelector b) (pr_toolSelectors r' (mb_Name b))"
    and "pr_promptSelectors r (mb_Name b) = None \<Longrightarrow>
      rel_option (\<lambda>s ts. buildSelector re s ''prompt include'' ''prompt exclude'' (mb_Name b) n = Inr ts) (mb_PromptSelector b) (pr_promptSelectors r' (mb_Name b))"
  using assms by (cases "mb_ToolSelector b"; cases "mb_PromptSelector b"; auto simp: load_backend_def Let_def split: sum.splits)+

lemma buildSelector_include: "buildSelector re s k k' b n = Inr ts \<Longrightarrow> ts_include ts = set (mts_Include s)"
  by (auto simp: buildSelector_def split: sum.splits)

text \<open>A route after the first loop, for backends with different names.\<close>

definition selectors_of :: "regexp_library \<Rightarrow> string \<Rightarrow> MCPBackend list \<Rightarrow> 'p mcpProxyConfigRoute \<Rightarrow> bool" where
  "selectors_of re n bs r =
     ((\<forall>b \<in> set bs. pr_backends r (mb_Name b) = Some b \<and>
        rel_option (\<lambda>s ts. buildSelector re s ''include'' ''exclude'' (mb_Name b) n = Inr ts) (mb_ToolSelector b) (pr_toolSelectors r (mb_Name b)) \<and>
        rel_option (\<lambda>s ts. buildSelector re s ''prompt include'' ''prompt exclude'' (mb_Name b) n = Inr ts) (mb_PromptSelector b) (pr_promptSelectors r (mb_Name b))) \<and>
      dom (pr_backends r) = mb_Name ` set bs)"

lemma load_backends_selectors:
  assumes "load_backends re n bs r = Inr r'" and "selectors_of re n done r" and "distinct (map mb_Name (done @ bs))"
    and "\<forall>k. k \<notin> mb_Name ` set done \<longrightarrow> pr_toolSelectors r k = None \<and> pr_promptSelectors r k = None"
  shows "selectors_of re n (done @ bs) r' \<and> pr_authorization r' = pr_authorization r \<and> pr_backendSelector r' = pr_backendSelector r \<and>
    pr_routePrefixMode r' = pr_routePrefixMode r \<and> pr_forwardHeaders r' = pr_forwardHeaders r \<and>
    pr_neverModeToolIndex r' = pr_neverModeToolIndex r \<and> pr_neverModePromptIndex r' = pr_neverModePromptIndex r"
  using assms
proof (induction bs arbitrary: r "done")
  case (Cons b bs)
  then obtain r1 where r1: "load_backend re n b r = Inr r1" "load_backends re n bs r1 = Inr r'" by (auto split: sum.splits)
  note f = load_backend_fields [OF r1(1)]
  have new: "mb_Name b \<notin> mb_Name ` set done" using Cons.prems(3) by auto
  have old: "mb_Name d \<noteq> mb_Name b" if "d \<in> set done" for d using new that by (metis imageI)
  have b1: "pr_backends r1 (mb_Name b) = Some b \<and>
      rel_option (\<lambda>s ts. buildSelector re s ''include'' ''exclude'' (mb_Name b) n = Inr ts) (mb_ToolSelector b) (pr_toolSelectors r1 (mb_Name b)) \<and>
      rel_option (\<lambda>s ts. buildSelector re s ''prompt include'' ''prompt exclude'' (mb_Name b) n = Inr ts) (mb_PromptSelector b) (pr_promptSelectors r1 (mb_Name b))"
    using f(1,10,11) Cons.prems(4) new by simp
  have "dom (pr_backends r1) = mb_Name ` set (done @ [b])" using f(1) Cons.prems(2) by (simp add: selectors_of_def)
  then have s1: "selectors_of re n (done @ [b]) r1"
    using b1 f(1,8,9) Cons.prems(2) old by (simp add: selectors_of_def)
  have n1: "\<forall>k. k \<notin> mb_Name ` set (done @ [b]) \<longrightarrow> pr_toolSelectors r1 k = None \<and> pr_promptSelectors r1 k = None"
    using f(8,9) Cons.prems(4) by simp
  show ?case using Cons.IH [OF r1(2) s1 _ n1] Cons.prems(3) f(2-7) by simp
qed simp

text \<open>The second loop changes the indexes only.\<close>

definition same_selectors :: "'p mcpProxyConfigRoute \<Rightarrow> 'p mcpProxyConfigRoute \<Rightarrow> bool" where
  "same_selectors r r' = (\<exists>ti pi. r' = r\<lparr>pr_neverModeToolIndex := ti, pr_neverModePromptIndex := pi\<rparr>)"

lemma index_backend_same: "same_selectors r (index_backend re b r)"
  by (cases r) (auto simp: same_selectors_def index_backend_def)

lemma index_backends_same: "same_selectors r (fold (index_backend re) bs r)"
proof (induction bs arbitrary: r)
  case Nil
  then show ?case by (cases r) (auto simp: same_selectors_def)
next
  case (Cons b bs)
  obtain t p t' p' where "index_backend re b r = r\<lparr>pr_neverModeToolIndex := t, pr_neverModePromptIndex := p\<rparr>"
    "fold (index_backend re) bs (index_backend re b r) = (index_backend re b r)\<lparr>pr_neverModeToolIndex := t', pr_neverModePromptIndex := p'\<rparr>"
    using index_backend_same [of r re b] Cons.IH [of "index_backend re b r"] by (auto simp: same_selectors_def)
  then show ?case by (auto simp: same_selectors_def)
qed

lemma same_selectors_fields:
  "same_selectors r r' \<Longrightarrow> pr_backends r' = pr_backends r \<and> pr_toolSelectors r' = pr_toolSelectors r \<and> pr_promptSelectors r' = pr_promptSelectors r \<and>
     pr_authorization r' = pr_authorization r \<and> pr_backendSelector r' = pr_backendSelector r \<and> pr_forwardHeaders r' = pr_forwardHeaders r \<and>
     pr_routePrefixMode r' = pr_routePrefixMode r \<and> (\<forall>b. effectivePrefixMode r' b = effectivePrefixMode r b)"
  by (auto simp: same_selectors_def effectivePrefixMode_def split: option.split)

text \<open>A backend owns an unprefixed name when it is in the mode \<open>Never\<close>, lists the name and allows it.\<close>

definition owns :: "regexp_library \<Rightarrow> 'p mcpProxyConfigRoute \<Rightarrow> (string \<Rightarrow> toolSelector option) \<Rightarrow> string \<Rightarrow> string \<Rightarrow> bool" where
  "owns re r sels b name =
     (effectivePrefixMode r b = PrefixModeNever \<and> (\<exists>ts. sels b = Some ts \<and> name \<in> ts_include ts \<and> allows re ts name))"

lemma owns_same: "same_selectors r r' \<Longrightarrow> owns re r' sels = owns re r sels"
  using same_selectors_fields [of r r'] by (auto simp: owns_def fun_eq_iff)

text \<open>An index is the fold of the claims of the backends.\<close>

definition claim_fold ::
  "regexp_library \<Rightarrow> 'p mcpProxyConfigRoute \<Rightarrow> (string \<Rightarrow> toolSelector option) \<Rightarrow> MCPBackend list \<Rightarrow> (string \<Rightarrow> string option) \<Rightarrow> string \<Rightarrow> string option" where
  "claim_fold re r sels bs idx =
     fold (\<lambda>b idx. if effectivePrefixMode r (mb_Name b) \<noteq> PrefixModeNever then idx else claim_names re (mb_Name b) (sels (mb_Name b)) idx) bs idx"

lemma index_fold:
  "pr_neverModeToolIndex (fold (index_backend re) bs r) = claim_fold re r (pr_toolSelectors r) bs (pr_neverModeToolIndex r) \<and>
   pr_neverModePromptIndex (fold (index_backend re) bs r) = claim_fold re r (pr_promptSelectors r) bs (pr_neverModePromptIndex r)"
proof (induction bs arbitrary: r)
  case (Cons b bs)
  note s = same_selectors_fields [OF index_backend_same [of r re b]]
  show ?case using Cons.IH [of "index_backend re b r"] s by (simp add: claim_fold_def) (simp add: index_backend_def)
qed (simp add: claim_fold_def)

lemma claim_fold_claims:
  defines "S \<equiv> \<lambda>bs. mb_Name ` set bs"
  shows "(\<forall>t b. claim_fold re r sels bs idx t = Some b \<longrightarrow> idx t = Some b \<or> b \<in> S bs \<and> owns re r sels b t) \<and>
    (\<forall>t b. b \<in> S bs \<and> owns re r sels b t \<longrightarrow> claim_fold re r sels bs idx t \<noteq> None) \<and>
    (\<forall>t. idx t \<noteq> None \<longrightarrow> claim_fold re r sels bs idx t = idx t)"
proof (induction bs arbitrary: idx)
  case Nil
  then show ?case by (simp add: S_def claim_fold_def)
next
  case (Cons b bs)
  define idx1 where "idx1 = (if effectivePrefixMode r (mb_Name b) \<noteq> PrefixModeNever then idx else claim_names re (mb_Name b) (sels (mb_Name b)) idx)"
  have c: "claim_fold re r sels (b # bs) idx = claim_fold re r sels bs idx1" by (simp add: claim_fold_def idx1_def)
  have i1: "idx1 t = (case idx t of Some x \<Rightarrow> Some x | None \<Rightarrow> if owns re r sels (mb_Name b) t then Some (mb_Name b) else None)" for t
    by (auto simp: idx1_def claim_names_def owns_def split: option.splits)
  note IH = Cons.IH [of idx1]
  show ?case unfolding c
  proof (intro conjI allI impI)
    fix t x assume "claim_fold re r sels bs idx1 t = Some x"
    with IH have "idx1 t = Some x \<or> x \<in> S bs \<and> owns re r sels x t" by blast
    then show "idx t = Some x \<or> x \<in> S (b # bs) \<and> owns re r sels x t" by (auto simp: i1 S_def split: option.splits if_splits)
  next
    fix t x assume x: "x \<in> S (b # bs) \<and> owns re r sels x t"
    show "claim_fold re r sels bs idx1 t \<noteq> None"
    proof (cases "x \<in> S bs")
      case False
      then have "x = mb_Name b" using x by (auto simp: S_def)
      then have "idx1 t \<noteq> None" using x by (simp add: i1 split: option.splits)
      then show ?thesis using IH by metis
    qed (use IH x in blast)
  next
    fix t assume t: "idx t \<noteq> None"
    then have "idx1 t = idx t" by (auto simp: i1 split: option.splits)
    then show "claim_fold re r sels bs idx1 t = idx t" using IH t by metis
  qed
qed

definition named :: "(string \<Rightarrow> MCPBackend option) \<Rightarrow> bool" where
  "named m = (\<forall>n b. m n = Some b \<longrightarrow> mb_Name b = n)"

text \<open>The invariant of a loaded route: its tables fit its backends, and the indexes hold owned names.\<close>

definition route_ok :: "regexp_library \<Rightarrow> 'p mcpProxyConfigRoute \<Rightarrow> bool" where
  "route_ok re r =
     (named (pr_backends r) \<and>
      dom (pr_toolSelectors r) \<subseteq> dom (pr_backends r) \<and> dom (pr_promptSelectors r) \<subseteq> dom (pr_backends r) \<and>
      (\<forall>t b. pr_neverModeToolIndex r t = Some b \<longrightarrow> b \<in> dom (pr_backends r) \<and> owns re r (pr_toolSelectors r) b t) \<and>
      (\<forall>t b. pr_neverModePromptIndex r t = Some b \<longrightarrow> b \<in> dom (pr_backends r) \<and> owns re r (pr_promptSelectors r) b t) \<and>
      (\<forall>t b. b \<in> dom (pr_backends r) \<and> owns re r (pr_toolSelectors r) b t \<longrightarrow> pr_neverModeToolIndex r t \<noteq> None) \<and>
      (\<forall>t b. b \<in> dom (pr_backends r) \<and> owns re r (pr_promptSelectors r) b t \<longrightarrow> pr_neverModePromptIndex r t \<noteq> None))"

lemma load_backends_tables:
  assumes "load_backends re n bs r = Inr r'"
    and "named (pr_backends r)"
    and "dom (pr_toolSelectors r) \<subseteq> dom (pr_backends r)" and "dom (pr_promptSelectors r) \<subseteq> dom (pr_backends r)"
  shows "named (pr_backends r') \<and> dom (pr_toolSelectors r') \<subseteq> dom (pr_backends r') \<and>
    dom (pr_promptSelectors r') \<subseteq> dom (pr_backends r') \<and> dom (pr_backends r') = dom (pr_backends r) \<union> mb_Name ` set bs \<and>
    pr_neverModeToolIndex r' = pr_neverModeToolIndex r \<and> pr_neverModePromptIndex r' = pr_neverModePromptIndex r \<and>
    pr_authorization r' = pr_authorization r \<and> pr_backendSelector r' = pr_backendSelector r"
  using assms
proof (induction bs arbitrary: r)
  case (Cons b bs)
  then obtain r1 where r1: "load_backend re n b r = Inr r1" "load_backends re n bs r1 = Inr r'" by (auto split: sum.splits)
  note f = load_backend_fields [OF r1(1)]
  note bk = f(1)
  have n1: "named (pr_backends r1)" using bk Cons.prems(2) by (auto simp: named_def)
  have t1: "dom (pr_toolSelectors r1) \<subseteq> dom (pr_backends r1)"
  proof
    fix k assume "k \<in> dom (pr_toolSelectors r1)"
    then have "k = mb_Name b \<or> k \<in> dom (pr_toolSelectors r)" using f(8) by (metis domIff)
    then show "k \<in> dom (pr_backends r1)" using bk Cons.prems(3) by auto
  qed
  have p1: "dom (pr_promptSelectors r1) \<subseteq> dom (pr_backends r1)"
  proof
    fix k assume "k \<in> dom (pr_promptSelectors r1)"
    then have "k = mb_Name b \<or> k \<in> dom (pr_promptSelectors r)" using f(9) by (metis domIff)
    then show "k \<in> dom (pr_backends r1)" using bk Cons.prems(4) by auto
  qed
  have d1: "dom (pr_backends r1) \<union> mb_Name ` set bs = dom (pr_backends r) \<union> mb_Name ` set (b # bs)" using bk by auto
  show ?case using Cons.IH [OF r1(2) n1 t1 p1] unfolding f(2,3,6,7) d1 .
qed simp

lemma claim_fold_empty:
  "claim_fold re r sels bs Map.empty t = Some b \<Longrightarrow> b \<in> mb_Name ` set bs \<and> owns re r sels b t"
  "b \<in> mb_Name ` set bs \<Longrightarrow> owns re r sels b t \<Longrightarrow> claim_fold re r sels bs Map.empty t \<noteq> None"
  using claim_fold_claims [of re r sels bs Map.empty] by (metis option.distinct(1))+

lemma load_route_ok:
  assumes "load_route cel re route = Inr r"
  shows "route_ok re r \<and> dom (pr_backends r) = mb_Name ` set (mr_Backends route)"
proof -
  obtain a s r0 r1 where l: "load_backends re (mr_Name route) (mr_Backends route) r0 = Inr r1"
    and r: "r = fold (index_backend re) (mr_Backends route) r1"
    and r0: "r0 = \<lparr>pr_backends = Map.empty, pr_toolSelectors = Map.empty, pr_promptSelectors = Map.empty,
        pr_authorization = a, pr_backendSelector = s, pr_forwardHeaders = mr_ForwardHeaders route, pr_routePrefixMode = mr_PrefixMode route,
        pr_neverModeToolIndex = Map.empty, pr_neverModePromptIndex = Map.empty\<rparr>"
    using assms by (auto simp: load_route_def split: sum.splits)
  have "named (pr_backends r0)" "dom (pr_toolSelectors r0) \<subseteq> dom (pr_backends r0)" "dom (pr_promptSelectors r0) \<subseteq> dom (pr_backends r0)"
    by (simp_all add: r0 named_def)
  note lb = load_backends_tables [OF l this]
  have d: "dom (pr_backends r1) = mb_Name ` set (mr_Backends route)" using lb r0 by simp
  have e: "pr_neverModeToolIndex r1 = Map.empty" "pr_neverModePromptIndex r1 = Map.empty" using lb r0 by simp_all
  have s: "same_selectors r1 r" unfolding r by (rule index_backends_same)
  note f = same_selectors_fields [OF s]
  note i = index_fold [of re "mr_Backends route" r1, folded r]
  have f': "pr_backends r = pr_backends r1" "pr_toolSelectors r = pr_toolSelectors r1" "pr_promptSelectors r = pr_promptSelectors r1"
    using f by blast+
  have ix: "pr_neverModeToolIndex r = claim_fold re r1 (pr_toolSelectors r1) (mr_Backends route) Map.empty"
    "pr_neverModePromptIndex r = claim_fold re r1 (pr_promptSelectors r1) (mr_Backends route) Map.empty" using i e by simp_all
  have "route_ok re r" unfolding route_ok_def f' ix owns_same [OF s] d
  proof (intro conjI allI impI)
    show "named (pr_backends r1)" using lb by blast
    show "dom (pr_toolSelectors r1) \<subseteq> mb_Name ` set (mr_Backends route)" "dom (pr_promptSelectors r1) \<subseteq> mb_Name ` set (mr_Backends route)"
      unfolding d [symmetric] using lb by blast+
  qed (use claim_fold_empty in blast)+
  then show ?thesis using d f' by simp
qed

section \<open>Loading configurations\<close>

text \<open>The invariant of the proxy: its routes hold what their tables promise and the channel that is handed out is open.\<close>

definition routes_ok :: "regexp_library \<Rightarrow> (string \<Rightarrow> 'p mcpProxyConfigRoute option) \<Rightarrow> bool" where
  "routes_ok re m = (\<forall>r \<in> ran m. route_ok re r)"

definition proxy_ok :: "regexp_library \<Rightarrow> 'p ProxyConfig \<Rightarrow> bool" where
  "proxy_ok re p = (signaler_ok (px_signaler p) \<and> (\<forall>c \<in> set_option (px_config p). routes_ok re (cfg_routes c)))"

lemma load_routes_ok: "load_routes cel re rs m = Inr m' \<Longrightarrow> routes_ok re m \<Longrightarrow> routes_ok re m'"
proof (induction rs arbitrary: m)
  case (Cons r rs)
  then obtain c where c: "load_route cel re r = Inr c" "load_routes cel re rs (m(mr_Name r \<mapsto> c)) = Inr m'" by (auto split: sum.splits)
  have "routes_ok re (m(mr_Name r \<mapsto> c))" using Cons.prems(2) load_route_ok [OF c(1)] by (auto simp: routes_ok_def ran_def split: if_splits)
  then show ?case by (rule Cons.IH [OF c(2)])
qed simp

text \<open>A load either fails and changes nothing, or installs the new routes and signals if the tools differ.\<close>

lemma LoadConfig_cases:
  assumes "signaler_ok (px_signaler p)"
  obtains (none) "config = None" "LoadConfig cel re config p = (None, p)"
  | (failed) e c where "config = Some c" "load_routes cel re (mc_Routes c) Map.empty = Inl e" "LoadConfig cel re config p = (Some e, p)"
  | (loaded) c cfg s where "config = Some c" "load_routes cel re (mc_Routes c) Map.empty = Inr (cfg_routes cfg)"
      "LoadConfig cel re config p = (None, p\<lparr>px_config := Some cfg, px_signaler := s\<rparr>)"
      "s = px_signaler p \<and> config_sameTools (px_config p) (Some cfg) \<or> Signal (px_signaler p) = Inr s \<and> \<not> config_sameTools (px_config p) (Some cfg)"
proof (cases config)
  case None
  then show ?thesis by (intro none) (simp_all add: LoadConfig_def)
next
  case (Some c)
  show ?thesis
  proof (cases "load_routes cel re (mc_Routes c) Map.empty")
    case (Inl e)
    then show ?thesis by (intro failed [OF Some]) (simp_all add: LoadConfig_def Some)
  next
    case (Inr routes)
    define cfg where "cfg = \<lparr>cfg_backendListenerAddr = mc_BackendListenerAddr c, cfg_routes = routes, cfg_sessionCrypto = sessionCryptoFromConfig (mc_SessionEncryption c)\<rparr>"
    have r: "load_routes cel re (mc_Routes c) Map.empty = Inr (cfg_routes cfg)" using Inr by (simp add: cfg_def)
    obtain s where s: "Signal (px_signaler p) = Inr s" using Signal_ok [OF assms] by blast
    show ?thesis
    proof (cases "config_sameTools (px_config p) (Some cfg)")
      case True
      then show ?thesis by (intro loaded [OF Some r, of "px_signaler p"]) (auto simp: LoadConfig_def Some Inr cfg_def Let_def)
    next
      case False
      then show ?thesis using s by (intro loaded [OF Some r, of s]) (auto simp: LoadConfig_def Some Inr cfg_def Let_def)
    qed
  qed
qed

text \<open>
  C16. Loading keeps the proxy well formed. Every route of the new configuration knows its backends by their
  names, selects only tools of its own backends, and its indexes of unprefixed names hold exactly the
  names some backend declares and allows; a configuration that does not load leaves the proxy as
  it was; and signalling never closes a closed channel.
\<close>

theorem loading_keeps_proxy_ok:
  assumes "proxy_ok re p" and "LoadConfig cel re config p = (err, p')"
  shows "proxy_ok re p' \<and> (err \<noteq> None \<longrightarrow> p' = p)"
proof -
  have "signaler_ok (px_signaler p)" using assms(1) by (simp add: proxy_ok_def)
  then show ?thesis
  proof (cases rule: LoadConfig_cases [where config = config and cel = cel and re = re])
    case (loaded c cfg s)
    have "routes_ok re (cfg_routes cfg)" using load_routes_ok [OF loaded(2)] by (simp add: routes_ok_def)
    moreover have "signaler_ok s" using loaded(4) assms(1) Signal_ok [of "px_signaler p"] by (auto simp: proxy_ok_def)
    ultimately show ?thesis using loaded(3) assms(2) by (auto simp: proxy_ok_def)
  qed (use assms in auto)
qed

text \<open>The proxy after a sequence of loads.\<close>

primrec loads :: "('ast, 'p) cel_library \<Rightarrow> regexp_library \<Rightarrow> MCPConfig option list \<Rightarrow> 'p ProxyConfig \<Rightarrow> 'p ProxyConfig" where
  "loads cel re [] p = p"
| "loads cel re (c # cs) p = loads cel re cs (snd (LoadConfig cel re c p))"

primrec tools_changed :: "('ast, 'p) cel_library \<Rightarrow> regexp_library \<Rightarrow> MCPConfig option list \<Rightarrow> 'p ProxyConfig \<Rightarrow> bool" where
  "tools_changed cel re [] p = False"
| "tools_changed cel re (c # cs) p =
     (let p' = snd (LoadConfig cel re c p) in \<not> config_sameTools (px_config p) (px_config p') \<or> tools_changed cel re cs p')"

lemma config_sameTools_refl [simp]: "config_sameTools c c"
proof -
  have "same a a" for a :: "'a compiledAuthorization option" by (simp add: same_def same_rule_def list.rel_refl split: option.split)
  then have "route_sameTools r r" for r :: "'a mcpProxyConfigRoute"
    by (simp add: route_sameTools_def maps_EqualFunc_def selector_sameTools_def option.rel_refl)
  then show ?thesis by (simp add: config_sameTools_def maps_EqualFunc_def option.rel_refl split: option.split)
qed

lemma LoadConfig_signal:
  assumes "signaler_ok (px_signaler p)" and p'_def: "p' = snd (LoadConfig cel re c p)"
  shows "if config_sameTools (px_config p) (px_config p') then px_signaler p' = px_signaler p
    else signaler_ok (px_signaler p') \<and> Watch (px_signaler p) \<in> set (sg_closed (px_signaler p')) \<and>
      set (sg_closed (px_signaler p)) \<subseteq> set (sg_closed (px_signaler p'))"
  using assms(1)
proof (cases rule: LoadConfig_cases [where config = c and cel = cel and re = re])
  case (loaded c' cfg s)
  then show ?thesis using Signal_ok [OF assms(1)] by (auto simp: p'_def)
qed (auto simp: p'_def)

lemma loads_closed:
  "signaler_ok (px_signaler p) \<Longrightarrow> set (sg_closed (px_signaler p)) \<subseteq> set (sg_closed (px_signaler (loads cel re cs p)))"
proof (induction cs arbitrary: p)
  case (Cons c cs)
  let ?p = "snd (LoadConfig cel re c p)"
  have "signaler_ok (px_signaler ?p) \<and> set (sg_closed (px_signaler p)) \<subseteq> set (sg_closed (px_signaler ?p))"
    using LoadConfig_signal [OF Cons.prems refl, of cel re c] Cons.prems by (auto split: if_splits)
  then show ?case using Cons.IH [of ?p] by auto
qed simp

text \<open>
  C17. A stream that waits for a change of the tools is woken by it. The channel a watcher was given is
  closed after a sequence of configuration loads exactly if one of them changed the tools, however
  many loads, failed ones included, come before and after.
\<close>

theorem watchers_woken:
  assumes "proxy_ok re p"
  shows "Watch (px_signaler p) \<in> set (sg_closed (px_signaler (loads cel re cs p))) \<longleftrightarrow> tools_changed cel re cs p"
proof -
  have "signaler_ok (px_signaler p)" using assms by (simp add: proxy_ok_def)
  then show ?thesis
  proof (induction cs arbitrary: p)
    case Nil
    then show ?case by (auto simp: signaler_ok_def Watch_def)
  next
    case (Cons c cs)
    let ?p = "snd (LoadConfig cel re c p)"
    note l = LoadConfig_signal [OF Cons.prems refl, of cel re c]
    show ?case
    proof (cases "config_sameTools (px_config p) (px_config ?p)")
      case True
      then have "px_signaler ?p = px_signaler p" using l by simp
      then show ?thesis using Cons.IH [of ?p] Cons.prems True by (simp add: Let_def)
    next
      case False
      then show ?thesis using l loads_closed [of ?p cel re cs] by (auto simp: Let_def)
    qed
  qed
qed

section \<open>A sample configuration\<close>

definition sample_cel :: "(unit, unit) cel_library" where
  "sample_cel = \<lparr>cel_NewEnv = None, cel_Compile = (\<lambda>e. Inr ()), cel_Program = (\<lambda>a. Inl (errorf []))\<rparr>"

definition sample_regexp :: regexp_library where
  "sample_regexp = \<lparr>re_Compile = (\<lambda>e. None), re_MatchString = (\<lambda>e s. False)\<rparr>"

definition empty_proxy :: "unit ProxyConfig" where
  "empty_proxy = \<lparr>px_config = None, px_signaler = newMultiWatcherSignaler, px_sessionCrypto = None, px_maxRequestBodySize = 0\<rparr>"

text \<open>A backend whose only tool is exposed without a prefix.\<close>

definition one_tool_config :: MCPConfig where
  "one_tool_config = \<lparr>mc_BackendListenerAddr = [],
     mc_Routes = [\<lparr>mr_Name = ''r'',
       mr_Backends = [\<lparr>mb_Name = ''b'', mb_ToolSelector = Some \<lparr>mts_Include = [''t''], mts_IncludeRegex = [], mts_Exclude = [], mts_ExcludeRegex = []\<rparr>,
         mb_PromptSelector = None, mb_ForwardHeaders = [], mb_PrefixMode = PrefixModeNever\<rparr>],
       mr_Authorization = None, mr_BackendSelector = None, mr_ForwardHeaders = [], mr_PrefixMode = []\<rparr>],
     mc_SessionEncryption = None\<rparr>"

lemma one_tool_loaded:
  "\<exists>cfg p'. LoadConfig sample_cel sample_regexp (Some one_tool_config) empty_proxy = (None, p') \<and> px_config p' = Some cfg \<and>
     (\<exists>r. cfg_routes cfg ''r'' = Some r \<and> pr_neverModeToolIndex r ''t'' = Some ''b'')"
  by (simp add: LoadConfig_def one_tool_config_def load_route_def load_backend_def buildSelector_def compileAuthorization_def index_backend_def
      effectivePrefixMode_def claim_names_def allows_def config_sameTools_def empty_proxy_def Signal_def newMultiWatcherSignaler_def Let_def)

lemma empty_proxy_ok: "proxy_ok sample_regexp empty_proxy"
  by (simp add: proxy_ok_def empty_proxy_def signaler_ok_new)

theorem loading_keeps_proxy_ok_witness:
  "\<exists>p'. LoadConfig sample_cel sample_regexp (Some one_tool_config) empty_proxy = (None, p') \<and> proxy_ok sample_regexp p'"
proof -
  obtain p' where "LoadConfig sample_cel sample_regexp (Some one_tool_config) empty_proxy = (None, p')" using one_tool_loaded by blast
  then show ?thesis using loading_keeps_proxy_ok [OF empty_proxy_ok] by blast
qed

theorem watchers_woken_witness:
  "Watch (px_signaler empty_proxy) \<in> set (sg_closed (px_signaler (loads sample_cel sample_regexp [None, Some one_tool_config] empty_proxy)))"
proof -
  obtain p' cfg where "LoadConfig sample_cel sample_regexp (Some one_tool_config) empty_proxy = (None, p')" "px_config p' = Some cfg"
    using one_tool_loaded by blast
  moreover have "LoadConfig sample_cel sample_regexp None empty_proxy = (None, empty_proxy)" by (simp add: LoadConfig_def)
  ultimately have "tools_changed sample_cel sample_regexp [None, Some one_tool_config] empty_proxy"
    by (simp add: config_sameTools_def empty_proxy_def)
  then show ?thesis using watchers_woken [OF empty_proxy_ok] by blast
qed

end
