(* ===== verification/Mcp_Sse.thy ===== *)
theory Mcp_Sse
  imports Go_Encoding
begin

text \<open>
  \<^verbatim>\<open>internal/mcpproxy/sse.go\<close>: the parser of server-sent events and the writer. The reader is the
  list of what its next calls return, a chunk of bytes with an optional error; after the list it
  returns end of file. The JSON-RPC codec is a parameter.
\<close>

section \<open>Events\<close>

record 'm sseEvent =
  se_event :: string
  se_id :: string
  se_messages :: "'m list"
  se_backend :: string

type_synonym read = "bytes \<times> go_error option"

definition io_EOF :: go_error where
  "io_EOF = GoError [IoEOF] ''EOF''"

text \<open>A parser: the backend's name, the reads to come and the buffer.\<close>

record sseEventParser =
  sp_backend :: string
  sp_r :: "read list"
  sp_buf :: bytes

definition newSSEEventParser :: "read list \<Rightarrow> string \<Rightarrow> sseEventParser" where
  "newSSEEventParser r backend = \<lparr>sp_backend = backend, sp_r = r, sp_buf = []\<rparr>"

text \<open>\<open>bytes.NewReader\<close>, read into the parser's buffer of 4096 bytes.\<close>

function bytes_NewReader :: "bytes \<Rightarrow> read list" where
  "bytes_NewReader b = (if b = [] then [] else (take 4096 b, None) # bytes_NewReader (drop 4096 b))"
  by pat_completeness auto

termination bytes_NewReader
  by (relation "measure length") auto

declare bytes_NewReader.simps [simp del]

section \<open>Parsing\<close>

fun replace_crlf :: "bytes \<Rightarrow> bytes" where
  "replace_crlf [] = []"
| "replace_crlf [c] = [c]"
| "replace_crlf (c # d # s) = (if c = CHR 0x0D \<and> d = CHR 0x0A then CHR 0x0A # replace_crlf s else c # replace_crlf (d # s))"

definition normalizeNewlines :: "bytes \<Rightarrow> bytes" where
  "normalizeNewlines b = map (\<lambda>c. if c = CHR 0x0D then CHR 0x0A else c) (replace_crlf b)"

definition parse_line :: "(bytes \<Rightarrow> go_error + 'm) \<Rightarrow> bytes \<Rightarrow> 'm sseEvent \<Rightarrow> go_error + 'm sseEvent" where
  "parse_line dec line ret =
     (if HasPrefix line ''event:'' then Inr (ret\<lparr>se_event := TrimSpace (drop 6 line)\<rparr>)
      else if HasPrefix line ''id:'' then Inr (ret\<lparr>se_id := TrimSpace (drop 3 line)\<rparr>)
      else if HasPrefix line ''data:'' then
        (let data = TrimSpace (drop 5 line) in
         if data = [] then Inr ret
         else case dec data of
           Inl e \<Rightarrow> Inl (wrapf ''failed to decode jsonrpc message from sse data: '' e)
         | Inr msg \<Rightarrow> Inr (ret\<lparr>se_messages := se_messages ret @ [msg]\<rparr>))
      else Inr ret)"

primrec parse_lines :: "(bytes \<Rightarrow> go_error + 'm) \<Rightarrow> bytes list \<Rightarrow> 'm sseEvent \<Rightarrow> go_error + 'm sseEvent" where
  "parse_lines dec [] ret = Inr ret"
| "parse_lines dec (l # ls) ret = (case parse_line dec l ret of Inl e \<Rightarrow> Inl e | Inr r \<Rightarrow> parse_lines dec ls r)"

definition parseEvent :: "(bytes \<Rightarrow> go_error + 'm) \<Rightarrow> string \<Rightarrow> bytes \<Rightarrow> go_error + 'm sseEvent" where
  "parseEvent dec backend chunk =
     parse_lines dec (Split chunk (CHR 0x0A)) \<lparr>se_event = [], se_id = [], se_messages = [], se_backend = backend\<rparr>"

definition LFLF :: bytes where
  "LFLF = [CHR 0x0A, CHR 0x0A]"

definition extractEvent :: "(bytes \<Rightarrow> go_error + 'm) \<Rightarrow> sseEventParser \<Rightarrow> (go_error + 'm sseEvent) option \<times> sseEventParser" where
  "extractEvent dec s =
     (case Index (sp_buf s) LFLF of
        None \<Rightarrow> (None, s)
      | Some idx \<Rightarrow> (Some (parseEvent dec (sp_backend s) (take idx (sp_buf s))), s\<lparr>sp_buf := drop (idx + 2) (sp_buf s)\<rparr>))"

definition errors_Join :: "go_error \<Rightarrow> go_error option \<Rightarrow> go_error" where
  "errors_Join e e' = (case e' of None \<Rightarrow> e | Some e' \<Rightarrow> GoError (err_chain e @ err_chain e') (err_msg e @ [CHR 0x0A] @ err_msg e'))"

text \<open>The end of the stream: what is left in the buffer is the last event.\<close>

definition at_read_error :: "(bytes \<Rightarrow> go_error + 'm) \<Rightarrow> go_error \<Rightarrow> sseEventParser \<Rightarrow> ('m sseEvent option \<times> go_error option) \<times> sseEventParser" where
  "at_read_error dec err s =
     (if errors_is err IoEOF \<and> sp_buf s \<noteq> [] then
        (case parseEvent dec (sp_backend s) (sp_buf s) of
           Inl e \<Rightarrow> ((None, Some (errors_Join err (Some e))), s\<lparr>sp_buf := []\<rparr>)
         | Inr ev \<Rightarrow> ((Some ev, Some (errors_Join err None)), s\<lparr>sp_buf := []\<rparr>))
      else ((None, Some err), s))"

text \<open>One call of \<open>next\<close>; the recursion is on the reads that are left.\<close>

fun next_reads ::
  "(bytes \<Rightarrow> go_error + 'm) \<Rightarrow> read list \<Rightarrow> string \<Rightarrow> bytes \<Rightarrow> ('m sseEvent option \<times> go_error option) \<times> sseEventParser" where
  "next_reads dec reads backend buf =
     (case extractEvent dec \<lparr>sp_backend = backend, sp_r = reads, sp_buf = buf\<rparr> of
        (Some (Inl e), s) \<Rightarrow> ((None, Some e), s)
      | (Some (Inr ev), s) \<Rightarrow> ((Some ev, None), s)
      | (None, s) \<Rightarrow>
          (case reads of
             [] \<Rightarrow> at_read_error dec io_EOF s
           | (chunk, err) # rs \<Rightarrow>
               if chunk \<noteq> [] then next_reads dec rs backend (buf @ normalizeNewlines chunk)
               else case err of
                 Some e \<Rightarrow> at_read_error dec e (s\<lparr>sp_r := rs\<rparr>)
               | None \<Rightarrow> next_reads dec rs backend buf))"

declare next_reads.simps [simp del]

definition sse_next :: "(bytes \<Rightarrow> go_error + 'm) \<Rightarrow> sseEventParser \<Rightarrow> ('m sseEvent option \<times> go_error option) \<times> sseEventParser" where
  "sse_next dec s = next_reads dec (sp_r s) (sp_backend s) (sp_buf s)"

section \<open>Writing\<close>

definition writeAndMaybeFlush :: "('m \<Rightarrow> bytes) \<Rightarrow> 'm sseEvent \<Rightarrow> bytes" where
  "writeAndMaybeFlush enc s =
     (if se_event s \<noteq> [] then ''event: '' @ se_event s @ [CHR 0x0A] else []) @
     (if se_id s \<noteq> [] then ''id: '' @ se_id s @ [CHR 0x0A] else []) @
     concat (map (\<lambda>msg. ''data: '' @ enc msg @ [CHR 0x0A]) (se_messages s)) @ LFLF"

section \<open>Decoding one message\<close>

definition utf8BOM :: bytes where
  "utf8BOM = [CHR 0xEF, CHR 0xBB, CHR 0xBF]"

definition tryDecodeJSONRPCMessage :: "(bytes \<Rightarrow> go_error + 'm) \<Rightarrow> bytes \<Rightarrow> 'm option" where
  "tryDecodeJSONRPCMessage dec body =
     (case dec (TrimPrefix (TrimSpace body) utf8BOM) of Inl e \<Rightarrow> None | Inr msg \<Rightarrow> Some msg)"

text \<open>\<open>mime.ParseMediaType\<close> is a parameter that gives the media type, or nothing on an error.\<close>

definition isJSONContentType :: "(string \<Rightarrow> string option) \<Rightarrow> string \<Rightarrow> bool" where
  "isJSONContentType parseMediaType v = (case parseMediaType v of None \<Rightarrow> False | Some mt \<Rightarrow> EqualFold mt ''application/json'')"

section \<open>Reading a whole stream\<close>

text \<open>What is left to read, as a bound on the calls of \<open>next\<close>.\<close>

definition pending :: "sseEventParser \<Rightarrow> nat" where
  "pending s = length (sp_buf s) + sum_list (map (length \<circ> fst) (sp_r s))"

lemma replace_crlf_length: "length (replace_crlf s) \<le> length s"
  by (induction s rule: replace_crlf.induct) auto

lemma normalizeNewlines_length: "length (normalizeNewlines b) \<le> length b"
  by (simp add: normalizeNewlines_def replace_crlf_length)

lemma at_read_error_error [simp]: "snd (fst (at_read_error dec err s)) \<noteq> None"
  by (auto simp: at_read_error_def split: sum.splits)

lemma Index_LFLF: "Index buf LFLF = Some i \<Longrightarrow> i + 2 \<le> length buf"
proof -
  assume "Index buf LFLF = Some i"
  then obtain t where "drop i buf = LFLF @ t" using Index_SomeD HasPrefix_iff by blast
  then have "length buf - i = 2 + length t" by (metis LFLF_def length_Cons length_append length_drop list.size(3) numeral_2_eq_2)
  then show ?thesis by simp
qed

text \<open>\<open>next\<close> by cases: an event in the buffer, the end of the stream, or one more read.\<close>

lemma next_reads_event:
  "Index buf LFLF = Some i \<Longrightarrow>
   next_reads dec reads backend buf =
     ((case parseEvent dec backend (take i buf) of Inl e \<Rightarrow> (None, Some e) | Inr ev \<Rightarrow> (Some ev, None)),
      \<lparr>sp_backend = backend, sp_r = reads, sp_buf = drop (i + 2) buf\<rparr>)"
  by (simp add: next_reads.simps [of dec reads] extractEvent_def split: sum.splits)

lemma next_reads_end:
  "Index buf LFLF = None \<Longrightarrow> next_reads dec [] backend buf = at_read_error dec io_EOF \<lparr>sp_backend = backend, sp_r = [], sp_buf = buf\<rparr>"
  by (simp add: next_reads.simps [of dec "[]"] extractEvent_def)

lemma next_reads_chunk:
  "Index buf LFLF = None \<Longrightarrow> chunk \<noteq> [] \<Longrightarrow>
   next_reads dec ((chunk, err) # rs) backend buf = next_reads dec rs backend (buf @ normalizeNewlines chunk)"
  by (simp add: next_reads.simps [of dec "(chunk, err) # rs"] extractEvent_def)

lemma next_reads_error:
  "Index buf LFLF = None \<Longrightarrow>
   next_reads dec (([], Some e) # rs) backend buf = at_read_error dec e \<lparr>sp_backend = backend, sp_r = rs, sp_buf = buf\<rparr>"
  by (simp add: next_reads.simps [of dec "([], Some e) # rs"] extractEvent_def)

lemma next_reads_nothing:
  "Index buf LFLF = None \<Longrightarrow> next_reads dec (([], None) # rs) backend buf = next_reads dec rs backend buf"
  by (simp add: next_reads.simps [of dec "([], None) # rs"] extractEvent_def)

lemmas next_reads_cases = next_reads_end next_reads_chunk next_reads_error next_reads_nothing

text \<open>A call that returns without an error has used up two bytes.\<close>

lemma next_reads_progress:
  "snd (fst (next_reads dec reads backend buf)) = None \<Longrightarrow>
   pending (snd (next_reads dec reads backend buf)) + 2 \<le> pending \<lparr>sp_backend = backend, sp_r = reads, sp_buf = buf\<rparr>"
proof (induction reads arbitrary: buf)
  case Nil
  show ?case
  proof (cases "Index buf LFLF")
    case None
    then show ?thesis using Nil by (simp add: next_reads_end)
  next
    case (Some i)
    then show ?thesis using Index_LFLF [OF Some] by (simp add: next_reads_event pending_def)
  qed
next
  case (Cons r rs)
  obtain chunk err where r: "r = (chunk, err)" by (cases r)
  show ?case
  proof (cases "Index buf LFLF")
    case None
    show ?thesis
    proof (cases "chunk = []")
      case True
      then show ?thesis using Cons None r by (cases err) (simp_all add: next_reads_cases pending_def)
    next
      case False
      then show ?thesis using Cons.IH [of "buf @ normalizeNewlines chunk"] Cons.prems None r normalizeNewlines_length [of chunk]
        by (simp add: next_reads_cases pending_def)
    qed
  next
    case (Some i)
    then show ?thesis using Index_LFLF [OF Some] by (simp add: next_reads_event pending_def)
  qed
qed

lemma sse_next_progress: "snd (fst (sse_next dec s)) = None \<Longrightarrow> pending (snd (sse_next dec s)) + 2 \<le> pending s"
  using next_reads_progress [of dec "sp_r s" "sp_backend s" "sp_buf s"] by (simp add: sse_next_def pending_def)

text \<open>
  The loop every reader of a stream runs: take events until \<open>next\<close> reports an error, keeping the
  event that comes with the error.
\<close>

function sse_drain :: "(bytes \<Rightarrow> go_error + 'm) \<Rightarrow> sseEventParser \<Rightarrow> 'm sseEvent list \<times> go_error" where
  "sse_drain dec s =
     (case sse_next dec s of
        ((ev, Some e), s') \<Rightarrow> (case ev of Some ev \<Rightarrow> [ev] | None \<Rightarrow> [], e)
      | ((ev, None), s') \<Rightarrow> (let (evs, e) = sse_drain dec s' in ((case ev of Some ev \<Rightarrow> [ev] | None \<Rightarrow> []) @ evs, e)))"
  by pat_completeness auto

lemma sse_drain_step: "(x, y) = sse_next dec s \<Longrightarrow> (ev, err) = x \<Longrightarrow> err = None \<Longrightarrow> pending y < pending s"
  using sse_next_progress [of dec s] by (cases "sse_next dec s") auto

termination sse_drain
  by (relation "measure (pending \<circ> snd)") (auto dest: sse_drain_step)

declare sse_drain.simps [simp del]

section \<open>Streams are read to their end\<close>

lemma sse_drain_bound: "2 * length (fst (sse_drain dec s)) \<le> pending s + 2"
proof (induction dec s rule: sse_drain.induct)
  case (1 dec s)
  obtain ev err s' where n: "sse_next dec s = ((ev, err), s')" by (cases "sse_next dec s") auto
  show ?case
  proof (cases err)
    case None
    then have "2 * length (fst (sse_drain dec s')) \<le> pending s' + 2" using 1 [OF n [symmetric] refl] by simp
    then show ?thesis using sse_next_progress [of dec s] n None
      by (auto simp: sse_drain.simps [of dec s] Let_def split: option.splits prod.splits)
  qed (use n in \<open>simp add: sse_drain.simps [of dec s] split: option.splits\<close>)
qed

text \<open>A stream of chunks without carriage returns, with no read error but the end of file.\<close>

definition plain_reads :: "read list \<Rightarrow> bool" where
  "plain_reads rs = (\<forall>(chunk, err) \<in> set rs. CHR 0x0D \<notin> set chunk \<and> err = None)"

definition stream_text :: "read list \<Rightarrow> bytes" where
  "stream_text rs = concat (map fst rs)"

lemma replace_crlf_id: "CHR 0x0D \<notin> set s \<Longrightarrow> replace_crlf s = s"
  by (induction s rule: replace_crlf.induct) auto

lemma normalizeNewlines_id: "CHR 0x0D \<notin> set b \<Longrightarrow> normalizeNewlines b = b"
  by (auto simp: normalizeNewlines_def replace_crlf_id intro: map_idI)

lemma Index_prefix: "Index a p = Some i \<Longrightarrow> Index (a @ b) p = Some i"
proof (induction a arbitrary: i)
  case Nil
  then have "p = []" "i = 0" by (auto split: if_splits)
  then show ?case by (cases b) (simp_all add: HasPrefix_def)
next
  case (Cons x xs)
  show ?case
  proof (cases "HasPrefix (x # xs) p")
    case True
    then obtain t where "x # xs = p @ t" by (auto simp: HasPrefix_iff)
    then have "x # xs @ b = p @ t @ b" by (metis append_Cons append_assoc)
    then have "HasPrefix (x # xs @ b) p" unfolding HasPrefix_iff by blast
    then show ?thesis using Cons.prems True by simp
  next
    case False
    then obtain j where j: "Index xs p = Some j" "i = Suc j" using Cons.prems by auto
    have "\<not> HasPrefix (x # xs @ b) p"
    proof
      assume h: "HasPrefix (x # xs @ b) p"
      have "length p \<le> length xs" using Index_SomeD [OF j(1)] by (auto simp: HasPrefix_iff dest: arg_cong [where f = length])
      with h have "HasPrefix (x # xs) p" by (auto simp: HasPrefix_iff append_eq_append_conv2 Cons_eq_append_conv)
      with False show False by simp
    qed
    then show ?thesis using Cons.IH [OF j(1)] j by simp
  qed
qed

lemma next_reads_whole:
  assumes "plain_reads rs"
  shows "fst (next_reads dec rs backend buf) = fst (next_reads dec [] backend (buf @ stream_text rs)) \<and>
    plain_reads (sp_r (snd (next_reads dec rs backend buf))) \<and>
    snd (next_reads dec [] backend (buf @ stream_text rs)) =
      \<lparr>sp_backend = backend, sp_r = [], sp_buf = sp_buf (snd (next_reads dec rs backend buf)) @ stream_text (sp_r (snd (next_reads dec rs backend buf)))\<rparr> \<and>
    sp_backend (snd (next_reads dec rs backend buf)) = backend"
  using assms
proof (induction rs arbitrary: buf)
  case Nil
  then show ?case by (cases "Index buf LFLF") (auto simp: stream_text_def next_reads_event next_reads_end at_read_error_def split: sum.splits)
next
  case (Cons r rs)
  obtain chunk where r: "r = (chunk, None)" "CHR 0x0D \<notin> set chunk" using Cons.prems by (cases r) (auto simp: plain_reads_def)
  have p: "plain_reads rs" using Cons.prems by (simp add: plain_reads_def)
  show ?case
  proof (cases "Index buf LFLF")
    case None
    show ?thesis
    proof (cases "chunk = []")
      case True
      then show ?thesis using Cons.IH [OF p, of buf] None r by (simp add: next_reads_nothing stream_text_def)
    next
      case False
      then show ?thesis using Cons.IH [OF p, of "buf @ chunk"] None r by (simp add: next_reads_chunk stream_text_def normalizeNewlines_id)
    qed
  next
    case (Some i)
    then show ?thesis using Index_prefix [OF Some, of "stream_text (r # rs)"] Index_LFLF [OF Some] Cons.prems
      by (simp add: next_reads_event)
  qed
qed

lemma sse_drain_whole:
  assumes "plain_reads (sp_r s)"
  shows "sse_drain dec s = sse_drain dec \<lparr>sp_backend = sp_backend s, sp_r = [], sp_buf = sp_buf s @ stream_text (sp_r s)\<rparr>"
  using assms
proof (induction dec s rule: sse_drain.induct)
  case (1 dec s)
  let ?w = "\<lparr>sp_backend = sp_backend s, sp_r = [], sp_buf = sp_buf s @ stream_text (sp_r s)\<rparr>"
  obtain ev err s' where n: "sse_next dec s = ((ev, err), s')" by (cases "sse_next dec s") auto
  note w = next_reads_whole [OF 1(2), of dec "sp_backend s" "sp_buf s"]
  have n': "sse_next dec ?w = ((ev, err), \<lparr>sp_backend = sp_backend s', sp_r = [], sp_buf = sp_buf s' @ stream_text (sp_r s')\<rparr>)"
    and p: "plain_reads (sp_r s')"
    using w n by (simp_all add: sse_next_def prod_eq_iff)
  show ?case
  proof (cases err)
    case None
    then show ?thesis using 1(1) [OF n [symmetric] refl None p] n n' by (simp add: sse_drain.simps [of dec s] sse_drain.simps [of dec ?w])
  qed (use n n' in \<open>simp add: sse_drain.simps [of dec s] sse_drain.simps [of dec ?w]\<close>)
qed

section \<open>What is written is read back\<close>

definition clean :: "bytes \<Rightarrow> bool" where
  "clean t = (CHR 0x0A \<notin> set t \<and> CHR 0x0D \<notin> set t \<and> TrimSpace t = t)"

text \<open>The lines of an event, without their ends.\<close>

definition event_lines :: "('m \<Rightarrow> bytes) \<Rightarrow> 'm sseEvent \<Rightarrow> bytes list" where
  "event_lines enc ev =
     (if se_event ev \<noteq> [] then [''event: '' @ se_event ev] else []) @ (if se_id ev \<noteq> [] then [''id: '' @ se_id ev] else []) @
     map (\<lambda>m. ''data: '' @ enc m) (se_messages ev)"

definition wf_event :: "('m \<Rightarrow> bytes) \<Rightarrow> (bytes \<Rightarrow> go_error + 'm) \<Rightarrow> 'm sseEvent \<Rightarrow> bool" where
  "wf_event enc dec ev = (clean (se_event ev) \<and> clean (se_id ev) \<and> event_lines enc ev \<noteq> [] \<and>
     (\<forall>m \<in> set (se_messages ev). clean (enc m) \<and> enc m \<noteq> [] \<and> dec (enc m) = Inr m))"

lemma terminated_Join: "ls \<noteq> [] \<Longrightarrow> concat (map (\<lambda>l. l @ [c]) ls) = Join ls [c] @ [c]"
proof (induction ls)
  case (Cons l ls)
  then show ?case by (cases ls) simp_all
qed simp

lemma write_lines: "writeAndMaybeFlush enc ev = concat (map (\<lambda>l. l @ [CHR 0x0A]) (event_lines enc ev)) @ LFLF"
  by (simp add: writeAndMaybeFlush_def event_lines_def comp_def)

lemma written_event: "wf_event enc dec ev \<Longrightarrow> writeAndMaybeFlush enc ev = Join (event_lines enc ev) [CHR 0x0A] @ LFLF @ [CHR 0x0A]"
  by (simp add: write_lines terminated_Join wf_event_def LFLF_def)

lemma TrimSpace_space: "TrimSpace (CHR '' '' # s) = TrimSpace s"
  by (simp add: TrimSpace_def is_space_def)

lemma parse_prefixed:
  assumes "TrimSpace x = x"
  shows "parse_line dec (''event: '' @ x) ret = Inr (ret\<lparr>se_event := x\<rparr>)"
    and "parse_line dec (''id: '' @ x) ret = Inr (ret\<lparr>se_id := x\<rparr>)"
    and "x \<noteq> [] \<Longrightarrow> dec x = Inr m \<Longrightarrow> parse_line dec (''data: '' @ x) ret = Inr (ret\<lparr>se_messages := se_messages ret @ [m]\<rparr>)"
  using assms by (simp_all add: parse_line_def HasPrefix_def TrimSpace_space Let_def)

lemma parse_lines_append:
  "parse_lines dec (xs @ ys) ret = (case parse_lines dec xs ret of Inl e \<Rightarrow> Inl e | Inr r \<Rightarrow> parse_lines dec ys r)"
  by (induction xs arbitrary: ret) (auto split: sum.splits)

lemma parse_data_lines:
  "\<forall>m \<in> set ms. TrimSpace (enc m) = enc m \<and> enc m \<noteq> [] \<and> dec (enc m) = Inr m \<Longrightarrow>
   parse_lines dec (map (\<lambda>m. ''data: '' @ enc m) ms) ret = Inr (ret\<lparr>se_messages := se_messages ret @ ms\<rparr>)"
proof (induction ms arbitrary: ret)
  case (Cons m ms)
  then have "parse_line dec (''data: '' @ enc m) ret = Inr (ret\<lparr>se_messages := se_messages ret @ [m]\<rparr>)"
    by (intro parse_prefixed(3)) auto
  then show ?case using Cons by simp
qed simp

lemma parse_event_lines:
  assumes "wf_event enc dec ev"
  shows "parse_lines dec (event_lines enc ev) \<lparr>se_event = [], se_id = [], se_messages = [], se_backend = b\<rparr> = Inr (ev\<lparr>se_backend := b\<rparr>)"
proof -
  have c: "TrimSpace (se_event ev) = se_event ev" "TrimSpace (se_id ev) = se_id ev"
    and m: "\<forall>m \<in> set (se_messages ev). TrimSpace (enc m) = enc m \<and> enc m \<noteq> [] \<and> dec (enc m) = Inr m"
    using assms by (simp_all add: wf_event_def clean_def)
  have e: "parse_lines dec (if se_event ev \<noteq> [] then [''event: '' @ se_event ev] else []) ret = Inr (ret\<lparr>se_event := se_event ev\<rparr>)"
    if "se_event ret = []" for ret
    using that by (cases "se_event ev = []") (simp_all only: parse_lines.simps parse_prefixed(1) [OF c(1)] if_True if_False sum.case simp_thms, simp_all)
  have i: "parse_lines dec (if se_id ev \<noteq> [] then [''id: '' @ se_id ev] else []) ret = Inr (ret\<lparr>se_id := se_id ev\<rparr>)"
    if "se_id ret = []" for ret
    using that by (cases "se_id ev = []") (simp_all only: parse_lines.simps parse_prefixed(2) [OF c(2)] if_True if_False sum.case simp_thms, simp_all)
  show ?thesis unfolding event_lines_def parse_lines_append
    by (simp only: e i parse_data_lines [where enc = enc and dec = dec, OF m] sum.case sseEvent.simps append_Nil) (cases ev, simp)
qed

lemma line_clean: "wf_event enc dec ev \<Longrightarrow> l \<in> set (event_lines enc ev) \<Longrightarrow> l \<noteq> [] \<and> CHR 0x0A \<notin> set l \<and> CHR 0x0D \<notin> set l"
  by (auto simp: wf_event_def event_lines_def clean_def split: if_splits)

lemma Index_skip_char:
  "CHR 0x0A \<notin> set a \<Longrightarrow> Index (a @ s) LFLF = map_option ((+) (length a)) (Index s LFLF)"
  by (cases "Index s LFLF"; induction a) (auto simp: LFLF_def HasPrefix_def)

lemma Index_newline: "s \<noteq> [] \<Longrightarrow> hd s \<noteq> CHR 0x0A \<Longrightarrow> Index (CHR 0x0A # s) LFLF = map_option Suc (Index s LFLF)"
  by (cases s) (simp_all add: LFLF_def HasPrefix_def)

lemma Join_hd:
  assumes "ls \<noteq> []" and "\<forall>l \<in> set ls. l \<noteq> [] \<and> x \<notin> set l"
  shows "\<exists>c t. Join ls sep = c # t \<and> c \<noteq> x"
proof -
  obtain l ls' where l: "ls = l # ls'" "l \<noteq> []" "x \<notin> set l" using assms by (cases ls) auto
  then show ?thesis by (cases ls'; cases l) auto
qed

lemma Index_lines:
  "ls \<noteq> [] \<Longrightarrow> \<forall>l \<in> set ls. l \<noteq> [] \<and> CHR 0x0A \<notin> set l \<Longrightarrow>
   Index (Join ls [CHR 0x0A] @ LFLF @ rest) LFLF = Some (length (Join ls [CHR 0x0A]))"
proof (induction ls)
  case (Cons l ls)
  show ?case
  proof (cases "ls = []")
    case True
    then show ?thesis using Cons.prems Index_skip_char [of l "LFLF @ rest"] by (simp add: LFLF_def HasPrefix_def)
  next
    case False
    let ?r = "Join ls [CHR 0x0A] @ LFLF @ rest"
    obtain c t where c: "Join ls [CHR 0x0A] = c # t" "c \<noteq> CHR 0x0A" using Join_hd [OF False, of "CHR 0x0A" "[CHR 0x0A]"] Cons.prems(2) by auto
    have "Index ?r LFLF = Some (length (Join ls [CHR 0x0A]))" using Cons.IH False Cons.prems(2) by simp
    then have "Index (CHR 0x0A # ?r) LFLF = Some (Suc (length (Join ls [CHR 0x0A])))"
      using Index_newline [of ?r] c by simp
    moreover have "Join (l # ls) [CHR 0x0A] = l @ CHR 0x0A # Join ls [CHR 0x0A]" using False by (cases ls) simp_all
    ultimately show ?thesis using Index_skip_char [of l "CHR 0x0A # ?r"] Cons.prems(2) by simp
  qed
qed simp

text \<open>The events after the first begin with the last newline of the event before.\<close>

definition empty_event :: "string \<Rightarrow> 'm sseEvent" where
  "empty_event b = \<lparr>se_event = [], se_id = [], se_messages = [], se_backend = b\<rparr>"

lemma parse_blank_line: "parse_lines dec ([] # ls) ret = parse_lines dec ls ret"
  by (simp add: parse_line_def HasPrefix_def)

lemma next_written:
  assumes wf: "wf_event enc dec ev" and pre: "pre = [] \<or> pre = [CHR 0x0A]"
  shows "sse_next dec \<lparr>sp_backend = b, sp_r = [], sp_buf = pre @ writeAndMaybeFlush enc ev @ rest\<rparr> =
    ((Some (ev\<lparr>se_backend := b\<rparr>), None), \<lparr>sp_backend = b, sp_r = [], sp_buf = CHR 0x0A # rest\<rparr>)"
proof -
  let ?ls = "event_lines enc ev"
  let ?j = "Join ?ls [CHR 0x0A]"
  have ls: "?ls \<noteq> []" "\<forall>l \<in> set ?ls. l \<noteq> [] \<and> CHR 0x0A \<notin> set l" using wf line_clean [OF wf] by (auto simp: wf_event_def)
  have t: "pre @ writeAndMaybeFlush enc ev @ rest = pre @ ?j @ LFLF @ CHR 0x0A # rest" using written_event [OF wf] by simp
  have i0: "Index (?j @ LFLF @ CHR 0x0A # rest) LFLF = Some (length ?j)" by (rule Index_lines [OF ls])
  obtain c u where c: "?j = c # u" "c \<noteq> CHR 0x0A" using Join_hd [OF ls(1), of "CHR 0x0A" "[CHR 0x0A]"] ls(2) by auto
  have i: "Index (pre @ ?j @ LFLF @ CHR 0x0A # rest) LFLF = Some (length (pre @ ?j))"
    using pre i0 Index_newline [of "?j @ LFLF @ CHR 0x0A # rest"] c by auto
  have sp: "Split ?j (CHR 0x0A) = ?ls" using Split_Join [OF ls(1), of "CHR 0x0A"] ls(2) by simp
  have "parse_lines dec (Split (pre @ ?j) (CHR 0x0A)) (empty_event b) = parse_lines dec ?ls (empty_event b)"
    using pre sp by (auto simp: parse_blank_line simp del: parse_lines.simps)
  then have "parseEvent dec b (pre @ ?j) = Inr (ev\<lparr>se_backend := b\<rparr>)"
    using parse_event_lines [OF wf, of b] by (simp add: parseEvent_def empty_event_def)
  then show ?thesis unfolding sse_next_def t using next_reads_event [OF i, of dec "[]" b] by (simp add: LFLF_def)
qed

lemma drain_last_newline: "sse_drain dec \<lparr>sp_backend = b, sp_r = [], sp_buf = [CHR 0x0A]\<rparr> = ([empty_event b], io_EOF)"
proof -
  have i: "Index [CHR 0x0A] LFLF = None" by (simp add: LFLF_def HasPrefix_def)
  have "parseEvent dec b [CHR 0x0A] = Inr (empty_event b)"
    by (simp add: parseEvent_def empty_event_def parse_line_def HasPrefix_def)
  then show ?thesis
    by (subst sse_drain.simps) (simp add: sse_next_def next_reads_end [OF i] at_read_error_def io_EOF_def errors_is_def errors_Join_def)
qed

lemma sse_drain_event:
  "sse_next dec s = ((Some ev, None), s') \<Longrightarrow> sse_drain dec s' = (evs, e) \<Longrightarrow> sse_drain dec s = (ev # evs, e)"
  by (simp add: sse_drain.simps [of dec s])

lemma drain_written:
  "\<forall>ev \<in> set evs. wf_event enc dec ev \<Longrightarrow>
   sse_drain dec \<lparr>sp_backend = b, sp_r = [], sp_buf = CHR 0x0A # concat (map (writeAndMaybeFlush enc) evs)\<rparr> =
     (map (\<lambda>ev. ev\<lparr>se_backend := b\<rparr>) evs @ [empty_event b], io_EOF)"
proof (induction evs)
  case Nil
  then show ?case by (simp add: drain_last_newline)
next
  case (Cons ev evs)
  let ?s = "\<lparr>sp_backend = b, sp_r = [], sp_buf = CHR 0x0A # concat (map (writeAndMaybeFlush enc) (ev # evs))\<rparr>"
  have "sse_next dec ?s = ((Some (ev\<lparr>se_backend := b\<rparr>), None), \<lparr>sp_backend = b, sp_r = [], sp_buf = CHR 0x0A # concat (map (writeAndMaybeFlush enc) evs)\<rparr>)"
    using next_written [of enc dec ev "[CHR 0x0A]" b "concat (map (writeAndMaybeFlush enc) evs)"] Cons.prems by simp
  from sse_drain_event [OF this] show ?case using Cons by simp
qed

lemma drain_first_written:
  assumes "evs \<noteq> []" and "\<forall>ev \<in> set evs. wf_event enc dec ev"
  shows "sse_drain dec \<lparr>sp_backend = b, sp_r = [], sp_buf = concat (map (writeAndMaybeFlush enc) evs)\<rparr> =
     (map (\<lambda>ev. ev\<lparr>se_backend := b\<rparr>) evs @ [empty_event b], io_EOF)"
proof -
  obtain ev evs' where e: "evs = ev # evs'" using assms(1) by (cases evs) auto
  let ?s = "\<lparr>sp_backend = b, sp_r = [], sp_buf = concat (map (writeAndMaybeFlush enc) evs)\<rparr>"
  have "sse_next dec ?s = ((Some (ev\<lparr>se_backend := b\<rparr>), None), \<lparr>sp_backend = b, sp_r = [], sp_buf = CHR 0x0A # concat (map (writeAndMaybeFlush enc) evs')\<rparr>)"
    using next_written [of enc dec ev "[]" b "concat (map (writeAndMaybeFlush enc) evs')"] assms(2) e by simp
  from sse_drain_event [OF this drain_written] show ?thesis using assms(2) e by simp
qed

text \<open>
  C20. What the writer writes, the parser reads back, however the bytes are cut into reads: the
  events come out in order under the name of the reading backend, then one empty event for the
  newline left over, with the end of file.
\<close>

theorem sse_roundtrip:
  assumes "evs \<noteq> []" and "\<forall>ev \<in> set evs. wf_event enc dec ev"
    and "stream_text rs = concat (map (writeAndMaybeFlush enc) evs)" and "plain_reads rs"
  shows "sse_drain dec (newSSEEventParser rs b) = (map (\<lambda>ev. ev\<lparr>se_backend := b\<rparr>) evs @ [empty_event b], io_EOF)"
  using sse_drain_whole [of "newSSEEventParser rs b" dec] drain_first_written [OF assms(1,2), of b] assms(3,4)
  by (simp add: newSSEEventParser_def)

definition sample_event :: "bytes sseEvent" where
  "sample_event = \<lparr>se_event = ''message'', se_id = [], se_messages = [''{}''], se_backend = []\<rparr>"

definition sample_reads :: "read list" where
  "sample_reads = [(''event: mes'', None), ([], None), (''sage'' @ [CHR 0x0A] @ ''data: {}'' @ [CHR 0x0A, CHR 0x0A], None), ([CHR 0x0A], None)]"

theorem sse_roundtrip_witness:
  "sse_drain Inr (newSSEEventParser sample_reads ''b'') = ([sample_event\<lparr>se_backend := ''b''\<rparr>, empty_event ''b''], io_EOF)"
  using sse_roundtrip [of "[sample_event]" "\<lambda>m. m" Inr sample_reads "''b''"]
  by (simp add: wf_event_def clean_def event_lines_def sample_event_def sample_reads_def plain_reads_def stream_text_def
      writeAndMaybeFlush_def LFLF_def TrimSpace_def is_space_def)



section \<open>A line end cut by a read\<close>

text \<open>
  Line ends are normalized read by read. When a read ends between the two bytes of a CR LF, the line
  end becomes an empty line and the event ends there: the same bytes give one event in one read and
  two in two.
\<close>

definition crlf_event :: bytes where
  "crlf_event = ''event: a'' @ [CHR 0x0D, CHR 0x0A] @ ''data: 1'' @ [CHR 0x0D, CHR 0x0A, CHR 0x0D, CHR 0x0A]"

theorem crlf_cut_by_a_read:
  "stream_text [(take 9 crlf_event, None), (drop 9 crlf_event, None)] = stream_text [(crlf_event, None)] \<and>
   fst (sse_drain Inr (newSSEEventParser [(crlf_event, None)] ''b'')) =
     [\<lparr>se_event = ''a'', se_id = [], se_messages = [''1''], se_backend = ''b''\<rparr>] \<and>
   fst (sse_drain Inr (newSSEEventParser [(take 9 crlf_event, None), (drop 9 crlf_event, None)] ''b'')) =
     [\<lparr>se_event = ''a'', se_id = [], se_messages = [], se_backend = ''b''\<rparr>,
      \<lparr>se_event = [], se_id = [], se_messages = [''1''], se_backend = ''b''\<rparr>]"
  by code_simp

end
