(* ===== verification/Mcp_Names.thy ===== *)
theory Mcp_Names
  imports Mcp_Session
begin

text \<open>
  How the proxy puts a backend's name into the names, URIs, request identifiers and progress tokens
  that pass through it, and takes it out again: the naming functions of
  \<^verbatim>\<open>internal/mcpproxy/handlers.go\<close> and the identifier codecs inside
  \<^verbatim>\<open>internal/mcpproxy/legacy.go\<close>. The conversion \<open>jsonrpc.MakeID\<close> is a parameter.
\<close>

section \<open>Names\<close>

definition nameSeparator :: string where
  "nameSeparator = ''__''"

definition downstreamResourceName :: "string \<Rightarrow> string \<Rightarrow> string" where
  "downstreamResourceName name backendName = backendName @ nameSeparator @ name"

definition upstreamResourceName :: "string \<Rightarrow> go_error + (string \<times> string)" where
  "upstreamResourceName fullName =
     (case Index fullName nameSeparator of
        None \<Rightarrow> Inl (errorf (''invalid resource name: '' @ fullName))
      | Some i \<Rightarrow> Inr (take i fullName, drop (i + length nameSeparator) fullName))"

section \<open>Resource URIs\<close>

definition uiSchemePrefix :: string where
  "uiSchemePrefix = ''ui://''"

definition downstreamResourceURI :: "string \<Rightarrow> string \<Rightarrow> string" where
  "downstreamResourceURI uri backendName =
     (if HasPrefix uri uiSchemePrefix then uiSchemePrefix @ backendName @ ''/'' @ TrimPrefix uri uiSchemePrefix
      else backendName @ ''+'' @ uri)"

definition upstreamResourceURI :: "string \<Rightarrow> go_error + (string \<times> string)" where
  "upstreamResourceURI fullURI =
     (if HasPrefix fullURI uiSchemePrefix then
        (let rest = TrimPrefix fullURI uiSchemePrefix; (backendName, rest') = Cut rest (CHR ''/'') in
         if CHR ''/'' \<notin> set rest \<or> backendName = [] then Inl (errorf (''invalid resource URI: '' @ fullURI))
         else Inr (backendName, uiSchemePrefix @ rest'))
      else
        (let parts = SplitN fullURI (CHR ''+'') 2 in
         if length parts \<noteq> 2 then Inl (errorf (''invalid resource URI: '' @ fullURI))
         else Inr (parts ! 0, parts ! 1)))"

text \<open>The known places of resource URIs in \<open>_meta\<close>; the maps are changed in place.\<close>

definition metaResourceURIPaths :: "string list list" where
  "metaResourceURIPaths = [[''ui'', ''resourceUri''], [''ui/resourceUri'']]"

fun rewrite_path :: "string \<Rightarrow> string list \<Rightarrow> (string \<Rightarrow> any option) \<Rightarrow> (string \<Rightarrow> any option) \<times> bool" where
  "rewrite_path backendName [] node = (node, False)"
| "rewrite_path backendName [leaf] node =
     (case node leaf of
        Some (AnyString uri) \<Rightarrow>
          if uri \<noteq> [] then (node(leaf \<mapsto> AnyString (downstreamResourceURI uri backendName)), True) else (node, False)
      | _ \<Rightarrow> (node, False))"
| "rewrite_path backendName (key # path) node =
     (case node key of
        Some (AnyMap m) \<Rightarrow> (let (m', changed) = rewrite_path backendName path m in (node(key \<mapsto> AnyMap m'), changed))
      | _ \<Rightarrow> (node, False))"

definition rewriteMetaResourceURIs :: "(string \<Rightarrow> any option) \<Rightarrow> string \<Rightarrow> (string \<Rightarrow> any option) \<times> bool" where
  "rewriteMetaResourceURIs meta backendName =
     fold (\<lambda>path (m, changed). let (m', c) = rewrite_path backendName path m in (m', changed \<or> c)) metaResourceURIPaths (meta, False)"

section \<open>Request identifiers\<close>

text \<open>\<open>jsonrpc.ID\<close> by its raw value, and the Go values \<open>jsonrpc.MakeID\<close> is called with.\<close>

datatype rpc_id = IdNil | IdInt int | IdFloat u64 | IdString string

datatype id_value = VFloat u64 | VString string

type_synonym make_id = "id_value \<Rightarrow> go_error + rpc_id"

text \<open>\<open>{original}__{i,f,s}__{backend}\<close>, the three parts a tagged value has.\<close>

definition tagged :: "string \<Rightarrow> string \<Rightarrow> string \<Rightarrow> string" where
  "tagged original tag backend = original @ nameSeparator @ tag @ nameSeparator @ backend"

text \<open>The new identifier of a request on its way from a backend to the client.\<close>

definition prefixed_id :: "make_id \<Rightarrow> string \<Rightarrow> rpc_id \<Rightarrow> go_error + rpc_id" where
  "prefixed_id mk backend rid =
     (let finish = (\<lambda>t. case mk (VString t) of Inl e \<Rightarrow> Inl (wrapf (''failed to make new ID '' @ Quote t @ '': '') e) | Inr i \<Rightarrow> Inr i) in
      case rid of
        IdNil \<Rightarrow> Inl (errorf ''missing id in the server->client request'')
      | IdInt v \<Rightarrow> finish (tagged (FormatInt v) ''i'' backend)
      | IdFloat v \<Rightarrow> finish (tagged (HexEncode (PutUint64 v)) ''f'' backend)
      | IdString v \<Rightarrow> finish (tagged (StdEncode v) ''s'' backend))"

text \<open>
  The way back: the identifier of the client's response gives the backend and the identifier the
  backend used. The error carries the backend's name once it is known.
\<close>

definition restore_id :: "make_id \<Rightarrow> rpc_id \<Rightarrow> (string \<times> go_error) + (string \<times> rpc_id)" where
  "restore_id mk rid =
     (case rid of
        IdString clientToServer \<Rightarrow>
          (let parts = split_on nameSeparator clientToServer in
           if length parts \<noteq> 3 then Inl ([], errorf ''invalid response ID format'')
           else
             (let original = parts ! 0; tag = parts ! 1; backendName = parts ! 2;
                  made = (\<lambda>v. case mk v of
                      Inl e \<Rightarrow> Inl (backendName, wrapf ''invalid response ID format: '' e)
                    | Inr i \<Rightarrow> Inr (backendName, i)) in
              if tag = ''i'' then
                (let (v, ok) = Atoi original in
                 if \<not> ok then Inl (backendName, errorf ''invalid response ID format: '') else made (VFloat (float64_of_int v)))
              else if tag = ''f'' then
                (case HexDecode original of
                   None \<Rightarrow> Inl (backendName, errorf (''invalid response ID format: '' @ original))
                 | Some b \<Rightarrow>
                     if length b \<noteq> 8 then Inl (backendName, errorf ''invalid response ID format: float64 ID requires 8 bytes'')
                     else made (VFloat (GetUint64 b)))
              else if tag = ''s'' then
                (case StdDecode original of
                   None \<Rightarrow> Inl (backendName, errorf (''invalid response ID format: '' @ original))
                 | Some s \<Rightarrow> made (VString s))
              else Inl (backendName, errorf (''invalid response ID type identifier: '' @ tag))))
      | _ \<Rightarrow> Inl ([], errorf ''invalid response ID type''))"

section \<open>Progress tokens\<close>

definition progressTokenMetadataKey :: string where
  "progressTokenMetadataKey = ''progressToken''"

text \<open>Decoded metadata has no \<open>int64\<close>; its numbers are doubles.\<close>

definition maybeUpdateProgressTokenMetadata :: "(string \<Rightarrow> any option) \<Rightarrow> string \<Rightarrow> (string \<Rightarrow> any option) \<times> bool" where
  "maybeUpdateProgressTokenMetadata meta backendName =
     (let put = (\<lambda>t. (meta(progressTokenMetadataKey \<mapsto> AnyString t), True)) in
      case meta progressTokenMetadataKey of
        Some (AnyString v) \<Rightarrow> put (tagged (StdEncode v) ''s'' backendName)
      | Some (AnyNumber v) \<Rightarrow> put (tagged (HexEncode (PutUint64 v)) ''f'' backendName)
      | _ \<Rightarrow> (meta, False))"

datatype token = TokString string | TokInt int | TokFloat u64 | TokOther

definition restore_token :: "token \<Rightarrow> (string \<times> go_error) + (string \<times> token)" where
  "restore_token t =
     (case t of
        TokString pt \<Rightarrow>
          (let parts = split_on nameSeparator pt; bad = (\<lambda>b why. Inl (b, errorf (''invalid progressToken '' @ pt @ why))) in
           if length parts \<noteq> 3 then bad [] []
           else
             (let original = parts ! 0; tag = parts ! 1; backendName = parts ! 2 in
              if tag = ''s'' then
                (case StdDecode original of None \<Rightarrow> bad backendName '': '' | Some s \<Rightarrow> Inr (backendName, TokString s))
              else if tag = ''i'' then
                (let (v, ok) = Atoi original in if \<not> ok then bad backendName '': '' else Inr (backendName, TokInt v))
              else if tag = ''f'' then
                (case HexDecode original of
                   None \<Rightarrow> bad backendName '': ''
                 | Some b \<Rightarrow>
                     if length b \<noteq> 8 then bad backendName '': invalid length''
                     else Inr (backendName, TokFloat (GetUint64 b)))
              else bad backendName ('': unknown type '' @ tag)))
      | _ \<Rightarrow> Inl ([], errorf ''invalid progressToken type''))"

section \<open>Round trips\<close>

text \<open>Backends are named like Kubernetes objects: lower-case letters, digits, dots and dashes.\<close>

definition dns_char :: "char \<Rightarrow> bool" where
  "dns_char c = (is_digit c \<or> CHR ''a'' \<le> c \<and> c \<le> CHR ''z'' \<or> c \<in> {CHR ''-'', CHR ''.''})"

definition wf_backend :: "string \<Rightarrow> bool" where
  "wf_backend b = (b \<noteq> [] \<and> list_all dns_char b)"

lemma dns_char_not: "dns_char c \<Longrightarrow> c \<notin> {CHR ''_'', CHR ''+'', CHR ''/'', CHR '':'', CHR '','', CHR ''@''}"
  by (auto simp: dns_char_def is_digit_def less_eq_char_def)

lemma wf_backend_sep:
  assumes "wf_backend b"
  shows "CHR ''_'' \<notin> set b" "CHR ''+'' \<notin> set b" "CHR ''/'' \<notin> set b" "CHR '':'' \<notin> set b" "CHR '','' \<notin> set b" "CHR ''@'' \<notin> set b" "b \<noteq> []"
  using assms dns_char_not by (fastforce simp: wf_backend_def list_all_iff)+

lemma wf_backend_name: "wf_backend b \<Longrightarrow> wf_name b"
  by (simp add: wf_name_def wf_backend_sep)

lemma name_roundtrip: "wf_backend b \<Longrightarrow> upstreamResourceName (downstreamResourceName name b) = Inr (b, name)"
  using Index_append [of nameSeparator b name] wf_backend_sep(1) [of b]
  by (simp add: upstreamResourceName_def downstreamResourceName_def nameSeparator_def)

lemma not_ui: "wf_backend b \<Longrightarrow> \<not> HasPrefix (b @ CHR ''+'' # s) uiSchemePrefix"
proof
  assume wf: "wf_backend b" and h: "HasPrefix (b @ CHR ''+'' # s) uiSchemePrefix"
  then obtain t where t: "b @ CHR ''+'' # s = CHR ''u'' # CHR ''i'' # CHR '':'' # t" by (auto simp: HasPrefix_iff uiSchemePrefix_def)
  show False
  proof (cases b)
    case (Cons x xs)
    then show ?thesis using t wf_backend_sep(4) [OF wf]
      by (cases xs; cases "tl xs") auto
  qed (use t in simp)
qed

lemma uri_roundtrip: "wf_backend b \<Longrightarrow> upstreamResourceURI (downstreamResourceURI uri b) = Inr (b, uri)"
proof -
  assume wf: "wf_backend b"
  note sep = wf_backend_sep [OF wf]
  show ?thesis
  proof (cases "HasPrefix uri uiSchemePrefix")
    case True
    then obtain r where r: "uri = uiSchemePrefix @ r" by (auto simp: HasPrefix_iff)
    then show ?thesis using sep Cut_append [OF sep(3), of r]
      by (simp add: downstreamResourceURI_def upstreamResourceURI_def Let_def)
  next
    case False
    have "SplitN (b @ CHR ''+'' # uri) (CHR ''+'') 2 = [b, uri]"
      using sep(2) by (simp add: numeral_2_eq_2 takeWhile_neq_append dropWhile_neq_append)
    then show ?thesis using False not_ui [OF wf] by (simp add: downstreamResourceURI_def upstreamResourceURI_def Let_def)
  qed
qed

lemma tagged_parts:
  assumes "CHR ''_'' \<notin> set original" and "CHR ''_'' \<notin> set tag" and "wf_backend b"
  shows "split_on nameSeparator (tagged original tag b) = [original, tag, b]"
proof -
  have "nameSeparator \<noteq> []" "hd nameSeparator = CHR ''_''" by (simp_all add: nameSeparator_def)
  then show ?thesis using assms wf_backend_sep(1) [OF assms(3)] by (simp add: tagged_def split_on_cons split_on_last)
qed

lemma no_separator:
  "CHR ''_'' \<notin> set (StdEncode s)" "CHR ''_'' \<notin> set (HexEncode s)" "CHR ''_'' \<notin> set (FormatInt i)"
proof -
  show "CHR ''_'' \<notin> set (StdEncode s)" "CHR ''_'' \<notin> set (HexEncode s)"
    using StdEncode_text [of "CHR ''_''"] HexEncode_text [of "CHR ''_''"] std_text_not [of "CHR ''_''"] by auto
  have "\<not> is_digit (CHR ''_'')" by (simp add: is_digit_def less_eq_char_def)
  then show "CHR ''_'' \<notin> set (FormatInt i)" using FormatInt_chars [of "CHR ''_''" i] by auto
qed

lemma restore_token_tagged:
  assumes "wf_backend b"
  shows "restore_token (TokString (tagged (StdEncode s) ''s'' b)) = Inr (b, TokString s)"
    and "restore_token (TokString (tagged (HexEncode (PutUint64 v)) ''f'' b)) = Inr (b, TokFloat v)"
    and "- (2 ^ 63) \<le> i \<Longrightarrow> i < 2 ^ 63 \<Longrightarrow> restore_token (TokString (tagged (FormatInt i) ''i'' b)) = Inr (b, TokInt i)"
  using assms by (simp_all add: restore_token_def tagged_parts no_separator Atoi_FormatInt)

definition as_token :: "any \<Rightarrow> token" where
  "as_token v = (case v of AnyString s \<Rightarrow> TokString s | AnyNumber n \<Rightarrow> TokFloat n | _ \<Rightarrow> TokOther)"

lemma token_roundtrip:
  assumes "wf_backend b" and "maybeUpdateProgressTokenMetadata meta b = (meta', True)"
  shows "\<exists>v t. meta progressTokenMetadataKey = Some v \<and> meta' = meta(progressTokenMetadataKey \<mapsto> AnyString t) \<and>
    restore_token (TokString t) = Inr (b, as_token v)"
  using assms(2) restore_token_tagged [OF assms(1)]
  by (auto simp: maybeUpdateProgressTokenMetadata_def Let_def as_token_def split: option.splits any.splits)

lemma restore_id_tagged:
  assumes "wf_backend b"
  shows "mk (VString s) = Inr rid \<Longrightarrow> restore_id mk (IdString (tagged (StdEncode s) ''s'' b)) = Inr (b, rid)"
    and "mk (VFloat v) = Inr rid \<Longrightarrow> restore_id mk (IdString (tagged (HexEncode (PutUint64 v)) ''f'' b)) = Inr (b, rid)"
    and "- (2 ^ 63) \<le> i \<Longrightarrow> i < 2 ^ 63 \<Longrightarrow> mk (VFloat (float64_of_int i)) = Inr rid \<Longrightarrow>
      restore_id mk (IdString (tagged (FormatInt i) ''i'' b)) = Inr (b, rid)"
  using assms by (simp_all add: restore_id_def tagged_parts no_separator Atoi_FormatInt)

text \<open>The value \<open>MakeID\<close> is called with on the way back.\<close>

definition made_from :: "rpc_id \<Rightarrow> id_value option" where
  "made_from rid =
     (case rid of
        IdNil \<Rightarrow> None
      | IdInt i \<Rightarrow> if - (2 ^ 63) \<le> i \<and> i < 2 ^ 63 then Some (VFloat (float64_of_int i)) else None
      | IdFloat f \<Rightarrow> Some (VFloat f)
      | IdString s \<Rightarrow> Some (VString s))"

text \<open>
  A backend that sends the client a request gets the client's answer under the identifier it
  used: the identifier made for the client leads back to the backend and to the original
  identifier, as long as \<open>MakeID\<close> keeps texts and turns the number of the original into it.
\<close>

theorem request_id_roundtrip:
  assumes "wf_backend b" and "\<forall>t. mk (VString t) = Inr (IdString t)"
    and "made_from rid = Some v" and "mk v = Inr rid"
  shows "\<exists>rid'. prefixed_id mk b rid = Inr rid' \<and> restore_id mk rid' = Inr (b, rid)"
proof (cases rid)
  case (IdInt i)
  then have "- (2 ^ 63) \<le> i \<and> i < 2 ^ 63 \<and> v = VFloat (float64_of_int i)" using assms(3) by (auto simp: made_from_def split: if_splits)
  then show ?thesis using restore_id_tagged(3) [OF assms(1)] assms(2,4) IdInt by (simp add: prefixed_id_def)
next
  case (IdFloat f)
  then show ?thesis using restore_id_tagged(2) [OF assms(1)] assms by (simp add: prefixed_id_def made_from_def)
next
  case (IdString s)
  then show ?thesis using restore_id_tagged(1) [OF assms(1)] assms by (simp add: prefixed_id_def made_from_def)
qed (use assms(3) in \<open>simp add: made_from_def\<close>)

definition sample_make_id :: make_id where
  "sample_make_id v =
     (case v of VString s \<Rightarrow> Inr (IdString s) | VFloat f \<Rightarrow> if f = float64_of_int 7 then Inr (IdInt 7) else Inr (IdFloat f))"

theorem request_id_roundtrip_witness:
  "\<exists>rid'. prefixed_id sample_make_id ''b'' (IdInt 7) = Inr rid' \<and> restore_id sample_make_id rid' = Inr (''b'', IdInt 7)"
proof (rule request_id_roundtrip [of "''b''" sample_make_id "IdInt 7" "VFloat (float64_of_int 7)"])
  show "wf_backend ''b''" by code_simp
qed (simp_all add: sample_make_id_def made_from_def)

text \<open>
  Integers above \<^verbatim>\<open>2^53\<close> do not survive: the way back goes through a double, which cannot tell
  \<^verbatim>\<open>2^53 + 1\<close> from \<^verbatim>\<open>2^53\<close>, whatever \<open>MakeID\<close> does with it.
\<close>

lemma bit_len_unique: "2 ^ k \<le> n \<Longrightarrow> n < 2 ^ Suc k \<Longrightarrow> bit_len n = Suc k"
proof (induction k arbitrary: n)
  case 0
  then have "n = 1" by simp
  then show ?case by (simp add: bit_len.simps)
next
  case (Suc k)
  then have "bit_len (n div 2) = Suc k" by (intro Suc.IH) auto
  moreover have "0 < n" using Suc.prems(1) by (metis gr0I not_one_le_zero one_le_numeral one_le_power order_trans)
  ultimately show ?case by (simp add: bit_len.simps [of n])
qed

lemma double_of_2_53_plus_1: "float64_of_int (2 ^ 53 + 1) = float64_of_int (2 ^ 53)"
proof -
  have a: "bit_len 9007199254740993 = Suc 53" and b: "bit_len 9007199254740992 = Suc 53" by (rule bit_len_unique; simp)+
  have "float64_of_nat 9007199254740993 = 9007199254740992" "float64_of_nat 9007199254740992 = 9007199254740992"
    by (simp_all add: float64_of_nat_def round_even_def a b Let_def)
  then show ?thesis by (simp add: float64_of_int_def)
qed

lemma restore_id_int:
  "wf_backend b \<Longrightarrow> - (2 ^ 63) \<le> i \<Longrightarrow> i < 2 ^ 63 \<Longrightarrow>
   restore_id mk (IdString (tagged (FormatInt i) ''i'' b)) =
     (case mk (VFloat (float64_of_int i)) of Inl e \<Rightarrow> Inl (b, wrapf ''invalid response ID format: '' e) | Inr rid \<Rightarrow> Inr (b, rid))"
  by (simp add: restore_id_def tagged_parts no_separator Atoi_FormatInt)

theorem large_request_ids_confused:
  assumes "wf_backend b"
  shows "restore_id mk (IdString (tagged (FormatInt (2 ^ 53 + 1)) ''i'' b)) = restore_id mk (IdString (tagged (FormatInt (2 ^ 53)) ''i'' b))"
proof -
  have "- (2 ^ 63) \<le> (2 ^ 53 + 1 :: int)" "2 ^ 53 + 1 < (2 ^ 63 :: int)" "- (2 ^ 63) \<le> (2 ^ 53 :: int)" "2 ^ 53 < (2 ^ 63 :: int)" by simp_all
  then show ?thesis unfolding restore_id_int [OF assms] double_of_2_53_plus_1
    by (simp only: restore_id_int [OF assms] double_of_2_53_plus_1)
qed

end
