(* ===== verification/Mcp_Proxy.thy ===== *)
theory Mcp_Proxy
  imports Mcp_Config Mcp_Names Mcp_Sse
begin

text \<open>
  \<^verbatim>\<open>internal/mcpproxy/mcpproxy.go\<close> and the header functions of \<^verbatim>\<open>handlers.go\<close>: the requests
  the proxy sends to its backends, the choice of the backends a session may use, the creation of a
  session over all of them and its resumption from an identifier. The HTTP client, the JSON codecs
  and random identifiers are parameters; what is sent is part of the results. Metrics, spans and
  logging are left out.
\<close>

section \<open>Messages\<close>

record rpc_request =
  rq_ID :: rpc_id
  rq_Method :: string
  rq_Params :: slice

record rpc_error =
  we_Code :: int
  we_Message :: string

record rpc_response =
  rs_ID :: rpc_id
  rs_Result :: slice
  rs_Error :: "rpc_error option"

datatype message = MRequest rpc_request | MResponse rpc_response

text \<open>
  The parameters of the methods by their Go types; \<open>bytes\<close> is what a handler does not look at.
  The reference of a completion is a pointer to its type, name and URI.
\<close>

datatype mcp_params =
    InitializeParams string bytes
  | CallToolParams string bytes
  | ReadResourceParams string bytes
  | SubscribeParams string bytes
  | UnsubscribeParams string bytes
  | GetPromptParams string bytes
  | CompleteParams "(string \<times> string \<times> string) option" bytes
  | ProgressNotificationParams token bytes
  | OtherParams bytes

record InitializeResult =
  ir_Capabilities :: "ServerCapabilities option"
  ir_ProtocolVersion :: string

record http_request =
  hq_Method :: string
  hq_URL :: string
  hq_Header :: http_header
  hq_Body :: bytes

record http_response =
  hs_StatusCode :: nat
  hs_Header :: http_header
  hs_Body :: "read list"

record proxy_env =
  pe_Do :: "http_request \<Rightarrow> go_error + http_response"
  pe_EncodeMessage :: "message \<Rightarrow> go_error + bytes"
  pe_DecodeMessage :: "bytes \<Rightarrow> go_error + message"
  pe_MakeID :: make_id
  pe_Marshal :: "mcp_params \<Rightarrow> go_error + bytes"
  pe_UnmarshalInit :: "bytes \<Rightarrow> go_error + InitializeResult option"
  pe_UnmarshalMeta :: "bytes \<Rightarrow> go_error + (string \<Rightarrow> any option)"
  pe_Sprint :: "any \<Rightarrow> string"
  pe_ValidHeaderFieldValue :: "string \<Rightarrow> bool"
  pe_ParseMediaType :: "string \<Rightarrow> string option"
  pe_authz :: "mcp_params authz_env"
  pe_regexp :: regexp_library
  pe_order :: "string list"

text \<open>The state of one request. The attribute headers to log are the keys of a map.\<close>

record mcpRequestContext =
  rc_config :: "mcp_params ProxyConfig"
  rc_requestHeaders :: http_header
  rc_originalPath :: string
  rc_logRequestHeaderAttributes :: "string list"

definition rc_routes :: "mcpRequestContext \<Rightarrow> string \<Rightarrow> mcp_params mcpProxyConfigRoute option" where
  "rc_routes m = (case px_config (rc_config m) of None \<Rightarrow> Map.empty | Some c \<Rightarrow> cfg_routes c)"

definition rc_listener :: "mcpRequestContext \<Rightarrow> string" where
  "rc_listener m = (case px_config (rc_config m) of None \<Rightarrow> [] | Some c \<Rightarrow> cfg_backendListenerAddr c)"

text \<open>\<open>io.ReadAll\<close>: the chunks up to the first error, which is nil for the end of file.\<close>

fun ReadAll :: "read list \<Rightarrow> bytes \<times> go_error option" where
  "ReadAll [] = ([], None)"
| "ReadAll ((chunk, err) # rs) =
     (case err of
        Some e \<Rightarrow> (chunk, if errors_is e IoEOF then None else Some e)
      | None \<Rightarrow> (let (b, e) = ReadAll rs in (chunk @ b, e)))"

section \<open>Headers\<close>

definition MCPBackendHeader :: string where "MCPBackendHeader = ''x-ai-eg-mcp-backend''"
definition MCPRouteHeader :: string where "MCPRouteHeader = ''x-ai-eg-mcp-route''"
definition MCPSubjectHeader :: string where "MCPSubjectHeader = ''x-ai-eg-mcp-subject''"
definition sessionIDHeader :: string where "sessionIDHeader = ''mcp-session-id''"
definition lastEventIDHeader :: string where "lastEventIDHeader = ''Last-Event-Id''"

definition maxMCPMetadataHeaderValueLen :: nat where
  "maxMCPMetadataHeaderValueLen = 1024"

definition setMCPMetadataHeader :: "proxy_env \<Rightarrow> string \<Rightarrow> string \<Rightarrow> http_header \<Rightarrow> http_header" where
  "setMCPMetadataHeader env key v h =
     (if length v > maxMCPMetadataHeaderValueLen \<or> \<not> pe_ValidHeaderFieldValue env v then h else header_Set key v h)"

text \<open>\<open>%v\<close> of the raw value of an identifier.\<close>

definition id_text :: "proxy_env \<Rightarrow> rpc_id \<Rightarrow> string" where
  "id_text env rid =
     (case rid of IdNil \<Rightarrow> ''<nil>'' | IdInt i \<Rightarrow> FormatInt i | IdFloat f \<Rightarrow> pe_Sprint env (AnyNumber f) | IdString s \<Rightarrow> s)"

definition addMCPHeaders :: "proxy_env \<Rightarrow> message option \<Rightarrow> mcp_params option \<Rightarrow> string \<Rightarrow> string \<Rightarrow> http_header \<Rightarrow> http_header" where
  "addMCPHeaders env msg params routeName backendName h =
     (let h = header_Set MCPRouteHeader routeName (header_Set MCPBackendHeader backendName h) in
      case msg of
        Some (MRequest rq) \<Rightarrow>
          (let h = setMCPMetadataHeader env ''x-ai-eg-mcp-metadata-method'' (rq_Method rq)
                     (setMCPMetadataHeader env ''x-ai-eg-mcp-metadata-request-id'' (id_text env (rq_ID rq)) h) in
           case params of
             Some (CallToolParams name _) \<Rightarrow> setMCPMetadataHeader env ''x-ai-eg-mcp-metadata-tool-name'' name h
           | Some (ReadResourceParams uri _) \<Rightarrow> setMCPMetadataHeader env ''x-ai-eg-mcp-metadata-resource-uri'' uri h
           | Some (SubscribeParams uri _) \<Rightarrow> setMCPMetadataHeader env ''x-ai-eg-mcp-metadata-resource-uri'' uri h
           | Some (UnsubscribeParams uri _) \<Rightarrow> setMCPMetadataHeader env ''x-ai-eg-mcp-metadata-resource-uri'' uri h
           | _ \<Rightarrow> h)
      | _ \<Rightarrow> h)"

definition setHeaderIfMissing :: "string \<Rightarrow> string \<Rightarrow> http_header \<Rightarrow> http_header" where
  "setHeaderIfMissing key v h = (if header_Get h key \<noteq> [] then h else header_Set key v h)"

definition applyOriginalPathHeaders :: "mcpRequestContext \<Rightarrow> http_header \<Rightarrow> http_header" where
  "applyOriginalPathHeaders m h =
     setHeaderIfMissing ''x-envoy-original-path'' (rc_originalPath m) (setHeaderIfMissing ''x-ai-eg-original-path'' (rc_originalPath m) h)"

text \<open>
  \<^verbatim>\<open>internal/lang/maps.go\<close>: the value of the first key, in alphabetical order, that matches. The
  list \<open>ord\<close> has the keys of the map.
\<close>

definition CaseInsensitiveValue :: "proxy_env \<Rightarrow> string list \<Rightarrow> (string \<Rightarrow> any option) \<Rightarrow> string \<Rightarrow> string" where
  "CaseInsensitiveValue env ord m key =
     (case find (\<lambda>k. EqualFold k key) (sort (range_keys ord m)) of
        None \<Rightarrow> []
      | Some k \<Rightarrow> (case m k of None \<Rightarrow> [] | Some v \<Rightarrow> pe_Sprint env v))"

definition extractMetaFromJSONRPCMessage :: "proxy_env \<Rightarrow> message option \<Rightarrow> string \<Rightarrow> any option" where
  "extractMetaFromJSONRPCMessage env msg =
     (case msg of
        Some (MRequest rq) \<Rightarrow>
          if slice_bytes (rq_Params rq) = [] then Map.empty
          else (case pe_UnmarshalMeta env (slice_bytes (rq_Params rq)) of Inl e \<Rightarrow> Map.empty | Inr meta \<Rightarrow> meta)
      | _ \<Rightarrow> Map.empty)"

definition applyLogHeaderMappings :: "proxy_env \<Rightarrow> mcpRequestContext \<Rightarrow> message option \<Rightarrow> http_header \<Rightarrow> http_header" where
  "applyLogHeaderMappings env m msg h =
     (let meta = extractMetaFromJSONRPCMessage env msg in
      fold (\<lambda>header h.
        let v = CaseInsensitiveValue env (pe_order env) meta header in
        if v \<noteq> [] then header_Set header v h
        else let v = header_Get (rc_requestHeaders m) header in
             if v \<noteq> [] then header_Set header v h else h) (rc_logRequestHeaderAttributes m) h)"

definition extractForwardHeaders :: "http_header \<Rightarrow> string list \<Rightarrow> string \<Rightarrow> string option" where
  "extractForwardHeaders reqHeaders headers =
     fold (\<lambda>header result. let v = header_Get reqHeaders header in if v \<noteq> [] then result(header \<mapsto> v) else result) headers Map.empty"

definition extractPerBackendForwardHeaders :: "http_header \<Rightarrow> MCPHeaderForward list \<Rightarrow> string \<Rightarrow> string option" where
  "extractPerBackendForwardHeaders reqHeaders mappings =
     fold (\<lambda>f result. let v = header_Get reqHeaders (hf_Name f) in if v \<noteq> [] then result(ForwardName f \<mapsto> v) else result) mappings Map.empty"

text \<open>Only the backends that get a header have an entry; the result is nil when none has.\<close>

definition extractPerBackendHeaders :: "http_header \<Rightarrow> string list \<Rightarrow> (string \<Rightarrow> MCPBackend option) \<Rightarrow> string \<Rightarrow> (string \<Rightarrow> string option) option" where
  "extractPerBackendHeaders reqHeaders ord backends =
     fold (\<lambda>k acc. case backends k of
         None \<Rightarrow> acc
       | Some b \<Rightarrow>
           (let h = extractPerBackendForwardHeaders reqHeaders (mb_ForwardHeaders b) in
            if h = Map.empty then acc else acc(mb_Name b \<mapsto> h))) (range_keys ord backends) Map.empty"

section \<open>Calls to a backend\<close>

definition forward_header :: "http_header \<Rightarrow> string \<Rightarrow> string \<Rightarrow> http_header \<Rightarrow> http_header" where
  "forward_header reqHeaders from to h = (let v = header_Get reqHeaders from in if v \<noteq> [] then header_Set to v h else h)"

definition backend_request :: "proxy_env \<Rightarrow> mcpRequestContext \<Rightarrow> string \<Rightarrow> MCPBackend \<Rightarrow> compositeSessionEntry option \<Rightarrow> message \<Rightarrow> mcp_params option \<Rightarrow> bytes \<Rightarrow> http_request" where
  "backend_request env m routeName backend cse msg params encoded =
     (let h = applyOriginalPathHeaders m (applyLogHeaderMappings env m (Some msg) (addMCPHeaders env (Some msg) params routeName (mb_Name backend) Map.empty));
          h = (case cse of
              None \<Rightarrow> h
            | Some c \<Rightarrow>
                (let h = (if ce_sessionID c \<noteq> [] then header_Set sessionIDHeader (ce_sessionID c) h else h) in
                 if ce_lastEventID c \<noteq> [] then header_Set lastEventIDHeader (ce_lastEventID c) h else h));
          h = header_Set ''Accept'' ''application/json, text/event-stream'' (header_Set ''Content-Type'' ''application/json'' h);
          h = (case rc_routes m routeName of
              None \<Rightarrow> h
            | Some r \<Rightarrow>
                (let h = fold (\<lambda>n. forward_header (rc_requestHeaders m) n n) (pr_forwardHeaders r) h in
                 case pr_backends r (mb_Name backend) of
                   None \<Rightarrow> h
                 | Some b \<Rightarrow> fold (\<lambda>f. forward_header (rc_requestHeaders m) (hf_Name f) (ForwardName f)) (mb_ForwardHeaders b) h)) in
      \<lparr>hq_Method = ''POST'', hq_URL = rc_listener m, hq_Header = h, hq_Body = encoded\<rparr>)"

text \<open>The first component is what is sent.\<close>

definition invokeJSONRPCRequest ::
  "proxy_env \<Rightarrow> mcpRequestContext \<Rightarrow> string \<Rightarrow> MCPBackend \<Rightarrow> compositeSessionEntry option \<Rightarrow> message \<Rightarrow> mcp_params option \<Rightarrow>
   http_request list \<times> (go_error + http_response)" where
  "invokeJSONRPCRequest env m routeName backend cse msg params =
     (case pe_EncodeMessage env msg of
        Inl e \<Rightarrow> ([], Inl (wrapf ''failed to encode MCP message: '' e))
      | Inr encoded \<Rightarrow>
          (let req = backend_request env m routeName backend cse msg params encoded in
           ([req], case pe_Do env req of
              Inl e \<Rightarrow> Inl (wrapf ''failed to send MCP notifications/initialized request: '' e)
            | Inr resp \<Rightarrow> Inr resp)))"

definition getBackendForRoute :: "mcpRequestContext \<Rightarrow> string \<Rightarrow> string \<Rightarrow> go_error + MCPBackend" where
  "getBackendForRoute m route backend =
     (case rc_routes m route of
        None \<Rightarrow> Inl (errorf (''no route found for '' @ Quote route))
      | Some r \<Rightarrow>
          (case pr_backends r backend of
             None \<Rightarrow> Inl (errorf (''no backend found for '' @ Quote backend @ '' in route '' @ Quote route))
           | Some b \<Rightarrow> Inr b))"

section \<open>Initializing one backend\<close>

text \<open>The last response among the messages of an event.\<close>

definition event_response :: "message sseEvent option \<Rightarrow> rpc_response option" where
  "event_response ev =
     (case ev of
        None \<Rightarrow> None
      | Some e \<Rightarrow> fold (\<lambda>msg acc. case msg of MResponse r \<Rightarrow> Some r | MRequest q \<Rightarrow> acc) (se_messages e) None)"

function first_response :: "(bytes \<Rightarrow> go_error + message) \<Rightarrow> sseEventParser \<Rightarrow> go_error + rpc_response" where
  "first_response dec s =
     (case sse_next dec s of
        ((ev, err), s') \<Rightarrow>
          (case event_response ev of
             Some r \<Rightarrow> Inr r
           | None \<Rightarrow> (case err of Some e \<Rightarrow> Inl e | None \<Rightarrow> first_response dec s')))"
  by pat_completeness auto

termination first_response
  by (relation "measure (pending \<circ> snd)") (auto dest: sse_drain_step)

declare first_response.simps [simp del]

definition quiet_error :: "go_error \<Rightarrow> bool" where
  "quiet_error e = (errors_is e IoEOF \<or> Contains (err_msg e) ''context deadline exceeded'')"

text \<open>The response of the backend: a JSON message, or the first response of a stream.\<close>

definition init_response :: "proxy_env \<Rightarrow> string \<Rightarrow> http_response \<Rightarrow> go_error + rpc_response" where
  "init_response env backendName resp =
     (let stream = (\<lambda>reads.
          case first_response (pe_DecodeMessage env) (newSSEEventParser reads backendName) of
            Inr r \<Rightarrow> Inr r
          | Inl e \<Rightarrow>
              if \<not> quiet_error e
              then Inl (wrapf (''failed to read MCP initialize response from backend '' @ Quote backendName @ '': '') e)
              else Inl (errorf (''MCP initialize stream from backend '' @ Quote backendName @ '' ended before a JSON-RPC response was received''))) in
      if header_Get (hs_Header resp) ''Content-Type'' \<noteq> ''text/event-stream'' then
        (let body = fst (ReadAll (hs_Body resp)) in
         case tryDecodeJSONRPCMessage (pe_DecodeMessage env) body of
           Some (MResponse r) \<Rightarrow> Inr r
         | Some (MRequest q) \<Rightarrow> Inl (errorf ''MCP message is not a response: *jsonrpc.Request'')
         | None \<Rightarrow> stream (bytes_NewReader body))
      else stream (hs_Body resp))"

text \<open>
  The two requests of the handshake. A result that decodes to nil has its fields read, which panics;
  the panic is not recovered, since the call runs in a goroutine of its own.
\<close>

definition initializeSession ::
  "proxy_env \<Rightarrow> mcpRequestContext \<Rightarrow> string \<Rightarrow> MCPBackend \<Rightarrow> mcp_params \<Rightarrow> rpc_id \<Rightarrow>
   http_request list \<times> (go_error + (string \<times> InitializeResult))" where
  "initializeSession env m routeName backend p reqID =
     (case pe_Marshal env p of
        Inl e \<Rightarrow> ([], Inl (wrapf ''failed to marshal MCP initialize params: '' e))
      | Inr params \<Rightarrow>
          (case invokeJSONRPCRequest env m routeName backend None (MRequest \<lparr>rq_ID = reqID, rq_Method = ''initialize'', rq_Params = Some params\<rparr>) (Some p) of
             (sent, Inl e) \<Rightarrow> (sent, Inl (wrapf ''failed to send MCP initialize request: '' e))
           | (sent, Inr resp) \<Rightarrow>
               if hs_StatusCode resp \<noteq> 200
               then (sent, Inl (errorf (''MCP initialize request failed with status code '' @ Itoa (hs_StatusCode resp) @ '' and body='' @ fst (ReadAll (hs_Body resp)))))
               else
                 (let sessionID = header_Get (hs_Header resp) sessionIDHeader in
                  case init_response env (mb_Name backend) resp of
                    Inl e \<Rightarrow> (sent, Inl e)
                  | Inr msg \<Rightarrow>
                      (case pe_UnmarshalInit env (slice_bytes (rs_Result msg)) of
                         Inl e \<Rightarrow> (sent, Inl (wrapf ''failed to decode MCP initialize result: '' e))
                       | Inr None \<Rightarrow> (sent, Inl (GoError [GoPanic] ''nil pointer dereference''))
                       | Inr (Some initResult) \<Rightarrow>
                           (case invokeJSONRPCRequest env m routeName backend
                               (Some \<lparr>ce_backendName = [], ce_sessionID = sessionID, ce_lastEventID = [], ce_capabilities = None, ce_protocolVersion = []\<rparr>)
                               (MRequest \<lparr>rq_ID = IdNil, rq_Method = ''notifications/initialized'', rq_Params = Some ''{}''\<rparr>) (Some p) of
                              (sent', Inl e) \<Rightarrow> (sent @ sent', Inl (wrapf ''failed to send MCP notifications/initialized request: '' e))
                            | (sent', Inr resp') \<Rightarrow>
                                if hs_StatusCode resp' \<noteq> 202
                                then (sent @ sent', Inl (errorf (''MCP notifications/initialized request failed with status code '' @
                                        Itoa (hs_StatusCode resp') @ '', body='' @ fst (ReadAll (hs_Body resp')))))
                                else (sent @ sent', Inr (sessionID, initResult)))))))"

section \<open>Choosing backends\<close>

definition selector_request :: "http_header \<Rightarrow> string \<Rightarrow> mcp_params authorizationRequest" where
  "selector_request headers name = \<lparr>ar_Headers = headers, ar_HTTPMethod = [], ar_Host = [], ar_HTTPPath = [], ar_MCPMethod = [],
     ar_Backend = name, ar_Tool = [], ar_Params = None\<rparr>"

text \<open>One authorization context serves all candidates, in the order the map is walked.\<close>

fun select_loop ::
  "proxy_env \<Rightarrow> http_header \<Rightarrow> mcp_params compiledAuthorization \<Rightarrow> (string \<Rightarrow> MCPBackend option) \<Rightarrow> string list \<Rightarrow>
   mcp_params authzContext \<Rightarrow> (string \<Rightarrow> MCPBackend option) \<Rightarrow> string \<Rightarrow> MCPBackend option" where
  "select_loop env headers sel backends [] ac filtered = filtered"
| "select_loop env headers sel backends (name # names) ac filtered =
     (let ((allowed, _), ac') = authorizeRequestWith (pe_authz env) sel (selector_request headers name) ac in
      select_loop env headers sel backends names ac' (if allowed then filtered(name := backends name) else filtered))"

definition selectAuthorizedBackends ::
  "proxy_env \<Rightarrow> mcpRequestContext \<Rightarrow> string \<Rightarrow> mcp_params mcpProxyConfigRoute \<Rightarrow> go_error + (string \<Rightarrow> MCPBackend option)" where
  "selectAuthorizedBackends env m routeName route =
     (case pr_backendSelector route of
        None \<Rightarrow> Inr (pr_backends route)
      | Some sel \<Rightarrow>
          (let headers = rc_requestHeaders m;
               ac = newAuthzContext (pe_authz env) (selector_request headers []) (ca_VerifiedJWT sel);
               filtered = select_loop env headers sel (pr_backends route) (range_keys (pe_order env) (pr_backends route)) ac Map.empty in
           if filtered = Map.empty then Inl (GoError [ErrNoMatchingBackendSelector] (''backendSelector matches no route backends for route '' @ routeName))
           else Inr filtered))"

section \<open>Sessions\<close>

record session =
  ss_id :: string
  ss_route :: string
  ss_entries :: entries
  ss_extraHeaders :: "string \<Rightarrow> string option"
  ss_perBackendExtraHeaders :: "string \<Rightarrow> (string \<Rightarrow> string option) option"

text \<open>
  The goroutines write to places of their own in \<open>entries\<close>, so their order does not matter; a failed
  one leaves its place empty. \<open>uuid\<close> gives the identifier of the request to each backend.
\<close>

definition init_entry :: "MCPBackend \<Rightarrow> go_error + (string \<times> InitializeResult) \<Rightarrow> compositeSessionEntry option" where
  "init_entry backend res =
     (case res of
        Inl e \<Rightarrow> None
      | Inr (sid, r) \<Rightarrow>
          if mb_Name backend = [] then None
          else Some \<lparr>ce_backendName = mb_Name backend, ce_sessionID = sid, ce_lastEventID = [],
                     ce_capabilities = ir_Capabilities r, ce_protocolVersion = ir_ProtocolVersion r\<rparr>)"

definition session_runs ::
  "proxy_env \<Rightarrow> mcpRequestContext \<Rightarrow> string \<Rightarrow> mcp_params \<Rightarrow> (string \<Rightarrow> rpc_id) \<Rightarrow> (string \<Rightarrow> MCPBackend option) \<Rightarrow>
   (MCPBackend \<times> http_request list \<times> (go_error + (string \<times> InitializeResult))) list" where
  "session_runs env m routeName p uuid backends =
     List.map_filter (\<lambda>k. map_option (\<lambda>b. (b, initializeSession env m routeName b p (uuid k))) (backends k)) (range_keys (pe_order env) backends)"

definition newSession ::
  "proxy_env \<Rightarrow> 'blk crypto \<Rightarrow> random \<times> random \<Rightarrow> mcpRequestContext \<Rightarrow> mcp_params \<Rightarrow> string \<Rightarrow> string \<Rightarrow> (string \<Rightarrow> rpc_id) \<Rightarrow>
   http_request list \<times> (go_error + session)" where
  "newSession env cy rnd m p routeName subject uuid =
     (case rc_routes m routeName of
        None \<Rightarrow> ([], Inl (errorf (''no backends found for route '' @ routeName)))
      | Some route \<Rightarrow>
          (let forwardHeaders = extractForwardHeaders (rc_requestHeaders m) (pr_forwardHeaders route) in
           case selectAuthorizedBackends env m routeName route of
             Inl e \<Rightarrow> ([], Inl e)
           | Inr selected \<Rightarrow>
               (let perBackendHeaders = extractPerBackendHeaders (rc_requestHeaders m) (pe_order env) selected;
                    runs = session_runs env m routeName p uuid selected;
                    sent = concat (map (fst \<circ> snd) runs);
                    finalEntries = List.map_filter (\<lambda>(b, _, res). init_entry b res) runs in
                if \<exists>(b, _, res) \<in> set runs. \<exists>e. res = Inl e \<and> errors_is e GoPanic then (sent, Inl (GoError [GoPanic] ''nil pointer dereference''))
                else if finalEntries = [] then (sent, Inl (errorf ''failed to create MCP session to any backend''))
                else case currentSessionCrypto (rc_config m) of
                  None \<Rightarrow> (sent, Inl (GoError [GoPanic] ''nil pointer dereference''))
                | Some crypto \<Rightarrow>
                    (case cipher_Encrypt (cy, crypto) rnd (clientToGatewaySessionIDFromEntries subject finalEntries routeName) of
                       Inl e \<Rightarrow> (sent, Inl (wrapf ''failed to encrypt session ID: '' e))
                     | Inr encrypted \<Rightarrow>
                         (sent, Inr \<lparr>ss_id = encrypted, ss_route = routeName, ss_entries = entry_map finalEntries,
                                     ss_extraHeaders = forwardHeaders, ss_perBackendExtraHeaders = perBackendHeaders\<rparr>)))))"

definition apply_event_ids :: "(string \<Rightarrow> string option) \<Rightarrow> entries \<Rightarrow> entries" where
  "apply_event_ids eventIDs m =
     (\<lambda>k. case m k of None \<Rightarrow> None
        | Some e \<Rightarrow> (case eventIDs k of None \<Rightarrow> Some e | Some ev \<Rightarrow> Some (e\<lparr>ce_lastEventID := ev\<rparr>)))"

definition sessionFromID ::
  "proxy_env \<Rightarrow> 'blk crypto \<Rightarrow> mcpRequestContext \<Rightarrow> string \<Rightarrow> string \<Rightarrow> string \<Rightarrow> string \<Rightarrow> go_error + session" where
  "sessionFromID env cy m sid lastEvent currentRoute currentSubject =
     (case currentSessionCrypto (rc_config m) of
        None \<Rightarrow> Inl (GoError [GoPanic] ''nil pointer dereference'')
      | Some crypto \<Rightarrow>
          (case cipher_Decrypt (cy, crypto) sid of
             Inl e \<Rightarrow> Inl (wrapf ''failed to decrypt session ID: '' e)
           | Inr decrypted \<Rightarrow>
               (case backendSessionIDs decrypted of
                  Inl e \<Rightarrow> Inl e
                | Inr (perBackend, route, subject) \<Rightarrow>
                    if route \<noteq> currentRoute then Inl (GoError [ErrSessionRouteMismatch] ''session ID was issued for a different route'')
                    else if subject \<noteq> currentSubject then Inl (GoError [ErrSessionSubjectMismatch] ''session ID was issued for a different authenticated subject'')
                    else
                      (let entries = (if lastEvent = [] then Inr perBackend
                           else case cipher_Decrypt (cy, crypto) lastEvent of
                             Inl e \<Rightarrow> Inl (wrapf ''failed to decrypt last event ID: '' e)
                           | Inr d \<Rightarrow> Inr (apply_event_ids (backendEventIDs d) perBackend)) in
                       case entries of
                         Inl e \<Rightarrow> Inl e
                       | Inr es \<Rightarrow>
                           Inr \<lparr>ss_id = sid, ss_route = route, ss_entries = es,
                                ss_extraHeaders = (case rc_routes m route of None \<Rightarrow> Map.empty | Some r \<Rightarrow> extractForwardHeaders (rc_requestHeaders m) (pr_forwardHeaders r)),
                                ss_perBackendExtraHeaders = (case rc_routes m route of None \<Rightarrow> Map.empty
                                  | Some r \<Rightarrow> extractPerBackendHeaders (rc_requestHeaders m) (pe_order env) (pr_backends r))\<rparr>))))"

definition extractRoute :: "http_header \<Rightarrow> string" where
  "extractRoute h = header_Get h MCPRouteHeader"

definition extractSubject :: "http_header \<Rightarrow> string" where
  "extractSubject h = TrimSpace (header_Get h MCPSubjectHeader)"

definition sessionErrorStatus :: "go_error \<Rightarrow> nat" where
  "sessionErrorStatus e = (if errors_is e ErrSessionSubjectMismatch then 401 else 400)"

end
