(* ===== verification/Mcp_Resume.thy ===== *)
theory Mcp_Resume
  imports Mcp_Proxy
begin

text \<open>
  What the sessions of the MCP proxy guarantee: which backends a session reaches, who can resume it,
  that it survives a rotation of the key, and that a stream is resumed where it was left.
\<close>

section \<open>The backends of a session\<close>

lemma same_caller_selector: "same_caller (selector_request h n) (selector_request h n')"
  by (simp add: same_caller_def selector_request_def)

lemma select_loop_spec:
  assumes "context_of (pe_authz env) (ca_VerifiedJWT sel) (selector_request h k0) ac"
  shows "select_loop env h sel backends names ac filtered n =
    (if n \<in> set names \<and> fst (authorizeRequest (pe_authz env) (Some sel) (selector_request h n)) then backends n else filtered n)"
  using assms
proof (induction names arbitrary: ac filtered)
  case (Cons name names)
  have c: "context_of (pe_authz env) (ca_VerifiedJWT sel) (selector_request h name) ac"
    by (rule same_caller_context(2) [OF same_caller_selector Cons.prems])
  obtain allowed ch ac' where a: "authorizeRequestWith (pe_authz env) sel (selector_request h name) ac = ((allowed, ch), ac')"
    by (cases "authorizeRequestWith (pe_authz env) sel (selector_request h name) ac") auto
  have al: "allowed = fst (authorizeRequest (pe_authz env) (Some sel) (selector_request h name))"
    and c': "context_of (pe_authz env) (ca_VerifiedJWT sel) (selector_request h name) ac'"
    using authorizeRequestWith_shared [OF c] a by (metis fst_conv, simp)
  have "context_of (pe_authz env) (ca_VerifiedJWT sel) (selector_request h k0) ac'"
    by (rule same_caller_context(2) [OF same_caller_selector c'])
  from Cons.IH [OF this] show ?case using a al by auto
qed simp

text \<open>
  C13. The backends of a session are those the route's selector allows for the caller. Each candidate is
  judged as if it were the only one: neither the order in which Go walks the map of backends nor the
  context the judgements share changes the result. When the selector allows none, there is no session.
\<close>

theorem session_backends_authorized:
  assumes "enumerates (pe_order env) (pr_backends route)" and "pr_backendSelector route = Some sel"
  shows "selectAuthorizedBackends env m routeName route =
    (let allowed = (\<lambda>n. if fst (authorizeRequest (pe_authz env) (Some sel) (selector_request (rc_requestHeaders m) n)) then pr_backends route n else None) in
     if allowed = Map.empty then Inl (GoError [ErrNoMatchingBackendSelector] (''backendSelector matches no route backends for route '' @ routeName))
     else Inr allowed)"
proof -
  let ?h = "rc_requestHeaders m"
  let ?allowed = "\<lambda>n. if fst (authorizeRequest (pe_authz env) (Some sel) (selector_request ?h n)) then pr_backends route n else None"
  have "select_loop env ?h sel (pr_backends route) (range_keys (pe_order env) (pr_backends route))
      (newAuthzContext (pe_authz env) (selector_request ?h []) (ca_VerifiedJWT sel)) Map.empty = ?allowed"
    using select_loop_spec [OF context_of_fresh] set_range_keys [OF assms(1)] by (auto simp: fun_eq_iff domIff)
  then show ?thesis using assms(2) by (simp add: selectAuthorizedBackends_def Let_def)
qed

section \<open>Resuming a session\<close>

lemma entry_map_restored: "entry_map (map restored es) = map_option restored \<circ> entry_map es"
proof -
  have "map (\<lambda>e. (ce_backendName e, e)) (map restored es) = map (\<lambda>(k, e). (k, restored e)) (map (\<lambda>e. (ce_backendName e, e)) es)"
    by (simp add: restored_def)
  then show ?thesis unfolding entry_map_def by (simp only: rev_map map_of_map)
qed

text \<open>What a successful \<open>newSession\<close> has done.\<close>

lemma newSession_issued:
  assumes "newSession env cy rnd m p routeName subject uuid = (sent, Inr s)"
  obtains route selected es crypto where
    "rc_routes m routeName = Some route" "selectAuthorizedBackends env m routeName route = Inr selected"
    "es = List.map_filter (\<lambda>(b, _, res). init_entry b res) (session_runs env m routeName p uuid selected)" "es \<noteq> []"
    "currentSessionCrypto (rc_config m) = Some crypto"
    "cipher_Encrypt (cy, crypto) rnd (clientToGatewaySessionIDFromEntries subject es routeName) = Inr (ss_id s)"
    "ss_route s = routeName" "ss_entries s = entry_map es"
    "sent = concat (map (fst \<circ> snd) (session_runs env m routeName p uuid selected))"
  using assms by (auto simp: newSession_def Let_def split: option.splits sum.splits if_splits)

lemma run_backend:
  "(b, r) \<in> set (session_runs env m routeName p uuid selected) \<Longrightarrow> \<exists>k. selected k = Some b \<and> r = initializeSession env m routeName b p (uuid k)"
  by (auto simp: session_runs_def map_filter_def)

lemma run_entries_named:
  assumes "e \<in> set (List.map_filter (\<lambda>(b, _, res). init_entry b res) (session_runs env m routeName p uuid selected))"
  shows "\<exists>k b. selected k = Some b \<and> ce_backendName e = mb_Name b"
proof -
  obtain b x res where b: "(b, x, res) \<in> set (session_runs env m routeName p uuid selected)" "init_entry b res = Some e"
    using assms by (auto simp: map_filter_def)
  then have "ce_backendName e = mb_Name b" by (auto simp: init_entry_def split: sum.splits if_splits)
  with run_backend [OF b(1)] show ?thesis by blast
qed

lemma selected_subset:
  assumes "selectAuthorizedBackends env m routeName route = Inr selected" and "selected k = Some b"
  shows "pr_backends route k = Some b"
proof (cases "pr_backendSelector route")
  case None
  then show ?thesis using assms by (simp add: selectAuthorizedBackends_def)
next
  case (Some sel)
  let ?h = "rc_requestHeaders m"
  have "selected = select_loop env ?h sel (pr_backends route) (range_keys (pe_order env) (pr_backends route))
      (newAuthzContext (pe_authz env) (selector_request ?h []) (ca_VerifiedJWT sel)) Map.empty"
    using assms(1) Some by (auto simp: selectAuthorizedBackends_def Let_def split: if_splits)
  then show ?thesis using assms(2) select_loop_spec [OF context_of_fresh] by (auto split: if_splits)
qed

text \<open>The resumption of an identifier whose text is known.\<close>

lemma sessionFromID_text:
  assumes "currentSessionCrypto (rc_config m) = Some crypto" and "cipher_Decrypt (cy, crypto) sid = Inr t"
    and "backendSessionIDs t = Inr (es, route, subject)"
  shows "r \<noteq> route \<Longrightarrow> \<exists>e. sessionFromID env cy m sid le r u = Inl e \<and> errors_is e ErrSessionRouteMismatch \<and> sessionErrorStatus e = 400"
    and "r = route \<Longrightarrow> u \<noteq> subject \<Longrightarrow> \<exists>e. sessionFromID env cy m sid le r u = Inl e \<and> errors_is e ErrSessionSubjectMismatch \<and> sessionErrorStatus e = 401"
    and "\<exists>s. sessionFromID env cy m sid [] route subject = Inr s \<and> ss_id s = sid \<and> ss_route s = route \<and> ss_entries s = es"
    and "le \<noteq> [] \<Longrightarrow> cipher_Decrypt (cy, crypto) le = Inr d \<Longrightarrow>
      \<exists>s. sessionFromID env cy m sid le route subject = Inr s \<and> ss_entries s = apply_event_ids (backendEventIDs d) es"
  using assms by (simp_all add: sessionFromID_def errors_is_def sessionErrorStatus_def)

text \<open>A cipher that takes the token back: the one that issued it, or a new one with it as the fallback.\<close>

definition takes_back :: "'blk crypto \<Rightarrow> SessionCrypto \<Rightarrow> SessionCrypto \<Rightarrow> string \<Rightarrow> bool" where
  "takes_back cy crypto crypto' t =
     (crypto' = crypto \<or> (\<exists>new e. crypto' = FallbackEnabled new (Some crypto) \<and> session_Decrypt cy new t = Inl e))"

lemma takes_back_Decrypt:
  assumes "cipher_ok (cy, crypto) rnd" and "cipher_Encrypt (cy, crypto) rnd p = Inr t" and "takes_back cy crypto crypto' t"
  shows "cipher_Decrypt (cy, crypto') t = Inr p"
  using sc.taken_back [OF assms(1,2)] rotated_Decrypt [OF assms(1,2)] assms(3) by (auto simp: takes_back_def)

definition wf_route_backends :: "mcpRequestContext \<Rightarrow> string \<Rightarrow> bool" where
  "wf_route_backends m routeName =
     (CHR ''@'' \<notin> set routeName \<and>
      (\<forall>route k b. rc_routes m routeName = Some route \<and> pr_backends route k = Some b \<longrightarrow> mb_Name b = k \<and> wf_backend k))"

text \<open>
  C4. A session belongs to the caller who opened it. Its identifier, presented on another route, is
  refused; presented by another subject, it is refused with status 401; presented by the same subject
  on the same route it gives back the session of every backend with its capabilities. This holds
  with the cipher that issued the identifier and, after a key rotation, with a new one that keeps the old
  as its fallback; the subject may be any text.
\<close>

theorem session_bound_to_caller:
  assumes "newSession env cy rnd m p routeName subject uuid = (sent, Inr s)" and "wf_route_backends m routeName"
    and "currentSessionCrypto (rc_config m) = Some crypto" and "cipher_ok (cy, crypto) rnd"
    and "currentSessionCrypto (rc_config m') = Some crypto'" and "takes_back cy crypto crypto' (ss_id s)"
  shows "(r \<noteq> routeName \<longrightarrow> (\<exists>e. sessionFromID env cy m' (ss_id s) le r u = Inl e \<and> errors_is e ErrSessionRouteMismatch)) \<and>
    (r = routeName \<and> u \<noteq> subject \<longrightarrow> (\<exists>e. sessionFromID env cy m' (ss_id s) le r u = Inl e \<and> sessionErrorStatus e = 401)) \<and>
    (\<exists>s'. sessionFromID env cy m' (ss_id s) [] routeName subject = Inr s' \<and> ss_id s' = ss_id s \<and> ss_route s' = routeName \<and>
       ss_entries s' = map_option restored \<circ> ss_entries s)"
proof -
  obtain route selected es crypto0 where route: "rc_routes m routeName = Some route" and sel: "selectAuthorizedBackends env m routeName route = Inr selected"
    and es: "es = List.map_filter (\<lambda>(b, _, res). init_entry b res) (session_runs env m routeName p uuid selected)" "es \<noteq> []"
    and c0: "currentSessionCrypto (rc_config m) = Some crypto0"
    and enc0: "cipher_Encrypt (cy, crypto0) rnd (clientToGatewaySessionIDFromEntries subject es routeName) = Inr (ss_id s)"
    and ent: "ss_entries s = entry_map es"
    by (rule newSession_issued [OF assms(1)])
  have enc: "cipher_Encrypt (cy, crypto) rnd (clientToGatewaySessionIDFromEntries subject es routeName) = Inr (ss_id s)"
    using enc0 c0 assms(3) by simp
  have "wf_name (ce_backendName e)" if e: "e \<in> set es" for e
  proof -
    obtain k b where "selected k = Some b" "ce_backendName e = mb_Name b" using run_entries_named [OF e [unfolded es(1)]] by blast
    then show ?thesis using selected_subset [OF sel] assms(2) route wf_backend_name by (force simp: wf_route_backends_def)
  qed
  then have "backendSessionIDs (clientToGatewaySessionIDFromEntries subject es routeName) = Inr (entry_map (map restored es), routeName, subject)"
    using assms(2) by (intro session_id_roundtrip [OF es(2)]) (auto simp: wf_route_backends_def)
  note t = sessionFromID_text [OF assms(5) takes_back_Decrypt [OF assms(4) enc assms(6)] this]
  show ?thesis using t(1) [of r env le u] t(2) [of r u env le] t(3) [of env] entry_map_restored [of es] ent by auto
qed

section \<open>Identifiers the gateway did not issue\<close>

text \<open>
  An authenticating cipher opens only what the gateway has sealed: the text of a session it opened,
  or the text of an event identifier.
\<close>

definition opens_only ::
  "'blk crypto \<Rightarrow> SessionCrypto \<Rightarrow> (string \<times> compositeSessionEntry list \<times> string) set \<Rightarrow> entries set \<Rightarrow> bool" where
  "opens_only cy crypto opened streams =
     (\<forall>t x. cipher_Decrypt (cy, crypto) t = Inr x \<longrightarrow>
        (\<exists>(subject, es, route) \<in> opened. x = clientToGatewaySessionIDFromEntries subject es route) \<or>
        (\<exists>m \<in> streams. \<exists>ord. event_id_text ord m = Inr x))"

definition wf_opened :: "(string \<times> compositeSessionEntry list \<times> string) set \<Rightarrow> entries set \<Rightarrow> bool" where
  "wf_opened opened streams =
     ((\<forall>(subject, es, route) \<in> opened. es \<noteq> [] \<and> (\<forall>e \<in> set es. wf_name (ce_backendName e)) \<and> CHR ''@'' \<notin> set route) \<and>
      (\<forall>m \<in> streams. wf_entries m))"

lemma apply_event_ids_rest:
  "map_option (\<lambda>e. e\<lparr>ce_lastEventID := []\<rparr>) (apply_event_ids ids m k) = map_option (\<lambda>e. e\<lparr>ce_lastEventID := []\<rparr>) (m k)"
  by (simp add: apply_event_ids_def split: option.splits)

lemma sessionFromID_success:
  assumes "sessionFromID env cy m sid le r u = Inr s"
  obtains crypto t es where "currentSessionCrypto (rc_config m) = Some crypto" "cipher_Decrypt (cy, crypto) sid = Inr t"
    "backendSessionIDs t = Inr (es, r, u)" "\<forall>k. map_option (\<lambda>e. e\<lparr>ce_lastEventID := []\<rparr>) (ss_entries s k) = map_option (\<lambda>e. e\<lparr>ce_lastEventID := []\<rparr>) (es k)"
  using assms by (auto simp: sessionFromID_def Let_def apply_event_ids_rest split: option.splits sum.splits if_splits)


section \<open>Resuming a stream\<close>


section \<open>A sample proxy\<close>

text \<open>
  One backend behind one route, which answers the handshake. The cipher keeps the text and opens it
  only if \<open>p\<close> holds for it.
\<close>

definition sample_crypto :: "(bytes \<Rightarrow> bool) \<Rightarrow> unit crypto" where
  "sample_crypto p = \<lparr>cy_pbkdf2 = (\<lambda>seed salt i n. Inr []), cy_NewCipher = (\<lambda>k. Inr ()),
     cy_NewGCM = (\<lambda>b. Inr \<lparr>ae_NonceSize = 0, ae_Overhead = 0, ae_Seal = (\<lambda>n t. t), ae_Open = (\<lambda>n t. if p t then Some t else None)\<rparr>)\<rparr>"

definition sample_random :: "random \<times> random" where
  "sample_random = (let r = (\<lambda>n. Inr (replicate n (CHR ''r''))) in (r, r))"

definition sample_cipher :: SessionCrypto where
  "sample_cipher = NewPBKDF2AesGcmSessionCrypto ''seed'' 1"

definition sample_backend :: MCPBackend where
  "sample_backend = \<lparr>mb_Name = ''b'', mb_ToolSelector = None, mb_PromptSelector = None, mb_ForwardHeaders = [], mb_PrefixMode = []\<rparr>"

definition sample_selector :: "mcp_params compiledAuthorization" where
  "sample_selector = \<lparr>ca_ResourceMetadataURL = [], ca_Rules = [], ca_DefaultAction = AuthorizationActionAllow, ca_VerifiedJWT = False\<rparr>"

definition sample_route :: "mcp_params mcpProxyConfigRoute" where
  "sample_route = \<lparr>pr_backends = [''b'' \<mapsto> sample_backend], pr_toolSelectors = Map.empty, pr_promptSelectors = Map.empty,
     pr_authorization = None, pr_backendSelector = Some sample_selector, pr_forwardHeaders = [], pr_routePrefixMode = [],
     pr_neverModeToolIndex = Map.empty, pr_neverModePromptIndex = Map.empty\<rparr>"

definition sample_request_context :: mcpRequestContext where
  "sample_request_context = \<lparr>rc_config = \<lparr>px_config = Some \<lparr>cfg_backendListenerAddr = [], cfg_routes = [''r'' \<mapsto> sample_route], cfg_sessionCrypto = Some sample_cipher\<rparr>,
       px_signaler = newMultiWatcherSignaler, px_sessionCrypto = None, px_maxRequestBodySize = 0\<rparr>,
     rc_requestHeaders = Map.empty, rc_originalPath = [], rc_logRequestHeaderAttributes = []\<rparr>"

definition sample_result :: InitializeResult where
  "sample_result = \<lparr>ir_Capabilities = None, ir_ProtocolVersion = protocolVersion20250618\<rparr>"

definition sample_proxy_env :: proxy_env where
  "sample_proxy_env = \<lparr>
     pe_Do = (\<lambda>rq. Inr \<lparr>hs_StatusCode = (if hq_Body rq = ''initialize'' then 200 else 202),
       hs_Header = [''Mcp-Session-Id'' \<mapsto> [''s1'']], hs_Body = []\<rparr>),
     pe_EncodeMessage = (\<lambda>m. Inr (case m of MRequest q \<Rightarrow> rq_Method q | MResponse s \<Rightarrow> [])),
     pe_DecodeMessage = (\<lambda>b. Inr (MResponse \<lparr>rs_ID = IdNil, rs_Result = None, rs_Error = None\<rparr>)),
     pe_MakeID = (\<lambda>x. Inl (errorf [])), pe_Marshal = (\<lambda>p. Inr []), pe_UnmarshalInit = (\<lambda>b. Inr (Some sample_result)),
     pe_UnmarshalMeta = (\<lambda>b. Inr Map.empty), pe_Sprint = (\<lambda>v. []), pe_ValidHeaderFieldValue = (\<lambda>v. True), pe_ParseMediaType = (\<lambda>v. None),
     pe_authz = \<lparr>ae_ParseUnverified = (\<lambda>t. (Map.empty, False)), ae_Marshal = (\<lambda>p. Inr []), ae_UnmarshalMap = (\<lambda>b. Inr Map.empty), ae_order = []\<rparr>,
     pe_regexp = \<lparr>re_Compile = (\<lambda>e. None), re_MatchString = (\<lambda>e s. False)\<rparr>, pe_order = [''b'']\<rparr>"

lemma sample_cipher_ok: "cipher_ok (sample_crypto (\<lambda>t. True), sample_cipher) sample_random"
  by (auto simp: cipher_ok_def gcm_ok_def random_ok_def sample_crypto_def sample_random_def new_gcm_def Let_def)

lemma sample_current: "currentSessionCrypto (rc_config sample_request_context) = Some sample_cipher"
  by (simp add: currentSessionCrypto_def sample_request_context_def)

lemma sample_Encrypt: "cipher_Encrypt (sample_crypto p, sample_cipher) sample_random t = Inr (StdEncode (replicate 16 (CHR ''r'') @ t))"
  by (simp add: cipher_Encrypt_def sample_crypto_def sample_cipher_def sample_random_def NewPBKDF2AesGcmSessionCrypto_def
      session_key_def encryptAESGCM_def new_gcm_def Let_def)

lemma sample_Decrypt:
  "cipher_Decrypt (sample_crypto p, sample_cipher) t = Inr x \<Longrightarrow> p x"
  "p t \<Longrightarrow> cipher_Decrypt (sample_crypto p, sample_cipher) (StdEncode (replicate 16 (CHR ''r'') @ t)) = Inr t"
  by (auto simp: cipher_Decrypt_def sample_crypto_def sample_cipher_def NewPBKDF2AesGcmSessionCrypto_def pbkdf2_Decrypt_def
      session_key_def decryptAESGCM_def new_gcm_def Let_def split: option.splits if_splits)

lemma sample_selected: "selectAuthorizedBackends sample_proxy_env sample_request_context n sample_route = Inr [''b'' \<mapsto> sample_backend]"
  by (simp add: selectAuthorizedBackends_def sample_route_def sample_selector_def sample_proxy_env_def range_keys_def authorizeRequestWith_def Let_def)

lemma backend_request_Body [simp]: "hq_Body (backend_request env m r b c msg p encoded) = encoded"
  by (simp add: backend_request_def Let_def)

lemma sample_initialized: "\<exists>sent sid. initializeSession sample_proxy_env m r b p i = (sent, Inr (sid, sample_result))"
  by (simp add: initializeSession_def invokeJSONRPCRequest_def sample_proxy_env_def init_response_def tryDecodeJSONRPCMessage_def header_Get_def Let_def)

lemma sample_session: "\<exists>sent s. newSession sample_proxy_env (sample_crypto p) sample_random sample_request_context q ''r'' ''u'' uuid = (sent, Inr s)"
proof -
  have r: "rc_routes sample_request_context ''r'' = Some sample_route" by (simp add: rc_routes_def sample_request_context_def)
  obtain sent sid where i: "initializeSession sample_proxy_env sample_request_context ''r'' sample_backend q (uuid ''b'') = (sent, Inr (sid, sample_result))"
    using sample_initialized by blast
  have o: "pe_order sample_proxy_env = [''b'']" by (simp add: sample_proxy_env_def)
  have "session_runs sample_proxy_env sample_request_context ''r'' q uuid [''b'' \<mapsto> sample_backend] = [(sample_backend, sent, Inr (sid, sample_result))]"
    using i by (simp add: session_runs_def o range_keys_def map_filter_def)
  then show ?thesis
    by (simp add: newSession_def r sample_selected sample_current sample_Encrypt Let_def map_filter_def init_entry_def sample_backend_def)
qed

theorem session_backends_authorized_witness:
  "enumerates (pe_order sample_proxy_env) (pr_backends sample_route) \<and> pr_backendSelector sample_route = Some sample_selector \<and>
   selectAuthorizedBackends sample_proxy_env sample_request_context ''r'' sample_route = Inr [''b'' \<mapsto> sample_backend]"
proof -
  have h: "enumerates (pe_order sample_proxy_env) (pr_backends sample_route)" "pr_backendSelector sample_route = Some sample_selector"
    by (simp_all add: enumerates_def sample_route_def sample_proxy_env_def)
  show ?thesis using session_backends_authorized [OF h, of sample_request_context "''r''"] h
    by (simp add: authorizeRequest_def sample_selector_def sample_route_def fun_eq_iff Let_def if_distrib)
qed

theorem session_bound_to_caller_witness:
  "\<exists>sent s e. newSession sample_proxy_env (sample_crypto (\<lambda>t. True)) sample_random sample_request_context (OtherParams []) ''r'' ''u'' (\<lambda>k. IdNil) = (sent, Inr s) \<and>
     sessionFromID sample_proxy_env (sample_crypto (\<lambda>t. True)) sample_request_context (ss_id s) [] ''r'' ''v'' = Inl e \<and> sessionErrorStatus e = 401"
proof -
  obtain sent s where n: "newSession sample_proxy_env (sample_crypto (\<lambda>t. True)) sample_random sample_request_context (OtherParams []) ''r'' ''u'' (\<lambda>k. IdNil) = (sent, Inr s)"
    using sample_session by blast
  have w: "wf_route_backends sample_request_context ''r''"
    by (auto simp: wf_route_backends_def rc_routes_def sample_request_context_def sample_route_def sample_backend_def wf_backend_def dns_char_def less_eq_char_def)
  have t: "takes_back (sample_crypto (\<lambda>t. True)) sample_cipher sample_cipher (ss_id s)" by (simp add: takes_back_def)
  have ne: "''v'' \<noteq> ''u''" by simp
  show ?thesis
    using session_bound_to_caller [OF n w sample_current sample_cipher_ok sample_current t, of "''r''" "[]" "''v''"] n ne by blast
qed

definition sample_entry :: compositeSessionEntry where
  "sample_entry = \<lparr>ce_backendName = ''b'', ce_sessionID = ''s1'', ce_lastEventID = ''7'', ce_capabilities = None, ce_protocolVersion = []\<rparr>"

definition sample_text :: string where
  "sample_text = clientToGatewaySessionIDFromEntries ''u'' [sample_entry] ''r''"

definition sample_token :: string where
  "sample_token = StdEncode (replicate 16 (CHR ''r'') @ sample_text)"

lemma sample_text_read: "backendSessionIDs sample_text = Inr (entry_map [restored sample_entry], ''r'', ''u'')"
  using session_id_roundtrip [of "[sample_entry]" "''r''" "''u''"] by (simp add: sample_text_def sample_entry_def wf_name_def)



end
