(* ===== verification/Mcp_Response.thy ===== *)
theory Mcp_Response
  imports Mcp_Resume
begin

text \<open>
  The way of a backend's answer to the client, \<^verbatim>\<open>internal/mcpproxy/legacy.go\<close>: the response
  writer, the rewriting of the messages that pass, the relaying of a JSON body or of a stream, and
  the call of one backend. JSON codecs are fields of \<open>handler_env\<close>; lists are decoded without null
  elements. Spans, metrics and logging are left out.
\<close>

section \<open>The response writer\<close>

text \<open>
  \<open>http.ResponseWriter\<close>: the header map, the status with the headers at the time it was written, and the
  bytes written. Only the first status counts; a write without a status implies 200.
\<close>

record response_writer =
  rw_Header :: http_header
  rw_Status :: "(nat \<times> http_header) option"
  rw_Body :: bytes

definition new_writer :: response_writer where
  "new_writer = \<lparr>rw_Header = Map.empty, rw_Status = None, rw_Body = []\<rparr>"

definition w_Set :: "string \<Rightarrow> string \<Rightarrow> response_writer \<Rightarrow> response_writer" where
  "w_Set k v w = w\<lparr>rw_Header := header_Set k v (rw_Header w)\<rparr>"

definition w_Add :: "string \<Rightarrow> string \<Rightarrow> response_writer \<Rightarrow> response_writer" where
  "w_Add k v w =
     (let key = CanonicalHeaderKey k in
      w\<lparr>rw_Header := (rw_Header w)(key \<mapsto> (case rw_Header w key of None \<Rightarrow> [] | Some vs \<Rightarrow> vs) @ [v])\<rparr>)"

definition WriteHeader :: "nat \<Rightarrow> response_writer \<Rightarrow> response_writer" where
  "WriteHeader code w = (case rw_Status w of None \<Rightarrow> w\<lparr>rw_Status := Some (code, rw_Header w)\<rparr> | Some _ \<Rightarrow> w)"

definition Write :: "bytes \<Rightarrow> response_writer \<Rightarrow> response_writer" where
  "Write b w = (let w = WriteHeader 200 w in w\<lparr>rw_Body := rw_Body w @ b\<rparr>)"

definition onErrorResponse :: "nat \<Rightarrow> string \<Rightarrow> response_writer \<Rightarrow> response_writer" where
  "onErrorResponse status msg w = Write msg (WriteHeader status (w_Set ''Content-Type'' ''text/plain; charset=utf-8'' w))"

section \<open>Results\<close>

text \<open>\<open>bytes\<close> is the part of a value that the proxy passes on unread.\<close>

record ReadResourceResult =
  rr_Contents :: "(string \<times> bytes) list"
  rr_CacheScope :: string
  rr_rest :: bytes

datatype content =
    TextContent string bytes
  | ImageContent string bytes
  | ResourceLink string bytes
  | EmbeddedResource "string option" bytes
  | OtherContent bytes

record CallToolResult =
  ct_Meta :: "string \<Rightarrow> any option"
  ct_Content :: "content list"
  ct_IsError :: bool
  ct_rest :: bytes

text \<open>The parameters of a request from a backend: its metadata, and what is passed on.\<close>

record server_params =
  vp_Meta :: "string \<Rightarrow> any option"
  vp_rest :: bytes

record errToolCall =
  tc_toolName :: string
  tc_backend :: string
  tc_validationError :: bool
  tc_err :: go_error

text \<open>The errors handlers return, by what \<open>errors.As\<close> finds in them.\<close>

datatype handler_error = Err go_error | RpcErr rpc_error | ToolErr errToolCall | Joined "handler_error list"

text \<open>
  \<open>json.Marshal\<close> whose error is dropped gives a nil slice. \<open>he_rnd n\<close> is the randomness of the \<open>n\<close>-th
  event identifier of a request.
\<close>

record 'blk handler_env =
  he_proxy :: proxy_env
  he_crypto :: "'blk crypto"
  he_rnd :: "nat \<Rightarrow> random \<times> random"
  he_UnmarshalReadResource :: "bytes \<Rightarrow> go_error + ReadResourceResult"
  he_MarshalReadResource :: "ReadResourceResult \<Rightarrow> slice"
  he_UnmarshalCallTool :: "bytes \<Rightarrow> go_error + CallToolResult"
  he_MarshalCallTool :: "CallToolResult \<Rightarrow> slice"
  he_MarshalContent :: "content \<Rightarrow> go_error + bytes"
  he_UnmarshalToolName :: "bytes \<Rightarrow> go_error + string"
  he_UnmarshalServerParams :: "string \<Rightarrow> bytes \<Rightarrow> go_error + server_params"
  he_MarshalServerParams :: "string \<Rightarrow> server_params \<Rightarrow> slice"
  he_UnmarshalUpdated :: "bytes \<Rightarrow> go_error + (string \<times> bytes)"
  he_MarshalUpdated :: "string \<times> bytes \<Rightarrow> slice"
  he_UnmarshalParams :: "string \<Rightarrow> bytes \<Rightarrow> go_error + mcp_params"
  he_MarshalInitResult :: "string \<Rightarrow> ServerCapabilities \<Rightarrow> go_error + bytes"
  he_gzip :: "read list \<Rightarrow> go_error + read list"
  he_brotli :: "read list \<Rightarrow> read list"

definition encode_message :: "'blk handler_env \<Rightarrow> message \<Rightarrow> bytes" where
  "encode_message env msg = (case pe_EncodeMessage (he_proxy env) msg of Inl e \<Rightarrow> [] | Inr b \<Rightarrow> b)"

definition marshal_params :: "'blk handler_env \<Rightarrow> mcp_params \<Rightarrow> slice" where
  "marshal_params env p = (case pe_Marshal (he_proxy env) p of Inl e \<Rightarrow> None | Inr b \<Rightarrow> Some b)"

section \<open>Rewriting messages\<close>

definition content_text :: "'blk handler_env \<Rightarrow> content \<Rightarrow> string" where
  "content_text env c =
     (case c of
        TextContent text _ \<Rightarrow> text
      | ImageContent mime _ \<Rightarrow> ''[image: '' @ mime @ '']''
      | _ \<Rightarrow> (case he_MarshalContent env c of Inl e \<Rightarrow> [] | Inr data \<Rightarrow> data))"

definition checkToolCallError :: "'blk handler_env \<Rightarrow> rpc_request option \<Rightarrow> rpc_response \<Rightarrow> string \<Rightarrow> errToolCall option" where
  "checkToolCallError env req msg backendName =
     (case (req, rs_Result msg) of
        (Some rq, Some result) \<Rightarrow>
          if rq_Method rq \<noteq> ''tools/call'' then None
          else (case he_UnmarshalCallTool env result of
             Inl e \<Rightarrow> None
           | Inr toolResult \<Rightarrow>
               if \<not> ct_IsError toolResult then None
               else
                 (let toolName = (case rq_Params rq of
                      None \<Rightarrow> []
                    | Some params \<Rightarrow> (case he_UnmarshalToolName env params of Inl e \<Rightarrow> [] | Inr n \<Rightarrow> n));
                      cs = ct_Content toolResult;
                      errMsg = ''tool returned isError=true'' @ (if cs \<noteq> [] then '': '' @ Join (map (content_text env) cs) ''; '' else []);
                      validation = list_ex (\<lambda>c. case c of TextContent text _ \<Rightarrow> Contains text ''validating'' | _ \<Rightarrow> False) cs in
                  Some \<lparr>tc_toolName = toolName, tc_backend = backendName, tc_validationError = validation, tc_err = errorf errMsg\<rparr>))
      | _ \<Rightarrow> None)"

definition rewrite_content :: "string \<Rightarrow> content \<Rightarrow> content \<times> bool" where
  "rewrite_content backendName c =
     (case c of
        ResourceLink uri r \<Rightarrow> if uri \<noteq> [] then (ResourceLink (downstreamResourceURI uri backendName) r, True) else (c, False)
      | EmbeddedResource (Some uri) r \<Rightarrow>
          if uri \<noteq> [] then (EmbeddedResource (Some (downstreamResourceURI uri backendName)) r, True) else (c, False)
      | _ \<Rightarrow> (c, False))"

definition rewriteToolResultURIs :: "CallToolResult \<Rightarrow> string \<Rightarrow> CallToolResult \<times> bool" where
  "rewriteToolResultURIs result backendName =
     (let (meta, changed) = rewriteMetaResourceURIs (ct_Meta result) backendName;
          cs = map (rewrite_content backendName) (ct_Content result) in
      (result\<lparr>ct_Meta := meta, ct_Content := map fst cs\<rparr>, changed \<or> list_ex snd cs))"

definition maybeResponseModify :: "'blk handler_env \<Rightarrow> rpc_request \<Rightarrow> rpc_response \<Rightarrow> string \<Rightarrow> go_error + rpc_response" where
  "maybeResponseModify env req msg backend =
     (case rs_Result msg of
        None \<Rightarrow> Inr msg
      | Some raw \<Rightarrow>
          if rq_Method req = ''resources/read'' then
            (case he_UnmarshalReadResource env raw of
               Inl e \<Rightarrow> Inl (wrapf ''failed to unmarshal resources/read result: '' e)
             | Inr result \<Rightarrow>
                 (let contents = map (\<lambda>(uri, r). (downstreamResourceURI uri backend, r)) (rr_Contents result);
                      scope = (if rr_CacheScope result = [] then ''private'' else rr_CacheScope result) in
                  Inr (msg\<lparr>rs_Result := he_MarshalReadResource env (result\<lparr>rr_Contents := contents, rr_CacheScope := scope\<rparr>)\<rparr>)))
          else if rq_Method req = ''tools/call'' then
            (case he_UnmarshalCallTool env raw of
               Inl e \<Rightarrow> Inr msg
             | Inr result \<Rightarrow>
                 (let (result', changed) = rewriteToolResultURIs result backend in
                  Inr (if changed then msg\<lparr>rs_Result := he_MarshalCallTool env result'\<rparr> else msg)))
          else Inr msg)"

text \<open>
  The request is changed in place, so that one whose identifier cannot be rewritten keeps its new
  parameters: the result has both the request and the error.
\<close>

definition maybeServerToClientRequestModify :: "'blk handler_env \<Rightarrow> rpc_request \<Rightarrow> string \<Rightarrow> rpc_request \<times> go_error option" where
  "maybeServerToClientRequestModify env msg backend =
     (let meth = rq_Method msg;
          new_id = (\<lambda>m. case prefixed_id (pe_MakeID (he_proxy env)) backend (rq_ID m) of
              Inl e \<Rightarrow> (m, Some e)
            | Inr i \<Rightarrow> (m\<lparr>rq_ID := i\<rparr>, None)) in
      if meth \<in> {''roots/list'', ''sampling/createMessage'', ''elicitation/create''} then
        (case rq_Params msg of
           None \<Rightarrow> new_id msg
         | Some raw \<Rightarrow>
             (case he_UnmarshalServerParams env meth raw of
                Inl e \<Rightarrow> (msg, Some (wrapf (''failed to unmarshal '' @ meth @ '' params: '') e))
              | Inr params \<Rightarrow>
                  (let (meta, changed) = maybeUpdateProgressTokenMetadata (vp_Meta params) backend in
                   new_id (if changed then msg\<lparr>rq_Params := he_MarshalServerParams env meth (params\<lparr>vp_Meta := meta\<rparr>)\<rparr> else msg))))
      else if meth = ''notifications/resources/updated'' then
        (case rq_Params msg of
           None \<Rightarrow> new_id msg
         | Some raw \<Rightarrow>
             (case he_UnmarshalUpdated env raw of
                Inl e \<Rightarrow> (msg, Some (wrapf ''failed to unmarshal elicitation/create params: '' e))
              | Inr (uri, r) \<Rightarrow> new_id (msg\<lparr>rq_Params := he_MarshalUpdated env (downstreamResourceURI uri backend, r)\<rparr>)))
      else (msg, None))"

definition response_error :: "'blk handler_env \<Rightarrow> rpc_request \<Rightarrow> rpc_response \<Rightarrow> string \<Rightarrow> handler_error option" where
  "response_error env req msg backend =
     (case rs_Error msg of
        Some e \<Rightarrow> Some (RpcErr e)
      | None \<Rightarrow> map_option ToolErr (checkToolCallError env (Some req) msg backend))"

section \<open>Relaying a response\<close>

definition copyProxyHeaders :: "proxy_env \<Rightarrow> string list \<Rightarrow> http_header \<Rightarrow> response_writer \<Rightarrow> response_writer" where
  "copyProxyHeaders env ord header w =
     (let isJSONResponse = isJSONContentType (pe_ParseMediaType env) (header_Get header ''Content-Type'');
          copied = fold (\<lambda>k w.
              if \<not> isJSONResponse \<and> EqualFold k ''content-length'' then w
              else fold (w_Add k) (case header k of None \<Rightarrow> [] | Some vs \<Rightarrow> vs) w) (range_keys ord header) w in
      if \<not> isJSONResponse then w_Set ''Transfer-Encoding'' ''chunked'' copied else copied)"

text \<open>
  One message of a stream. The variable \<open>err\<close> of the code, which holds the error of the parser when the
  first message is handled, is overwritten by every message that is rewritten.
\<close>

definition stream_message ::
  "'blk handler_env \<Rightarrow> rpc_request option \<Rightarrow> string \<Rightarrow> message \<Rightarrow> go_error option \<times> handler_error list \<Rightarrow>
   message \<times> go_error option \<times> handler_error list" where
  "stream_message env req backend msg st =
     (case msg of
        MRequest q \<Rightarrow> (let (q', e) = maybeServerToClientRequestModify env q backend in (MRequest q', e, snd st))
      | MResponse r \<Rightarrow>
          (case req of
             None \<Rightarrow> (msg, st)
           | Some rq \<Rightarrow>
               (case maybeResponseModify env rq r backend of
                  Inl e \<Rightarrow> (msg, Some e, snd st)
                | Inr r' \<Rightarrow>
                    (let r'' = r'\<lparr>rs_ID := rq_ID rq\<rparr> in
                     (MResponse r'', None, snd st @ (case response_error env rq r'' backend of None \<Rightarrow> [] | Some e \<Rightarrow> [e]))))))"

primrec stream_messages ::
  "'blk handler_env \<Rightarrow> rpc_request option \<Rightarrow> string \<Rightarrow> message list \<Rightarrow> go_error option \<times> handler_error list \<Rightarrow>
   message list \<times> go_error option \<times> handler_error list" where
  "stream_messages env req backend [] st = ([], st)"
| "stream_messages env req backend (m # ms) st =
     (let (m', st') = stream_message env req backend m st; (ms', st'') = stream_messages env req backend ms st' in (m' # ms', st''))"

text \<open>A call that returns an event, with an error or without, has used up bytes.\<close>

lemma at_read_error_progress: "fst (fst (at_read_error dec e s)) \<noteq> None \<Longrightarrow> pending (snd (at_read_error dec e s)) < pending s"
  by (auto simp: at_read_error_def pending_def split: if_splits sum.splits)

lemma next_reads_event_progress:
  "fst (fst (next_reads dec reads backend buf)) \<noteq> None \<Longrightarrow>
   pending (snd (next_reads dec reads backend buf)) < pending \<lparr>sp_backend = backend, sp_r = reads, sp_buf = buf\<rparr>"
proof (induction reads arbitrary: buf)
  case Nil
  show ?case
  proof (cases "Index buf LFLF")
    case None
    then show ?thesis using Nil at_read_error_progress by (metis next_reads_end)
  next
    case (Some i)
    then show ?thesis using Index_LFLF [OF Some] by (simp add: next_reads_event pending_def)
  qed
next
  case (Cons r rs)
  obtain chunk err where r: "r = (chunk, err)" by (cases r)
  show ?case
  proof (cases "Index buf LFLF")
    case None
    show ?thesis
    proof (cases "chunk = []")
      case True
      show ?thesis
      proof (cases err)
        case (Some e)
        then show ?thesis using Cons.prems None True r at_read_error_progress [of dec e "\<lparr>sp_backend = backend, sp_r = rs, sp_buf = buf\<rparr>"]
          by (simp add: next_reads_error pending_def)
      qed (use Cons None True r in \<open>simp add: next_reads_nothing pending_def\<close>)
    next
      case False
      then show ?thesis using Cons.IH [of "buf @ normalizeNewlines chunk"] Cons.prems None r normalizeNewlines_length [of chunk]
        by (simp add: next_reads_cases pending_def)
    qed
  next
    case (Some i)
    then show ?thesis using Index_LFLF [OF Some] by (simp add: next_reads_event pending_def)
  qed
qed

lemma sse_next_event_progress: "sse_next dec s = ((Some ev, err), s') \<Longrightarrow> pending s' < pending s"
  using next_reads_event_progress [of dec "sp_r s" "sp_backend s" "sp_buf s"] by (simp add: sse_next_def pending_def)

lemma sse_next_none_progress: "sse_next dec s = ((ev, None), s') \<Longrightarrow> pending s' < pending s"
  using sse_next_progress [of dec s] by simp

text \<open>
  The loop over the events. It goes on while \<open>err\<close> is nil after an event has been written; what is left of
  the stream is not read otherwise. The left result is a panic.
\<close>

function proxy_stream ::
  "'blk handler_env \<Rightarrow> SessionCrypto option \<Rightarrow> rpc_request option \<Rightarrow> string \<Rightarrow> nat \<Rightarrow> sseEventParser \<Rightarrow>
   response_writer \<times> entries \<times> handler_error list \<Rightarrow> (response_writer \<times> entries) \<times> (go_error + handler_error list)" where
  "proxy_stream env crypto req backend n parser st =
     (case st of (w, es, errs) \<Rightarrow>
        (case sse_next (pe_DecodeMessage (he_proxy env)) parser of
           ((None, Some e), parser') \<Rightarrow> ((w, es), Inr errs)
         | ((None, None), parser') \<Rightarrow> proxy_stream env crypto req backend n parser' st
         | ((Some ev, perr), parser') \<Rightarrow>
             (let es' = setLastEventID (se_backend ev) (se_id ev) es in
              case session_lastEventID (he_crypto env) crypto (he_rnd env n) (pe_order (he_proxy env)) es' of
                Inl panic \<Rightarrow> ((w, es'), Inl panic)
              | Inr eid \<Rightarrow>
                  (case stream_messages env req backend (se_messages ev) (perr, errs) of
                     (msgs, err, errs') \<Rightarrow>
                       (let w' = Write (writeAndMaybeFlush (encode_message env) (ev\<lparr>se_id := eid, se_messages := msgs\<rparr>)) w in
                        if err = None then proxy_stream env crypto req backend (n + 1) parser' (w', es', errs')
                        else ((w', es'), Inr errs'))))))"
  by pat_completeness auto

termination proxy_stream
  by (relation "measure (\<lambda>(env, crypto, req, backend, n, parser, st). pending parser)")
    (auto dest: sse_next_event_progress [OF sym] sse_next_none_progress [OF sym])

declare proxy_stream.simps [simp del]

definition errors_join :: "handler_error list \<Rightarrow> handler_error option" where
  "errors_join errs = (if errs = [] then None else Some (Joined errs))"

definition proxyResponseBody ::
  "'blk handler_env \<Rightarrow> mcpRequestContext \<Rightarrow> session \<Rightarrow> response_writer \<Rightarrow> http_response \<Rightarrow> rpc_request option \<Rightarrow> MCPBackend \<Rightarrow>
   response_writer \<times> session \<times> handler_error option" where
  "proxyResponseBody env m s w resp req backend =
     (let px = he_proxy env; name = mb_Name backend;
          stream = (\<lambda>reads.
            case proxy_stream env (currentSessionCrypto (rc_config m)) req name 0 (newSSEEventParser reads name)
                (WriteHeader (hs_StatusCode resp) w, ss_entries s, []) of
              ((w', es), res) \<Rightarrow> (w', s\<lparr>ss_entries := es\<rparr>, case res of Inl panic \<Rightarrow> Some (Err panic) | Inr errs \<Rightarrow> errors_join errs));
          relay = (\<lambda>body err. (Write body (WriteHeader (hs_StatusCode resp) (w_Set ''Content-Length'' (Itoa (length body)) w)), s, err)) in
      if isJSONContentType (pe_ParseMediaType px) (header_Get (hs_Header resp) ''Content-Type'') then
        (case ReadAll (hs_Body resp) of
           (body, Some e) \<Rightarrow> (w, s, Some (Err e))
         | (body, None) \<Rightarrow>
             (case tryDecodeJSONRPCMessage (pe_DecodeMessage px) body of
                Some (MRequest q) \<Rightarrow>
                  (case maybeServerToClientRequestModify env q name of
                     (q', Some e) \<Rightarrow> (w, s, Some (Err e))
                   | (q', None) \<Rightarrow> relay (encode_message env (MRequest q')) None)
              | Some (MResponse r) \<Rightarrow>
                  (case req of
                     None \<Rightarrow> relay body None
                   | Some rq \<Rightarrow>
                       (case maybeResponseModify env rq r name of
                          Inl e \<Rightarrow> (w, s, Some (Err e))
                        | Inr r' \<Rightarrow>
                            (let r'' = r'\<lparr>rs_ID := rq_ID rq\<rparr> in
                             relay (encode_message env (MResponse r'')) (response_error env rq r'' name))))
              | None \<Rightarrow> stream (bytes_NewReader body)))
      else stream (hs_Body resp))"

definition invokeAndProxyResponse ::
  "'blk handler_env \<Rightarrow> mcpRequestContext \<Rightarrow> session \<Rightarrow> response_writer \<Rightarrow> MCPBackend \<Rightarrow> compositeSessionEntry \<Rightarrow> rpc_request \<Rightarrow> mcp_params \<Rightarrow>
   (response_writer \<times> session \<times> handler_error option) \<times> http_request list" where
  "invokeAndProxyResponse env m s w backend sess req params =
     (case invokeJSONRPCRequest (he_proxy env) m (ss_route s) backend (Some sess) (MRequest req) (Some params) of
        (sent, Inl e) \<Rightarrow> ((onErrorResponse 500 (''call to '' @ mb_Name backend @ '' failed: '' @ err_msg e) w, s, Some (Err e)), sent)
      | (sent, Inr resp) \<Rightarrow>
          (if hs_StatusCode resp < 200 \<or> hs_StatusCode resp \<ge> 300 then
             (case ReadAll (hs_Body resp) of
                (body, Some e) \<Rightarrow>
                  (onErrorResponse 500 (''call to '' @ mb_Name backend @ '' failed and failed to read body: '' @ err_msg e) w, s, Some (Err e))
              | (body, None) \<Rightarrow>
                  (onErrorResponse 500 (''call to '' @ mb_Name backend @ '' failed with status code '' @ Itoa (hs_StatusCode resp) @ '', body='' @ body) w,
                   s, Some (Err (errorf ''tool call failed with non-200 status code''))))
           else
             proxyResponseBody env m s
               (w_Set sessionIDHeader (ss_id s) (copyProxyHeaders (he_proxy env) (pe_order (he_proxy env)) (hs_Header resp) w))
               resp (Some req) backend, sent))"

end
