(* ===== verification/Mcp_Lists.thy ===== *)
theory Mcp_Lists
  imports Mcp_Response
begin

text \<open>
  Lists merged from several backends, \<^verbatim>\<open>internal/mcpproxy/handlers.go\<close>: tools, prompts, resources and
  resource templates with their names and URIs as the client sees them, and the caching hints of
  \<^verbatim>\<open>modern.go\<close>. \<open>bytes\<close> is the part of an item that is passed on unread.
\<close>

section \<open>Caching hints\<close>

record Cacheable =
  ch_TTLMs :: int
  ch_CacheScope :: string

definition defaultTTLMs :: int where "defaultTTLMs = 0"
definition defaultCacheScope :: string where "defaultCacheScope = ''public''"

definition merge_hint :: "Cacheable \<Rightarrow> int \<times> string \<times> bool \<Rightarrow> int \<times> string \<times> bool" where
  "merge_hint result st =
     (let (ttlMs, cacheScope, hasTTL) = st;
          backendTTL = (if ch_TTLMs result < 0 then 0 else ch_TTLMs result);
          scope = (if ch_CacheScope result \<noteq> [] \<and> ch_CacheScope result \<noteq> defaultCacheScope then ''private'' else cacheScope) in
      if \<not> hasTTL \<or> backendTTL < ttlMs then (backendTTL, scope, True) else (ttlMs, scope, hasTTL))"

definition mergeCachingHintsFromBackends :: "Cacheable list \<Rightarrow> int \<times> string" where
  "mergeCachingHintsFromBackends results =
     (case fold merge_hint results (defaultTTLMs, defaultCacheScope, False) of
        (ttlMs, cacheScope, _) \<Rightarrow> if results = [] then (defaultTTLMs, defaultCacheScope) else (ttlMs, cacheScope))"

record 'a list_result =
  lr_Items :: "'a list"
  lr_Cacheable :: Cacheable

type_synonym 'a broadCastResponse = "string \<times> 'a list_result"

definition applyMergedCachingHints :: "'b list_result \<Rightarrow> 'a broadCastResponse list \<Rightarrow> 'b list_result" where
  "applyMergedCachingHints dst responses =
     (let (ttlMs, cacheScope) = mergeCachingHintsFromBackends (map (lr_Cacheable \<circ> snd) responses) in
      dst\<lparr>lr_Cacheable := \<lparr>ch_TTLMs = ttlMs, ch_CacheScope = cacheScope\<rparr>\<rparr>)"

definition result_of :: "'a list \<Rightarrow> 'a list_result" where
  "result_of items = \<lparr>lr_Items = items, lr_Cacheable = \<lparr>ch_TTLMs = 0, ch_CacheScope = []\<rparr>\<rparr>"

section \<open>Lists\<close>

record Tool =
  tl_Name :: string
  tl_Meta :: "string \<Rightarrow> any option"
  tl_rest :: bytes

record Prompt =
  pm_Name :: string
  pm_rest :: bytes

text \<open>A resource with its URI, or a resource template with its URI template.\<close>

record Resource =
  rsc_Name :: string
  rsc_URI :: string
  rsc_rest :: bytes

definition list_request :: "http_header \<Rightarrow> string \<Rightarrow> string \<Rightarrow> mcp_params authorizationRequest" where
  "list_request headers backend tool = \<lparr>ar_Headers = headers, ar_HTTPMethod = [], ar_Host = [], ar_HTTPPath = [],
     ar_MCPMethod = ''tools/call'', ar_Backend = backend, ar_Tool = tool, ar_Params = None\<rparr>"

definition merge_tool ::
  "proxy_env \<Rightarrow> http_header \<Rightarrow> mcp_params mcpProxyConfigRoute \<Rightarrow> string \<Rightarrow> Tool \<Rightarrow> Tool option" where
  "merge_tool env headers route backendName tool =
     (let name = tl_Name tool; meta = fst (rewriteMetaResourceURIs (tl_Meta tool) backendName) in
      if \<exists>sel \<in> set_option (pr_toolSelectors route backendName). \<not> allows (pe_regexp env) sel name then None
      else if \<exists>a \<in> set_option (pr_authorization route). \<not> fst (authorizeRequest (pe_authz env) (Some a) (list_request headers backendName name)) then None
      else if effectivePrefixMode route backendName \<noteq> PrefixModeNever then
        (let prefixed = downstreamResourceName name backendName in
         if pr_neverModeToolIndex route prefixed \<noteq> None then None else Some (tool\<lparr>tl_Name := prefixed, tl_Meta := meta\<rparr>))
      else Some (tool\<lparr>tl_Meta := meta\<rparr>))"

definition mergeToolsList :: "proxy_env \<Rightarrow> mcpRequestContext \<Rightarrow> string \<Rightarrow> Tool broadCastResponse list \<Rightarrow> Tool list_result" where
  "mergeToolsList env m routeName responses =
     (case rc_routes m routeName of
        None \<Rightarrow> result_of []
      | Some route \<Rightarrow>
          applyMergedCachingHints
            (result_of (concat (map (\<lambda>(b, res). List.map_filter (merge_tool env (rc_requestHeaders m) route b) (lr_Items res)) responses))) responses)"

definition merge_resource :: "string \<Rightarrow> Resource \<Rightarrow> Resource" where
  "merge_resource backendName res =
     res\<lparr>rsc_Name := downstreamResourceName (rsc_Name res) backendName, rsc_URI := downstreamResourceURI (rsc_URI res) backendName\<rparr>"

definition mergeResourceList :: "Resource broadCastResponse list \<Rightarrow> Resource list_result" where
  "mergeResourceList responses =
     applyMergedCachingHints (result_of (concat (map (\<lambda>(b, res). map (merge_resource b) (lr_Items res)) responses))) responses"

definition mergeResourcesTemplateList :: "Resource broadCastResponse list \<Rightarrow> Resource list_result" where
  "mergeResourcesTemplateList responses =
     applyMergedCachingHints (result_of (concat (map (\<lambda>(b, res). map (merge_resource b) (lr_Items res)) responses))) responses"

definition merge_prompt ::
  "proxy_env \<Rightarrow> mcp_params mcpProxyConfigRoute option \<Rightarrow> string \<Rightarrow> Prompt \<Rightarrow> Prompt option" where
  "merge_prompt env route backendName p =
     (let name = pm_Name p;
          backendMode = (case route of None \<Rightarrow> ''Always'' | Some r \<Rightarrow> effectivePrefixMode r backendName);
          selector = (case route of None \<Rightarrow> None | Some r \<Rightarrow> pr_promptSelectors r backendName);
          index = (case route of None \<Rightarrow> Map.empty | Some r \<Rightarrow> pr_neverModePromptIndex r);
          owner = (\<lambda>n. case index n of None \<Rightarrow> [] | Some b \<Rightarrow> b) in
      if \<exists>sel \<in> set_option selector. \<not> allows (pe_regexp env) sel name then None
      else if backendMode = PrefixModeNever \<and> owner name = backendName then Some p
      else
        (let prefixed = downstreamResourceName name backendName in
         if index prefixed \<noteq> None then None else Some (p\<lparr>pm_Name := prefixed\<rparr>)))"

definition mergePromptsList :: "proxy_env \<Rightarrow> mcpRequestContext \<Rightarrow> string \<Rightarrow> Prompt broadCastResponse list \<Rightarrow> Prompt list_result" where
  "mergePromptsList env m routeName responses =
     applyMergedCachingHints
       (result_of (concat (map (\<lambda>(b, res). List.map_filter (merge_prompt env (rc_routes m routeName) b) (lr_Items res)) responses))) responses"

section \<open>Hints are merged to the strictest\<close>

lemma merge_hints_ttl:
  "fst (fold merge_hint rs (t, sc, True)) = Min (insert t (set (map (\<lambda>r. max 0 (ch_TTLMs r)) rs))) \<and>
   snd (snd (fold merge_hint rs (t, sc, True)))"
proof (induction rs arbitrary: t sc)
  case (Cons r rs)
  have "\<exists>sc'. merge_hint r (t, sc, True) = (min t (max 0 (ch_TTLMs r)), sc', True)"
    by (auto simp: merge_hint_def Let_def min_def max_def)
  then obtain sc' where s: "merge_hint r (t, sc, True) = (min t (max 0 (ch_TTLMs r)), sc', True)" by blast
  show ?case using Cons [of "min t (max 0 (ch_TTLMs r))" sc'] by (cases "rs = []") (simp_all add: s min.assoc)
qed simp

lemma merge_hints_scope:
  "fst (snd (fold merge_hint rs (t, sc, h))) =
     (if \<exists>r \<in> set rs. ch_CacheScope r \<noteq> [] \<and> ch_CacheScope r \<noteq> defaultCacheScope then ''private'' else sc)"
proof (induction rs arbitrary: t sc h)
  case (Cons r rs)
  obtain t' sc' h' where m: "merge_hint r (t, sc, h) = (t', sc', h')" by (cases "merge_hint r (t, sc, h)")
  have "fst (snd (merge_hint r (t, sc, h))) = (if ch_CacheScope r \<noteq> [] \<and> ch_CacheScope r \<noteq> defaultCacheScope then ''private'' else sc)"
    by (simp add: merge_hint_def Let_def)
  then show ?case using Cons [of t' sc' h'] m by (auto split: if_splits)
qed simp

lemma merged_hints:
  assumes "results \<noteq> []"
  shows "mergeCachingHintsFromBackends results =
    (Min (set (map (\<lambda>r. max 0 (ch_TTLMs r)) results)),
     if \<forall>r \<in> set results. ch_CacheScope r \<in> {[], defaultCacheScope} then defaultCacheScope else ''private'')"
proof -
  obtain r rs where rs: "results = r # rs" using assms by (cases results) auto
  obtain sc where "merge_hint r (defaultTTLMs, defaultCacheScope, False) = (max 0 (ch_TTLMs r), sc, True)"
    by (auto simp: merge_hint_def Let_def max_def)
  then have "fst (fold merge_hint results (defaultTTLMs, defaultCacheScope, False)) = Min (set (map (\<lambda>r. max 0 (ch_TTLMs r)) results))"
    using merge_hints_ttl [of rs] rs by simp
  moreover have "fst (snd (fold merge_hint results (defaultTTLMs, defaultCacheScope, False))) =
      (if \<forall>r \<in> set results. ch_CacheScope r \<in> {[], defaultCacheScope} then defaultCacheScope else ''private'')"
    using merge_hints_scope [of results] by auto
  ultimately show ?thesis using assms
    by (cases "fold merge_hint results (defaultTTLMs, defaultCacheScope, False)") (auto simp: mergeCachingHintsFromBackends_def)
qed

end
