(* ===== verification/Mcp_Fanout.thy ===== *)
theory Mcp_Fanout
  imports Mcp_Lists
begin

text \<open>
  Requests to all backends of a session, \<^verbatim>\<open>internal/mcpproxy/session.go\<close> and the list handlers of
  \<^verbatim>\<open>legacy.go\<close>: one request per backend, the events of the answers in the order in which they arrive,
  and their merge into one answer. The order of arrival is a schedule, the list of the backends
  whose next event comes. Decompression and the codecs of the lists are parameters.
\<close>

section \<open>One backend\<close>

definition applyExtractedForwardHeaders :: "string list \<Rightarrow> (string \<Rightarrow> string option) \<Rightarrow> (string \<Rightarrow> string option) \<Rightarrow> http_header \<Rightarrow> http_header" where
  "applyExtractedForwardHeaders ord extraHeaders perBackendHeaders h =
     (let put = (\<lambda>m k h. case m k of None \<Rightarrow> h | Some v \<Rightarrow> header_Set k v (header_Del k h)) in
      fold (put perBackendHeaders) (range_keys ord perBackendHeaders) (fold (put extraHeaders) (range_keys ord extraHeaders) h))"

definition protocolVersionHeader :: string where
  "protocolVersionHeader = ''mcp-protocol-version''"

definition fanout_request ::
  "proxy_env \<Rightarrow> mcpRequestContext \<Rightarrow> session \<Rightarrow> MCPBackend \<Rightarrow> compositeSessionEntry \<Rightarrow> string \<Rightarrow> rpc_request option \<Rightarrow> mcp_params option \<Rightarrow> bytes \<Rightarrow>
   http_request" where
  "fanout_request env m s backend cse httpMethod request params encoded =
     (let msg = map_option MRequest request;
          h = applyOriginalPathHeaders m (applyLogHeaderMappings env m msg (addMCPHeaders env msg params (ss_route s) (mb_Name backend) Map.empty));
          h = header_Set sessionIDHeader (ce_sessionID cse) (header_Set protocolVersionHeader protocolVersion20250618 h);
          h = (if httpMethod \<noteq> ''GET'' then header_Set ''Content-type'' ''application/json'' h else h);
          h = header_Set ''Accept-Encoding'' ''gzip, br'' (header_Set ''Accept'' ''text/event-stream, application/json'' h);
          perBackend = (case ss_perBackendExtraHeaders s (mb_Name backend) of None \<Rightarrow> Map.empty | Some p \<Rightarrow> p);
          h = applyExtractedForwardHeaders (pe_order env) (ss_extraHeaders s) perBackend h;
          h = (if ce_lastEventID cse \<noteq> [] then header_Set lastEventIDHeader (ce_lastEventID cse) h else h) in
      \<lparr>hq_Method = httpMethod, hq_URL = rc_listener m, hq_Header = h, hq_Body = encoded\<rparr>)"

text \<open>The events of an answer with status 200: one message, or a stream.\<close>

definition answer_events ::
  "'blk handler_env \<Rightarrow> string \<Rightarrow> http_header \<Rightarrow> read list \<Rightarrow> message sseEvent list \<times> go_error option" where
  "answer_events env name header reads =
     (let px = he_proxy env;
          stream = (\<lambda>rs.
            case sse_drain (pe_DecodeMessage px) (newSSEEventParser rs name) of
              (evs, e) \<Rightarrow> (evs, if errors_is e IoEOF \<or> errors_is e ContextCanceled \<or> errors_is e ErrUnexpectedEOF then None
                             else Some (wrapf ''failed to read MCP GET response body: '' e))) in
      if isJSONContentType (pe_ParseMediaType px) (header_Get header ''Content-Type'') then
        (case ReadAll reads of
           (body, Some e) \<Rightarrow> ([], Some (wrapf ''failed to read MCP response body: '' e))
         | (body, None) \<Rightarrow>
             (case tryDecodeJSONRPCMessage (pe_DecodeMessage px) body of
                Some msg \<Rightarrow> ([\<lparr>se_event = ''message'', se_id = [], se_messages = [msg], se_backend = name\<rparr>], None)
              | None \<Rightarrow> stream (bytes_NewReader body)))
      else stream reads)"

definition sendRequestPerBackend ::
  "'blk handler_env \<Rightarrow> mcpRequestContext \<Rightarrow> session \<Rightarrow> MCPBackend \<Rightarrow> compositeSessionEntry \<Rightarrow> string \<Rightarrow> rpc_request option \<Rightarrow> mcp_params option \<Rightarrow>
   http_request list \<times> message sseEvent list \<times> go_error option" where
  "sendRequestPerBackend env m s backend cse httpMethod request params =
     (let px = he_proxy env; name = mb_Name backend in
      case (case request of None \<Rightarrow> Inr [] | Some q \<Rightarrow> pe_EncodeMessage px (MRequest q)) of
        Inl e \<Rightarrow> ([], [], Some (wrapf ''failed to encode request: '' e))
      | Inr encoded \<Rightarrow>
          (let req = fanout_request px m s backend cse httpMethod request params encoded in
           ([req],
            case pe_Do px req of
              Inl e \<Rightarrow> ([], if errors_is e ContextCanceled then None else Some (wrapf ''failed to send GET request: '' e))
            | Inr resp \<Rightarrow>
                (let enc = header_Get (hs_Header resp) ''Content-Encoding'';
                     body = (if enc = ''gzip'' then he_gzip env (hs_Body resp)
                             else Inr (if enc = ''br'' then he_brotli env (hs_Body resp) else hs_Body resp)) in
                 case body of
                   Inl e \<Rightarrow> ([], Some (wrapf ''failed to create gzip decompressor: '' e))
                 | Inr reads \<Rightarrow>
                     if hs_StatusCode resp \<in> {204, 405, 202} then ([], None)
                     else if hs_StatusCode resp \<noteq> 200
                     then ([], Some (errorf (''MCP GET request failed with status code '' @ Itoa (hs_StatusCode resp) @ '', body='' @ fst (ReadAll reads))))
                     else answer_events env name (hs_Header resp) reads))))"

section \<open>All backends\<close>

text \<open>The next event of the named backend, if it has one left; after the schedule what is left.\<close>

fun interleave :: "string list \<Rightarrow> string list \<Rightarrow> (string \<Rightarrow> 'e list) \<Rightarrow> 'e list" where
  "interleave names [] q = concat (map q names)"
| "interleave names (b # sched) q =
     (case q b of [] \<Rightarrow> interleave names sched q | e # es \<Rightarrow> e # interleave names sched (q(b := es)))"

definition backend_run ::
  "'blk handler_env \<Rightarrow> mcpRequestContext \<Rightarrow> session \<Rightarrow> string \<Rightarrow> rpc_request option \<Rightarrow> mcp_params option \<Rightarrow> string \<Rightarrow>
   http_request list \<times> message sseEvent list" where
  "backend_run env m s httpMethod request params name =
     (case (ss_entries s name, getBackendForRoute m (ss_route s) name) of
        (Some cse, Inr backend) \<Rightarrow> (case sendRequestPerBackend env m s backend cse httpMethod request params of (sent, evs, e) \<Rightarrow> (sent, evs))
      | _ \<Rightarrow> ([], []))"

definition selected_names :: "string list \<Rightarrow> (compositeSessionEntry \<Rightarrow> bool) \<Rightarrow> entries \<Rightarrow> string list" where
  "selected_names ord keep es = filter (\<lambda>n. \<forall>e \<in> set_option (es n). keep e) (range_keys ord es)"

definition sendToBackendsFiltered ::
  "'blk handler_env \<Rightarrow> mcpRequestContext \<Rightarrow> session \<Rightarrow> string list \<Rightarrow> string \<Rightarrow> rpc_request option \<Rightarrow> mcp_params option \<Rightarrow> (compositeSessionEntry \<Rightarrow> bool) \<Rightarrow>
   http_request list \<times> message sseEvent list" where
  "sendToBackendsFiltered env m s sched httpMethod request params keep =
     (let names = selected_names (pe_order (he_proxy env)) keep (ss_entries s);
          run = backend_run env m s httpMethod request params in
      (concat (map (fst \<circ> run) names), interleave names sched (\<lambda>n. if n \<in> set names then snd (run n) else [])))"

section \<open>Merging the answers\<close>

definition modify_requests :: "'blk handler_env \<Rightarrow> string \<Rightarrow> message list \<Rightarrow> go_error + message list" where
  "modify_requests env backend msgs =
     fold (\<lambda>msg acc. case acc of
         Inl e \<Rightarrow> Inl e
       | Inr done \<Rightarrow>
           (case msg of
              MResponse r \<Rightarrow> Inr (done @ [msg])
            | MRequest q \<Rightarrow>
                (case maybeServerToClientRequestModify env q backend of
                   (q', Some e) \<Rightarrow> Inl e
                 | (q', None) \<Rightarrow> Inr (done @ [MRequest q'])))) msgs (Inr [])"

text \<open>The last message of an event, when it is the answer to the request, is taken out.\<close>

definition take_answer ::
  "rpc_id \<Rightarrow> (bytes \<Rightarrow> go_error + 'r) \<Rightarrow> message sseEvent \<Rightarrow> bool \<times> (string \<times> 'r) list \<Rightarrow> message list \<times> bool \<times> (string \<times> 'r) list" where
  "take_answer rid unmarshal ev st =
     (let (hasErr, responses) = st; msgs = se_messages ev in
      case last msgs of
        MResponse r \<Rightarrow>
          if rs_ID r \<noteq> rid then (msgs, st)
          else (butlast msgs,
            case (rs_Error r, rs_Result r) of
              (Some e, _) \<Rightarrow> (True, responses)
            | (None, None) \<Rightarrow> st
            | (None, Some raw) \<Rightarrow> (case unmarshal raw of Inl e \<Rightarrow> st | Inr x \<Rightarrow> (hasErr, responses @ [(se_backend ev, x)])))
      | MRequest q \<Rightarrow> (msgs, st))"

fun aggregate_events ::
  "'blk handler_env \<Rightarrow> SessionCrypto option \<Rightarrow> rpc_request \<Rightarrow> (bytes \<Rightarrow> go_error + 'r) \<Rightarrow> nat \<Rightarrow> message sseEvent list \<Rightarrow>
   response_writer \<times> entries \<times> bool \<times> (string \<times> 'r) list \<Rightarrow> (response_writer \<times> entries) \<times> (go_error + bool \<times> (string \<times> 'r) list)" where
  "aggregate_events env crypto request unmarshal n [] (w, es, st) = ((w, es), Inr st)"
| "aggregate_events env crypto request unmarshal n (ev # evs) (w, es, st) =
     (let es' = setLastEventID (se_backend ev) (se_id ev) es in
      case session_lastEventID (he_crypto env) crypto (he_rnd env n) (pe_order (he_proxy env)) es' of
        Inl panic \<Rightarrow> ((w, es'), Inl panic)
      | Inr eid \<Rightarrow>
          if se_messages ev = [] then aggregate_events env crypto request unmarshal (n + 1) evs (w, es', st)
          else
            (case take_answer (rq_ID request) unmarshal ev st of
               (msgs, st') \<Rightarrow>
                 (case modify_requests env (se_backend ev) msgs of
                    Inl e \<Rightarrow>
                      ((onErrorResponse 500 (''failed to modify server->client request: '' @ err_msg e) w, es'),
                       Inl (wrapf ''failed to modify server->client request: '' e))
                  | Inr msgs' \<Rightarrow>
                      (let w' = (if msgs' \<noteq> [] then Write (writeAndMaybeFlush (encode_message env) (ev\<lparr>se_id := eid, se_messages := msgs'\<rparr>)) w else w) in
                       aggregate_events env crypto request unmarshal (n + 1) evs (w', es', st')))))"

definition errBackendResponseError :: go_error where
  "errBackendResponseError = errorf ''one or more backends returned an error response''"

definition sendToAllBackendsAndAggregateResponsesImpl ::
  "'blk handler_env \<Rightarrow> mcpRequestContext \<Rightarrow> session \<Rightarrow> response_writer \<Rightarrow> rpc_request \<Rightarrow> (bytes \<Rightarrow> go_error + 'r) \<Rightarrow>
   ((string \<times> 'r) list \<Rightarrow> go_error + bytes) \<Rightarrow> string \<Rightarrow> message sseEvent list \<Rightarrow> response_writer \<times> session \<times> handler_error option" where
  "sendToAllBackendsAndAggregateResponsesImpl env m s w request unmarshal merge uuid events =
     (let w = WriteHeader 200 (w_Set sessionIDHeader (ss_id s) (w_Set ''Content-Type'' ''text/event-stream'' w)) in
      case aggregate_events env (currentSessionCrypto (rc_config m)) request unmarshal 0 events (w, ss_entries s, False, []) of
        ((w', es), Inl e) \<Rightarrow> (w', s\<lparr>ss_entries := es\<rparr>, Some (Err e))
      | ((w', es), Inr (hasBackendError, responses)) \<Rightarrow>
          (case merge responses of
             Inl e \<Rightarrow> (w', s\<lparr>ss_entries := es\<rparr>, Some (Err (wrapf ''failed to marshal response: '' e)))
           | Inr encodedResp \<Rightarrow>
               (Write (writeAndMaybeFlush (encode_message env)
                   \<lparr>se_event = ''message'', se_id = uuid,
                    se_messages = [MResponse \<lparr>rs_ID = rq_ID request, rs_Result = Some encodedResp, rs_Error = None\<rparr>], se_backend = []\<rparr>) w',
                s\<lparr>ss_entries := es\<rparr>, if hasBackendError then Some (Err errBackendResponseError) else None)))"

definition sendToAllBackendsAndAggregateResponses ::
  "'blk handler_env \<Rightarrow> mcpRequestContext \<Rightarrow> session \<Rightarrow> response_writer \<Rightarrow> rpc_request \<Rightarrow> mcp_params \<Rightarrow> (bytes \<Rightarrow> go_error + 'r) \<Rightarrow>
   ((string \<times> 'r) list \<Rightarrow> go_error + bytes) \<Rightarrow> string \<Rightarrow> string list \<Rightarrow> (compositeSessionEntry \<Rightarrow> bool) \<Rightarrow>
   (response_writer \<times> session \<times> handler_error option) \<times> http_request list" where
  "sendToAllBackendsAndAggregateResponses env m s w request p unmarshal merge uuid sched keep =
     (let request = request\<lparr>rq_Params := marshal_params env p\<rparr>;
          (sent, events) = sendToBackendsFiltered env m s sched ''POST'' (Some request) (Some p) keep in
      (sendToAllBackendsAndAggregateResponsesImpl env m s w request unmarshal merge uuid events, sent))"

end
