(* ===== verification/Mcp_Handlers.thy ===== *)
theory Mcp_Handlers
  imports Mcp_Fanout
begin

text \<open>
  The handlers of the MCP messages that concern one backend, \<^verbatim>\<open>internal/mcpproxy/legacy.go\<close>. A handler returns the response writer, the session with the event positions it
  updated, the requests it sent to backends, the backend it is attributed to, its error and the
  type under which the error is counted.
\<close>

section \<open>Requests and replies\<close>

text \<open>The parts of \<open>http.Request\<close> that are used; of a URL its path and its \<open>RequestURI()\<close>.\<close>

record client_request =
  cq_Method :: string
  cq_Host :: string
  cq_URL :: "(string \<times> string) option"
  cq_RequestURI :: string
  cq_Header :: http_header
  cq_Body :: "read list"

record handler_reply =
  hr_w :: response_writer
  hr_s :: "session option"
  hr_sent :: "http_request list"
  hr_backend :: string
  hr_err :: "handler_error option"
  hr_errType :: string

definition reply_with :: "(response_writer \<times> session \<times> handler_error option) \<times> http_request list \<Rightarrow> string \<Rightarrow> handler_reply" where
  "reply_with res backend =
     (case res of ((w, s, e), sent) \<Rightarrow> \<lparr>hr_w = w, hr_s = Some s, hr_sent = sent, hr_backend = backend, hr_err = e, hr_errType = []\<rparr>)"

definition refuse :: "response_writer \<Rightarrow> session \<Rightarrow> string \<Rightarrow> nat \<Rightarrow> string \<Rightarrow> go_error \<Rightarrow> handler_reply" where
  "refuse w s backend code msg e = reply_with ((onErrorResponse code msg w, s, Some (Err e)), []) backend"

definition getCompositeSessionEntry :: "session \<Rightarrow> string \<Rightarrow> compositeSessionEntry option" where
  "getCompositeSessionEntry s backend = ss_entries s backend"

definition unknown_backend :: "string \<Rightarrow> string \<Rightarrow> go_error" where
  "unknown_backend backend what = GoError [ErrBackendNotFound] (''backend not found: unknown backend '' @ backend @ what)"

definition no_session :: "response_writer \<Rightarrow> session \<Rightarrow> string \<Rightarrow> handler_reply" where
  "no_session w s backend =
     refuse w s backend 403 (''no MCP session found for backend '' @ backend)
       (GoError [ErrSessionNotFound] (''session not found: no MCP session found for backend '' @ backend))"

section \<open>Tools\<close>

definition resolve_tool :: "mcpRequestContext \<Rightarrow> string \<Rightarrow> string \<Rightarrow> go_error + (string \<times> string)" where
  "resolve_tool m routeName name =
     (case rc_routes m routeName of
        None \<Rightarrow> upstreamResourceName name
      | Some route \<Rightarrow> (case pr_neverModeToolIndex route name of Some b \<Rightarrow> Inr (b, name) | None \<Rightarrow> upstreamResourceName name))"

definition call_request :: "client_request \<Rightarrow> rpc_request \<Rightarrow> string \<Rightarrow> string \<Rightarrow> mcp_params \<Rightarrow> mcp_params authorizationRequest" where
  "call_request r req backend tool p = \<lparr>ar_Headers = cq_Header r, ar_HTTPMethod = cq_Method r, ar_Host = cq_Host r, ar_HTTPPath = (case cq_URL r of None \<Rightarrow> [] | Some (path, _) \<Rightarrow> path),
     ar_MCPMethod = rq_Method req, ar_Backend = backend, ar_Tool = tool, ar_Params = Some p\<rparr>"

definition handleToolCallRequest ::
  "'blk handler_env \<Rightarrow> mcpRequestContext \<Rightarrow> session \<Rightarrow> response_writer \<Rightarrow> rpc_request \<Rightarrow> string \<Rightarrow> bytes \<Rightarrow> client_request \<Rightarrow> handler_reply" where
  "handleToolCallRequest env m s w req name args r =
     (case resolve_tool m (ss_route s) name of
        Inl e \<Rightarrow> refuse w s [] 400 (''invalid tool name '' @ name @ '': '' @ err_msg e) e
      | Inr (backendName, toolName) \<Rightarrow>
          (case getBackendForRoute m (ss_route s) backendName of
             Inl e \<Rightarrow> refuse w s backendName 404 (''unknown backend '' @ backendName) (unknown_backend backendName [])
           | Inr backend \<Rightarrow>
               (case rc_routes m (ss_route s) of
                  None \<Rightarrow> refuse w s backendName 500 (''route not found: '' @ ss_route s) (errorf (''route not found: '' @ ss_route s))
                | Some route \<Rightarrow>
                    if \<exists>sel \<in> set_option (pr_toolSelectors route backendName). \<not> allows (pe_regexp (he_proxy env)) sel toolName
                    then refuse w s backendName 400 (''invalid tool name: '' @ toolName) (GoError [ErrInvalidToolName] (''invalid tool name: '' @ toolName))
                    else
                      (let verdict = (case pr_authorization route of
                           None \<Rightarrow> (True, [])
                         | Some a \<Rightarrow> authorizeRequest (pe_authz (he_proxy env)) (Some a) (call_request r req backendName toolName (CallToolParams name args))) in
                       if \<not> fst verdict then
                         (let w = (case pr_authorization route of
                              Some a \<Rightarrow>
                                (let challenge = buildInsufficientScopeHeader (snd verdict) (ca_ResourceMetadataURL a) in
                                 if snd verdict \<noteq> [] \<and> challenge \<noteq> [] then w_Set ''WWW-Authenticate'' challenge w else w)
                            | None \<Rightarrow> w) in
                          refuse w s backendName 403 ''access denied'' (errorf ''authorization failed''))
                       else case getCompositeSessionEntry s backendName of
                         None \<Rightarrow> no_session w s backendName
                       | Some cse \<Rightarrow>
                           (let p = CallToolParams toolName args in
                            reply_with (invokeAndProxyResponse env m s w backend cse (req\<lparr>rq_Params := marshal_params env p\<rparr>) p) backendName)))))"

section \<open>Resources\<close>

text \<open>A request whose backend is known: its record on the route, its session, and the call.\<close>

definition route_to ::
  "'blk handler_env \<Rightarrow> mcpRequestContext \<Rightarrow> session \<Rightarrow> response_writer \<Rightarrow> rpc_request \<Rightarrow> mcp_params \<Rightarrow> string \<Rightarrow> go_error \<Rightarrow> handler_reply" where
  "route_to env m s w req p backendName notFound =
     (case getBackendForRoute m (ss_route s) backendName of
        Inl e \<Rightarrow> refuse w s backendName 404 (''unknown backend '' @ backendName) notFound
      | Inr backend \<Rightarrow>
          (case getCompositeSessionEntry s backendName of
             None \<Rightarrow> no_session w s backendName
           | Some cse \<Rightarrow> reply_with (invokeAndProxyResponse env m s w backend cse (req\<lparr>rq_Params := marshal_params env p\<rparr>) p) backendName))"

definition handleResourceReadRequest ::
  "'blk handler_env \<Rightarrow> mcpRequestContext \<Rightarrow> session \<Rightarrow> response_writer \<Rightarrow> rpc_request \<Rightarrow> string \<Rightarrow> bytes \<Rightarrow> handler_reply" where
  "handleResourceReadRequest env m s w req uri rest =
     (case upstreamResourceURI uri of
        Inl e \<Rightarrow> refuse w s [] 400 (''invalid resource name '' @ uri @ '': '' @ err_msg e) e
      | Inr (backendName, resourceName) \<Rightarrow>
          route_to env m s w req (ReadResourceParams resourceName rest) backendName (unknown_backend backendName ('' in resource name '' @ uri)))"

definition handleResourcesSubscriptionRequest ::
  "'blk handler_env \<Rightarrow> mcpRequestContext \<Rightarrow> session \<Rightarrow> response_writer \<Rightarrow> rpc_request \<Rightarrow> mcp_params \<Rightarrow> handler_reply" where
  "handleResourcesSubscriptionRequest env m s w req p =
     (let go = (\<lambda>uri with_uri.
          case upstreamResourceURI uri of
            Inl e \<Rightarrow> refuse w s [] 400 (''invalid resource name '' @ uri @ '': '' @ err_msg e) e
          | Inr (backendName, resourceName) \<Rightarrow>
              route_to env m s w req (with_uri resourceName) backendName (unknown_backend backendName ('' in resource name '' @ uri))) in
      case p of
        SubscribeParams uri rest \<Rightarrow> go uri (\<lambda>u. SubscribeParams u rest)
      | UnsubscribeParams uri rest \<Rightarrow> go uri (\<lambda>u. UnsubscribeParams u rest)
      | _ \<Rightarrow> reply_with ((w, s, Some (Err (errorf ''invalid params type''))), []) [])"

section \<open>Prompts and completions\<close>

definition resolvePromptBackend :: "mcpRequestContext \<Rightarrow> string \<Rightarrow> string \<Rightarrow> go_error + (string \<times> string)" where
  "resolvePromptBackend m routeName name =
     (case rc_routes m routeName of
        None \<Rightarrow> upstreamResourceName name
      | Some route \<Rightarrow> (case pr_neverModePromptIndex route name of Some b \<Rightarrow> Inr (b, name) | None \<Rightarrow> upstreamResourceName name))"

definition promptAllowed :: "proxy_env \<Rightarrow> mcpRequestContext \<Rightarrow> string \<Rightarrow> string \<Rightarrow> string \<Rightarrow> bool" where
  "promptAllowed env m routeName backendName promptName =
     (case rc_routes m routeName of
        None \<Rightarrow> False
      | Some route \<Rightarrow> \<forall>sel \<in> set_option (pr_promptSelectors route backendName). allows (pe_regexp env) sel promptName)"

definition handlePromptGetRequest ::
  "'blk handler_env \<Rightarrow> mcpRequestContext \<Rightarrow> session \<Rightarrow> response_writer \<Rightarrow> rpc_request \<Rightarrow> string \<Rightarrow> bytes \<Rightarrow> handler_reply" where
  "handlePromptGetRequest env m s w req name rest =
     (case resolvePromptBackend m (ss_route s) name of
        Inl e \<Rightarrow> refuse w s [] 400 (''invalid prompt name '' @ name @ '': '' @ err_msg e) e
      | Inr (backendName, promptName) \<Rightarrow>
          (case getBackendForRoute m (ss_route s) backendName of
             Inl e \<Rightarrow> refuse w s backendName 404 (''unknown backend '' @ backendName) (unknown_backend backendName ('' in prompt name '' @ name))
           | Inr backend \<Rightarrow>
               if \<not> promptAllowed (he_proxy env) m (ss_route s) backendName promptName
               then refuse w s backendName 400 (''invalid prompt name: '' @ name) (GoError [ErrInvalidPromptName] (''invalid prompt name: '' @ name))
               else (case getCompositeSessionEntry s backendName of
                  None \<Rightarrow> no_session w s backendName
                | Some cse \<Rightarrow>
                    (let p = GetPromptParams promptName rest in
                     reply_with (invokeAndProxyResponse env m s w backend cse (req\<lparr>rq_Params := marshal_params env p\<rparr>) p) backendName))))"

text \<open>A completion without a reference dereferences a nil pointer.\<close>

definition handleCompletionComplete ::
  "'blk handler_env \<Rightarrow> mcpRequestContext \<Rightarrow> session \<Rightarrow> response_writer \<Rightarrow> rpc_request \<Rightarrow> (string \<times> string \<times> string) option \<Rightarrow> bytes \<Rightarrow> handler_reply" where
  "handleCompletionComplete env m s w req ref rest =
     (case ref of
        None \<Rightarrow> reply_with ((w, s, Some (Err (GoError [GoPanic] ''nil pointer dereference''))), []) []
      | Some (typ, name, uri) \<Rightarrow>
          (let resolved = (if typ = ''ref/prompt'' then map_sum (\<lambda>e. (e, [], uri)) (\<lambda>(b, n). (b, n, uri)) (resolvePromptBackend m (ss_route s) name)
                           else if typ = ''ref/resource'' then map_sum (\<lambda>e. (e, name, [])) (\<lambda>(b, u). (b, name, u)) (upstreamResourceURI uri)
                           else Inr ([], name, uri));
               shown = (\<lambda>n u. if n \<noteq> [] then n else u) in
           case resolved of
             Inl (e, n, u) \<Rightarrow> refuse w s [] 400 (''invalid resource name '' @ shown n u @ '': '' @ err_msg e) e
           | Inr (backendName, n, u) \<Rightarrow>
               (case getBackendForRoute m (ss_route s) backendName of
                  Inl e \<Rightarrow> refuse w s backendName 404 (''unknown backend '' @ backendName) (unknown_backend backendName ('' in resource name '' @ shown n u))
                | Inr backend \<Rightarrow>
                    if typ = ''ref/prompt'' \<and> \<not> promptAllowed (he_proxy env) m (ss_route s) backendName n
                    then refuse w s backendName 400 (''invalid prompt name: '' @ name) (GoError [ErrInvalidPromptName] (''invalid prompt name: '' @ name))
                    else (case getCompositeSessionEntry s (mb_Name backend) of
                       None \<Rightarrow> no_session w s backendName
                     | Some cse \<Rightarrow>
                         (let p = CompleteParams (Some (typ, n, u)) rest in
                          reply_with (invokeAndProxyResponse env m s w backend cse (req\<lparr>rq_Params := marshal_params env p\<rparr>) p) backendName)))))"

section \<open>Messages from the client to a backend\<close>

definition handleClientToServerNotificationsProgress ::
  "'blk handler_env \<Rightarrow> mcpRequestContext \<Rightarrow> session \<Rightarrow> response_writer \<Rightarrow> rpc_request \<Rightarrow> token \<Rightarrow> bytes \<Rightarrow> handler_reply" where
  "handleClientToServerNotificationsProgress env m s w req tok rest =
     (case restore_token tok of
        Inl (b, e) \<Rightarrow> refuse w s b 400 (err_msg e) e
      | Inr (backendName, original) \<Rightarrow>
          (case getBackendForRoute m (ss_route s) backendName of
             Inl e \<Rightarrow> refuse w s backendName 404 (''unknown backend '' @ backendName)
               (unknown_backend backendName ('' in progressToken '' @ (case tok of TokString t \<Rightarrow> t | _ \<Rightarrow> [])))
           | Inr backend \<Rightarrow>
               (case getCompositeSessionEntry s (mb_Name backend) of
                  None \<Rightarrow> no_session w s backendName
                | Some cse \<Rightarrow>
                    (let p = ProgressNotificationParams original rest in
                     reply_with (invokeAndProxyResponse env m s w backend cse (req\<lparr>rq_Params := marshal_params env p\<rparr>) p) backendName))))"

text \<open>What the client is told about an identifier that does not lead back to a backend.\<close>

definition response_id_refusal :: "proxy_env \<Rightarrow> rpc_id \<Rightarrow> string" where
  "response_id_refusal env rid =
     (case rid of
        IdString t \<Rightarrow>
          (let parts = split_on nameSeparator t in
           if length parts \<noteq> 3 then ''invalid response ID format: '' @ t
           else if parts ! 1 \<in> {''i'', ''f'', ''s''} then ''invalid response ID format''
           else ''invalid response ID type identifier'')
      | _ \<Rightarrow> ''invalid response ID type: '' @ id_text env rid)"

definition handleClientToServerResponse ::
  "'blk handler_env \<Rightarrow> mcpRequestContext \<Rightarrow> session \<Rightarrow> response_writer \<Rightarrow> rpc_response \<Rightarrow> handler_reply" where
  "handleClientToServerResponse env m s w res =
     (case restore_id (pe_MakeID (he_proxy env)) (rs_ID res) of
        Inl (b, e) \<Rightarrow> refuse w s b 400 (response_id_refusal (he_proxy env) (rs_ID res)) e
      | Inr (backendName, rid) \<Rightarrow>
          (case getBackendForRoute m (ss_route s) backendName of
             Inl e \<Rightarrow> refuse w s backendName 404 (''unknown backend '' @ backendName) (unknown_backend backendName [])
           | Inr backend \<Rightarrow>
               (case getCompositeSessionEntry s backendName of
                  None \<Rightarrow> no_session w s backendName
                | Some cse \<Rightarrow>
                    (case invokeJSONRPCRequest (he_proxy env) m (ss_route s) backend (Some cse) (MResponse (res\<lparr>rs_ID := rid\<rparr>)) None of
                       (sent, Inl e) \<Rightarrow> reply_with ((onErrorResponse 500 (''failed to send: '' @ err_msg e) w, s, Some (Err e)), sent) backendName
                     | (sent, Inr resp) \<Rightarrow>
                         reply_with
                           (proxyResponseBody env m s
                              (w_Set sessionIDHeader (ss_id s) (copyProxyHeaders (he_proxy env) (pe_order (he_proxy env)) (hs_Header resp) w)) resp None backend,
                            sent) backendName))))"

end
