(* ===== verification/Mcp_Serve.thy ===== *)
theory Mcp_Serve
  imports Mcp_Handlers
begin

text \<open>
  The entry points of the MCP proxy, \<^verbatim>\<open>internal/mcpproxy/legacy.go\<close>, \<^verbatim>\<open>handlers.go\<close> and
  \<^verbatim>\<open>mcpproxy.go\<close>: the methods that go to all backends, the creation of a session, the dispatch of
  POST requests, the end of a session, and the stream of notifications of a GET request. A panic
  that leaves a handler ends the request without a further write; its error has \<open>GoPanic\<close>.
\<close>

section \<open>Lists and broadcasts\<close>

text \<open>
  The JSON codecs of the lists, and the encoded parameters of the gateway's own messages. The result
  of \<open>logging/setLevel\<close> is not looked at.
\<close>

record list_codecs =
  lc_UnmarshalTools :: "bytes \<Rightarrow> go_error + Tool list_result"
  lc_MarshalTools :: "Tool list_result \<Rightarrow> go_error + bytes"
  lc_UnmarshalPrompts :: "bytes \<Rightarrow> go_error + Prompt list_result"
  lc_MarshalPrompts :: "Prompt list_result \<Rightarrow> go_error + bytes"
  lc_UnmarshalResources :: "bytes \<Rightarrow> go_error + Resource list_result"
  lc_MarshalResources :: "Resource list_result \<Rightarrow> go_error + bytes"
  lc_UnmarshalTemplates :: "bytes \<Rightarrow> go_error + Resource list_result"
  lc_MarshalTemplates :: "Resource list_result \<Rightarrow> go_error + bytes"
  lc_UnmarshalAny :: "bytes \<Rightarrow> go_error + bytes"
  lc_pingParam :: slice
  lc_toolsChangedParam :: slice

text \<open>What one request draws: identifiers for events and for requests to backends, and the order of arrival.\<close>

record draws =
  dr_eventID :: string
  dr_requestID :: "string \<Rightarrow> rpc_id"
  dr_schedule :: "string list"

definition has_capability :: "(ServerCapabilities \<Rightarrow> bool) \<Rightarrow> compositeSessionEntry \<Rightarrow> bool" where
  "has_capability f cse = (case ce_capabilities cse of None \<Rightarrow> False | Some c \<Rightarrow> f c)"

definition handleToolsListRequest ::
  "'blk handler_env \<Rightarrow> list_codecs \<Rightarrow> draws \<Rightarrow> mcpRequestContext \<Rightarrow> session \<Rightarrow> response_writer \<Rightarrow> rpc_request \<Rightarrow> mcp_params \<Rightarrow> handler_reply" where
  "handleToolsListRequest env lc dr m s w req p =
     reply_with (sendToAllBackendsAndAggregateResponses env m s w req p (lc_UnmarshalTools lc)
       (\<lambda>rs. lc_MarshalTools lc (mergeToolsList (he_proxy env) m (ss_route s) rs)) (dr_eventID dr) (dr_schedule dr)
       (has_capability (\<lambda>c. sc_Tools c \<noteq> None))) []"

definition handleResourceListRequest ::
  "'blk handler_env \<Rightarrow> list_codecs \<Rightarrow> draws \<Rightarrow> mcpRequestContext \<Rightarrow> session \<Rightarrow> response_writer \<Rightarrow> rpc_request \<Rightarrow> mcp_params \<Rightarrow> handler_reply" where
  "handleResourceListRequest env lc dr m s w req p =
     reply_with (sendToAllBackendsAndAggregateResponses env m s w req p (lc_UnmarshalResources lc)
       (\<lambda>rs. lc_MarshalResources lc (mergeResourceList rs)) (dr_eventID dr) (dr_schedule dr)
       (has_capability (\<lambda>c. sc_Resources c \<noteq> None))) []"

definition handleResourcesTemplatesListRequest ::
  "'blk handler_env \<Rightarrow> list_codecs \<Rightarrow> draws \<Rightarrow> mcpRequestContext \<Rightarrow> session \<Rightarrow> response_writer \<Rightarrow> rpc_request \<Rightarrow> mcp_params \<Rightarrow> handler_reply" where
  "handleResourcesTemplatesListRequest env lc dr m s w req p =
     reply_with (sendToAllBackendsAndAggregateResponses env m s w req p (lc_UnmarshalTemplates lc)
       (\<lambda>rs. lc_MarshalTemplates lc (mergeResourcesTemplateList rs)) (dr_eventID dr) (dr_schedule dr)
       (has_capability (\<lambda>c. sc_Resources c \<noteq> None))) []"

definition handlePromptListRequest ::
  "'blk handler_env \<Rightarrow> list_codecs \<Rightarrow> draws \<Rightarrow> mcpRequestContext \<Rightarrow> session \<Rightarrow> response_writer \<Rightarrow> rpc_request \<Rightarrow> mcp_params \<Rightarrow> handler_reply" where
  "handlePromptListRequest env lc dr m s w req p =
     reply_with (sendToAllBackendsAndAggregateResponses env m s w req p (lc_UnmarshalPrompts lc)
       (\<lambda>rs. lc_MarshalPrompts lc (mergePromptsList (he_proxy env) m (ss_route s) rs)) (dr_eventID dr) (dr_schedule dr)
       (has_capability (\<lambda>c. sc_Prompts c \<noteq> None))) []"

definition handleSetLoggingLevel ::
  "'blk handler_env \<Rightarrow> list_codecs \<Rightarrow> draws \<Rightarrow> mcpRequestContext \<Rightarrow> session \<Rightarrow> response_writer \<Rightarrow> rpc_request \<Rightarrow> mcp_params \<Rightarrow> handler_reply" where
  "handleSetLoggingLevel env lc dr m s w req p =
     reply_with (sendToAllBackendsAndAggregateResponses env m s w req p (lc_UnmarshalAny lc) (\<lambda>rs. Inr ''{}'') (dr_eventID dr) (dr_schedule dr)
       (has_capability sc_Logging)) []"

text \<open>The handler waits for one event, or for the end of all calls if there is none.\<close>

definition handleNotificationsRootsListChanged ::
  "'blk handler_env \<Rightarrow> draws \<Rightarrow> mcpRequestContext \<Rightarrow> session \<Rightarrow> response_writer \<Rightarrow> rpc_request \<Rightarrow> mcp_params \<Rightarrow> handler_reply" where
  "handleNotificationsRootsListChanged env dr m s w req p =
     (let (sent, events) = sendToBackendsFiltered env m s (dr_schedule dr) ''POST'' (Some req) (Some p) (\<lambda>cse. True) in
      reply_with ((WriteHeader 202 (w_Set sessionIDHeader (ss_id s) w), s, None), sent) [])"

definition handlePing :: "'blk handler_env \<Rightarrow> response_writer \<Rightarrow> rpc_request \<Rightarrow> response_writer" where
  "handlePing env w req =
     Write (encode_message env (MResponse \<lparr>rs_ID = rq_ID req, rs_Result = Some ''{}'', rs_Error = None\<rparr>))
       (WriteHeader 200 (w_Set ''Content-Type'' ''application/json'' w))"

section \<open>Opening a session\<close>

definition handleInitializeRequest ::
  "'blk handler_env \<Rightarrow> draws \<Rightarrow> mcpRequestContext \<Rightarrow> response_writer \<Rightarrow> rpc_request \<Rightarrow> mcp_params \<Rightarrow> string \<Rightarrow> string \<Rightarrow> string \<Rightarrow>
   (response_writer \<times> handler_error option) \<times> http_request list" where
  "handleInitializeRequest env dr m w req p clientVersion route subject =
     (let px = he_proxy env; fail = (\<lambda>e. (onErrorResponse 500 (''failed to create new session: '' @ err_msg e) w, Some (Err e))) in
      case newSession px (he_crypto env) (he_rnd env 0) m p route subject (dr_requestID dr) of
        (sent, Inl e) \<Rightarrow>
          (if errors_is e GoPanic then (w, Some (Err e))
           else if errors_is e ErrNoMatchingBackendSelector then (onErrorResponse 403 ''access denied'' w, Some (Err e))
           else fail e, sent)
      | (sent, Inr s) \<Rightarrow>
          (case he_MarshalInitResult env (fst (session_mergedProtocolVersion (pe_order px) (ss_entries s) clientVersion))
              (mergedCapabilities (pe_order px) (ss_entries s)) of
             Inl e \<Rightarrow> fail e
           | Inr marshal \<Rightarrow>
               (case pe_EncodeMessage px (MResponse \<lparr>rs_ID = rq_ID req, rs_Result = Some marshal, rs_Error = None\<rparr>) of
                  Inl e \<Rightarrow> fail e
                | Inr data \<Rightarrow>
                    (Write data (WriteHeader 200 (w_Set sessionIDHeader (ss_id s) (w_Set ''Content-Type'' ''application/json'' w))), None)), sent))"

section \<open>Types of errors\<close>

definition MCPErrorInvalidJSONRPC :: string where "MCPErrorInvalidJSONRPC = ''invalid_json_rpc''"
definition MCPErrorUnsupportedMethod :: string where "MCPErrorUnsupportedMethod = ''unsupported_method''"
definition MCPErrorInvalidParam :: string where "MCPErrorInvalidParam = ''invalid_param''"
definition MCPErrorInvalidSessionID :: string where "MCPErrorInvalidSessionID = ''invalid_session_id''"
definition MCPErrorInternal :: string where "MCPErrorInternal = ''internal_error''"

text \<open>The errors in the order in which \<open>errors.As\<close> and \<open>errors.Is\<close> visit them.\<close>

fun unwrapped :: "handler_error \<Rightarrow> handler_error list" where
  "unwrapped (Joined es) = concat (map unwrapped es)"
| "unwrapped e = [e]"

definition rpc_error_type :: "rpc_error \<Rightarrow> string" where
  "rpc_error_type e =
     (if we_Code e = - 32602 then MCPErrorInvalidParam
      else if we_Code e = - 32601 then MCPErrorUnsupportedMethod
      else if we_Code e = - 32600 \<or> we_Code e = - 32700 then MCPErrorInvalidJSONRPC
      else MCPErrorInternal)"

definition invalid_param_error :: "handler_error list \<Rightarrow> bool" where
  "invalid_param_error es =
     (list_ex (\<lambda>e. case e of
         Err g \<Rightarrow> errors_is g ErrBackendNotFound \<or> errors_is g ErrSessionNotFound \<or> errors_is g ErrInvalidToolName \<or> errors_is g ErrInvalidPromptName
       | _ \<Rightarrow> False) es \<or>
      (case List.map_filter (\<lambda>e. case e of ToolErr t \<Rightarrow> Some t | _ \<Rightarrow> None) es of [] \<Rightarrow> False | t # _ \<Rightarrow> tc_validationError t))"

fun errorType :: "handler_error \<Rightarrow> string" where
  "errorType err =
     (let es = unwrapped err in
      case List.map_filter (\<lambda>e. case e of RpcErr r \<Rightarrow> Some r | _ \<Rightarrow> None) es of
        r # _ \<Rightarrow> rpc_error_type r
      | [] \<Rightarrow>
          if invalid_param_error es then MCPErrorInvalidParam
          else (case err of
             Joined errs \<Rightarrow> (case find (\<lambda>t. t \<noteq> [] \<and> t \<noteq> MCPErrorInternal) (map errorType errs) of Some t \<Rightarrow> t | None \<Rightarrow> MCPErrorInternal)
           | _ \<Rightarrow> MCPErrorInternal))"

section \<open>POST\<close>

definition envoyAIGatewayServerToClientPingRequestIDPrefix :: string where
  "envoyAIGatewayServerToClientPingRequestIDPrefix = ''aigw-server-to-client-ping''"

definition envoyAIGatewayServerToClientToolsChangedRequestIDPrefix :: string where
  "envoyAIGatewayServerToClientToolsChangedRequestIDPrefix = ''aigw-server-to-client-tools-changed''"

definition doNotForwardResponseToBackends :: "rpc_response \<Rightarrow> bool" where
  "doNotForwardResponseToBackends msg =
     (case rs_ID msg of
        IdString str \<Rightarrow> HasPrefix str envoyAIGatewayServerToClientPingRequestIDPrefix \<or>
          HasPrefix str envoyAIGatewayServerToClientToolsChangedRequestIDPrefix
      | _ \<Rightarrow> False)"

text \<open>The zero value of the parameters of a method, which a request without parameters leaves in place.\<close>

definition zero_params :: "string \<Rightarrow> mcp_params" where
  "zero_params meth =
     (if meth = ''initialize'' then InitializeParams [] []
      else if meth = ''tools/call'' then CallToolParams [] []
      else if meth = ''resources/read'' then ReadResourceParams [] []
      else if meth = ''resources/subscribe'' then SubscribeParams [] []
      else if meth = ''resources/unsubscribe'' then UnsubscribeParams [] []
      else if meth = ''prompts/get'' then GetPromptParams [] []
      else if meth = ''completion/complete'' then CompleteParams None []
      else if meth = ''notifications/progress'' then ProgressNotificationParams TokOther []
      else OtherParams [])"

definition parseParamsAndMaybeStartSpan :: "'blk handler_env \<Rightarrow> rpc_request \<Rightarrow> go_error + mcp_params" where
  "parseParamsAndMaybeStartSpan env req =
     (case rq_Params req of None \<Rightarrow> Inr (zero_params (rq_Method req)) | Some raw \<Rightarrow> he_UnmarshalParams env (rq_Method req) raw)"

text \<open>\<open>http.Error\<close>.\<close>

definition http_Error :: "string \<Rightarrow> nat \<Rightarrow> response_writer \<Rightarrow> response_writer" where
  "http_Error msg code w =
     (let w = w\<lparr>rw_Header := header_Del ''Content-Length'' (rw_Header w)\<rparr>;
          w = w_Set ''X-Content-Type-Options'' ''nosniff'' (w_Set ''Content-Type'' ''text/plain; charset=utf-8'' w) in
      Write (msg @ [CHR 0x0A]) (WriteHeader code w))"

definition post_reply :: "response_writer \<Rightarrow> session option \<Rightarrow> handler_error option \<Rightarrow> string \<Rightarrow> handler_reply" where
  "post_reply w s e typ = \<lparr>hr_w = w, hr_s = s, hr_sent = [], hr_backend = [], hr_err = e, hr_errType = typ\<rparr>"

definition typed :: "handler_reply \<Rightarrow> handler_reply" where
  "typed rp = rp\<lparr>hr_errType := (case hr_err rp of
     None \<Rightarrow> []
   | Some e \<Rightarrow> if \<exists>g. e = Err g \<and> errors_is g GoPanic then [] else errorType e)\<rparr>"

definition parsed_methods :: "string list" where
  "parsed_methods = [''notifications/roots/list_changed'', ''completion/complete'', ''notifications/progress'', ''logging/setLevel'',
     ''prompts/list'', ''prompts/get'', ''tools/call'', ''tools/list'', ''resources/list'', ''resources/read'', ''resources/templates/list'',
     ''resources/subscribe'', ''resources/unsubscribe'']"

text \<open>
  The handler of a method with a session and parsed parameters. The parameters of a method have its
  Go type, so that the last case is that of the methods without a type of their own.
\<close>

definition handle_method ::
  "'blk handler_env \<Rightarrow> list_codecs \<Rightarrow> draws \<Rightarrow> mcpRequestContext \<Rightarrow> session \<Rightarrow> response_writer \<Rightarrow> rpc_request \<Rightarrow> mcp_params \<Rightarrow> client_request \<Rightarrow>
   handler_reply" where
  "handle_method env lc dr m s w msg p r =
     (case p of
        CompleteParams ref rest \<Rightarrow> handleCompletionComplete env m s w msg ref rest
      | ProgressNotificationParams tok rest \<Rightarrow> handleClientToServerNotificationsProgress env m s w msg tok rest
      | GetPromptParams name rest \<Rightarrow> handlePromptGetRequest env m s w msg name rest
      | CallToolParams name args \<Rightarrow> handleToolCallRequest env m s w msg name args r
      | ReadResourceParams uri rest \<Rightarrow> handleResourceReadRequest env m s w msg uri rest
      | SubscribeParams uri rest \<Rightarrow> handleResourcesSubscriptionRequest env m s w msg p
      | UnsubscribeParams uri rest \<Rightarrow> handleResourcesSubscriptionRequest env m s w msg p
      | _ \<Rightarrow>
          if rq_Method msg = ''notifications/roots/list_changed'' then handleNotificationsRootsListChanged env dr m s w msg p
          else if rq_Method msg = ''logging/setLevel'' then handleSetLoggingLevel env lc dr m s w msg p
          else if rq_Method msg = ''prompts/list'' then handlePromptListRequest env lc dr m s w msg p
          else if rq_Method msg = ''tools/list'' then handleToolsListRequest env lc dr m s w msg p
          else if rq_Method msg = ''resources/list'' then handleResourceListRequest env lc dr m s w msg p
          else handleResourcesTemplatesListRequest env lc dr m s w msg p)"

definition serve_initialize ::
  "'blk handler_env \<Rightarrow> draws \<Rightarrow> mcpRequestContext \<Rightarrow> session option \<Rightarrow> response_writer \<Rightarrow> rpc_request \<Rightarrow> client_request \<Rightarrow> handler_reply" where
  "serve_initialize env dr m s w msg r =
     (case parseParamsAndMaybeStartSpan env msg of
        Inl e \<Rightarrow> post_reply (onErrorResponse 400 ''invalid initialize params'' w) s (Some (Err e)) MCPErrorInvalidParam
      | Inr p \<Rightarrow>
          (let route = header_Get (cq_Header r) MCPRouteHeader in
           if route = [] then post_reply (onErrorResponse 500 ''missing route header'' w) s None MCPErrorInternal
           else
             (case handleInitializeRequest env dr m w msg p (case p of InitializeParams v _ \<Rightarrow> v | _ \<Rightarrow> []) route (extractSubject (cq_Header r)) of
                ((w', e), sent) \<Rightarrow> typed ((post_reply w' s e [])\<lparr>hr_sent := sent\<rparr>))))"

definition serve_request ::
  "'blk handler_env \<Rightarrow> list_codecs \<Rightarrow> draws \<Rightarrow> mcpRequestContext \<Rightarrow> session option \<Rightarrow> response_writer \<Rightarrow> rpc_request \<Rightarrow> client_request \<Rightarrow> handler_reply" where
  "serve_request env lc dr m so w msg r =
     (if rq_Method msg = ''initialize'' then serve_initialize env dr m so w msg r
      else case so of
        None \<Rightarrow> post_reply (onErrorResponse 400 ''missing session ID'' w) None (Some (Err (errorf ''missing session ID''))) MCPErrorInvalidSessionID
      | Some s \<Rightarrow>
          if rq_Method msg \<in> {''notifications/initialized'', ''notifications/cancelled''} then post_reply (WriteHeader 202 w) so None []
          else if rq_Method msg = ''ping'' then post_reply (handlePing env w msg) so None []
          else if rq_Method msg \<in> set parsed_methods then
            (case parseParamsAndMaybeStartSpan env msg of
               Inl e \<Rightarrow>
                 post_reply (onErrorResponse 400 (if rq_Method msg = ''logging/setLevel'' then ''invalid set logging level params'' else ''invalid params'') w)
                   so (Some (Err e)) MCPErrorInvalidParam
             | Inr p \<Rightarrow> typed (handle_method env lc dr m s w msg p r))
          else
            (let text = ''unsupported method: '' @ rq_Method msg in
             post_reply (onErrorResponse 400 text w) so (Some (Err (errorf text))) MCPErrorUnsupportedMethod))"

definition serve_response ::
  "'blk handler_env \<Rightarrow> mcpRequestContext \<Rightarrow> session option \<Rightarrow> response_writer \<Rightarrow> rpc_response \<Rightarrow> handler_reply" where
  "serve_response env m so w msg =
     (case so of
        None \<Rightarrow> post_reply (onErrorResponse 400 ''missing session ID'' w) None (Some (Err (errorf ''missing session ID''))) MCPErrorInvalidSessionID
      | Some s \<Rightarrow>
          if doNotForwardResponseToBackends msg then post_reply (WriteHeader 202 (w_Set sessionIDHeader (ss_id s) w)) so None []
          else handleClientToServerResponse env m s w msg)"

definition serveLegacyPOST ::
  "'blk handler_env \<Rightarrow> list_codecs \<Rightarrow> draws \<Rightarrow> mcpRequestContext \<Rightarrow> response_writer \<Rightarrow> client_request \<Rightarrow> message \<Rightarrow> handler_reply" where
  "serveLegacyPOST env lc dr m w r rawMsg =
     (let h = cq_Header r; sessionID = header_Get h sessionIDHeader;
          found = (if sessionID = [] then Inr None
                   else map_sum id Some (sessionFromID (he_proxy env) (he_crypto env) m sessionID (header_Get h lastEventIDHeader) (extractRoute h) (extractSubject h))) in
      case found of
        Inl e \<Rightarrow>
          if errors_is e GoPanic then post_reply w None (Some (Err e)) []
          else post_reply (http_Error (''invalid session ID: '' @ err_msg e) (sessionErrorStatus e) w) None (Some (Err e)) MCPErrorInvalidSessionID
      | Inr so \<Rightarrow> (case rawMsg of MResponse msg \<Rightarrow> serve_response env m so w msg | MRequest msg \<Rightarrow> serve_request env lc dr m so w msg r))"

definition defaultMaxRequestBodySize :: int where
  "defaultMaxRequestBodySize = 4 * 1024 * 1024"

text \<open>\<open>http.MaxBytesReader\<close>: the read that passes the limit is cut there and fails.\<close>

fun MaxBytesReader :: "nat \<Rightarrow> read list \<Rightarrow> read list" where
  "MaxBytesReader n [] = []"
| "MaxBytesReader n ((chunk, err) # rs) =
     (if length chunk \<le> n then (chunk, err) # MaxBytesReader (n - length chunk) rs
      else [(take n chunk, Some (GoError [MaxBytesError] ''http: request body too large''))])"

definition servePOST ::
  "'blk handler_env \<Rightarrow> list_codecs \<Rightarrow> draws \<Rightarrow> mcpRequestContext \<Rightarrow> response_writer \<Rightarrow> client_request \<Rightarrow> handler_reply" where
  "servePOST env lc dr m w r =
     (let limit = px_maxRequestBodySize (rc_config m); limit = (if limit \<le> 0 then defaultMaxRequestBodySize else limit) in
      case ReadAll (MaxBytesReader (nat limit) (cq_Body r)) of
        (body, Some e) \<Rightarrow>
          if errors_is e MaxBytesError then post_reply (onErrorResponse 413 ''request body too large'' w) None (Some (Err e)) MCPErrorInternal
          else post_reply (onErrorResponse 400 (err_msg e) w) None (Some (Err e)) MCPErrorInternal
      | (body, None) \<Rightarrow>
          (case pe_DecodeMessage (he_proxy env) body of
             Inl e \<Rightarrow> post_reply (onErrorResponse 400 (''invalid JSON-RPC message: '' @ err_msg e) w) None (Some (Err e)) MCPErrorInvalidJSONRPC
           | Inr rawMsg \<Rightarrow> serveLegacyPOST env lc dr m w r rawMsg))"

section \<open>DELETE\<close>

definition close_request :: "proxy_env \<Rightarrow> mcpRequestContext \<Rightarrow> string \<Rightarrow> string \<Rightarrow> string \<Rightarrow> http_request" where
  "close_request env m route backendName sessionID =
     \<lparr>hq_Method = ''DELETE'', hq_URL = rc_listener m,
      hq_Header = header_Set sessionIDHeader sessionID (applyOriginalPathHeaders m (addMCPHeaders env None None route backendName Map.empty)), hq_Body = []\<rparr>"

text \<open>Failures are logged only, so the result is what is sent.\<close>

definition session_Close :: "proxy_env \<Rightarrow> mcpRequestContext \<Rightarrow> session \<Rightarrow> http_request list" where
  "session_Close env m s =
     List.map_filter (\<lambda>k. case ss_entries s k of
         None \<Rightarrow> None
       | Some e \<Rightarrow> if ce_sessionID e = [] then None else Some (close_request env m (ss_route s) k (ce_sessionID e)))
       (range_keys (pe_order env) (ss_entries s))"

definition serverDELETE ::
  "'blk handler_env \<Rightarrow> mcpRequestContext \<Rightarrow> response_writer \<Rightarrow> client_request \<Rightarrow> handler_reply" where
  "serverDELETE env m w r =
     (let h = cq_Header r; sessionID = header_Get h sessionIDHeader in
      if sessionID = [] then post_reply (http_Error ''missing session ID'' 400 w) None None []
      else case sessionFromID (he_proxy env) (he_crypto env) m sessionID [] (extractRoute h) (extractSubject h) of
        Inl e \<Rightarrow>
          if errors_is e GoPanic then post_reply w None (Some (Err e)) []
          else post_reply (http_Error (''invalid session ID: '' @ err_msg e) (sessionErrorStatus e) w) None None []
      | Inr s \<Rightarrow> (post_reply (WriteHeader 200 w) (Some s) None [])\<lparr>hr_sent := session_Close (he_proxy env) m s\<rparr>)"

section \<open>GET\<close>

definition own_message :: "'blk handler_env \<Rightarrow> string \<Rightarrow> string \<Rightarrow> slice \<Rightarrow> string \<Rightarrow> message sseEvent" where
  "own_message env prefix meth params uuid =
     (let i = (case pe_MakeID (he_proxy env) (VString (prefix @ uuid)) of Inl e \<Rightarrow> IdNil | Inr i \<Rightarrow> i) in
      \<lparr>se_event = ''message'', se_id = [], se_messages = [MRequest \<lparr>rq_ID = i, rq_Method = meth, rq_Params = params\<rparr>], se_backend = []\<rparr>)"

definition newHeartBeatPingMessage :: "'blk handler_env \<Rightarrow> list_codecs \<Rightarrow> string \<Rightarrow> message sseEvent" where
  "newHeartBeatPingMessage env lc = own_message env envoyAIGatewayServerToClientPingRequestIDPrefix ''ping'' (lc_pingParam lc)"

definition newToolListChangedMessage :: "'blk handler_env \<Rightarrow> list_codecs \<Rightarrow> string \<Rightarrow> message sseEvent" where
  "newToolListChangedMessage env lc =
     own_message env envoyAIGatewayServerToClientToolsChangedRequestIDPrefix ''notifications/tools/list_changed'' (lc_toolsChangedParam lc)"

text \<open>
  The cases of the \<open>select\<close> in the order in which they are taken; the gateway's own messages come with their
  random identifiers. A request that cannot be rewritten is passed on as it is by then.
\<close>

datatype select_case =
    BackendMsg "message sseEvent"
  | BackendsClosed
  | ToolsChanged string
  | Heartbeat string
  | CtxDone go_error

definition notification_message :: "'blk handler_env \<Rightarrow> string \<Rightarrow> message \<Rightarrow> message" where
  "notification_message env backend msg =
     (case msg of MRequest q \<Rightarrow> MRequest (fst (maybeServerToClientRequestModify env q backend)) | MResponse r \<Rightarrow> msg)"

fun notification_loop ::
  "'blk handler_env \<Rightarrow> list_codecs \<Rightarrow> SessionCrypto option \<Rightarrow> nat \<Rightarrow> select_case list \<Rightarrow> response_writer \<times> entries \<Rightarrow>
   (response_writer \<times> entries) \<times> go_error option" where
  "notification_loop env lc crypto n [] st = (st, None)"
| "notification_loop env lc crypto n (c # cs) (w, es) =
     (let put = (\<lambda>ev. Write (writeAndMaybeFlush (encode_message env) ev) w) in
      case c of
        BackendMsg ev \<Rightarrow>
          (let es' = setLastEventID (se_backend ev) (se_id ev) es in
           case session_lastEventID (he_crypto env) crypto (he_rnd env n) (pe_order (he_proxy env)) es' of
             Inl panic \<Rightarrow> ((w, es'), Some panic)
           | Inr eid \<Rightarrow>
               notification_loop env lc crypto (n + 1) cs
                 (put (ev\<lparr>se_id := eid, se_messages := map (notification_message env (se_backend ev)) (se_messages ev)\<rparr>), es'))
      | BackendsClosed \<Rightarrow> notification_loop env lc crypto n cs (w, es)
      | ToolsChanged uuid \<Rightarrow> notification_loop env lc crypto n cs (put (newToolListChangedMessage env lc uuid), es)
      | Heartbeat uuid \<Rightarrow> notification_loop env lc crypto n cs (put (newHeartBeatPingMessage env lc uuid), es)
      | CtxDone e \<Rightarrow> ((w, es), Some e))"

text \<open>The result has no error while the stream still waits.\<close>

definition streamNotifications ::
  "'blk handler_env \<Rightarrow> list_codecs \<Rightarrow> draws \<Rightarrow> mcpRequestContext \<Rightarrow> session \<Rightarrow> response_writer \<Rightarrow> select_case list \<Rightarrow>
   (response_writer \<times> entries) \<times> go_error option" where
  "streamNotifications env lc dr m s w cs =
     notification_loop env lc (currentSessionCrypto (rc_config m)) 0 cs
       (Write (writeAndMaybeFlush (encode_message env) (newHeartBeatPingMessage env lc (dr_eventID dr))) w, ss_entries s)"

definition serveGET ::
  "'blk handler_env \<Rightarrow> list_codecs \<Rightarrow> draws \<Rightarrow> mcpRequestContext \<Rightarrow> response_writer \<Rightarrow> client_request \<Rightarrow> select_case list \<Rightarrow> handler_reply" where
  "serveGET env lc dr m w r cs =
     (let h = cq_Header r; sessionID = header_Get h sessionIDHeader in
      if sessionID = [] then post_reply (http_Error ''missing session ID'' 400 w) None None []
      else case sessionFromID (he_proxy env) (he_crypto env) m sessionID (header_Get h lastEventIDHeader) (extractRoute h) (extractSubject h) of
        Inl e \<Rightarrow>
          if errors_is e GoPanic then post_reply w None (Some (Err e)) []
          else post_reply (http_Error (''invalid session ID: '' @ err_msg e) (sessionErrorStatus e) w) None None []
      | Inr s \<Rightarrow>
          (let w = w_Set ''Content-Type'' ''text/event-stream'' (w_Set sessionIDHeader sessionID w);
               w = w_Set ''transfer-encoding'' ''chunked'' (w_Set ''Connection'' ''keep-alive'' (w_Set ''Cache-Control'' ''no-cache'' w));
               sent = fst (sendToBackendsFiltered env m s (dr_schedule dr) ''GET'' None None (\<lambda>cse. True)) in
           case streamNotifications env lc dr m s (WriteHeader 202 w) cs of
             ((w', es), err) \<Rightarrow>
               (let failed = (case err of None \<Rightarrow> False | Some e \<Rightarrow> \<not> errors_is e ContextCanceled \<and> \<not> errors_is e GoPanic) in
                (post_reply (if failed then http_Error ''failed to collect notifications'' 500 w' else w') (Some (s\<lparr>ss_entries := es\<rparr>)) (map_option Err err) [])
                  \<lparr>hr_sent := sent\<rparr>)))"

section \<open>The server\<close>

definition getMaxRequestBodySize :: "string option \<Rightarrow> int" where
  "getMaxRequestBodySize var =
     (case var of
        None \<Rightarrow> defaultMaxRequestBodySize
      | Some v \<Rightarrow> (let (n, ok) = Atoi v in if ok \<and> n > 0 then n else defaultMaxRequestBodySize))"

definition originalPathForRequest :: "client_request \<Rightarrow> string" where
  "originalPathForRequest r = (if cq_RequestURI r \<noteq> [] then cq_RequestURI r else case cq_URL r of None \<Rightarrow> [] | Some (_, uri) \<Rightarrow> uri)"

text \<open>The handler \<open>NewMCPProxy\<close> registers for every path.\<close>

definition serve_mcp ::
  "'blk handler_env \<Rightarrow> list_codecs \<Rightarrow> draws \<Rightarrow> mcp_params ProxyConfig \<Rightarrow> string list \<Rightarrow> client_request \<Rightarrow> select_case list \<Rightarrow> handler_reply" where
  "serve_mcp env lc dr cfg logHeaders r cs =
     (let m = \<lparr>rc_config = cfg, rc_requestHeaders = cq_Header r, rc_originalPath = originalPathForRequest r, rc_logRequestHeaderAttributes = logHeaders\<rparr> in
      if cq_Method r = ''GET'' then serveGET env lc dr m new_writer r cs
      else if cq_Method r = ''POST'' then servePOST env lc dr m new_writer r
      else if cq_Method r = ''DELETE'' then serverDELETE env m new_writer r
      else post_reply (http_Error ''method not allowed'' 405 new_writer) None None [])"

end
