(* ===== verification/Mcp_Controller.thy ===== *)
theory Mcp_Controller
  imports Mcp_Config
begin

text \<open>
  The controller's part of the MCP proxy, \<^verbatim>\<open>internal/controller/mcp_route.go\<close> and
  \<^verbatim>\<open>gateway.go\<close>: the check of unprefixed names at admission and the configuration made from
  the \<open>MCPRoute\<close> resources. The resources have the fields that are read; \<open>None\<close> is a nil pointer.
\<close>

section \<open>Resources\<close>

record JWTClaimSpec =
  jx_Name :: string
  jx_ValueType :: "string option"
  jx_Values :: "string list"

record AuthorizationRuleSpec =
  rx_Action :: "string option"
  rx_CEL :: "string option"
  rx_Source :: "(string list \<times> JWTClaimSpec list) option"
  rx_Target :: "ToolCall list option"

record AuthorizationSpec =
  ax_DefaultAction :: "string option"
  ax_Rules :: "AuthorizationRuleSpec list"

record OAuthSpec =
  ox_Resource :: string
  ox_ClaimToHeaders :: "string list"

text \<open>Of \<open>APIKeyAuth\<close> only \<open>ForwardClientIDHeader\<close> is read.\<close>

record SecurityPolicySpec =
  so_OAuth :: "OAuthSpec option"
  so_Authorization :: "AuthorizationSpec option"
  so_APIKeyAuth :: "string option option"

record MCPRouteBackendRef =
  br_Name :: string
  br_ToolSelector :: "MCPToolSelector option"
  br_PromptSelector :: "MCPToolSelector option"
  br_ForwardHeaders :: "(string \<times> string option) list"
  br_PrefixMode :: "string option"

record MCPRouteResource =
  ro_Namespace :: string
  ro_Name :: string
  ro_Deleted :: bool
  ro_BackendRefs :: "MCPRouteBackendRef list"
  ro_SecurityPolicy :: "SecurityPolicySpec option"
  ro_BackendSelector :: "AuthorizationSpec option"
  ro_PrefixMode :: "string option"

section \<open>Admission\<close>

definition MCPRoutePrefixModeAlways :: string where
  "MCPRoutePrefixModeAlways = ''Always''"

text \<open>The names of one list; the left result is the name that is taken.\<close>

primrec claim_unique :: "string list \<Rightarrow> string \<Rightarrow> (string \<Rightarrow> string option) \<Rightarrow> (string \<times> string) + (string \<Rightarrow> string option)" where
  "claim_unique [] backendName seen = Inr seen"
| "claim_unique (name # names) backendName seen =
     (case seen name of
        Some first \<Rightarrow> Inl (name, first)
      | None \<Rightarrow> claim_unique names backendName (seen(name \<mapsto> backendName)))"

definition collision :: "string \<Rightarrow> string \<Rightarrow> string \<Rightarrow> string \<Rightarrow> go_error" where
  "collision kind name first backendName =
     errorf (''prefixMode Never requires '' @ kind @ '' names to be unique across backends, but '' @ Quote name @ '' is declared by both '' @
       Quote first @ '' and '' @ Quote backendName)"

definition effective_mode :: "string \<Rightarrow> MCPRouteBackendRef \<Rightarrow> string" where
  "effective_mode routeMode ref = (case br_PrefixMode ref of None \<Rightarrow> routeMode | Some mode \<Rightarrow> mode)"

fun validate_refs :: "string \<Rightarrow> MCPRouteBackendRef list \<Rightarrow> (string \<Rightarrow> string option) \<Rightarrow> (string \<Rightarrow> string option) \<Rightarrow> go_error option" where
  "validate_refs routeMode [] seenTools seenPrompts = None"
| "validate_refs routeMode (ref # refs) seenTools seenPrompts =
     (if effective_mode routeMode ref \<noteq> PrefixModeNever then validate_refs routeMode refs seenTools seenPrompts
      else
        (let backendName = br_Name ref; tools = (case br_ToolSelector ref of None \<Rightarrow> [] | Some s \<Rightarrow> mts_Include s) in
         if tools = [] then Some (errorf (''prefixMode Never requires backend '' @ Quote backendName @
           '' to explicitly enumerate its tools via toolSelector.include so names can be validated for uniqueness''))
         else case claim_unique tools backendName seenTools of
           Inl (name, first) \<Rightarrow> Some (collision ''tool'' name first backendName)
         | Inr seenTools' \<Rightarrow>
             (case br_PromptSelector ref of
                None \<Rightarrow> validate_refs routeMode refs seenTools' seenPrompts
              | Some s \<Rightarrow>
                  (case claim_unique (mts_Include s) backendName seenPrompts of
                     Inl (name, first) \<Rightarrow> Some (collision ''prompt'' name first backendName)
                   | Inr seenPrompts' \<Rightarrow> validate_refs routeMode refs seenTools' seenPrompts'))))"

definition route_mode :: "MCPRouteResource \<Rightarrow> string" where
  "route_mode mcpRoute = (case ro_PrefixMode mcpRoute of None \<Rightarrow> MCPRoutePrefixModeAlways | Some mode \<Rightarrow> mode)"

definition validatePerBackendPrefixMode :: "MCPRouteResource \<Rightarrow> go_error option" where
  "validatePerBackendPrefixMode mcpRoute = validate_refs (route_mode mcpRoute) (ro_BackendRefs mcpRoute) Map.empty Map.empty"

section \<open>Configuration\<close>

definition oauthWellKnownProtectedResourceMetadataPath :: string where
  "oauthWellKnownProtectedResourceMetadataPath = ''/.well-known/oauth-protected-resource''"

definition buildResourceMetadataURL :: "string \<Rightarrow> string" where
  "buildResourceMetadataURL resource =
     (let resourceURL = TrimSuffix resource ''/'';
          prefixLen = (if HasPrefix resourceURL ''https://'' then 8 else if HasPrefix resourceURL ''http://'' then 7 else 0);
          (baseURL, pathComponent) = (case Index (drop prefixLen resourceURL) ''/'' of
              Some idx \<Rightarrow> (take (prefixLen + idx) resourceURL, drop (prefixLen + idx) resourceURL)
            | None \<Rightarrow> (resourceURL, [])) in
      baseURL @ oauthWellKnownProtectedResourceMetadataPath @ pathComponent)"

definition NamespacedNameKey :: "string \<Rightarrow> string \<Rightarrow> string" where
  "NamespacedNameKey namespace name = namespace @ ''/'' @ name"

definition deref :: "'a option \<Rightarrow> 'a \<Rightarrow> 'a" where
  "deref p d = (case p of None \<Rightarrow> d | Some v \<Rightarrow> v)"

definition backend_config :: "MCPRouteBackendRef \<Rightarrow> MCPBackend" where
  "backend_config b = \<lparr>mb_Name = br_Name b, mb_ToolSelector = br_ToolSelector b, mb_PromptSelector = br_PromptSelector b,
     mb_ForwardHeaders = map (\<lambda>(n, h). \<lparr>hf_Name = n, hf_BackendHeader = deref h []\<rparr>) (br_ForwardHeaders b),
     mb_PrefixMode = deref (br_PrefixMode b) []\<rparr>"

definition rule_config :: "AuthorizationRuleSpec \<Rightarrow> MCPRouteAuthorizationRule" where
  "rule_config rule = \<lparr>ru_Action = deref (rx_Action rule) ''Allow'',
     ru_Source = map_option (\<lambda>(scopes, claims). \<lparr>js_Scopes = Some scopes,
       js_Claims = Some (map (\<lambda>c. \<lparr>jc_Name = jx_Name c, jc_ValueType = deref (jx_ValueType c) ''String'',
         jc_Values = (if jx_Values c = [] then None else Some (jx_Values c))\<rparr>) claims)\<rparr>) (rx_Source rule),
     ru_Target = rx_Target rule, ru_CEL = rx_CEL rule\<rparr>"

definition add_header :: "string \<Rightarrow> string list \<Rightarrow> string list" where
  "add_header h hs = (if h \<in> set hs then hs else hs @ [h])"

definition route_config :: "MCPRouteResource \<Rightarrow> MCPRoute" where
  "route_config route =
     (let policy = ro_SecurityPolicy route;
          oauth = (case policy of None \<Rightarrow> None | Some p \<Rightarrow> so_OAuth p);
          hasVerifiedJWT = (oauth \<noteq> None);
          forward = fold add_header (case oauth of None \<Rightarrow> [] | Some oa \<Rightarrow> ox_ClaimToHeaders oa) [];
          forward = (case policy of
              Some p \<Rightarrow> (case so_APIKeyAuth p of Some (Some h) \<Rightarrow> if h \<noteq> [] then add_header h forward else forward | _ \<Rightarrow> forward)
            | None \<Rightarrow> forward) in
      \<lparr>mr_Name = NamespacedNameKey (ro_Namespace route) (ro_Name route),
       mr_Backends = map backend_config (ro_BackendRefs route),
       mr_Authorization = (case policy of
           None \<Rightarrow> None
         | Some p \<Rightarrow> map_option (\<lambda>a. \<lparr>ra_DefaultAction = deref (ax_DefaultAction a) ''Deny'', ra_Rules = map rule_config (ax_Rules a),
             ra_ResourceMetadataURL = (case oauth of None \<Rightarrow> [] | Some oa \<Rightarrow> buildResourceMetadataURL (ox_Resource oa)), ra_VerifiedJWT = hasVerifiedJWT\<rparr>) (so_Authorization p)),
       mr_BackendSelector = map_option (\<lambda>a. \<lparr>ra_DefaultAction = deref (ax_DefaultAction a) ''Deny'',
           ra_Rules = map (\<lambda>rule. \<lparr>ru_Action = deref (rx_Action rule) ''Allow'', ru_Source = None, ru_Target = None, ru_CEL = rx_CEL rule\<rparr>) (ax_Rules a),
           ra_ResourceMetadataURL = [], ra_VerifiedJWT = hasVerifiedJWT\<rparr>) (ro_BackendSelector route),
       mr_ForwardHeaders = forward,
       mr_PrefixMode = (if ro_PrefixMode route = Some PrefixModeNever then PrefixModeNever else [])\<rparr>)"

definition mcpConfig :: "MCPRouteResource list \<Rightarrow> MCPConfig option \<times> bool" where
  "mcpConfig mcpRoutes =
     (if mcpRoutes = [] then (None, False)
      else
        (let live = filter (\<lambda>r. \<not> ro_Deleted r) mcpRoutes in
         (Some \<lparr>mc_BackendListenerAddr = ''http://127.0.0.1:10088'', mc_Routes = map route_config live, mc_SessionEncryption = None\<rparr>, live \<noteq> [])))"

section \<open>What admission guarantees\<close>

text \<open>In a loaded route, a backend in the mode \<open>Never\<close> lists its tools and no other such backend has one of them.\<close>

definition bare_names_owned :: "regexp_library \<Rightarrow> 'p mcpProxyConfigRoute \<Rightarrow> bool" where
  "bare_names_owned re r =
     (\<forall>b \<in> dom (pr_backends r). effectivePrefixMode r b = PrefixModeNever \<longrightarrow>
        (\<exists>ts. pr_toolSelectors r b = Some ts \<and> ts_include ts \<noteq> {}) \<and>
        (\<forall>t b'. owns re r (pr_toolSelectors r) b t \<and> owns re r (pr_toolSelectors r) b' t \<and> b' \<in> dom (pr_backends r) \<longrightarrow> b' = b))"

definition ref_tools :: "MCPRouteBackendRef \<Rightarrow> string list" where
  "ref_tools ref = (case br_ToolSelector ref of None \<Rightarrow> [] | Some s \<Rightarrow> mts_Include s)"

lemma claim_unique_seen:
  "claim_unique names b seen = Inr seen' \<Longrightarrow> set names \<inter> dom seen = {} \<and> dom seen' = dom seen \<union> set names"
proof (induction names arbitrary: seen)
  case (Cons name names)
  then have n: "seen name = None" "claim_unique names b (seen(name \<mapsto> b)) = Inr seen'" by (auto split: option.splits)
  then show ?case using Cons.IH [OF n(2)] by auto
qed simp

lemma validate_refs_tools:
  assumes "validate_refs mode refs seenT seenP = None" and "ref \<in> set refs" and "effective_mode mode ref = PrefixModeNever"
  shows "ref_tools ref \<noteq> [] \<and> set (ref_tools ref) \<inter> dom seenT = {}"
  using assms(1,2)
proof (induction refs arbitrary: seenT seenP)
  case (Cons r refs)
  show ?case
  proof (cases "effective_mode mode r = PrefixModeNever")
    case False
    then show ?thesis using Cons.IH [of seenT seenP] Cons.prems assms(3) by auto
  next
    case True
    then obtain seenT' seenP' where c: "ref_tools r \<noteq> []" "claim_unique (ref_tools r) (br_Name r) seenT = Inr seenT'" "validate_refs mode refs seenT' seenP' = None"
      using Cons.prems(1) by (auto simp: ref_tools_def Let_def split: if_splits sum.splits option.splits)
    then show ?thesis using Cons.IH [OF c(3)] Cons.prems(2) claim_unique_seen [OF c(2)] by auto
  qed
qed simp

lemma validate_refs_unique:
  assumes "validate_refs mode refs seenT seenP = None" and "distinct (map br_Name refs)" and "x \<in> set refs" and "y \<in> set refs"
    and "effective_mode mode x = PrefixModeNever" and "effective_mode mode y = PrefixModeNever"
    and "t \<in> set (ref_tools x)" and "t \<in> set (ref_tools y)"
  shows "x = y"
  using assms(1-4)
proof (induction refs arbitrary: seenT seenP)
  case (Cons r refs)
  show ?case
  proof (cases "effective_mode mode r = PrefixModeNever")
    case False
    then show ?thesis using Cons.IH [of seenT seenP] Cons.prems assms(5,6) by auto
  next
    case True
    then obtain seenT' seenP' where c: "claim_unique (ref_tools r) (br_Name r) seenT = Inr seenT'" "validate_refs mode refs seenT' seenP' = None"
      using Cons.prems(1) by (auto simp: ref_tools_def Let_def split: if_splits sum.splits option.splits)
    have seen: "set (ref_tools r) \<subseteq> dom seenT'" using claim_unique_seen [OF c(1)] by blast
    have new: "set (ref_tools z) \<inter> dom seenT' = {}" if "z \<in> set refs" "effective_mode mode z = PrefixModeNever" for z
      using validate_refs_tools [OF c(2) that] by blast
    have "x = r \<Longrightarrow> y \<in> set refs \<Longrightarrow> False" using new [of y] seen assms(6-8) by blast
    moreover have "y = r \<Longrightarrow> x \<in> set refs \<Longrightarrow> False" using new [of x] seen assms(5,7,8) by blast
    ultimately show ?thesis using Cons.IH [OF c(2)] Cons.prems(2-4) by auto
  qed
qed simp

text \<open>The values the schema of the resource admits.\<close>

definition wf_resource :: "MCPRouteResource \<Rightarrow> bool" where
  "wf_resource route =
     (set_option (ro_PrefixMode route) \<subseteq> {MCPRoutePrefixModeAlways, PrefixModeNever} \<and>
      (\<forall>ref \<in> set (ro_BackendRefs route). set_option (br_PrefixMode ref) \<subseteq> {MCPRoutePrefixModeAlways, PrefixModeNever}) \<and>
      distinct (map br_Name (ro_BackendRefs route)))"

lemma backend_config_names: "map mb_Name (map backend_config refs) = map br_Name refs"
  by (simp add: backend_config_def)

lemma loaded_backend:
  assumes "wf_resource route" and "load_route cel re (route_config route) = Inr r" and "b \<in> dom (pr_backends r)"
  obtains ref where "ref \<in> set (ro_BackendRefs route)" "br_Name ref = b"
    "effectivePrefixMode r b = PrefixModeNever \<longleftrightarrow> effective_mode (route_mode route) ref = PrefixModeNever"
    "rel_option (\<lambda>s ts. ts_include ts = set (mts_Include s)) (br_ToolSelector ref) (pr_toolSelectors r b)"
proof -
  let ?bs = "map backend_config (ro_BackendRefs route)" and ?n = "mr_Name (route_config route)"
  obtain a s r0 r1 where l: "load_backends re ?n ?bs r0 = Inr r1" and r: "r = fold (index_backend re) ?bs r1"
    and r0: "r0 = \<lparr>pr_backends = Map.empty, pr_toolSelectors = Map.empty, pr_promptSelectors = Map.empty,
        pr_authorization = a, pr_backendSelector = s, pr_forwardHeaders = mr_ForwardHeaders (route_config route),
        pr_routePrefixMode = mr_PrefixMode (route_config route), pr_neverModeToolIndex = Map.empty, pr_neverModePromptIndex = Map.empty\<rparr>"
    using assms(2) by (auto simp: load_route_def route_config_def Let_def split: sum.splits)
  have "selectors_of re ?n [] r0" by (simp add: selectors_of_def r0)
  moreover have "distinct (map mb_Name ([] @ ?bs))" using assms(1) by (simp only: append_Nil backend_config_names wf_resource_def)
  ultimately have sel: "selectors_of re ?n ?bs r1" "pr_routePrefixMode r1 = mr_PrefixMode (route_config route)"
    using load_backends_selectors [OF l, of "[]"] by (simp_all add: r0)
  have f: "pr_backends r = pr_backends r1" "pr_toolSelectors r = pr_toolSelectors r1" "effectivePrefixMode r b = effectivePrefixMode r1 b"
    using same_selectors_fields [OF index_backends_same [of r1 re ?bs]] by (simp_all add: r)
  obtain ref where ref: "ref \<in> set (ro_BackendRefs route)" "br_Name ref = b"
    using assms(3) sel(1) f(1) by (auto simp: selectors_of_def backend_config_def)
  then have b: "pr_backends r1 b = Some (backend_config ref)"
    "rel_option (\<lambda>s ts. buildSelector re s ''include'' ''exclude'' b ?n = Inr ts) (br_ToolSelector ref) (pr_toolSelectors r1 b)"
    using sel(1) by (auto simp: selectors_of_def backend_config_def)
  have "effectivePrefixMode r b = PrefixModeNever \<longleftrightarrow> effective_mode (route_mode route) ref = PrefixModeNever"
    using assms(1) ref(1) f(3) b(1) sel(2)
    by (cases "br_PrefixMode ref"; cases "ro_PrefixMode route")
      (auto simp: effectivePrefixMode_def effective_mode_def route_mode_def backend_config_def route_config_def deref_def wf_resource_def
        MCPRoutePrefixModeAlways_def PrefixModeNever_def Let_def)
  moreover have "rel_option (\<lambda>s ts. ts_include ts = set (mts_Include s)) (br_ToolSelector ref) (pr_toolSelectors r b)"
    using b(2) f(2) by (auto elim!: option.rel_mono_strong dest: buildSelector_include)
  ultimately show thesis using that ref by blast
qed

lemma admitted_names_owned:
  assumes "wf_resource route" and "validatePerBackendPrefixMode route = None" and "load_route cel re (route_config route) = Inr r"
  shows "bare_names_owned re r"
  unfolding bare_names_owned_def
proof (intro ballI impI conjI allI)
  note v = assms(2) [unfolded validatePerBackendPrefixMode_def]
  fix b assume b: "b \<in> dom (pr_backends r)" and never: "effectivePrefixMode r b = PrefixModeNever"
  from loaded_backend [OF assms(1,3) b] obtain x where x: "x \<in> set (ro_BackendRefs route)" "br_Name x = b"
    "effective_mode (route_mode route) x = PrefixModeNever" "rel_option (\<lambda>s ts. ts_include ts = set (mts_Include s)) (br_ToolSelector x) (pr_toolSelectors r b)"
    using never by blast
  show "\<exists>ts. pr_toolSelectors r b = Some ts \<and> ts_include ts \<noteq> {}"
    using validate_refs_tools [OF v x(1,3)] x(4) by (auto simp: ref_tools_def option.rel_sel split: option.splits)
  fix t b' assume o: "owns re r (pr_toolSelectors r) b t \<and> owns re r (pr_toolSelectors r) b' t \<and> b' \<in> dom (pr_backends r)"
  then have b': "b' \<in> dom (pr_backends r)" and never': "effectivePrefixMode r b' = PrefixModeNever" by (auto simp: owns_def)
  from loaded_backend [OF assms(1,3) b'] obtain y where y: "y \<in> set (ro_BackendRefs route)" "br_Name y = b'"
    "effective_mode (route_mode route) y = PrefixModeNever" "rel_option (\<lambda>s ts. ts_include ts = set (mts_Include s)) (br_ToolSelector y) (pr_toolSelectors r b')"
    using never' by blast
  have "t \<in> set (ref_tools x)" "t \<in> set (ref_tools y)" using o x(4) y(4) by (auto simp: owns_def ref_tools_def option.rel_sel split: option.splits)
  moreover have "distinct (map br_Name (ro_BackendRefs route))" using assms(1) by (simp add: wf_resource_def)
  ultimately have "x = y" using validate_refs_unique [OF v _ x(1) y(1) x(3) y(3)] by blast
  then show "b' = b" using x(2) y(2) by simp
qed

end
