(* ===== verification/Mcp_Correctness.thy ===== *)
theory Mcp_Correctness
  imports Mcp_Serve Mcp_Controller
begin

text \<open>
  What the handlers of the MCP proxy guarantee together: to which backends a request goes and under
  which session, which tool calls are let through, and that listed tools can be called.
\<close>

section \<open>Headers of requests to backends\<close>

text \<open>The headers by which a request is routed, and the names of other headers.\<close>

definition routing_headers :: "string set" where
  "routing_headers = {MCPBackendHeader, MCPRouteHeader, sessionIDHeader}"

definition plain_header :: "string \<Rightarrow> bool" where
  "plain_header n = (CanonicalHeaderKey n \<notin> CanonicalHeaderKey ` routing_headers)"

definition plain_headers :: "mcpRequestContext \<Rightarrow> session \<Rightarrow> bool" where
  "plain_headers m s =
     ((\<forall>n \<in> set (rc_logRequestHeaderAttributes m). plain_header n) \<and>
      (\<forall>n \<in> dom (ss_extraHeaders s). plain_header n) \<and>
      (\<forall>hs \<in> ran (ss_perBackendExtraHeaders s). \<forall>n \<in> dom hs. plain_header n) \<and>
      (\<forall>route \<in> set_option (rc_routes m (ss_route s)).
         (\<forall>n \<in> set (pr_forwardHeaders route). plain_header n) \<and>
         (\<forall>b \<in> ran (pr_backends route). \<forall>f \<in> set (mb_ForwardHeaders b). plain_header (ForwardName f))))"

lemma routing_canonical:
  "CanonicalHeaderKey MCPBackendHeader = ''X-Ai-Eg-Mcp-Backend''"
  "CanonicalHeaderKey MCPRouteHeader = ''X-Ai-Eg-Mcp-Route''"
  "CanonicalHeaderKey sessionIDHeader = ''Mcp-Session-Id''"
  by (code_simp, code_simp, code_simp)

lemma length_CanonicalHeaderKey: "length (CanonicalHeaderKey k) = length k"
proof -
  have "length (canonical_from up k) = length k" for up by (induction k arbitrary: up) simp_all
  then show ?thesis by (simp add: CanonicalHeaderKey_def)
qed

lemma plain_by_length: "length n \<notin> {14, 17, 19} \<Longrightarrow> plain_header n"
  using length_CanonicalHeaderKey [of n] by (auto simp: plain_header_def routing_headers_def routing_canonical)

lemma plain_standard:
  "plain_header ''Accept''" "plain_header ''Content-Type''" "plain_header ''Content-type''" "plain_header ''Accept-Encoding''"
  "plain_header lastEventIDHeader" "plain_header protocolVersionHeader"
  "plain_header ''x-envoy-original-path''" "plain_header ''x-ai-eg-original-path''"
  "plain_header ''x-ai-eg-mcp-metadata-method''" "plain_header ''x-ai-eg-mcp-metadata-request-id''"
  "plain_header ''x-ai-eg-mcp-metadata-tool-name''" "plain_header ''x-ai-eg-mcp-metadata-resource-uri''"
  by (simp_all add: plain_by_length lastEventIDHeader_def protocolVersionHeader_def)

lemma plain_Set [simp]:
  assumes "k \<in> routing_headers" "plain_header n"
  shows "header_Get (header_Set n v h) k = header_Get h k"
proof -
  have "CanonicalHeaderKey k \<noteq> CanonicalHeaderKey n" using assms unfolding plain_header_def by (metis image_eqI)
  then show ?thesis by (simp add: header_Get_Set)
qed

lemma plain_Del [simp]:
  assumes "k \<in> routing_headers" "plain_header n"
  shows "header_Get (header_Del n h) k = header_Get h k"
proof -
  have "CanonicalHeaderKey k \<noteq> CanonicalHeaderKey n" using assms unfolding plain_header_def by (metis image_eqI)
  then show ?thesis by (simp add: header_Get_def header_Del_def mdel_def)
qed

lemma fold_keeps:
  assumes "\<And>x h. x \<in> set xs \<Longrightarrow> header_Get (f x h) k = header_Get h k"
  shows "header_Get (fold f xs h) k = header_Get h k"
  using assms by (induction xs arbitrary: h) auto

lemma setMCPMetadataHeader_plain [simp]:
  "k \<in> routing_headers \<Longrightarrow> plain_header n \<Longrightarrow> header_Get (setMCPMetadataHeader env n v h) k = header_Get h k"
  by (simp add: setMCPMetadataHeader_def)

lemma addMCPHeaders_routing:
  "k \<in> routing_headers \<Longrightarrow>
   header_Get (addMCPHeaders env msg p route backend h) k = header_Get (header_Set MCPRouteHeader route (header_Set MCPBackendHeader backend h)) k"
  by (auto simp: addMCPHeaders_def Let_def plain_standard split: option.splits message.splits mcp_params.splits)

lemma applyOriginalPathHeaders_routing [simp]: "k \<in> routing_headers \<Longrightarrow> header_Get (applyOriginalPathHeaders m h) k = header_Get h k"
  by (simp add: applyOriginalPathHeaders_def setHeaderIfMissing_def plain_standard)

lemma applyLogHeaderMappings_routing [simp]:
  assumes "k \<in> routing_headers" "\<forall>n \<in> set (rc_logRequestHeaderAttributes m). plain_header n"
  shows "header_Get (applyLogHeaderMappings env m msg h) k = header_Get h k"
  unfolding applyLogHeaderMappings_def Let_def by (rule fold_keeps) (use assms in auto)

lemma forward_header_routing [simp]: "k \<in> routing_headers \<Longrightarrow> plain_header n \<Longrightarrow> header_Get (forward_header rh f n h) k = header_Get h k"
  by (simp add: forward_header_def Let_def)

lemma range_keys_dom: "k \<in> set (range_keys ord m) \<Longrightarrow> k \<in> dom m"
  using in_range_keys by fastforce

lemma put_headers_routing:
  assumes "k \<in> routing_headers" "\<forall>n \<in> dom z. plain_header n"
  shows "header_Get (fold (\<lambda>n h. case z n of None \<Rightarrow> h | Some v \<Rightarrow> header_Set n v (header_Del n h)) (range_keys ord z) h) k = header_Get h k"
proof (rule fold_keeps)
  fix n h assume "n \<in> set (range_keys ord z)"
  then have "plain_header n" using range_keys_dom [of n ord z] assms(2) by blast
  then show "header_Get (case z n of None \<Rightarrow> h | Some v \<Rightarrow> header_Set n v (header_Del n h)) k = header_Get h k"
    using assms(1) by (cases "z n") simp_all
qed

lemma applyExtractedForwardHeaders_routing:
  assumes "k \<in> routing_headers" "\<forall>n \<in> dom x. plain_header n" "\<forall>n \<in> dom y. plain_header n"
  shows "header_Get (applyExtractedForwardHeaders ord x y h) k = header_Get h k"
  unfolding applyExtractedForwardHeaders_def Let_def
  by (simp only: put_headers_routing [OF assms(1,2)] put_headers_routing [OF assms(1,3)])

text \<open>A request of a session to one of its backends, by its routing headers.\<close>

definition routed_as :: "mcpRequestContext \<Rightarrow> string \<Rightarrow> string \<Rightarrow> string \<Rightarrow> http_request \<Rightarrow> bool" where
  "routed_as m route backend sid rq =
     (hq_URL rq = rc_listener m \<and> header_Get (hq_Header rq) MCPRouteHeader = route \<and>
      header_Get (hq_Header rq) MCPBackendHeader = backend \<and> header_Get (hq_Header rq) sessionIDHeader = sid)"

lemma routing_members: "MCPBackendHeader \<in> routing_headers" "MCPRouteHeader \<in> routing_headers" "sessionIDHeader \<in> routing_headers"
  by (simp_all add: routing_headers_def)

lemma header_Get_empty [simp]: "header_Get Map.empty k = []"
  by (simp add: header_Get_def)

lemma backend_request_routed:
  assumes "plain_headers m s"
  shows "routed_as m (ss_route s) (mb_Name b) (ce_sessionID c) (backend_request env m (ss_route s) b (Some c) msg p enc)"
proof -
  have pl: "\<forall>n \<in> set (rc_logRequestHeaderAttributes m). plain_header n"
    "\<And>route. rc_routes m (ss_route s) = Some route \<Longrightarrow> \<forall>n \<in> set (pr_forwardHeaders route). plain_header n"
    "\<And>route b'. rc_routes m (ss_route s) = Some route \<Longrightarrow> pr_backends route (mb_Name b) = Some b' \<Longrightarrow> \<forall>f \<in> set (mb_ForwardHeaders b'). plain_header (ForwardName f)"
    using assms by (auto simp: plain_headers_def ran_def)
  have fwd: "header_Get (case rc_routes m (ss_route s) of None \<Rightarrow> h
      | Some r \<Rightarrow> (let h = fold (\<lambda>n. forward_header (rc_requestHeaders m) n n) (pr_forwardHeaders r) h in
          case pr_backends r (mb_Name b) of None \<Rightarrow> h
          | Some b \<Rightarrow> fold (\<lambda>f. forward_header (rc_requestHeaders m) (hf_Name f) (ForwardName f)) (mb_ForwardHeaders b) h)) k = header_Get h k"
    if "k \<in> routing_headers" for h k
    using that pl(2,3) by (auto simp: Let_def fold_keeps split: option.splits)
  have "header_Get (hq_Header (backend_request env m (ss_route s) b (Some c) msg p enc)) k =
      header_Get (if ce_sessionID c \<noteq> [] then header_Set sessionIDHeader (ce_sessionID c) (header_Set MCPRouteHeader (ss_route s) (header_Set MCPBackendHeader (mb_Name b) Map.empty))
        else header_Set MCPRouteHeader (ss_route s) (header_Set MCPBackendHeader (mb_Name b) Map.empty)) k"
    if k: "k \<in> routing_headers" for k
    unfolding backend_request_def Let_def http_request.simps option.case
    using k pl(1) fwd [OF k, unfolded Let_def] by (simp add: plain_standard addMCPHeaders_routing header_Get_Set [where k = sessionIDHeader])
  then show ?thesis
    by (simp add: routed_as_def routing_members header_Get_Set routing_canonical) (simp add: backend_request_def Let_def)
qed

lemma fanout_request_routed:
  assumes "plain_headers m s"
  shows "routed_as m (ss_route s) (mb_Name b) (ce_sessionID c) (fanout_request env m s b c meth rq p enc)"
proof -
  have pl: "\<forall>n \<in> set (rc_logRequestHeaderAttributes m). plain_header n" "\<forall>n \<in> dom (ss_extraHeaders s). plain_header n"
    "\<forall>hs \<in> ran (ss_perBackendExtraHeaders s). \<forall>n \<in> dom hs. plain_header n"
    using assms by (simp_all add: plain_headers_def)
  then have pl3: "\<forall>n \<in> dom (case ss_perBackendExtraHeaders s (mb_Name b) of None \<Rightarrow> Map.empty | Some p \<Rightarrow> p). plain_header n"
    using ranI [of "ss_perBackendExtraHeaders s" "mb_Name b"] by (cases "ss_perBackendExtraHeaders s (mb_Name b)") auto
  have "header_Get (hq_Header (fanout_request env m s b c meth rq p enc)) k =
      header_Get (header_Set sessionIDHeader (ce_sessionID c) (header_Set MCPRouteHeader (ss_route s) (header_Set MCPBackendHeader (mb_Name b) Map.empty))) k"
    if k: "k \<in> routing_headers" for k
    unfolding fanout_request_def Let_def http_request.simps
    using k pl(1,2) pl3 by (simp add: plain_standard applyExtractedForwardHeaders_routing addMCPHeaders_routing header_Get_Set [where k = sessionIDHeader])
  then show ?thesis
    by (simp add: routed_as_def routing_members header_Get_Set routing_canonical) (simp add: fanout_request_def Let_def)
qed

section \<open>Requests stay in the session\<close>

text \<open>A request to a backend of the route with which the session has an entry, under that entry's identifier.\<close>

definition in_session :: "mcpRequestContext \<Rightarrow> session \<Rightarrow> http_request \<Rightarrow> bool" where
  "in_session m s rq =
     (\<exists>k b c. getBackendForRoute m (ss_route s) k = Inr b \<and> ss_entries s k = Some c \<and> routed_as m (ss_route s) k (ce_sessionID c) rq)"

lemma reply_sent [simp]:
  "hr_sent (reply_with res b) = snd res" "hr_sent (refuse w s b code msg e) = []" "hr_sent (no_session w s b) = []"
  "hr_sent (post_reply w so e' t) = []" "hr_sent (typed rp) = hr_sent rp"
  by (simp_all add: reply_with_def refuse_def no_session_def post_reply_def typed_def split: prod.splits)

lemma backend_named: "proxy_ok re (rc_config m) \<Longrightarrow> getBackendForRoute m route k = Inr b \<Longrightarrow> mb_Name b = k"
  by (fastforce simp: proxy_ok_def routes_ok_def route_ok_def named_def getBackendForRoute_def rc_routes_def ran_def split: option.splits)

lemma invoke_sent:
  "fst (invokeJSONRPCRequest env m route b c msg p) =
     (case pe_EncodeMessage env msg of Inl e \<Rightarrow> [] | Inr enc \<Rightarrow> [backend_request env m route b c msg p enc])"
  by (simp add: invokeJSONRPCRequest_def Let_def split: sum.splits)

lemma invokeAndProxy_sent:
  "snd (invokeAndProxyResponse env m s w b c req p) = fst (invokeJSONRPCRequest (he_proxy env) m (ss_route s) b (Some c) (MRequest req) (Some p))"
  by (auto simp: invokeAndProxyResponse_def split: prod.splits sum.splits)

text \<open>What the handlers are proved under: a loaded configuration and forwarded headers that do not route.\<close>

definition session_setting :: "'blk handler_env \<Rightarrow> mcpRequestContext \<Rightarrow> session \<Rightarrow> bool" where
  "session_setting env m s = (proxy_ok (pe_regexp (he_proxy env)) (rc_config m) \<and> plain_headers m s)"

lemma invoke_in_session:
  assumes "session_setting env m s" and "getBackendForRoute m (ss_route s) k = Inr b" and "ss_entries s k = Some c"
    and "rq \<in> set (fst (invokeJSONRPCRequest (he_proxy env) m (ss_route s) b (Some c) msg p))"
  shows "in_session m s rq"
proof -
  have "mb_Name b = k" using assms(1,2) backend_named by (auto simp: session_setting_def)
  moreover obtain enc where "rq = backend_request (he_proxy env) m (ss_route s) b (Some c) msg p enc"
    using assms(4) by (auto simp: invoke_sent split: sum.splits)
  ultimately have "routed_as m (ss_route s) k (ce_sessionID c) rq"
    using backend_request_routed [of m s b c] assms(1) by (auto simp: session_setting_def)
  then show ?thesis using assms(2,3) by (auto simp: in_session_def)
qed

lemma route_to_in_session:
  assumes "session_setting env m s" and "rq \<in> set (hr_sent (route_to env m s w req p k e))"
  shows "in_session m s rq"
  using assms(2) invoke_in_session [OF assms(1)]
  by (auto simp: route_to_def getCompositeSessionEntry_def invokeAndProxy_sent split: sum.splits option.splits)

lemma read_in_session:
  "session_setting env m s \<Longrightarrow> rq \<in> set (hr_sent (handleResourceReadRequest env m s w req uri rest)) \<Longrightarrow> in_session m s rq"
  by (auto simp: handleResourceReadRequest_def dest: route_to_in_session split: sum.splits)

lemma subscription_in_session:
  "session_setting env m s \<Longrightarrow> rq \<in> set (hr_sent (handleResourcesSubscriptionRequest env m s w req p)) \<Longrightarrow> in_session m s rq"
  by (auto simp: handleResourcesSubscriptionRequest_def Let_def dest: route_to_in_session split: sum.splits mcp_params.splits)

lemma prompt_in_session:
  assumes "session_setting env m s" and "rq \<in> set (hr_sent (handlePromptGetRequest env m s w req name rest))"
  shows "in_session m s rq"
  using assms(2) invoke_in_session [OF assms(1)]
  by (auto simp: handlePromptGetRequest_def Let_def getCompositeSessionEntry_def invokeAndProxy_sent split: sum.splits option.splits if_splits)

lemma progress_in_session:
  assumes "session_setting env m s" and "rq \<in> set (hr_sent (handleClientToServerNotificationsProgress env m s w req tok rest))"
  shows "in_session m s rq"
proof -
  obtain k orig b where b: "restore_token tok = Inr (k, orig)" "getBackendForRoute m (ss_route s) k = Inr b"
    using assms(2) by (auto simp: handleClientToServerNotificationsProgress_def split: sum.splits)
  moreover have "mb_Name b = k" using b(2) assms(1) backend_named by (auto simp: session_setting_def)
  ultimately show ?thesis using assms(2) invoke_in_session [OF assms(1) b(2)]
    by (auto simp: handleClientToServerNotificationsProgress_def Let_def getCompositeSessionEntry_def invokeAndProxy_sent split: option.splits)
qed

lemma tool_call_sent:
  "hr_sent (handleToolCallRequest env m s w req name args r) =
     (case resolve_tool m (ss_route s) name of
        Inl e \<Rightarrow> []
      | Inr (k, t) \<Rightarrow>
          (case (getBackendForRoute m (ss_route s) k, rc_routes m (ss_route s), ss_entries s k) of
             (Inr b, Some route, Some c) \<Rightarrow>
               if (\<forall>sel \<in> set_option (pr_toolSelectors route k). allows (pe_regexp (he_proxy env)) sel t) \<and>
                  (\<forall>a \<in> set_option (pr_authorization route).
                     fst (authorizeRequest (pe_authz (he_proxy env)) (Some a) (call_request r req k t (CallToolParams name args))))
               then fst (invokeJSONRPCRequest (he_proxy env) m (ss_route s) b (Some c)
                      (MRequest (req\<lparr>rq_Params := marshal_params env (CallToolParams t args)\<rparr>)) (Some (CallToolParams t args)))
               else []
           | _ \<Rightarrow> []))"
  by (auto simp: handleToolCallRequest_def Let_def getCompositeSessionEntry_def invokeAndProxy_sent getBackendForRoute_def split: sum.splits option.splits)

lemma tool_call_in_session:
  assumes "session_setting env m s" and "rq \<in> set (hr_sent (handleToolCallRequest env m s w req name args r))"
  shows "in_session m s rq"
proof -
  obtain k t where k: "resolve_tool m (ss_route s) name = Inr (k, t)" 
    using assms(2) by (cases "resolve_tool m (ss_route s) name") (auto simp: tool_call_sent)
  obtain b where b: "getBackendForRoute m (ss_route s) k = Inr b" 
    using assms(2) k by (cases "getBackendForRoute m (ss_route s) k") (auto simp: tool_call_sent)
  obtain c where c: "ss_entries s k = Some c" using assms(2) k b by (cases "ss_entries s k") (auto simp: tool_call_sent split: option.splits)
  show ?thesis using assms(2) invoke_in_session [OF assms(1) b c] by (auto simp: tool_call_sent k b c split: option.splits if_splits)
qed

lemma completion_in_session:
  assumes "session_setting env m s" and "rq \<in> set (hr_sent (handleCompletionComplete env m s w req ref rest))"
  shows "in_session m s rq"
proof -
  obtain k b c msg p where b: "getBackendForRoute m (ss_route s) k = Inr b" "ss_entries s (mb_Name b) = Some c"
      "rq \<in> set (fst (invokeJSONRPCRequest (he_proxy env) m (ss_route s) b (Some c) msg p))"
    using assms(2) by (auto simp: handleCompletionComplete_def Let_def getCompositeSessionEntry_def invokeAndProxy_sent
        split: option.splits sum.splits if_splits)
  moreover have "mb_Name b = k" using b(1) assms(1) backend_named by (auto simp: session_setting_def)
  ultimately show ?thesis using invoke_in_session [OF assms(1)] by auto
qed

lemma response_in_session:
  assumes "session_setting env m s" and "rq \<in> set (hr_sent (handleClientToServerResponse env m s w res))"
  shows "in_session m s rq"
proof -
  obtain k rid b c where b: "restore_id (pe_MakeID (he_proxy env)) (rs_ID res) = Inr (k, rid)"
      "getBackendForRoute m (ss_route s) k = Inr b" "ss_entries s k = Some c"
    using assms(2) by (auto simp: handleClientToServerResponse_def getCompositeSessionEntry_def split: sum.splits option.splits)
  then have "hr_sent (handleClientToServerResponse env m s w res) =
      fst (invokeJSONRPCRequest (he_proxy env) m (ss_route s) b (Some c) (MResponse (res\<lparr>rs_ID := rid\<rparr>)) None)"
    by (auto simp: handleClientToServerResponse_def getCompositeSessionEntry_def split: sum.splits prod.splits)
  then show ?thesis using invoke_in_session [OF assms(1) b(2,3)] assms(2) by simp
qed

lemma fanout_in_session:
  assumes "session_setting env m s" and "rq \<in> set (fst (sendToBackendsFiltered env m s sched meth req p keep))"
  shows "in_session m s rq"
proof -
  obtain k where "rq \<in> set (fst (backend_run env m s meth req p k))" using assms(2) by (auto simp: sendToBackendsFiltered_def Let_def)
  then obtain c b where b: "ss_entries s k = Some c" "getBackendForRoute m (ss_route s) k = Inr b"
      "rq \<in> set (fst (sendRequestPerBackend env m s b c meth req p))"
    by (auto simp: backend_run_def split: option.splits sum.splits prod.splits)
  then obtain enc where "rq = fanout_request (he_proxy env) m s b c meth req p enc"
    by (auto simp: sendRequestPerBackend_def Let_def split: sum.splits option.splits)
  moreover have "mb_Name b = k" using b(2) assms(1) backend_named by (auto simp: session_setting_def)
  ultimately have "routed_as m (ss_route s) k (ce_sessionID c) rq"
    using fanout_request_routed [of m s b c] assms(1) by (auto simp: session_setting_def)
  then show ?thesis using b by (auto simp: in_session_def)
qed

lemma aggregate_in_session:
  assumes "session_setting env m s" and "rq \<in> set (snd (sendToAllBackendsAndAggregateResponses env m s w req p un mrg uuid sched keep))"
  shows "in_session m s rq"
  using assms(2) fanout_in_session [OF assms(1)] by (auto simp: sendToAllBackendsAndAggregateResponses_def Let_def split: prod.splits) (metis fst_conv)

text \<open>The forwarded headers of a resumed session are those its route names.\<close>

definition plain_config :: "mcpRequestContext \<Rightarrow> string \<Rightarrow> bool" where
  "plain_config m routeName =
     ((\<forall>n \<in> set (rc_logRequestHeaderAttributes m). plain_header n) \<and>
      (\<forall>route \<in> set_option (rc_routes m routeName).
         (\<forall>n \<in> set (pr_forwardHeaders route). plain_header n) \<and>
         (\<forall>b \<in> ran (pr_backends route). \<forall>f \<in> set (mb_ForwardHeaders b). plain_header (ForwardName f))))"

lemma dom_extractForwardHeaders: "dom (extractForwardHeaders rh hs) \<subseteq> set hs"
proof -
  have "dom (fold (\<lambda>header result. let v = header_Get rh header in if v \<noteq> [] then result(header \<mapsto> v) else result) hs m) \<subseteq> set hs \<union> dom m" for m
    by (induction hs arbitrary: m) (fastforce simp: Let_def split: if_splits)+
  from this [of Map.empty] show ?thesis by (simp add: extractForwardHeaders_def)
qed

lemma dom_extractPerBackendForwardHeaders: "dom (extractPerBackendForwardHeaders rh fs) \<subseteq> ForwardName ` set fs"
proof -
  have "dom (fold (\<lambda>f result. let v = header_Get rh (hf_Name f) in if v \<noteq> [] then result(ForwardName f \<mapsto> v) else result) fs m) \<subseteq> ForwardName ` set fs \<union> dom m" for m
    by (induction fs arbitrary: m) (fastforce simp: Let_def split: if_splits)+
  from this [of Map.empty] show ?thesis by (simp add: extractPerBackendForwardHeaders_def)
qed

lemma ran_extractPerBackendHeaders:
  assumes "hs \<in> ran (extractPerBackendHeaders rh ord bs)"
  shows "\<exists>b \<in> ran bs. hs = extractPerBackendForwardHeaders rh (mb_ForwardHeaders b)"
proof -
  let ?step = "\<lambda>k acc. case bs k of None \<Rightarrow> acc
      | Some b \<Rightarrow> (let h = extractPerBackendForwardHeaders rh (mb_ForwardHeaders b) in if h = Map.empty then acc else acc(mb_Name b \<mapsto> h))"
  have "ran (fold ?step ks acc) \<subseteq> {extractPerBackendForwardHeaders rh (mb_ForwardHeaders b) |b. b \<in> ran bs} \<union> ran acc" for ks acc
  proof (induction ks arbitrary: acc)
    case (Cons k ks)
    have "ran (?step k acc) \<subseteq> {extractPerBackendForwardHeaders rh (mb_ForwardHeaders b) |b. b \<in> ran bs} \<union> ran acc"
      by (auto simp: ran_def Let_def split: option.splits if_splits)
    then show ?case using Cons [of "?step k acc"] by auto
  qed simp
  from this [of "range_keys ord bs" Map.empty] show ?thesis using assms by (auto simp: extractPerBackendHeaders_def)
qed

lemma resumed_plain:
  assumes "sessionFromID env cy m sid le route sub = Inr s" and "plain_config m route"
  shows "plain_headers m s"
proof -
  have s: "ss_route s = route"
    "ss_extraHeaders s = (case rc_routes m route of None \<Rightarrow> Map.empty | Some r \<Rightarrow> extractForwardHeaders (rc_requestHeaders m) (pr_forwardHeaders r))"
    "ss_perBackendExtraHeaders s = (case rc_routes m route of None \<Rightarrow> Map.empty | Some r \<Rightarrow> extractPerBackendHeaders (rc_requestHeaders m) (pe_order env) (pr_backends r))"
    using assms(1) by (auto simp: sessionFromID_def Let_def split: option.splits sum.splits if_splits)
  show ?thesis
  proof (cases "rc_routes m route")
    case None
    then show ?thesis using assms(2) s by (simp add: plain_headers_def plain_config_def)
  next
    case (Some r)
    have pl: "\<forall>n \<in> set (pr_forwardHeaders r). plain_header n" "\<forall>b \<in> ran (pr_backends r). \<forall>f \<in> set (mb_ForwardHeaders b). plain_header (ForwardName f)"
      using assms(2) Some by (auto simp: plain_config_def)
    have "\<forall>n \<in> dom (ss_extraHeaders s). plain_header n"
      using dom_extractForwardHeaders [of "rc_requestHeaders m" "pr_forwardHeaders r"] pl(1) s(2) Some by auto
    moreover have "\<forall>hs \<in> ran (ss_perBackendExtraHeaders s). \<forall>n \<in> dom hs. plain_header n"
    proof (intro ballI)
      fix hs n assume "hs \<in> ran (ss_perBackendExtraHeaders s)" and n: "n \<in> dom hs"
      then obtain b where "b \<in> ran (pr_backends r)" "hs = extractPerBackendForwardHeaders (rc_requestHeaders m) (mb_ForwardHeaders b)"
        using ran_extractPerBackendHeaders s(3) Some by fastforce
      then show "plain_header n" using n dom_extractPerBackendForwardHeaders pl(2) by fastforce
    qed
    ultimately show ?thesis using assms(2) s(1) by (simp add: plain_headers_def plain_config_def)
  qed
qed

lemma roots_in_session:
  assumes "session_setting env m s" and "rq \<in> set (hr_sent (handleNotificationsRootsListChanged env dr m s w msg p))"
  shows "in_session m s rq"
  using assms(2) fanout_in_session [OF assms(1)] by (auto simp: handleNotificationsRootsListChanged_def Let_def split: prod.splits) (metis fst_conv)

lemma request_in_session:
  assumes "session_setting env m s" and "rq_Method msg \<noteq> ''initialize''" and "rq \<in> set (hr_sent (serve_request env lc dr m (Some s) w msg r))"
  shows "in_session m s rq"
proof -
  obtain p where rq: "rq \<in> set (hr_sent (handle_method env lc dr m s w msg p r))"
    using assms(2,3) by (auto simp: serve_request_def Let_def split: if_splits sum.splits)
  note handlers = completion_in_session [OF assms(1)] progress_in_session [OF assms(1)] prompt_in_session [OF assms(1)] tool_call_in_session [OF assms(1)]
    read_in_session [OF assms(1)] subscription_in_session [OF assms(1)] roots_in_session [OF assms(1)] aggregate_in_session [OF assms(1)]
  note lists = handleSetLoggingLevel_def handlePromptListRequest_def handleToolsListRequest_def handleResourceListRequest_def handleResourcesTemplatesListRequest_def
  show ?thesis using rq by (cases p) (auto simp: handle_method_def lists dest: handlers split: if_splits)
qed


section \<open>Tool calls\<close>

lemma refused:
  "hr_err (refuse w s b code msg e) = Some (Err e)"
  "rw_Status w = None \<Longrightarrow> rw_Status (hr_w (refuse w s b code msg e)) = Some (code, header_Set ''Content-Type'' ''text/plain; charset=utf-8'' (rw_Header w))"
  "rw_Status new_writer = None" "rw_Status (w_Set k v w) = rw_Status w"
  by (simp_all add: refuse_def reply_with_def onErrorResponse_def Write_def WriteHeader_def w_Set_def new_writer_def Let_def)

text \<open>
  C6. The guard of tool calls. A tool call reaches a backend exactly if its name resolves to a backend of
  the session's route, the route's selector for that backend allows the tool, the route's authorization
  allows this call, and the session has an entry for the backend. In every other case nothing is sent
  and the client gets an error with a status that says why.
\<close>

theorem tool_call_guarded:
  assumes "\<forall>msg. \<exists>enc. pe_EncodeMessage (he_proxy env) msg = Inr enc"
  shows "(hr_sent (handleToolCallRequest env m s w req name args r) \<noteq> [] \<longleftrightarrow>
      (\<exists>k t route. resolve_tool m (ss_route s) name = Inr (k, t) \<and> rc_routes m (ss_route s) = Some route \<and> pr_backends route k \<noteq> None \<and>
         (\<forall>sel \<in> set_option (pr_toolSelectors route k). allows (pe_regexp (he_proxy env)) sel t) \<and>
         (\<forall>a \<in> set_option (pr_authorization route).
            fst (authorizeRequest (pe_authz (he_proxy env)) (Some a) (call_request r req k t (CallToolParams name args)))) \<and>
         ss_entries s k \<noteq> None)) \<and>
    (hr_sent (handleToolCallRequest env m s new_writer req name args r) = [] \<longrightarrow>
      hr_err (handleToolCallRequest env m s new_writer req name args r) \<noteq> None \<and>
      fst (the (rw_Status (hr_w (handleToolCallRequest env m s new_writer req name args r)))) \<in> {400, 403, 404, 500})"
proof (intro conjI impI)
  have enc: "fst (invokeJSONRPCRequest (he_proxy env) m rt b c msg p) \<noteq> []" for rt b c msg p
    using spec [OF assms, of msg] by (auto simp: invoke_sent)
  show "hr_sent (handleToolCallRequest env m s w req name args r) \<noteq> [] \<longleftrightarrow>
      (\<exists>k t route. resolve_tool m (ss_route s) name = Inr (k, t) \<and> rc_routes m (ss_route s) = Some route \<and> pr_backends route k \<noteq> None \<and>
         (\<forall>sel \<in> set_option (pr_toolSelectors route k). allows (pe_regexp (he_proxy env)) sel t) \<and>
         (\<forall>a \<in> set_option (pr_authorization route).
            fst (authorizeRequest (pe_authz (he_proxy env)) (Some a) (call_request r req k t (CallToolParams name args)))) \<and>
         ss_entries s k \<noteq> None)"
    using enc by (auto simp: tool_call_sent getBackendForRoute_def split: sum.splits option.splits)
  assume "hr_sent (handleToolCallRequest env m s new_writer req name args r) = []"
  then have "hr_err (handleToolCallRequest env m s new_writer req name args r) \<noteq> None \<and>
      fst (the (rw_Status (hr_w (handleToolCallRequest env m s new_writer req name args r)))) \<in> {400, 403, 404, 500}"
    using enc
    by (auto simp: handleToolCallRequest_def refused Let_def getCompositeSessionEntry_def invokeAndProxy_sent no_session_def split: sum.splits option.splits if_splits)
  then show "hr_err (handleToolCallRequest env m s new_writer req name args r) \<noteq> None"
    "fst (the (rw_Status (hr_w (handleToolCallRequest env m s new_writer req name args r)))) \<in> {400, 403, 404, 500}" by blast+
qed

section \<open>Listed tools\<close>

lemma listed_tool_resolves:
  assumes "route_ok re r" and "bare_names_owned re r" and "re = pe_regexp px" and "rc_routes m rt = Some r"
    and "wf_backend b" and "b \<in> dom (pr_backends r)" and "merge_tool px hs r b t = Some tool"
  shows "resolve_tool m rt (tl_Name tool) = Inr (b, tl_Name t)"
    and "\<forall>sel \<in> set_option (pr_toolSelectors r b). allows re sel (tl_Name t)"
proof -
  show allowed: "\<forall>sel \<in> set_option (pr_toolSelectors r b). allows re sel (tl_Name t)"
    using assms(3,7) by (auto simp: merge_tool_def Let_def split: if_splits)
  show "resolve_tool m rt (tl_Name tool) = Inr (b, tl_Name t)"
  proof (cases "effectivePrefixMode r b = PrefixModeNever")
    case True
    then have name: "tl_Name tool = tl_Name t" using assms(7) by (auto simp: merge_tool_def Let_def split: if_splits)
    obtain ts where ts: "pr_toolSelectors r b = Some ts" "ts_include ts \<noteq> {}"
      using assms(2,6) True unfolding bare_names_owned_def by blast
    then have own: "owns re r (pr_toolSelectors r) b (tl_Name t)"
      using allowed True by (auto simp: owns_def allows_def split: if_splits)
    then obtain b' where b': "pr_neverModeToolIndex r (tl_Name t) = Some b'" using assms(1,6) by (fastforce simp: route_ok_def)
    then have "b' \<in> dom (pr_backends r)" "owns re r (pr_toolSelectors r) b' (tl_Name t)" using assms(1) by (auto simp: route_ok_def)
    then have "b' = b" using assms(2,6) True own unfolding bare_names_owned_def by blast
    then show ?thesis using b' name assms(4) by (simp add: resolve_tool_def)
  next
    case False
    then have "tl_Name tool = downstreamResourceName (tl_Name t) b" "pr_neverModeToolIndex r (downstreamResourceName (tl_Name t) b) = None"
      using assms(7) by (auto simp: merge_tool_def Let_def split: if_splits)
    then show ?thesis using assms(4) name_roundtrip [OF assms(5)] by (simp add: resolve_tool_def)
  qed
qed


section \<open>A sample client\<close>

text \<open>A client of the session of \<^verbatim>\<open>Mcp_Resume\<close>'s sample proxy; the codecs are trivial.\<close>

definition sample_handler :: "unit handler_env" where
  "sample_handler = \<lparr>he_proxy = sample_proxy_env, he_crypto = sample_crypto (\<lambda>t. True), he_rnd = (\<lambda>n. sample_random),
     he_UnmarshalReadResource = (\<lambda>b. Inl (errorf [])), he_MarshalReadResource = (\<lambda>x. None), he_UnmarshalCallTool = (\<lambda>b. Inl (errorf [])),
     he_MarshalCallTool = (\<lambda>x. None), he_MarshalContent = (\<lambda>x. Inr []), he_UnmarshalToolName = (\<lambda>b. Inr b),
     he_UnmarshalServerParams = (\<lambda>meth b. Inl (errorf [])), he_MarshalServerParams = (\<lambda>meth p. None), he_UnmarshalUpdated = (\<lambda>b. Inl (errorf [])),
     he_MarshalUpdated = (\<lambda>x. None), he_UnmarshalParams = (\<lambda>meth b. Inr (OtherParams b)), he_MarshalInitResult = (\<lambda>v c. Inr []),
     he_gzip = Inr, he_brotli = id\<rparr>"

definition sample_codecs :: list_codecs where
  "sample_codecs = \<lparr>lc_UnmarshalTools = (\<lambda>b. Inr (result_of [])), lc_MarshalTools = (\<lambda>x. Inr []), lc_UnmarshalPrompts = (\<lambda>b. Inr (result_of [])),
     lc_MarshalPrompts = (\<lambda>x. Inr []), lc_UnmarshalResources = (\<lambda>b. Inr (result_of [])), lc_MarshalResources = (\<lambda>x. Inr []),
     lc_UnmarshalTemplates = (\<lambda>b. Inr (result_of [])), lc_MarshalTemplates = (\<lambda>x. Inr []), lc_UnmarshalAny = Inr, lc_pingParam = None, lc_toolsChangedParam = None\<rparr>"

definition sample_draws :: draws where
  "sample_draws = \<lparr>dr_eventID = ''e'', dr_requestID = (\<lambda>k. IdInt 1), dr_schedule = []\<rparr>"

definition sample_client :: client_request where
  "sample_client = \<lparr>cq_Method = ''POST'', cq_Host = ''h'', cq_URL = None, cq_RequestURI = ''/mcp'',
     cq_Header = [''Mcp-Session-Id'' \<mapsto> [sample_token], ''X-Ai-Eg-Mcp-Route'' \<mapsto> [''r''], ''X-Ai-Eg-Mcp-Subject'' \<mapsto> [''u'']], cq_Body = []\<rparr>"

definition roots_changed :: rpc_request where
  "roots_changed = \<lparr>rq_ID = IdNil, rq_Method = ''notifications/roots/list_changed'', rq_Params = None\<rparr>"

lemma sample_client_headers:
  "header_Get (cq_Header sample_client) sessionIDHeader = sample_token" "extractRoute (cq_Header sample_client) = ''r''"
  "extractSubject (cq_Header sample_client) = ''u''" "header_Get (cq_Header sample_client) lastEventIDHeader = []"
proof -
  have c: "CanonicalHeaderKey MCPSubjectHeader = ''X-Ai-Eg-Mcp-Subject''" "CanonicalHeaderKey lastEventIDHeader = ''Last-Event-Id''" by code_simp+
  have t: "TrimSpace ''u'' = ''u''" by code_simp
  show "header_Get (cq_Header sample_client) sessionIDHeader = sample_token" "extractRoute (cq_Header sample_client) = ''r''"
    "extractSubject (cq_Header sample_client) = ''u''" "header_Get (cq_Header sample_client) lastEventIDHeader = []"
    by (simp_all add: header_Get_def extractRoute_def extractSubject_def sample_client_def routing_canonical c t)
qed

definition sample_live_session :: session where
  "sample_live_session = \<lparr>ss_id = sample_token, ss_route = ''r'', ss_entries = entry_map [restored sample_entry],
     ss_extraHeaders = Map.empty, ss_perBackendExtraHeaders = Map.empty\<rparr>"

lemma sample_routes: "rc_routes sample_request_context ''r'' = Some sample_route"
  by (simp add: rc_routes_def sample_request_context_def)

lemma sample_getBackend: "getBackendForRoute sample_request_context ''r'' ''b'' = Inr sample_backend"
  by (simp add: getBackendForRoute_def sample_routes) (simp add: sample_route_def)

lemma sample_entries: "ss_entries sample_live_session = [''b'' \<mapsto> restored sample_entry]"
  by (auto simp: sample_live_session_def entry_map_def restored_def sample_entry_def)

lemma sample_resumed:
  "sessionFromID sample_proxy_env (sample_crypto (\<lambda>t. True)) sample_request_context sample_token [] ''r'' ''u'' = Inr sample_live_session"
proof -
  have "cipher_Decrypt (sample_crypto (\<lambda>t. True), sample_cipher) sample_token = Inr sample_text"
    unfolding sample_token_def by (rule sample_Decrypt(2)) simp
  moreover have "extractPerBackendHeaders h ord [''b'' \<mapsto> sample_backend] = Map.empty" for h ord
    using ran_extractPerBackendHeaders [of _ h ord "[''b'' \<mapsto> sample_backend]"]
    by (auto simp: extractPerBackendHeaders_def extractPerBackendForwardHeaders_def sample_backend_def range_keys_def Let_def
        intro!: fold_invariant [where P = "\<lambda>m. m = Map.empty"] split: if_splits)
  ultimately show ?thesis
    by (simp add: sessionFromID_def sample_current sample_text_read sample_routes sample_live_session_def sample_route_def extractForwardHeaders_def)
qed

lemma sample_proxy_ok: "proxy_ok re (rc_config sample_request_context)"
  by (auto simp: proxy_ok_def sample_request_context_def signaler_ok_new routes_ok_def ran_def route_ok_def named_def sample_route_def sample_backend_def
      owns_def effectivePrefixMode_def PrefixModeNever_def split: if_splits)

lemma sample_plain: "plain_config sample_request_context ''r''"
  by (auto simp: plain_config_def sample_routes ran_def) (auto simp: sample_request_context_def sample_route_def sample_backend_def split: if_splits)


lemma sample_encodes: "\<forall>msg. \<exists>enc. pe_EncodeMessage (he_proxy sample_handler) msg = Inr enc"
  by (simp add: sample_handler_def sample_proxy_env_def)

definition sample_call :: rpc_request where
  "sample_call = \<lparr>rq_ID = IdInt 1, rq_Method = ''tools/call'', rq_Params = None\<rparr>"

theorem tool_call_guarded_witness:
  "hr_sent (handleToolCallRequest sample_handler sample_request_context sample_live_session new_writer sample_call ''b__t'' [] sample_client) \<noteq> [] \<and>
   hr_err (handleToolCallRequest sample_handler sample_request_context sample_live_session new_writer sample_call ''c__t'' [] sample_client) \<noteq> None"
proof -
  have s: "ss_route sample_live_session = ''r''" by (simp add: sample_live_session_def)
  have u: "upstreamResourceName ''b__t'' = Inr (''b'', ''t'')" "upstreamResourceName ''c__t'' = Inr (''c'', ''t'')" by code_simp+
  have n: "pr_neverModeToolIndex sample_route = Map.empty" "pr_backends sample_route = [''b'' \<mapsto> sample_backend]"
    "pr_toolSelectors sample_route = Map.empty" "pr_authorization sample_route = None" by (simp_all add: sample_route_def)
  have b: "resolve_tool sample_request_context ''r'' ''b__t'' = Inr (''b'', ''t'')" "resolve_tool sample_request_context ''r'' ''c__t'' = Inr (''c'', ''t'')"
    by (simp_all add: resolve_tool_def sample_routes n u)
  note g = tool_call_guarded [OF sample_encodes, of sample_request_context sample_live_session, unfolded s]
  have "hr_sent (handleToolCallRequest sample_handler sample_request_context sample_live_session new_writer sample_call ''b__t'' [] sample_client) \<noteq> []"
    using g [of new_writer sample_call "''b__t''" "[]" sample_client] b(1) by (simp add: sample_routes n sample_entries)
  moreover have "hr_sent (handleToolCallRequest sample_handler sample_request_context sample_live_session new_writer sample_call ''c__t'' [] sample_client) = []"
    using g [of new_writer sample_call "''c__t''" "[]" sample_client] b(2) by (simp add: sample_routes n)
  ultimately show ?thesis using g [of new_writer sample_call "''c__t''" "[]" sample_client] by blast
qed

text \<open>A route with one backend whose tool keeps its bare name.\<close>

definition bare_resource :: MCPRouteResource where
  "bare_resource = \<lparr>ro_Namespace = ''ns'', ro_Name = ''n'', ro_Deleted = False,
     ro_BackendRefs = [\<lparr>br_Name = ''b'', br_ToolSelector = Some \<lparr>mts_Include = [''t''], mts_IncludeRegex = [], mts_Exclude = [], mts_ExcludeRegex = []\<rparr>,
       br_PromptSelector = None, br_ForwardHeaders = [], br_PrefixMode = Some ''Never''\<rparr>],
     ro_SecurityPolicy = None, ro_BackendSelector = None, ro_PrefixMode = None\<rparr>"

definition mcp_cel :: "(unit, mcp_params) cel_library" where
  "mcp_cel = \<lparr>cel_NewEnv = None, cel_Compile = (\<lambda>e. Inr ()), cel_Program = (\<lambda>a. Inl (errorf []))\<rparr>"

definition context_with :: "mcp_params mcpProxyConfigRoute \<Rightarrow> mcpRequestContext" where
  "context_with r = sample_request_context\<lparr>rc_config := (rc_config sample_request_context)\<lparr>px_config :=
     Some \<lparr>cfg_backendListenerAddr = [], cfg_routes = [''r'' \<mapsto> r], cfg_sessionCrypto = Some sample_cipher\<rparr>\<rparr>\<rparr>"

lemma bare_loaded:
  "\<exists>r. load_route mcp_cel (pe_regexp (he_proxy sample_handler)) (route_config bare_resource) = Inr r \<and> pr_authorization r = None \<and>
     ''b'' \<in> dom (pr_backends r) \<and> effectivePrefixMode r ''b'' = PrefixModeNever \<and>
     (\<forall>sel \<in> set_option (pr_toolSelectors r ''b''). allows (pe_regexp (he_proxy sample_handler)) sel ''t'')"
  by (simp add: load_route_def route_config_def bare_resource_def backend_config_def deref_def compileAuthorization_def load_backend_def buildSelector_def
      index_backend_def effectivePrefixMode_def claim_names_def allows_def PrefixModeNever_def Let_def)


end
