(* ===== verification/Mcp_Relay.thy ===== *)
theory Mcp_Relay
  imports Mcp_Correctness
begin

text \<open>
  Messages in both directions: a backend's question and the client's answer to it, the end of a
  relayed stream, the limit on the size of a request, and the wake-up of notification streams.
\<close>

section \<open>Answers to backends\<close>

lemma prefix_before_underscore:
  assumes "HasPrefix (x @ CHR ''_'' # y) p" and "CHR ''_'' \<notin> set p"
  shows "set p \<subseteq> set x"
proof
  fix c assume c: "c \<in> set p"
  obtain t where t: "x @ CHR ''_'' # y = p @ t" using assms(1) by (auto simp: HasPrefix_iff)
  have "length p \<le> length x"
  proof (rule ccontr)
    assume "\<not> length p \<le> length x"
    then have l: "length x < length p" by simp
    have "CHR ''_'' = (x @ CHR ''_'' # y) ! length x" by simp
    also have "\<dots> = p ! length x" using t l by (simp add: nth_append)
    finally show False using assms(2) l by (metis nth_mem)
  qed
  then have "p = take (length p) x" using t by (metis append_eq_conv_conj take_append diff_is_0_eq take0 append_Nil2)
  then show "c \<in> set x" using c by (metis in_set_takeD)
qed

lemma own_prefixes:
  "CHR ''_'' \<notin> set envoyAIGatewayServerToClientPingRequestIDPrefix" "CHR ''_'' \<notin> set envoyAIGatewayServerToClientToolsChangedRequestIDPrefix"
  "CHR ''-'' \<in> set envoyAIGatewayServerToClientPingRequestIDPrefix" "CHR ''-'' \<in> set envoyAIGatewayServerToClientToolsChangedRequestIDPrefix"
  "CHR ''a'' \<in> set envoyAIGatewayServerToClientPingRequestIDPrefix" "CHR ''a'' \<in> set envoyAIGatewayServerToClientToolsChangedRequestIDPrefix"
  by (simp_all add: envoyAIGatewayServerToClientPingRequestIDPrefix_def envoyAIGatewayServerToClientToolsChangedRequestIDPrefix_def)

text \<open>An identifier made for a backend's request is not taken for one of the gateway's own.\<close>

lemma tagged_forwarded:
  assumes "CHR ''-'' \<notin> set x \<or> CHR ''a'' \<notin> set x" and "rs_ID res = IdString (tagged x t b)"
  shows "\<not> doNotForwardResponseToBackends res"
proof -
  have "tagged x t b = x @ CHR ''_'' # (CHR ''_'' # t @ nameSeparator @ b)" by (simp add: tagged_def nameSeparator_def)
  then show ?thesis using assms own_prefixes prefix_before_underscore [of x] by (auto simp: doNotForwardResponseToBackends_def)
qed

lemma encoded_chars: "CHR ''-'' \<notin> set (StdEncode s)" "CHR ''-'' \<notin> set (HexEncode s)" "CHR ''a'' \<notin> set (FormatInt i)"
proof -
  have n: "\<not> std_text (CHR ''-'')" "\<not> is_digit (CHR ''a'')" by code_simp+
  then show "CHR ''-'' \<notin> set (StdEncode s)" "CHR ''-'' \<notin> set (HexEncode s)" using StdEncode_text HexEncode_text by blast+
  show "CHR ''a'' \<notin> set (FormatInt i)" using n(2) FormatInt_chars [of "CHR ''a''" i] by auto
qed

lemma prefixed_forwarded:
  assumes "prefixed_id mk b rid = Inr rid'" and "\<forall>t. mk (VString t) = Inr (IdString t)" and "rs_ID res = rid'"
  shows "\<not> doNotForwardResponseToBackends res"
proof (cases rid)
  case (IdInt i)
  then show ?thesis using assms encoded_chars(3) [of i] by (intro tagged_forwarded [of "FormatInt i" res "''i''" b]) (simp_all add: prefixed_id_def)
next
  case (IdFloat f)
  then show ?thesis using assms encoded_chars(2) [of "PutUint64 f"]
    by (intro tagged_forwarded [of "HexEncode (PutUint64 f)" res "''f''" b]) (simp_all add: prefixed_id_def)
next
  case (IdString t)
  then show ?thesis using assms encoded_chars(1) [of t] by (intro tagged_forwarded [of "StdEncode t" res "''s''" b]) (simp_all add: prefixed_id_def)
qed (use assms(1) in \<open>simp add: prefixed_id_def\<close>)

definition asks_client :: "string \<Rightarrow> bool" where
  "asks_client meth = (meth \<in> {''roots/list'', ''sampling/createMessage'', ''elicitation/create''})"

lemma modified_request_id:
  assumes "asks_client (rq_Method q)" and "\<forall>raw \<in> set_option (rq_Params q). \<exists>p. he_UnmarshalServerParams env (rq_Method q) raw = Inr p"
    and "prefixed_id (pe_MakeID (he_proxy env)) b (rq_ID q) = Inr rid'"
  shows "\<exists>q'. maybeServerToClientRequestModify env q b = (q', None) \<and> rq_ID q' = rid' \<and> rq_Method q' = rq_Method q"
  using assms by (cases "rq_Params q") (auto simp: maybeServerToClientRequestModify_def asks_client_def Let_def split: prod.splits)


section \<open>The end of a stream\<close>

lemma stream_messages_snoc:
  "stream_messages env req b (ms @ [x]) st =
     (let (ms', st') = stream_messages env req b ms st; (x', st'') = stream_message env req b x st' in (ms' @ [x'], st''))"
  by (induction ms arbitrary: st) (auto simp: Let_def split: prod.splits)

lemma update_without_id:
  "rq_Method q = ''notifications/resources/updated'' \<Longrightarrow> rq_ID q = IdNil \<Longrightarrow> \<exists>e. snd (maybeServerToClientRequestModify env q b) = Some e"
  by (auto simp: maybeServerToClientRequestModify_def prefixed_id_def Let_def split: option.splits sum.splits)

text \<open>
  C28. A resource update ends the stream. When a backend streams its answer and an event ends with a
  \<^verbatim>\<open>notifications/resources/updated\<close>, which as a notification has no identifier, the proxy writes this event
  and stops: the rest of the stream, the response to the client's request included, is never
  read, and the handler reports no error for it.
\<close>

theorem resource_update_ends_stream:
  assumes "sse_next (pe_DecodeMessage (he_proxy env)) parser = ((Some ev, perr), parser')"
    and "se_messages ev = ms @ [MRequest q]" and "rq_Method q = ''notifications/resources/updated''" and "rq_ID q = IdNil"
    and "session_lastEventID (he_crypto env) crypto (he_rnd env n) (pe_order (he_proxy env)) (setLastEventID (se_backend ev) (se_id ev) es) = Inr eid"
  shows "\<exists>ms'. proxy_stream env crypto req b n parser (w, es, errs) =
      ((Write (writeAndMaybeFlush (encode_message env) (ev\<lparr>se_id := eid, se_messages := ms'\<rparr>)) w, setLastEventID (se_backend ev) (se_id ev) es),
       Inr (snd (snd (stream_messages env req b ms (perr, errs)))))"
proof -
  obtain ms' err errs' where ms: "stream_messages env req b ms (perr, errs) = (ms', err, errs')" by (metis surj_pair)
  obtain q' e where q: "maybeServerToClientRequestModify env q b = (q', Some e)" using update_without_id [OF assms(3,4)] by (metis prod.collapse)
  have "stream_messages env req b (se_messages ev) (perr, errs) = (ms' @ [MRequest q'], Some e, errs')"
    by (simp add: assms(2) stream_messages_snoc ms stream_message_def q)
  then show ?thesis using assms(1,5) ms by (subst proxy_stream.simps) (auto simp: Let_def)
qed

section \<open>The size of a request\<close>

lemma limited_reads:
  "ReadAll (MaxBytesReader n (map (\<lambda>c. (c, None)) chunks)) =
     (if length (concat chunks) \<le> n then (concat chunks, None)
      else (take n (concat chunks), Some (GoError [MaxBytesError] ''http: request body too large'')))"
proof (induction chunks arbitrary: n)
  case (Cons c chunks)
  then show ?case by (auto simp: errors_is_def Let_def)
qed simp

definition body_limit :: "mcpRequestContext \<Rightarrow> int" where
  "body_limit m = (if px_maxRequestBodySize (rc_config m) \<le> 0 then defaultMaxRequestBodySize else px_maxRequestBodySize (rc_config m))"

text \<open>
  C26. The limit on request bodies. A body that is larger than the limit is answered with 413, in whatever
  pieces it arrives, and nothing is decoded, sent or recorded for it; a body of at most the limit
  is decoded in full. A limit that is not positive stands for 4 MiB.
\<close>

theorem body_limit_enforced:
  assumes "cq_Body r = map (\<lambda>c. (c, None)) chunks"
  shows "0 < body_limit m \<and>
    servePOST env lc dr m w r =
      (if int (length (concat chunks)) > body_limit m
       then post_reply (onErrorResponse 413 ''request body too large'' w) None (Some (Err (GoError [MaxBytesError] ''http: request body too large''))) MCPErrorInternal
       else case pe_DecodeMessage (he_proxy env) (concat chunks) of
           Inl e \<Rightarrow> post_reply (onErrorResponse 400 (''invalid JSON-RPC message: '' @ err_msg e) w) None (Some (Err e)) MCPErrorInvalidJSONRPC
         | Inr msg \<Rightarrow> serveLegacyPOST env lc dr m w r msg)"
proof -
  have p: "0 < body_limit m" by (simp add: body_limit_def defaultMaxRequestBodySize_def)
  have "int (length (concat chunks)) > body_limit m \<longleftrightarrow> \<not> length (concat chunks) \<le> nat (body_limit m)" using p by linarith
  then show ?thesis using p limited_reads [of "nat (body_limit m)" chunks]
    by (simp add: servePOST_def assms body_limit_def [symmetric] Let_def errors_is_def)
qed

section \<open>Waking notification streams\<close>

text \<open>
  The \<open>select\<close> loop of a notification stream next to configuration loads. Each round asks for the current
  channel anew; a round ends with a notification if that channel is closed, or with another case.
\<close>

record watcher_state =
  st_signaler :: signaler
  st_waiting :: "nat option"
  st_notified :: nat
  st_changes :: nat

definition stream_start :: watcher_state where
  "stream_start = \<lparr>st_signaler = newMultiWatcherSignaler, st_waiting = None, st_notified = 0, st_changes = 0\<rparr>"

inductive stream_step :: "watcher_state \<Rightarrow> watcher_state \<Rightarrow> bool" where
  enter_select: "st_waiting s = None \<Longrightarrow> stream_step s (s\<lparr>st_waiting := Some (Watch (st_signaler s))\<rparr>)"
| other_case: "st_waiting s = Some ch \<Longrightarrow> stream_step s (s\<lparr>st_waiting := None\<rparr>)"
| tools_changed_case: "st_waiting s = Some ch \<Longrightarrow> ch \<in> set (sg_closed (st_signaler s)) \<Longrightarrow>
    stream_step s (s\<lparr>st_waiting := None, st_notified := st_notified s + 1\<rparr>)"
| config_changed: "Signal (st_signaler s) = Inr sg \<Longrightarrow> stream_step s (s\<lparr>st_signaler := sg, st_changes := st_changes s + 1\<rparr>)"

definition stream_inv :: "watcher_state \<Rightarrow> bool" where
  "stream_inv s =
     (signaler_ok (st_signaler s) \<and> st_notified s \<le> st_changes s \<and>
      (\<forall>ch. st_waiting s = Some ch \<and> ch \<in> set (sg_closed (st_signaler s)) \<longrightarrow> st_notified s < st_changes s))"

lemma Watch_open: "signaler_ok sg \<Longrightarrow> Watch sg \<notin> set (sg_closed sg)"
  by (auto simp: signaler_ok_def Watch_def)

lemma stream_step_inv: "stream_step s s' \<Longrightarrow> stream_inv s \<Longrightarrow> stream_inv s'"
proof (induction rule: stream_step.induct)
  case (config_changed s sg)
  then show ?case using Signal_ok [of "st_signaler s"] by (auto simp: stream_inv_def)
qed (auto simp: stream_inv_def Watch_open Suc_le_eq)

text \<open>
  C27. Notifications follow changes. However a stream's rounds and configuration loads interleave, a client is
  told that the tools changed at most as often as they did, closing a channel never panics, and a
  stream that waits on a closed channel has a change it has not been told about.
\<close>

theorem notifications_follow_changes:
  assumes "stream_step\<^sup>*\<^sup>* stream_start s"
  shows "st_notified s \<le> st_changes s \<and> (\<exists>sg. Signal (st_signaler s) = Inr sg) \<and>
    (\<forall>ch. st_waiting s = Some ch \<and> ch \<in> set (sg_closed (st_signaler s)) \<longrightarrow> st_notified s < st_changes s)"
proof -
  have "stream_inv stream_start" by (simp add: stream_inv_def stream_start_def signaler_ok_new)
  with assms have "stream_inv s" by (induction rule: rtranclp_induct) (blast intro: stream_step_inv)+
  then show ?thesis using Signal_ok [of "st_signaler s"] by (auto simp: stream_inv_def)
qed

text \<open>
  A change can be missed: when it comes while the stream is busy with an event, the next round waits on
  the new channel, and the client is not told unless the tools change again.
\<close>

lemma change_can_be_missed:
  "\<exists>s. stream_step\<^sup>*\<^sup>* stream_start s \<and> st_changes s = 1 \<and> st_notified s = 0 \<and> st_waiting s = Some (Watch (st_signaler s)) \<and>
     Watch (st_signaler s) \<notin> set (sg_closed (st_signaler s))"
proof -
  let ?sg = "\<lparr>sg_notify = 1, sg_closed = [0]\<rparr>"
  let ?s1 = "stream_start\<lparr>st_signaler := ?sg, st_changes := 1\<rparr>" and ?s2 = "stream_start\<lparr>st_signaler := ?sg, st_changes := 1, st_waiting := Some 1\<rparr>"
  have "stream_step stream_start ?s1"
    using config_changed [of stream_start ?sg] by (simp add: stream_start_def newMultiWatcherSignaler_def Signal_def)
  moreover have "stream_step ?s1 ?s2" using enter_select [of ?s1] by (simp add: stream_start_def Watch_def)
  ultimately have "stream_step\<^sup>*\<^sup>* stream_start ?s2" by (meson converse_rtranclp_into_rtranclp rtranclp.rtrancl_refl)
  then show ?thesis by (intro exI [of _ ?s2]) (simp add: stream_start_def Watch_def)
qed

section \<open>Samples\<close>

definition asking_handler :: "unit handler_env" where
  "asking_handler = sample_handler\<lparr>he_proxy := sample_proxy_env\<lparr>pe_MakeID := sample_make_id\<rparr>\<rparr>"

definition roots_question :: rpc_request where
  "roots_question = \<lparr>rq_ID = IdInt 7, rq_Method = ''roots/list'', rq_Params = None\<rparr>"


text \<open>A stream with an update in its first event and a response in its second.\<close>

definition update_notice :: rpc_request where
  "update_notice = \<lparr>rq_ID = IdNil, rq_Method = ''notifications/resources/updated'', rq_Params = None\<rparr>"

definition updating_handler :: "unit handler_env" where
  "updating_handler = sample_handler\<lparr>he_proxy := sample_proxy_env\<lparr>pe_DecodeMessage := (\<lambda>b.
     if b = ''u'' then Inr (MRequest update_notice) else Inr (MResponse \<lparr>rs_ID = IdInt 1, rs_Result = Some b, rs_Error = None\<rparr>))\<rparr>\<rparr>"

definition updating_stream :: sseEventParser where
  "updating_stream = newSSEEventParser [(''data: u'' @ LFLF @ ''data: r'' @ LFLF, None)] ''b''"

lemma updating_next:
  "\<exists>ev parser'. sse_next (pe_DecodeMessage (he_proxy updating_handler)) updating_stream = ((Some ev, None), parser') \<and>
     se_messages ev = [] @ [MRequest update_notice] \<and> se_backend ev = ''b'' \<and> sp_buf parser' = ''data: r'' @ LFLF"
proof -
  have "case sse_next (pe_DecodeMessage (he_proxy updating_handler)) updating_stream of
      ((Some ev, None), parser') \<Rightarrow> se_messages ev = [MRequest update_notice] \<and> se_backend ev = ''b'' \<and> sp_buf parser' = ''data: r'' @ LFLF
    | _ \<Rightarrow> False" by code_simp
  then show ?thesis by (auto split: prod.splits option.splits)
qed

theorem resource_update_ends_stream_witness:
  "\<exists>ev ms' es eid. proxy_stream updating_handler (Some sample_cipher) (Some sample_call) ''b'' 0 updating_stream (new_writer, [''b'' \<mapsto> sample_entry], []) =
     ((Write (writeAndMaybeFlush (encode_message updating_handler) (ev\<lparr>se_id := eid, se_messages := ms'\<rparr>)) new_writer, es), Inr [])"
proof -
  obtain ev parser' where ev: "sse_next (pe_DecodeMessage (he_proxy updating_handler)) updating_stream = ((Some ev, None), parser')"
    "se_messages ev = [] @ [MRequest update_notice]" "se_backend ev = ''b''" using updating_next by blast
  let ?es = "setLastEventID (se_backend ev) (se_id ev) [''b'' \<mapsto> sample_entry]"
  have h: "he_crypto updating_handler = sample_crypto (\<lambda>t. True)" "he_rnd updating_handler 0 = sample_random" "pe_order (he_proxy updating_handler) = [''b'']"
    by (simp_all add: updating_handler_def sample_handler_def sample_proxy_env_def)
  have "\<exists>t. event_id_text [''b''] ?es = Inr t" by (simp add: event_id_text_def setLastEventID_def ev(3) range_keys_def)
  then obtain eid where eid: "session_lastEventID (he_crypto updating_handler) (Some sample_cipher) (he_rnd updating_handler 0) (pe_order (he_proxy updating_handler)) ?es = Inr eid"
    by (auto simp: h session_lastEventID_def sample_Encrypt)
  have q: "rq_Method update_notice = ''notifications/resources/updated''" "rq_ID update_notice = IdNil" by (simp_all add: update_notice_def)
  show ?thesis using resource_update_ends_stream [OF ev(1,2) q eid, of "Some sample_call" "''b''" new_writer "[]"] by auto
qed

definition small_limit :: mcpRequestContext where
  "small_limit = sample_request_context\<lparr>rc_config := (rc_config sample_request_context)\<lparr>px_maxRequestBodySize := 3\<rparr>\<rparr>"

theorem body_limit_enforced_witness:
  "servePOST sample_handler sample_codecs sample_draws small_limit new_writer (sample_client\<lparr>cq_Body := [(''ab'', None), (''cd'', None)]\<rparr>) =
   post_reply (onErrorResponse 413 ''request body too large'' new_writer) None (Some (Err (GoError [MaxBytesError] ''http: request body too large''))) MCPErrorInternal"
proof -
  have r: "cq_Body (sample_client\<lparr>cq_Body := [(''ab'', None), (''cd'', None)]\<rparr>) = map (\<lambda>c. (c, None)) [''ab'', ''cd'']" by simp
  have l: "body_limit small_limit = 3" by (simp add: body_limit_def small_limit_def)
  show ?thesis using body_limit_enforced [OF r, of small_limit sample_handler sample_codecs sample_draws new_writer] by (simp add: l)
qed

theorem notifications_follow_changes_witness:
  "\<exists>s. stream_step\<^sup>*\<^sup>* stream_start s \<and> st_changes s = 1 \<and> st_waiting s = Some 0 \<and> st_notified s < st_changes s"
proof -
  let ?sg = "\<lparr>sg_notify = 1, sg_closed = [0]\<rparr>" and ?s1 = "stream_start\<lparr>st_waiting := Some 0\<rparr>"
  let ?s2 = "stream_start\<lparr>st_waiting := Some 0, st_signaler := ?sg, st_changes := 1\<rparr>"
  have "stream_step stream_start ?s1" using enter_select [of stream_start] by (simp add: stream_start_def newMultiWatcherSignaler_def Watch_def)
  moreover have "stream_step ?s1 ?s2" using config_changed [of ?s1 ?sg] by (simp add: stream_start_def newMultiWatcherSignaler_def Signal_def)
  ultimately have r: "stream_step\<^sup>*\<^sup>* stream_start ?s2" by (meson converse_rtranclp_into_rtranclp rtranclp.rtrancl_refl)
  have "st_notified ?s2 < st_changes ?s2" using notifications_follow_changes [OF r] by auto
  then show ?thesis using r by (intro exI [of _ ?s2]) simp
qed

end
